(* ===== verification/Go_Prelude.thy ===== *)
theory Go_Prelude
  imports Main "HOL-Library.AList" "HOL-Library.Multiset"
begin

text \<open>
  The Go semantics every component of the development shares.

  \<^item> \<open>'a go\<close> is what a Go call can do: return a value, return a non-nil error (with its
    text), panic, or never return.  \<open>gbind\<close> and \<open>wrap\<close> are the two halves of the idiom
    \<^verbatim>\<open>if err != nil { return nil, fmt.Errorf("...: %v", err) }\<close>.
  \<^item> \<open>('t, 'a) sgo\<close> is the same with a state that the call may change.
  \<^item> A Go map is an association list with distinct keys.  The order of the list carries no
    meaning: a \<^verbatim>\<open>range\<close> loop over a map visits the entries in an order the runtime
    chooses, and \<open>range_perm\<close> makes that choice an explicit argument.
\<close>

section \<open>Outcomes of Go calls\<close>

datatype 'a go = Ret 'a | Err string | Panic string | Diverge

fun gbind :: "'a go \<Rightarrow> ('a \<Rightarrow> 'b go) \<Rightarrow> 'b go" where
  "gbind (Ret x) f = f x"
| "gbind (Err e) f = Err e"
| "gbind (Panic p) f = Panic p"
| "gbind Diverge f = Diverge"

text \<open>\<open>wrap msg r\<close> is \<^verbatim>\<open>fmt.Errorf("<msg>%v", err)\<close> applied to the error of \<open>r\<close>.\<close>

fun wrap :: "string \<Rightarrow> 'a go \<Rightarrow> 'a go" where
  "wrap msg (Err e) = Err (msg @ e)"
| "wrap msg (Ret x) = Ret x"
| "wrap msg (Panic p) = Panic p"
| "wrap msg Diverge = Diverge"

text \<open>Reading through a pointer that may be nil.\<close>

definition deref :: "'a option \<Rightarrow> 'a go" where
  "deref p = (case p of None \<Rightarrow> Panic ''nil pointer dereference'' | Some x \<Rightarrow> Ret x)"

definition returns :: "'a go \<Rightarrow> bool" where
  "returns r = (case r of Ret _ \<Rightarrow> True | _ \<Rightarrow> False)"

text \<open>A call is well behaved when it returns normally or with an error.\<close>

definition no_crash :: "'a go \<Rightarrow> bool" where
  "no_crash r = (case r of Ret _ \<Rightarrow> True | Err _ \<Rightarrow> True | _ \<Rightarrow> False)"

lemma gbind_Ret_iff [simp]: "gbind m f = Ret y \<longleftrightarrow> (\<exists>x. m = Ret x \<and> f x = Ret y)"
  by (cases m) auto

lemma wrap_Ret_iff [simp]: "wrap s m = Ret x \<longleftrightarrow> m = Ret x"
  by (cases m) auto

lemma deref_simps [simp]: "deref (Some x) = Ret x" "deref None = Panic ''nil pointer dereference''"
  by (simp_all add: deref_def)

lemma no_crash_simps [simp]:
  "no_crash (Ret x)" "no_crash (Err e)" "\<not> no_crash (Panic p)" "\<not> no_crash Diverge"
  by (simp_all add: no_crash_def)

lemma returns_simps [simp]:
  "returns (Ret x)" "\<not> returns (Err e)" "\<not> returns (Panic p)" "\<not> returns Diverge"
  by (simp_all add: returns_def)

lemma returns_iff: "returns r \<longleftrightarrow> (\<exists>x. r = Ret x)"
  by (cases r) auto

lemma no_crash_wrap [simp]: "no_crash (wrap s m) = no_crash m"
  by (cases m) auto

lemma no_crash_gbind:
  "no_crash m \<Longrightarrow> (\<And>x. m = Ret x \<Longrightarrow> no_crash (f x)) \<Longrightarrow> no_crash (gbind m f)"
  by (cases m) auto

lemma gbind_cong [fundef_cong]:
  "m = m' \<Longrightarrow> (\<And>x. m' = Ret x \<Longrightarrow> f x = f' x) \<Longrightarrow> gbind m f = gbind m' f'"
  by (cases m) auto

section \<open>Loops with an early return\<close>

fun mapM_go :: "('a \<Rightarrow> 'b go) \<Rightarrow> 'a list \<Rightarrow> 'b list go" where
  "mapM_go f [] = Ret []"
| "mapM_go f (x # xs) = gbind (f x) (\<lambda>y. gbind (mapM_go f xs) (\<lambda>ys. Ret (y # ys)))"

fun foldM_go :: "('a \<Rightarrow> 's \<Rightarrow> 's go) \<Rightarrow> 'a list \<Rightarrow> 's \<Rightarrow> 's go" where
  "foldM_go f [] s = Ret s"
| "foldM_go f (x # xs) s = gbind (f x s) (foldM_go f xs)"

lemma mapM_go_Ret_iff: "mapM_go f xs = Ret ys \<longleftrightarrow> list_all2 (\<lambda>x y. f x = Ret y) xs ys"
proof (induction xs arbitrary: ys)
  case Nil
  then show ?case by auto
next
  case (Cons x xs)
  then show ?case by (cases ys) (auto simp: list_all2_Cons1)
qed

lemma mapM_go_all_Ret: "(\<And>x. x \<in> set xs \<Longrightarrow> f x = Ret (g x)) \<Longrightarrow> mapM_go f xs = Ret (map g xs)"
  by (induction xs) auto

lemma mapM_go_no_crash: "(\<And>x. x \<in> set xs \<Longrightarrow> no_crash (f x)) \<Longrightarrow> no_crash (mapM_go f xs)"
  by (induction xs) (auto intro!: no_crash_gbind)

lemma foldM_go_append: "foldM_go f (xs @ ys) s = gbind (foldM_go f xs s) (foldM_go f ys)"
proof (induction xs arbitrary: s)
  case Nil
  then show ?case by simp
next
  case (Cons x xs)
  then show ?case by (cases "f x s") auto
qed

lemma foldM_go_no_crash: "(\<And>x s. x \<in> set xs \<Longrightarrow> no_crash (f x s)) \<Longrightarrow> no_crash (foldM_go f xs s)"
  by (induction xs arbitrary: s) (auto intro!: no_crash_gbind)

section \<open>Calls that change a state\<close>

type_synonym ('t, 'a) sgo = "'t \<Rightarrow> 't \<times> 'a go"

definition sret :: "'a \<Rightarrow> ('t, 'a) sgo" where
  "sret x = (\<lambda>t. (t, Ret x))"

text \<open>A call that only reads the state (or does not touch it at all).\<close>

definition slift :: "'a go \<Rightarrow> ('t, 'a) sgo" where
  "slift r = (\<lambda>t. (t, r))"

definition sbind :: "('t, 'a) sgo \<Rightarrow> ('a \<Rightarrow> ('t, 'b) sgo) \<Rightarrow> ('t, 'b) sgo" where
  "sbind m f = (\<lambda>t. case m t of
      (t', Ret x) \<Rightarrow> f x t'
    | (t', Err e) \<Rightarrow> (t', Err e)
    | (t', Panic p) \<Rightarrow> (t', Panic p)
    | (t', Diverge) \<Rightarrow> (t', Diverge))"

definition swrap :: "string \<Rightarrow> ('t, 'a) sgo \<Rightarrow> ('t, 'a) sgo" where
  "swrap msg m = (\<lambda>t. case m t of (t', r) \<Rightarrow> (t', wrap msg r))"

lemma sret_simp [simp]: "sret x t = (t, Ret x)"
  by (simp add: sret_def)

lemma slift_simp [simp]: "slift r t = (t, r)"
  by (simp add: slift_def)

lemma sbind_simps [simp]:
  "m t = (t', Ret x) \<Longrightarrow> sbind m f t = f x t'"
  "m t = (t', Err e) \<Longrightarrow> sbind m f t = (t', Err e)"
  "m t = (t', Panic p) \<Longrightarrow> sbind m f t = (t', Panic p)"
  "m t = (t', Diverge) \<Longrightarrow> sbind m f t = (t', Diverge)"
  by (simp_all add: sbind_def)

lemma swrap_simp [simp]: "m t = (t', r) \<Longrightarrow> swrap msg m t = (t', wrap msg r)"
  by (simp add: swrap_def)

lemma sbind_Ret_iff:
  "sbind m f t = (t'', Ret y) \<longleftrightarrow> (\<exists>t' x. m t = (t', Ret x) \<and> f x t' = (t'', Ret y))"
  by (auto simp: sbind_def split: prod.splits go.splits)

lemma swrap_Ret_iff: "swrap msg m t = (t', Ret x) \<longleftrightarrow> m t = (t', Ret x)"
  by (auto simp: swrap_def split: prod.splits)

lemma no_crash_sbind:
  "no_crash (snd (m t)) \<Longrightarrow> (\<And>t' x. m t = (t', Ret x) \<Longrightarrow> no_crash (snd (f x t'))) \<Longrightarrow>
   no_crash (snd (sbind m f t))"
  by (cases "m t") (auto simp: sbind_def split: go.splits)

lemma no_crash_swrap [simp]: "no_crash (snd (swrap msg m t)) = no_crash (snd (m t))"
  by (cases "m t") simp

lemma snd_sbind_slift [simp]: "snd (sbind (slift r) f t) = gbind r (\<lambda>x. snd (f x t))"
  by (cases r) (simp_all add: sbind_def)

text \<open>\<^verbatim>\<open>defer func() { if err != nil { cleanup() } }()\<close> before the rest \<open>m\<close> of a function.\<close>

definition on_error :: "('t \<Rightarrow> 't) \<Rightarrow> ('t, 'a) sgo \<Rightarrow> ('t, 'a) sgo" where
  "on_error cleanup m = (\<lambda>t. case m t of (t', Err e) \<Rightarrow> (cleanup t', Err e) | r \<Rightarrow> r)"

text \<open>
  Correctness of such a call: from a state with \<open>P\<close> it returns \<open>x\<close> in a state with \<open>Q x\<close> or an
  error in a state with \<open>E\<close>; it does not crash.
\<close>

definition hoare :: "('t \<Rightarrow> bool) \<Rightarrow> ('t, 'a) sgo \<Rightarrow> ('a \<Rightarrow> 't \<Rightarrow> bool) \<Rightarrow> ('t \<Rightarrow> bool) \<Rightarrow> bool" where
  "hoare P m Q E \<longleftrightarrow>
     (\<forall>t. P t \<longrightarrow> (case m t of (t', Ret x) \<Rightarrow> Q x t' | (t', Err e) \<Rightarrow> E t' | _ \<Rightarrow> False))"

lemma hoareD:
  "hoare P m Q E \<Longrightarrow> P t \<Longrightarrow>
   (\<exists>t' x. m t = (t', Ret x) \<and> Q x t') \<or> (\<exists>t' e. m t = (t', Err e) \<and> E t')"
  by (cases "m t"; cases "snd (m t)") (force simp: hoare_def)+

lemma hoare_fst:
  "hoare P m Q E \<Longrightarrow> P t \<Longrightarrow> (\<And>x t. Q x t \<Longrightarrow> R t) \<Longrightarrow> (\<And>t. E t \<Longrightarrow> R t) \<Longrightarrow> R (fst (m t))"
  by (drule (1) hoareD) auto

lemma hoareI:
  "(\<And>t. P t \<Longrightarrow> (\<exists>t' x. m t = (t', Ret x) \<and> Q x t') \<or> (\<exists>t' e. m t = (t', Err e) \<and> E t')) \<Longrightarrow>
   hoare P m Q E"
  by (force simp: hoare_def)

lemma hoare_sbind:
  assumes "hoare P m Q E" and "\<And>x. hoare (Q x) (f x) R E"
  shows "hoare P (sbind m f) R E"
proof (rule hoareI)
  fix t assume "P t"
  from hoareD [OF assms(1) this] show
    "(\<exists>t' x. sbind m f t = (t', Ret x) \<and> R x t') \<or> (\<exists>t' e. sbind m f t = (t', Err e) \<and> E t')"
  proof (elim disjE exE conjE)
    fix t' x assume "m t = (t', Ret x)" and "Q x t'"
    with hoareD [OF assms(2)] show ?thesis by simp
  qed simp
qed

lemma hoare_swrap: "hoare P m Q E \<Longrightarrow> hoare P (swrap msg m) Q E"
  by (rule hoareI) (auto dest!: hoareD)

lemma hoare_on_error:
  assumes "hoare P m Q E" and "\<And>t. E t \<Longrightarrow> E' (cleanup t)"
  shows "hoare P (on_error cleanup m) Q E'"
  using assms(2) by (intro hoareI) (auto simp: on_error_def dest!: hoareD [OF assms(1)])

lemma hoare_weaken:
  "hoare P m Q E \<Longrightarrow> (\<And>t. P' t \<Longrightarrow> P t) \<Longrightarrow> (\<And>x t. Q x t \<Longrightarrow> Q' x t) \<Longrightarrow> (\<And>t. E t \<Longrightarrow> E' t) \<Longrightarrow>
   hoare P' m Q' E'"
  by (rule hoareI) (blast dest: hoareD)

section \<open>Go maps\<close>

type_synonym ('k, 'v) gomap = "('k \<times> 'v) list"

abbreviation gget :: "('k, 'v) gomap \<Rightarrow> 'k \<Rightarrow> 'v option" where
  "gget m k \<equiv> map_of m k"

abbreviation gset :: "'k \<Rightarrow> 'v \<Rightarrow> ('k, 'v) gomap \<Rightarrow> ('k, 'v) gomap" where
  "gset k v m \<equiv> AList.update k v m"

definition gmap_ok :: "('k, 'v) gomap \<Rightarrow> bool" where
  "gmap_ok m = distinct (map fst m)"

text \<open>\<^verbatim>\<open>m[k]++\<close> on a \<^verbatim>\<open>map[string]int\<close>: a missing key counts from zero.\<close>

definition gincr :: "'k \<Rightarrow> ('k, nat) gomap \<Rightarrow> ('k, nat) gomap" where
  "gincr k m = gset k (Suc (case gget m k of None \<Rightarrow> 0 | Some n \<Rightarrow> n)) m"

text \<open>\<^verbatim>\<open>m[k]\<close> on a \<^verbatim>\<open>map[string]int\<close>.\<close>

definition gcount :: "('k, nat) gomap \<Rightarrow> 'k \<Rightarrow> nat" where
  "gcount m k = (case gget m k of None \<Rightarrow> 0 | Some n \<Rightarrow> n)"

text \<open>\<^verbatim>\<open>for k, v := range kvs { m[k] = v }\<close>.\<close>

definition gset_all :: "('k, 'v) gomap \<Rightarrow> ('k, 'v) gomap \<Rightarrow> ('k, 'v) gomap" where
  "gset_all kvs m = fold (\<lambda>(k, v) m. gset k v m) kvs m"

lemma gmap_ok_Nil [simp]: "gmap_ok []"
  by (simp add: gmap_ok_def)

lemma gmap_ok_single [simp]: "gmap_ok [kv]"
  by (simp add: gmap_ok_def)

lemma gmap_ok_gset [simp]: "gmap_ok m \<Longrightarrow> gmap_ok (gset k v m)"
  by (simp add: gmap_ok_def distinct_update)

lemma gget_gset: "gget (gset k v m) = (gget m)(k \<mapsto> v)"
  by (rule update_conv')

lemma gmap_ok_gincr [simp]: "gmap_ok m \<Longrightarrow> gmap_ok (gincr k m)"
  by (simp add: gincr_def)

lemma gcount_gincr: "gcount (gincr k m) k' = (if k' = k then Suc (gcount m k) else gcount m k')"
  by (simp add: gcount_def gincr_def gget_gset)

lemma gcount_Nil [simp]: "gcount [] k = 0"
  by (simp add: gcount_def)

lemma gset_all_Nil [simp]: "gset_all [] m = m"
  by (simp add: gset_all_def)

lemma gset_all_Cons [simp]: "gset_all (kv # kvs) m = gset_all kvs (gset (fst kv) (snd kv) m)"
  by (simp add: gset_all_def split: prod.splits)

lemma gmap_ok_gset_all [simp]: "gmap_ok m \<Longrightarrow> gmap_ok (gset_all kvs m)"
  by (induction kvs arbitrary: m) auto

lemma gget_gset_all: "gget (gset_all kvs m) = gget m ++ map_of (rev kvs)"
proof (induction kvs arbitrary: m)
  case Nil
  then show ?case by simp
next
  case (Cons kv kvs)
  show ?case
    by (simp add: Cons.IH gget_gset map_add_def fun_eq_iff split: option.splits prod.splits)
qed

text \<open>With distinct keys, the order of the entries is immaterial for lookups.\<close>

lemma gget_perm: "gmap_ok xs \<Longrightarrow> mset ys = mset xs \<Longrightarrow> gget ys = gget xs"
proof -
  assume ok: "gmap_ok xs" and eq: "mset ys = mset xs"
  then have "distinct (map fst ys)"
    by (metis gmap_ok_def mset_eq_imp_distinct_iff mset_map)
  moreover have "set ys = set xs" using eq by (rule mset_eq_setD)
  ultimately show "gget ys = gget xs"
    using ok by (auto simp: gmap_ok_def intro!: map_of_eqI intro: map_of_is_SomeI)
qed

lemma gmap_ok_perm: "gmap_ok xs \<Longrightarrow> mset ys = mset xs \<Longrightarrow> gmap_ok ys"
  by (metis gmap_ok_def mset_eq_imp_distinct_iff mset_map)

lemma gget_gset_all_ok: "gmap_ok kvs \<Longrightarrow> gget (gset_all kvs m) = gget m ++ gget kvs"
  using gget_perm [of kvs "rev kvs"] by (simp add: gget_gset_all)

lemma gget_None_iff: "gget m k = None \<longleftrightarrow> k \<notin> fst ` set m"
  by (rule map_of_eq_None_iff)

section \<open>Iteration order\<close>

text \<open>
  The order in which a \<^verbatim>\<open>range\<close> loop visits a map, as a list of choices: each number
  picks, modulo what is left, the next entry to visit.  Every list of choices gives a
  permutation (\<open>mset_range_perm\<close>) and every permutation is given by some choices
  (\<open>range_perm_complete\<close>), so a statement about all choices is a statement about all
  iteration orders.
\<close>

fun range_perm :: "nat list \<Rightarrow> 'a list \<Rightarrow> 'a list" where
  "range_perm cs [] = []"
| "range_perm [] (x # xs) = x # xs"
| "range_perm (c # cs) (x # xs) =
     (let ys = x # xs; i = c mod length ys
      in ys ! i # range_perm cs (take i ys @ drop (Suc i) ys))"

lemma mset_range_perm: "mset (range_perm cs xs) = mset xs"
proof (induction cs xs rule: range_perm.induct)
  case (3 c cs x xs)
  define i where "i = c mod length (x # xs)"
  have i: "i < length (x # xs)" by (simp add: i_def)
  have "mset (range_perm (c # cs) (x # xs)) =
      add_mset ((x # xs) ! i) (mset (take i (x # xs) @ drop (Suc i) (x # xs)))"
    using 3 [OF refl] by (simp add: Let_def i_def)
  also have "\<dots> = mset (take i (x # xs) @ (x # xs) ! i # drop (Suc i) (x # xs))"
    by simp
  also have "\<dots> = mset (x # xs)"
    using id_take_nth_drop [OF i] by simp
  finally show ?case .
qed simp_all

lemma range_perm_complete: "mset ys = mset xs \<Longrightarrow> \<exists>cs. range_perm cs xs = ys"
proof (induction ys arbitrary: xs)
  case Nil
  then show ?case by (intro exI [of _ "[]"]) simp
next
  case (Cons y ys)
  then have "y \<in> set xs" by (metis list.set_intros(1) mset_eq_setD)
  then obtain i where i: "i < length xs" "xs ! i = y" by (auto simp: in_set_conv_nth)
  let ?r = "take i xs @ drop (Suc i) xs"
  have "mset xs = mset (take i xs @ y # drop (Suc i) xs)"
    using id_take_nth_drop [OF i(1)] i(2) by simp
  with Cons.prems have "mset ys = mset ?r" by simp
  then obtain cs where "range_perm cs ?r = ys" using Cons.IH by blast
  moreover obtain x xs' where "xs = x # xs'" using i(1) by (cases xs) auto
  ultimately have "range_perm (i # cs) xs = y # ys" using i by simp
  then show ?case by blast
qed

text \<open>
  What a loop over a map may rely on: it visits every entry exactly once, in some order.
\<close>

locale go_range =
  fixes ord :: "'a list \<Rightarrow> 'a list"
  assumes ord_mset: "mset (ord xs) = mset xs"
begin

lemma ord_set [simp]: "set (ord xs) = set xs"
  using ord_mset by (rule mset_eq_setD)

lemma ord_length [simp]: "length (ord xs) = length xs"
  using ord_mset by (rule mset_eq_length)

lemma ord_Nil_iff [simp]: "ord xs = [] \<longleftrightarrow> xs = []"
  by (metis length_0_conv ord_length)

lemma ord_single [simp]: "ord [x] = [x]"
  by (metis ord_mset mset_single_iff mset.simps(1,2))

lemma ord_distinct [simp]: "distinct (ord xs) = distinct xs"
  using ord_mset by (rule mset_eq_imp_distinct_iff)

lemma ord_map_distinct: "distinct (map f (ord xs)) = distinct (map f xs)"
  by (metis mset_map mset_eq_imp_distinct_iff ord_mset)

end

interpretation rng: go_range "range_perm cs" for cs
  by unfold_locales (rule mset_range_perm)

end
