(* ===== verification/Go_Strings.thy ===== *)
theory Go_Strings
  imports Go_Prelude "HOL-Library.Word"
begin

text \<open>
  The functions of Go's \<^verbatim>\<open>strings\<close>, \<^verbatim>\<open>strconv\<close> and \<^verbatim>\<open>fmt\<close> packages the program uses.
  A Go string is a sequence of bytes; \<open>string\<close> is a list of \<open>char\<close>, which HOL identifies
  with the 256 byte values, so \<open>length\<close> is Go's \<^verbatim>\<open>len\<close>.
\<close>

section \<open>Decimal numbers\<close>

text \<open>\<^verbatim>\<open>%d\<close> and \<^verbatim>\<open>%v\<close> on integers.\<close>

definition digit_char :: "nat \<Rightarrow> char" where
  "digit_char d = char_of (48 + d)"

fun show_nat :: "nat \<Rightarrow> string" where
  "show_nat n = (if n < 10 then [digit_char n] else show_nat (n div 10) @ [digit_char (n mod 10)])"

declare show_nat.simps [simp del]

definition show_int :: "int \<Rightarrow> string" where
  "show_int i = (if i < 0 then CHR ''-'' # show_nat (nat (- i)) else show_nat (nat i))"

text \<open>\<^verbatim>\<open>strconv.FormatBool\<close>.\<close>

definition show_bool :: "bool \<Rightarrow> string" where
  "show_bool b = (if b then ''true'' else ''false'')"

text \<open>The inverse of \<open>show_nat\<close>: the value of a digit string, most significant digit first.\<close>

definition digit_val :: "char \<Rightarrow> nat" where
  "digit_val c = (of_char c :: nat) - 48"

definition digits_val :: "string \<Rightarrow> nat" where
  "digits_val s = fold (\<lambda>c acc. acc * 10 + digit_val c) s 0"

definition is_digit :: "char \<Rightarrow> bool" where
  "is_digit c \<longleftrightarrow> 48 \<le> (of_char c :: nat) \<and> (of_char c :: nat) \<le> 57"

lemma of_char_digit_char: "d < 10 \<Longrightarrow> of_char (digit_char d) = (48 + d :: nat)"
  by (simp add: digit_char_def)

lemma digit_val_char [simp]: "d < 10 \<Longrightarrow> digit_val (digit_char d) = d"
  by (simp add: digit_val_def of_char_digit_char)

lemma is_digit_char [simp]: "d < 10 \<Longrightarrow> is_digit (digit_char d)"
  by (simp add: is_digit_def of_char_digit_char)

lemma digits_val_snoc: "digits_val (s @ [c]) = digits_val s * 10 + digit_val c"
  by (simp add: digits_val_def)

lemma digits_val_show_nat [simp]: "digits_val (show_nat n) = n"
proof (induction n rule: show_nat.induct)
  case (1 n)
  show ?case
  proof (cases "n < 10")
    case True
    then show ?thesis by (subst show_nat.simps) (simp add: digits_val_def)
  next
    case False
    with 1 show ?thesis by (subst show_nat.simps) (simp add: digits_val_snoc)
  qed
qed

lemma show_nat_inject [simp]: "show_nat m = show_nat n \<longleftrightarrow> m = n"
  by (metis digits_val_show_nat)

lemma show_nat_digits: "c \<in> set (show_nat n) \<Longrightarrow> is_digit c"
proof (induction n rule: show_nat.induct)
  case (1 n)
  then show ?case by (subst (asm) (2) show_nat.simps) (auto split: if_splits)
qed

lemma show_nat_nonempty [simp]: "show_nat n \<noteq> []"
  by (subst show_nat.simps) simp

section \<open>Splitting, joining, replacing\<close>

text \<open>\<^verbatim>\<open>strings.Split(s, c)\<close> with a separator of one character.\<close>

fun go_split :: "char \<Rightarrow> string \<Rightarrow> string list" where
  "go_split c [] = [[]]"
| "go_split c (x # xs) =
     (if x = c then [] # go_split c xs
      else case go_split c xs of [] \<Rightarrow> [[x]] | y # ys \<Rightarrow> (x # y) # ys)"

text \<open>\<^verbatim>\<open>strings.Join\<close>.\<close>

fun go_join :: "string \<Rightarrow> string list \<Rightarrow> string" where
  "go_join sep [] = []"
| "go_join sep [x] = x"
| "go_join sep (x # y # zs) = x @ sep @ go_join sep (y # zs)"

text \<open>\<^verbatim>\<open>strings.Replace(s, a, b, -1)\<close> and \<^verbatim>\<open>strings.ReplaceAll\<close> on single characters.\<close>

definition replace_all :: "char \<Rightarrow> char \<Rightarrow> string \<Rightarrow> string" where
  "replace_all a b s = map (\<lambda>c. if c = a then b else c) s"

definition has_prefix :: "string \<Rightarrow> string \<Rightarrow> bool" where
  "has_prefix p s \<longleftrightarrow> take (length p) s = p"

definition has_suffix :: "string \<Rightarrow> string \<Rightarrow> bool" where
  "has_suffix p s \<longleftrightarrow> has_prefix (rev p) (rev s)"

lemma go_split_not_Nil [simp]: "go_split c s \<noteq> []"
  by (induction s) (auto split: list.splits)

lemma join_split: "go_join [c] (go_split c s) = s"
proof (induction s)
  case Nil
  then show ?case by simp
next
  case (Cons x s)
  obtain y ys where eq: "go_split c s = y # ys" by (cases "go_split c s") auto
  with Cons show ?case by (cases ys) auto
qed

lemma split_no_sep: "p \<in> set (go_split c s) \<Longrightarrow> c \<notin> set p"
proof (induction s arbitrary: p)
  case Nil
  then show ?case by simp
next
  case (Cons x s)
  obtain y ys where eq: "go_split c s = y # ys" by (cases "go_split c s") auto
  with Cons show ?case by (auto split: if_splits)
qed

lemma split_free: "c \<notin> set s \<Longrightarrow> go_split c s = [s]"
  by (induction s) auto

lemma split_append: "c \<notin> set s \<Longrightarrow> go_split c (s @ c # t) = s # go_split c t"
  by (induction s) auto

lemma split_join:
  "ps \<noteq> [] \<Longrightarrow> \<forall>p \<in> set ps. c \<notin> set p \<Longrightarrow> go_split c (go_join [c] ps) = ps"
proof (induction "[c]" ps rule: go_join.induct)
  case (3 x y zs)
  then show ?case by (simp add: split_append)
qed (auto simp: split_free)

lemma length_split: "length (go_split c s) = Suc (length (filter (\<lambda>x. x = c) s))"
proof (induction s)
  case Nil
  then show ?case by simp
next
  case (Cons x s)
  obtain y ys where eq: "go_split c s = y # ys" by (cases "go_split c s") auto
  with Cons show ?case by auto
qed

lemma replace_all_free [simp]: "a \<noteq> b \<Longrightarrow> a \<notin> set (replace_all a b s)"
  by (auto simp: replace_all_def)

lemma replace_all_length [simp]: "length (replace_all a b s) = length s"
  by (simp add: replace_all_def)

lemma has_prefix_append [simp]: "has_prefix p (p @ s)"
  by (simp add: has_prefix_def)

lemma has_prefix_iff: "has_prefix p s \<longleftrightarrow> (\<exists>t. s = p @ t)"
  by (metis append_take_drop_id has_prefix_append has_prefix_def)

section \<open>Trimming\<close>

text \<open>
  \<^verbatim>\<open>strings.TrimSpace\<close> removes Unicode white space at both ends.  The encodings of the
  25 code points of Unicode's White\_Space property, as byte strings: six of ASCII, then
  U+0085, U+00A0, U+1680, U+2000 to U+200A, U+2028, U+2029, U+202F, U+205F and U+3000.
  UTF-8 is self-synchronising, so a string starts (ends) with such a code point exactly when
  these bytes are a prefix (suffix) of it.
\<close>

definition go_spaces :: "string list" where
  "go_spaces =
     map (map char_of)
       ([[9 :: nat], [10], [11], [12], [13], [32],
         [0xC2, 0x85], [0xC2, 0xA0], [0xE1, 0x9A, 0x80]] @
        map (\<lambda>b. [0xE2, 0x80, b]) [0x80, 0x81, 0x82, 0x83, 0x84, 0x85, 0x86, 0x87, 0x88, 0x89, 0x8A] @
        [[0xE2, 0x80, 0xA8], [0xE2, 0x80, 0xA9], [0xE2, 0x80, 0xAF], [0xE2, 0x81, 0x9F],
         [0xE3, 0x80, 0x80]])"

text \<open>Drop words of \<open>ws\<close> from the front as long as one of them is there.\<close>

function trim_left :: "string list \<Rightarrow> string \<Rightarrow> string" where
  "trim_left ws s =
     (case find (\<lambda>w. w \<noteq> [] \<and> has_prefix w s) ws of
        None \<Rightarrow> s
      | Some w \<Rightarrow> trim_left ws (drop (length w) s))"
  by pat_completeness auto
termination
proof (relation "measure (\<lambda>(ws, s). length s)", goal_cases)
  case 1
  then show ?case by simp
next
  case (2 ws s w)
  then have "w \<noteq> []" "has_prefix w s" by (auto simp: find_Some_iff)
  then have "0 < length w" "length w \<le> length s" by (auto simp: has_prefix_iff)
  then have "length s - length w < length s" by linarith
  then show ?case by simp
qed

declare trim_left.simps [simp del]

lemma trim_left_None: "find (\<lambda>w. w \<noteq> [] \<and> has_prefix w s) ws = None \<Longrightarrow> trim_left ws s = s"
  by (subst trim_left.simps) simp

lemma trim_left_Some:
  "find (\<lambda>w. w \<noteq> [] \<and> has_prefix w s) ws = Some w \<Longrightarrow> trim_left ws s = trim_left ws (drop (length w) s)"
  by (subst trim_left.simps) simp

definition trim_space :: "string \<Rightarrow> string" where
  "trim_space s = rev (trim_left (map rev go_spaces) (rev (trim_left go_spaces s)))"

text \<open>\<^verbatim>\<open>strings.Trim(s, "\x00")\<close>.\<close>

definition trim_nul :: "string \<Rightarrow> string" where
  "trim_nul s = rev (dropWhile (\<lambda>c. c = CHR 0x00) (rev (dropWhile (\<lambda>c. c = CHR 0x00) s)))"

lemma trim_left_suffix: "\<exists>p. s = p @ trim_left ws s"
proof (induction ws s rule: trim_left.induct)
  case (1 ws s)
  show ?case
  proof (cases "find (\<lambda>w. w \<noteq> [] \<and> has_prefix w s) ws")
    case None
    then show ?thesis by (simp add: trim_left_None)
  next
    case (Some w)
    from 1 [OF Some] obtain p where "drop (length w) s = p @ trim_left ws (drop (length w) s)"
      by blast
    then have "s = (take (length w) s @ p) @ trim_left ws (drop (length w) s)"
      by (metis append_assoc append_take_drop_id)
    with Some show ?thesis by (metis trim_left_Some)
  qed
qed

lemma trim_space_infix: "\<exists>p q. s = p @ trim_space s @ q"
proof -
  obtain p where p: "s = p @ trim_left go_spaces s" using trim_left_suffix by blast
  obtain q where "rev (trim_left go_spaces s) =
      q @ trim_left (map rev go_spaces) (rev (trim_left go_spaces s))"
    using trim_left_suffix by blast
  then have "trim_left go_spaces s = trim_space s @ rev q"
    by (metis rev_append rev_rev_ident trim_space_def)
  with p show ?thesis by metis
qed

lemma trim_space_id:
  assumes "hd s \<notin> hd ` set go_spaces" and "last s \<notin> last ` set go_spaces"
  shows "trim_space s = s"
proof (cases "s = []")
  case False
  have "find (\<lambda>w. w \<noteq> [] \<and> has_prefix w s) go_spaces = None"
    using assms(1) by (auto simp: find_None_iff has_prefix_iff)
  moreover have "find (\<lambda>w. w \<noteq> [] \<and> has_prefix w (rev s)) (map rev go_spaces) = None"
  proof -
    have "\<not> has_prefix (rev w) (rev s)" if "w \<in> set go_spaces" "w \<noteq> []" for w
    proof
      assume "has_prefix (rev w) (rev s)"
      then obtain t where "rev s = rev w @ t" by (auto simp: has_prefix_iff)
      then have "s = rev t @ w" by (metis rev_append rev_rev_ident)
      then have "last s = last w" using that by simp
      with assms(2) that(1) show False by auto
    qed
    then show ?thesis by (auto simp: find_None_iff)
  qed
  ultimately show ?thesis by (simp add: trim_space_def trim_left_None)
qed (simp add: trim_space_def trim_left.simps go_spaces_def has_prefix_def)

text \<open>A text that begins and ends with a letter keeps its ends.\<close>

lemma space_ends:
  "hd ` set go_spaces = char_of ` {9 :: nat, 10, 11, 12, 13, 32, 0xC2, 0xE1, 0xE2, 0xE3}"
  "last ` set go_spaces = char_of ` {9 :: nat, 10, 11, 12, 13, 32, 0x85, 0xA0, 0x80, 0x81, 0x82, 0x83, 0x84,
     0x86, 0x87, 0x88, 0x89, 0x8A, 0xA8, 0xA9, 0xAF, 0x9F}"
  by (auto simp: go_spaces_def)

lemma trim_space_word:
  assumes "65 \<le> (of_char (hd s) :: nat) \<and> (of_char (hd s) :: nat) \<le> 122"
    and "65 \<le> (of_char (last s) :: nat) \<and> (of_char (last s) :: nat) \<le> 122"
  shows "trim_space s = s"
  by (rule trim_space_id) (use assms in \<open>auto simp: space_ends\<close>)

lemma trim_nul_padding:
  assumes "s = [] \<or> hd s \<noteq> CHR 0x00 \<and> last s \<noteq> CHR 0x00"
  shows "trim_nul (s @ replicate n (CHR 0x00)) = s"
proof (cases "s = []")
  case True
  then show ?thesis by (simp add: trim_nul_def)
next
  case False
  with assms have h: "hd s \<noteq> CHR 0x00" and l: "last s \<noteq> CHR 0x00" by auto
  from False h have 1: "dropWhile (\<lambda>c. c = CHR 0x00) (s @ replicate n (CHR 0x00)) =
      s @ replicate n (CHR 0x00)"
    by (cases s) auto
  have "dropWhile (\<lambda>c. c = CHR 0x00) (replicate n (CHR 0x00) @ rev s) = rev s"
    using False l by (cases "rev s") (auto simp: dropWhile_append)
  with 1 show ?thesis by (simp add: trim_nul_def)
qed

section \<open>Bytes\<close>

type_synonym byte = "8 word"

definition byte_char :: "byte \<Rightarrow> char" where
  "byte_char b = char_of (unat b)"

definition char_byte :: "char \<Rightarrow> byte" where
  "char_byte c = of_nat (of_char c :: nat)"

text \<open>\<^verbatim>\<open>string(bs)\<close> on a byte slice copies the bytes.\<close>

definition bytes_string :: "byte list \<Rightarrow> string" where
  "bytes_string bs = map byte_char bs"

text \<open>
  \<^verbatim>\<open>string(b)\<close> on a single byte converts a \<^emph>\<open>rune\<close>: the UTF-8 encoding of the code point
  \<open>b\<close>, which is two bytes from \<open>0x80\<close> on.
\<close>

definition rune_string :: "byte \<Rightarrow> string" where
  "rune_string b =
     (if unat b < 128 then [char_of (unat b)]
      else [char_of (192 + unat b div 64), char_of (128 + unat b mod 64)])"

lemma char_byte_inverse [simp]: "byte_char (char_byte c) = c"
proof -
  have "(of_char c :: nat) < 256" by simp
  then show ?thesis by (simp add: byte_char_def char_byte_def unat_of_nat)
qed

lemma rune_string_ascii: "(of_char c :: nat) < 128 \<Longrightarrow> rune_string (char_byte c) = [c]"
  by (simp add: rune_string_def char_byte_def unat_of_nat)

end
