(* ===== verification/Resource_Iface.thy ===== *)
theory Resource_Iface
  imports Go_Strings
begin

text \<open>
  The interfaces of \<^verbatim>\<open>internal/resource/types.go\<close>.  A Go interface is a record of its
  methods: \<open>'d device_ops\<close> for \<^verbatim>\<open>Device\<close>, \<open>('s, 'd) manager_ops\<close> for \<^verbatim>\<open>Manager\<close>, over the
  values \<open>'d\<close> and states \<open>'s\<close> of an implementation.  The queries of every implementation
  leave the Go state alone; \<^verbatim>\<open>Init\<close> and \<^verbatim>\<open>Shutdown\<close> may change it.

  The locales \<open>device_contract\<close> and \<open>manager_contract\<close> state what the label code needs from an
  implementation: its calls return or fail with an error, they never crash.
  \<open>infallible_manager\<close> adds that \<^verbatim>\<open>Init\<close> cannot fail.
\<close>

section \<open>Attribute values\<close>

text \<open>The dynamic types that occur in the \<^verbatim>\<open>interface{}\<close> values of labels and attributes.\<close>

datatype attr_val = VUint64 "64 word" | VUint32 "32 word" | VInt int | VString string

text \<open>\<^verbatim>\<open>fmt.Sprintf("%v", value)\<close>.\<close>

fun show_val :: "attr_val \<Rightarrow> string" where
  "show_val (VUint64 w) = show_nat (unat w)"
| "show_val (VUint32 w) = show_nat (unat w)"
| "show_val (VInt i) = show_int i"
| "show_val (VString s) = s"

section \<open>Devices and managers\<close>

record 'd device_ops =
  dev_IsMigEnabled :: "'d \<Rightarrow> bool go"
  dev_IsMigCapable :: "'d \<Rightarrow> bool go"
  dev_GetMigDevices :: "'d \<Rightarrow> 'd list go"
  dev_GetAttributes :: "'d \<Rightarrow> (string, attr_val) gomap go"
  dev_GetName :: "'d \<Rightarrow> string go"
  dev_GetTotalMemoryMB :: "'d \<Rightarrow> (64 word) go"
  dev_GetDeviceHandleFromMigDeviceHandle :: "'d \<Rightarrow> 'd go"
  dev_GetCudaComputeCapability :: "'d \<Rightarrow> (int \<times> int) go"

record ('s, 'd) manager_ops =
  mgr_Init :: "('s, unit) sgo"
  mgr_Shutdown :: "('s, unit) sgo"
  mgr_GetDevices :: "'s \<Rightarrow> 'd list go"
  mgr_GetDriverVersion :: "'s \<Rightarrow> string go"
  mgr_GetCudaDriverVersion :: "'s \<Rightarrow> (64 word \<times> 64 word) go"

section \<open>Contracts\<close>

locale device_contract =
  fixes D :: "'d device_ops"
  assumes IsMigEnabled_no_crash: "no_crash (dev_IsMigEnabled D d)"
    and IsMigCapable_no_crash: "no_crash (dev_IsMigCapable D d)"
    and GetMigDevices_no_crash: "no_crash (dev_GetMigDevices D d)"
    and GetAttributes_no_crash: "no_crash (dev_GetAttributes D d)"
    and GetName_no_crash: "no_crash (dev_GetName D d)"
    and GetTotalMemoryMB_no_crash: "no_crash (dev_GetTotalMemoryMB D d)"
    and GetParent_no_crash: "no_crash (dev_GetDeviceHandleFromMigDeviceHandle D d)"
    and GetCudaComputeCapability_no_crash: "no_crash (dev_GetCudaComputeCapability D d)"
begin

lemmas device_no_crash =
  IsMigEnabled_no_crash IsMigCapable_no_crash GetMigDevices_no_crash GetAttributes_no_crash
  GetName_no_crash GetTotalMemoryMB_no_crash GetParent_no_crash
  GetCudaComputeCapability_no_crash

end

locale manager_contract = device_contract D
  for D :: "'d device_ops" +
  fixes M :: "('s, 'd) manager_ops"
    and inv :: "'s \<Rightarrow> bool"
  assumes Init_no_crash: "inv s \<Longrightarrow> no_crash (snd (mgr_Init M s))"
    and Shutdown_no_crash: "inv s \<Longrightarrow> no_crash (snd (mgr_Shutdown M s))"
    and GetDevices_no_crash: "inv s \<Longrightarrow> no_crash (mgr_GetDevices M s)"
    and GetDriverVersion_no_crash: "inv s \<Longrightarrow> no_crash (mgr_GetDriverVersion M s)"
    and GetCudaDriverVersion_no_crash: "inv s \<Longrightarrow> no_crash (mgr_GetCudaDriverVersion M s)"
    and Init_inv: "inv s \<Longrightarrow> inv (fst (mgr_Init M s))"
    and Shutdown_inv: "inv s \<Longrightarrow> inv (fst (mgr_Shutdown M s))"
begin

lemmas manager_no_crash =
  Init_no_crash Shutdown_no_crash GetDevices_no_crash GetDriverVersion_no_crash
  GetCudaDriverVersion_no_crash

end

locale infallible_manager = manager_contract +
  assumes Init_returns: "inv s \<Longrightarrow> returns (snd (mgr_Init M s))"
begin

lemma Init_never_fails: "inv s \<Longrightarrow> \<exists>s'. mgr_Init M s = (s', Ret ()) \<and> inv s'"
  using Init_returns [of s] Init_inv [of s]
  by (cases "mgr_Init M s") (auto simp: returns_iff)

end

end
