(* ===== verification/Cli.thy ===== *)
theory Cli
  imports Go_Strings
begin

text \<open>
  The command line: the flags \<^verbatim>\<open>main\<close> of \<^verbatim>\<open>cmd/gpu-feature-discovery/main.go\<close> declares, and how the
  vendored \<^verbatim>\<open>urfave/cli\<close> library gives them their values (\<^verbatim>\<open>flag.go\<close>, \<^verbatim>\<open>flag_string.go\<close>,
  \<^verbatim>\<open>flag_bool.go\<close>, \<^verbatim>\<open>flag_duration.go\<close>, \<^verbatim>\<open>context.go\<close>).  The command line is the list of the names and
  texts the parser meets.  \<^verbatim>\<open>time.ParseDuration\<close> is the parameter \<open>PD\<close>.  The library adds the flags
  \<^verbatim>\<open>help\<close> and \<^verbatim>\<open>version\<close>, which end the program before the daemon starts; they are left out.
\<close>

section \<open>Flags\<close>

datatype flag_value = StringValue string | BoolValue bool | DurationValue int

text \<open>The fields that decide a value; \<^verbatim>\<open>Usage\<close> is a text for the user.\<close>

record cli_flag =
  flag_Name :: string
  flag_Aliases :: "string list"
  flag_Value :: flag_value
  flag_EnvVars :: "string list"

definition flag_Names :: "cli_flag \<Rightarrow> string list" where
  "flag_Names f = flag_Name f # flag_Aliases f"

definition main_flags :: "cli_flag list" where
  "main_flags =
     [\<lparr>flag_Name = ''mig-strategy'', flag_Aliases = [], flag_Value = StringValue ''none'',
       flag_EnvVars = [''GFD_MIG_STRATEGY'', ''MIG_STRATEGY'']\<rparr>,
      \<lparr>flag_Name = ''fail-on-init-error'', flag_Aliases = [], flag_Value = BoolValue True,
       flag_EnvVars = [''GFD_FAIL_ON_INIT_ERROR'', ''FAIL_ON_INIT_ERROR'']\<rparr>,
      \<lparr>flag_Name = ''oneshot'', flag_Aliases = [], flag_Value = BoolValue False,
       flag_EnvVars = [''GFD_ONESHOT'']\<rparr>,
      \<lparr>flag_Name = ''no-timestamp'', flag_Aliases = [], flag_Value = BoolValue False,
       flag_EnvVars = [''GFD_NO_TIMESTAMP'']\<rparr>,
      \<lparr>flag_Name = ''sleep-interval'', flag_Aliases = [], flag_Value = DurationValue (60 * 1000000000),
       flag_EnvVars = [''GFD_SLEEP_INTERVAL'']\<rparr>,
      \<lparr>flag_Name = ''output-file'', flag_Aliases = [''output'', ''o''],
       flag_Value = StringValue ''/etc/kubernetes/node-feature-discovery/features.d/gfd'',
       flag_EnvVars = [''GFD_OUTPUT_FILE'']\<rparr>,
      \<lparr>flag_Name = ''machine-type-file'', flag_Aliases = [],
       flag_Value = StringValue ''/sys/class/dmi/id/product_name'',
       flag_EnvVars = [''GFD_MACHINE_TYPE_FILE'']\<rparr>,
      \<lparr>flag_Name = ''config-file'', flag_Aliases = [], flag_Value = StringValue [],
       flag_EnvVars = [''GFD_CONFIG_FILE'', ''CONFIG_FILE'']\<rparr>,
      \<lparr>flag_Name = ''use-node-feature-api'', flag_Aliases = [], flag_Value = BoolValue False,
       flag_EnvVars = [''GFD_USE_NODE_FEATURE_API'']\<rparr>]"

section \<open>The library\<close>

text \<open>What the code reads from the \<^verbatim>\<open>cli.Context\<close> of the command line library.\<close>

record cli_context =
  cli_IsSet :: "string \<Rightarrow> bool"
  cli_String :: "string \<Rightarrow> string"
  cli_Bool :: "string \<Rightarrow> bool"
  cli_Duration :: "string \<Rightarrow> int"
  cli_StringSlice :: "string \<Rightarrow> string list"

text \<open>\<^verbatim>\<open>flagFromEnvOrFile\<close> for flags without a \<^verbatim>\<open>FilePath\<close>; the variable found comes with the value.\<close>

fun flagFromEnv :: "(string \<Rightarrow> string option) \<Rightarrow> string list \<Rightarrow> (string \<times> string) option" where
  "flagFromEnv getenv [] = None"
| "flagFromEnv getenv (envVar # envVars) =
     (case getenv (trim_space envVar) of
        Some v \<Rightarrow> Some (v, trim_space envVar)
      | None \<Rightarrow> flagFromEnv getenv envVars)"

definition quoted :: "string \<Rightarrow> string" where
  "quoted s = [CHR 0x22] @ s @ [CHR 0x22]"

text \<open>\<^verbatim>\<open>strconv.ParseBool\<close>.\<close>

definition ParseBool :: "string \<Rightarrow> bool go" where
  "ParseBool s =
     (if s \<in> {''1'', ''t'', ''T'', ''true'', ''TRUE'', ''True''} then Ret True
      else if s \<in> {''0'', ''f'', ''F'', ''false'', ''FALSE'', ''False''} then Ret False
      else Err (''strconv.ParseBool: parsing '' @ quoted s @ '': invalid syntax''))"

text \<open>A text as a value of the type of a flag.\<close>

fun parse_value :: "(string \<Rightarrow> int go) \<Rightarrow> flag_value \<Rightarrow> string \<Rightarrow> flag_value go" where
  "parse_value PD (StringValue _) t = Ret (StringValue t)"
| "parse_value PD (BoolValue _) t = gbind (ParseBool t) (\<lambda>b. Ret (BoolValue b))"
| "parse_value PD (DurationValue _) t = gbind (PD t) (\<lambda>d. Ret (DurationValue d))"

text \<open>The \<^verbatim>\<open>Apply\<close> of the three flag types: the value before parsing and \<^verbatim>\<open>HasBeenSet\<close>.\<close>

definition apply_flag :: "(string \<Rightarrow> int go) \<Rightarrow> (string \<Rightarrow> string option) \<Rightarrow> cli_flag \<Rightarrow> (flag_value \<times> bool) go" where
  "apply_flag PD getenv f =
     (case flagFromEnv getenv (flag_EnvVars f) of
        None \<Rightarrow> Ret (flag_Value f, False)
      | Some (val, src) \<Rightarrow>
          let failure = (\<lambda>ty. ''could not parse '' @ quoted val @ '' as '' @ ty @
                '' value from environment variable '' @ quoted src @ '' for flag '' @ flag_Name f @ '': '')
          in case flag_Value f of
            StringValue _ \<Rightarrow> Ret (StringValue val, True)
          | BoolValue _ \<Rightarrow>
              if val \<noteq> [] then wrap (failure ''bool'') (gbind (ParseBool val) (\<lambda>b. Ret (BoolValue b, True)))
              else Ret (BoolValue False, True)
          | DurationValue d \<Rightarrow>
              if val \<noteq> [] then wrap (failure ''duration'') (gbind (PD val) (\<lambda>b. Ret (DurationValue b, True)))
              else Ret (DurationValue d, False))"

text \<open>The error of a \<^verbatim>\<open>FlagSet\<close> when a text does not parse.\<close>

definition parse_failure :: "flag_value \<Rightarrow> string \<Rightarrow> string \<Rightarrow> string" where
  "parse_failure v n t =
     (case v of
        BoolValue _ \<Rightarrow> ''invalid boolean value '' @ quoted t @ '' for -'' @ n @ '': parse error''
      | _ \<Rightarrow> ''invalid value '' @ quoted t @ '' for flag -'' @ n @ '': parse error'')"

text \<open>\<^verbatim>\<open>flag.FlagSet.Parse\<close>: the values of the names that were given, a later one replacing an earlier.\<close>

definition find_flag :: "cli_flag list \<Rightarrow> string \<Rightarrow> cli_flag option" where
  "find_flag flags n = find (\<lambda>f. n \<in> set (flag_Names f)) flags"

fun parse_args ::
  "(string \<Rightarrow> int go) \<Rightarrow> cli_flag list \<Rightarrow> (string \<times> string) list \<Rightarrow> (string, flag_value) gomap \<Rightarrow>
   (string, flag_value) gomap go" where
  "parse_args PD flags [] actual = Ret actual"
| "parse_args PD flags ((n, t) # args) actual =
     (case find_flag flags n of
        None \<Rightarrow> Err (''flag provided but not defined: -'' @ n)
      | Some f \<Rightarrow>
          (case parse_value PD (flag_Value f) t of
             Ret v \<Rightarrow> parse_args PD flags args (gset n v actual)
           | Err _ \<Rightarrow> Err (parse_failure (flag_Value f) n t)
           | Panic p \<Rightarrow> Panic p
           | Diverge \<Rightarrow> Diverge))"

text \<open>
  \<^verbatim>\<open>normalizeFlags\<close>: at most one name of a flag may be given, whose value the other names get too.
  \<open>given\<close> is that value.
\<close>

definition given_names :: "(string, flag_value) gomap \<Rightarrow> cli_flag \<Rightarrow> string list" where
  "given_names actual f = filter (\<lambda>n. gget actual n \<noteq> None) (flag_Names f)"

definition given :: "(string, flag_value) gomap \<Rightarrow> cli_flag \<Rightarrow> flag_value option" where
  "given actual f =
     (case given_names actual f of [] \<Rightarrow> None | n # _ \<Rightarrow> gget actual n)"

definition normalizeFlags :: "cli_flag list \<Rightarrow> (string, flag_value) gomap \<Rightarrow> unit go" where
  "normalizeFlags flags actual =
     (case find (\<lambda>f. length (given_names actual f) > 1) flags of
        Some f \<Rightarrow> Err (''Cannot use two forms of the same flag: '' @ given_names actual f ! 1 @ '' '' @
                    given_names actual f ! 0)
      | None \<Rightarrow> Ret ())"

text \<open>
  The context: a name is looked up among the flags; a lookup at another type than the flag's, which
  the program does not make, gives the zero value.
\<close>

type_synonym applied = "(cli_flag \<times> flag_value \<times> bool) list"

definition ctx_flag :: "applied \<Rightarrow> string \<Rightarrow> (cli_flag \<times> flag_value \<times> bool) option" where
  "ctx_flag applied n = find (\<lambda>(f, _). n \<in> set (flag_Names f)) applied"

definition ctx_value :: "applied \<Rightarrow> (string, flag_value) gomap \<Rightarrow> string \<Rightarrow> flag_value option" where
  "ctx_value applied actual n =
     (case ctx_flag applied n of
        None \<Rightarrow> None
      | Some (f, v, _) \<Rightarrow> (case given actual f of Some v' \<Rightarrow> Some v' | None \<Rightarrow> Some v))"

definition new_context :: "applied \<Rightarrow> (string, flag_value) gomap \<Rightarrow> cli_context" where
  "new_context applied actual =
     \<lparr>cli_IsSet = (\<lambda>n. case ctx_flag applied n of None \<Rightarrow> False | Some (f, _, env) \<Rightarrow> given actual f \<noteq> None \<or> env),
      cli_String = (\<lambda>n. case ctx_value applied actual n of Some (StringValue s) \<Rightarrow> s | _ \<Rightarrow> []),
      cli_Bool = (\<lambda>n. case ctx_value applied actual n of Some (BoolValue b) \<Rightarrow> b | _ \<Rightarrow> False),
      cli_Duration = (\<lambda>n. case ctx_value applied actual n of Some (DurationValue d) \<Rightarrow> d | _ \<Rightarrow> 0),
      cli_StringSlice = (\<lambda>n. [])\<rparr>"

definition cli_parse ::
  "(string \<Rightarrow> int go) \<Rightarrow> (string \<Rightarrow> string option) \<Rightarrow> cli_flag list \<Rightarrow> (string \<times> string) list \<Rightarrow> cli_context go" where
  "cli_parse PD getenv flags args =
     gbind (mapM_go (\<lambda>f. gbind (apply_flag PD getenv f) (\<lambda>s. Ret (f, s))) flags) (\<lambda>applied.
     gbind (parse_args PD flags args []) (\<lambda>actual.
     gbind (normalizeFlags flags actual) (\<lambda>_. Ret (new_context applied actual))))"

section \<open>Which value a flag gets\<close>

text \<open>
  What command line and environment say of a flag, each on its own: the last text given with one
  of its names, and the first of its variables that is set.
\<close>

definition typed :: "(string \<Rightarrow> int go) \<Rightarrow> cli_flag \<Rightarrow> string \<Rightarrow> flag_value option" where
  "typed PD f t = (case parse_value PD (flag_Value f) t of Ret v \<Rightarrow> Some v | _ \<Rightarrow> None)"

definition arg_value :: "(string \<Rightarrow> int go) \<Rightarrow> (string \<times> string) list \<Rightarrow> cli_flag \<Rightarrow> flag_value option" where
  "arg_value PD args f =
     (case filter (\<lambda>(n, _). n \<in> set (flag_Names f)) args of
        [] \<Rightarrow> None
      | l \<Rightarrow> typed PD f (snd (last l)))"

definition env_value :: "(string \<Rightarrow> int go) \<Rightarrow> (string \<Rightarrow> string option) \<Rightarrow> cli_flag \<Rightarrow> flag_value option" where
  "env_value PD getenv f =
     (case flagFromEnv getenv (flag_EnvVars f) of
        None \<Rightarrow> None
      | Some (t, _) \<Rightarrow>
          if t = [] then (case flag_Value f of
              StringValue _ \<Rightarrow> Some (StringValue [])
            | BoolValue _ \<Rightarrow> Some (BoolValue False)
            | DurationValue _ \<Rightarrow> None)
          else typed PD f t)"

text \<open>Command line, environment, config file, default.\<close>

definition chosen ::
  "(string \<Rightarrow> int go) \<Rightarrow> (string \<Rightarrow> string option) \<Rightarrow> (string \<times> string) list \<Rightarrow> cli_flag \<Rightarrow>
   flag_value option \<Rightarrow> flag_value" where
  "chosen PD getenv args f fromFile =
     (case arg_value PD args f of Some v \<Rightarrow> v
      | None \<Rightarrow> (case env_value PD getenv f of Some v \<Rightarrow> v
      | None \<Rightarrow> (case fromFile of Some v \<Rightarrow> v
      | None \<Rightarrow> flag_Value f)))"

lemma apply_flag_Ret:
  "apply_flag PD getenv f = Ret (v, env) \<Longrightarrow>
   env = (env_value PD getenv f \<noteq> None) \<and>
   v = (case env_value PD getenv f of Some v \<Rightarrow> v | None \<Rightarrow> flag_Value f)"
  by (cases "flagFromEnv getenv (flag_EnvVars f)"; cases "flag_Value f")
    (auto simp: apply_flag_def env_value_def typed_def split: if_splits go.splits)

lemma parse_args_Ret:
  "parse_args PD flags args actual = Ret actual' \<Longrightarrow>
   gget actual' n =
     (case filter (\<lambda>(m, _). m = n) args of
        [] \<Rightarrow> gget actual n
      | l \<Rightarrow> (case find_flag flags n of Some f \<Rightarrow> typed PD f (snd (last l)) | None \<Rightarrow> None))"
proof (induction args arbitrary: actual)
  case (Cons a args)
  obtain m t where a: "a = (m, t)" by fastforce
  obtain f v where f: "find_flag flags m = Some f" "parse_value PD (flag_Value f) t = Ret v"
    and rest: "parse_args PD flags args (gset m v actual) = Ret actual'"
    using Cons.prems a by (auto split: option.splits go.splits)
  then have "typed PD f t = Some v" by (simp add: typed_def)
  then show ?case
    using Cons.IH [OF rest] a f by (auto simp: gget_gset split: list.splits)
qed simp

lemma parse_args_typed:
  "parse_args PD flags args actual = Ret actual' \<Longrightarrow> (n, t) \<in> set args \<Longrightarrow>
   \<exists>f v. find_flag flags n = Some f \<and> typed PD f t = Some v"
proof (induction args arbitrary: actual)
  case (Cons a args)
  obtain m u where a: "a = (m, u)" by fastforce
  obtain f v where "find_flag flags m = Some f" "parse_value PD (flag_Value f) u = Ret v"
    and "parse_args PD flags args (gset m v actual) = Ret actual'"
    using Cons.prems a by (auto split: option.splits go.splits)
  then show ?case
    using Cons.IH Cons.prems(2) a by (auto simp: typed_def)
qed simp

lemma given_visited:
  assumes "parse_args PD flags args [] = Ret actual" and "find_flag flags n = Some f"
  shows "gget actual n \<noteq> None \<longleftrightarrow> n \<in> fst ` set args"
proof (cases "filter (\<lambda>(m, _). m = n) args = []")
  case True
  then show ?thesis
    using parse_args_Ret [OF assms(1), of n] by (force simp: filter_empty_conv)
next
  case False
  let ?l = "filter (\<lambda>(m, _). m = n) args"
  have "last ?l \<in> set ?l" using False by (rule last_in_set)
  then have "last ?l \<in> set args" and "fst (last ?l) = n" by (auto simp: case_prod_beta)
  then have last: "(n, snd (last ?l)) \<in> set args" by (metis prod.collapse)
  from parse_args_typed [OF assms(1) this] obtain v where "typed PD f (snd (last ?l)) = Some v"
    using assms(2) by auto
  then have "gget actual n = Some v"
    using parse_args_Ret [OF assms(1), of n] assms(2) False by (auto split: list.splits)
  moreover have "n \<in> fst ` set args" using last by force
  ultimately show ?thesis by simp
qed

lemma given_arg_value:
  assumes "parse_args PD flags args [] = Ret actual" and "normalizeFlags flags actual = Ret ()"
    and "f \<in> set flags" and own: "\<And>n. n \<in> set (flag_Names f) \<Longrightarrow> find_flag flags n = Some f"
  shows "given actual f = arg_value PD args f"
proof -
  have visited: "gget actual n \<noteq> None \<longleftrightarrow> n \<in> fst ` set args" if "n \<in> set (flag_Names f)" for n
    using given_visited [OF assms(1) own [OF that]] .
  have one: "length (given_names actual f) \<le> 1"
    using assms(2,3) by (auto simp: normalizeFlags_def find_None_iff split: option.splits)
  show ?thesis
  proof (cases "given_names actual f")
    case Nil
    then have "filter (\<lambda>(n, _). n \<in> set (flag_Names f)) args = []"
      using visited by (force simp: given_names_def filter_empty_conv)
    with Nil show ?thesis by (simp add: given_def arg_value_def)
  next
    case (Cons n ns)
    with one have names: "given_names actual f = [n]" by simp
    then have "n \<in> set (given_names actual f)" by simp
    then have n: "n \<in> set (flag_Names f)" "gget actual n \<noteq> None"
      by (simp_all add: given_names_def)
    have "filter (\<lambda>(m, _). m \<in> set (flag_Names f)) args = filter (\<lambda>(m, _). m = n) args"
    proof (rule filter_cong)
      fix a assume a: "a \<in> set args"
      have "fst a = n" if "fst a \<in> set (flag_Names f)"
      proof -
        have "fst a \<in> set (given_names actual f)"
          using visited [OF that] that a by (auto simp: given_names_def)
        then show ?thesis using names by simp
      qed
      then show "(case a of (m, _) \<Rightarrow> m \<in> set (flag_Names f)) = (case a of (m, _) \<Rightarrow> m = n)"
        using n by (auto simp: case_prod_beta)
    qed simp
    then show ?thesis
      using parse_args_Ret [OF assms(1), of n] own [OF n(1)] n(2) names
      by (auto simp: given_def arg_value_def split: list.splits)
  qed
qed

text \<open>No two flags share a name.\<close>

definition own_names :: "cli_flag list \<Rightarrow> bool" where
  "own_names flags \<longleftrightarrow> list_all (\<lambda>f. list_all (\<lambda>n. find_flag flags n = Some f) (flag_Names f)) flags"

lemma ctx_flag_applied:
  "list_all2 (\<lambda>f a. gbind (apply_flag PD getenv f) (\<lambda>s. Ret (f, s)) = Ret a) flags applied \<Longrightarrow>
   find_flag flags n = Some f \<Longrightarrow>
   \<exists>s. ctx_flag applied n = Some (f, s) \<and> apply_flag PD getenv f = Ret s"
proof (induction flags applied rule: list_all2_induct)
  case (Cons g flags a applied)
  obtain s where "apply_flag PD getenv g = Ret s" "a = (g, s)"
    using Cons.hyps(1) by auto
  then show ?case
    using Cons.IH Cons.prems by (cases s) (auto simp: find_flag_def ctx_flag_def split: if_splits)
qed (simp add: find_flag_def)

lemma context_lookup:
  assumes "cli_parse PD getenv flags args = Ret c" and "own_names flags" and "f \<in> set flags"
    and "n \<in> set (flag_Names f)"
  shows "cli_IsSet c n \<longleftrightarrow> arg_value PD args f \<noteq> None \<or> env_value PD getenv f \<noteq> None"
    and "cli_String c n = (case chosen PD getenv args f None of StringValue s \<Rightarrow> s | _ \<Rightarrow> [])"
    and "cli_Bool c n = (case chosen PD getenv args f None of BoolValue b \<Rightarrow> b | _ \<Rightarrow> False)"
    and "cli_Duration c n = (case chosen PD getenv args f None of DurationValue d \<Rightarrow> d | _ \<Rightarrow> 0)"
proof -
  obtain applied actual where
    applied: "list_all2 (\<lambda>f a. gbind (apply_flag PD getenv f) (\<lambda>s. Ret (f, s)) = Ret a) flags applied"
    and parsed: "parse_args PD flags args [] = Ret actual"
    and normal: "normalizeFlags flags actual = Ret ()" and c: "c = new_context applied actual"
    using assms(1) by (auto simp: cli_parse_def mapM_go_Ret_iff)
  have own: "find_flag flags m = Some f" if "m \<in> set (flag_Names f)" for m
    using assms(2,3) that by (auto simp: own_names_def list_all_iff)
  have given: "given actual f = arg_value PD args f"
    by (rule given_arg_value [OF parsed normal assms(3) own])
  obtain v env where entry: "ctx_flag applied n = Some (f, v, env)" and "apply_flag PD getenv f = Ret (v, env)"
    using ctx_flag_applied [OF applied own [OF assms(4)]] by (auto simp: split_paired_all)
  with apply_flag_Ret have env: "env = (env_value PD getenv f \<noteq> None)"
    and v: "v = (case env_value PD getenv f of Some v \<Rightarrow> v | None \<Rightarrow> flag_Value f)"
    by blast+
  have val: "ctx_value applied actual n = Some (chosen PD getenv args f None)"
    by (simp add: ctx_value_def entry given chosen_def v split: option.splits)
  show "cli_IsSet c n \<longleftrightarrow> arg_value PD args f \<noteq> None \<or> env_value PD getenv f \<noteq> None"
    by (simp add: c new_context_def entry given env)
  show "cli_String c n = (case chosen PD getenv args f None of StringValue s \<Rightarrow> s | _ \<Rightarrow> [])"
    "cli_Bool c n = (case chosen PD getenv args f None of BoolValue b \<Rightarrow> b | _ \<Rightarrow> False)"
    "cli_Duration c n = (case chosen PD getenv args f None of DurationValue d \<Rightarrow> d | _ \<Rightarrow> 0)"
    by (simp_all add: c new_context_def val)
qed

text \<open>The value a flag gets is of its type.\<close>

fun same_type :: "flag_value \<Rightarrow> flag_value \<Rightarrow> bool" where
  "same_type (StringValue _) (StringValue _) = True"
| "same_type (BoolValue _) (BoolValue _) = True"
| "same_type (DurationValue _) (DurationValue _) = True"
| "same_type _ _ = False"

lemma typed_same_type: "typed PD f t = Some v \<Longrightarrow> same_type (flag_Value f) v"
  by (cases "flag_Value f") (auto simp: typed_def split: go.splits)

lemma chosen_same_type: "same_type (flag_Value f) (chosen PD getenv args f None)"
proof -
  have "same_type (flag_Value f) v" if "arg_value PD args f = Some v" for v
    using that typed_same_type by (auto simp: arg_value_def split: list.splits)
  moreover have "same_type (flag_Value f) v" if "env_value PD getenv f = Some v" for v
    using that typed_same_type [of PD f "fst (the (flagFromEnv getenv (flag_EnvVars f)))" v]
    by (auto simp: env_value_def split: option.splits if_splits flag_value.splits)
  moreover have "same_type v v" for v by (cases v) simp_all
  ultimately show ?thesis by (auto simp: chosen_def split: option.splits)
qed

lemma chosen_file:
  "chosen PD getenv args f (Some v) =
     (if arg_value PD args f \<noteq> None \<or> env_value PD getenv f \<noteq> None then chosen PD getenv args f None else v)"
  by (simp add: chosen_def split: option.splits)

lemma main_flags_own: "own_names main_flags"
  by code_simp

section \<open>Parsing does not crash\<close>

lemma cli_parse_no_crash:
  assumes PD: "\<And>t. no_crash (PD t)"
  shows "no_crash (cli_parse PD getenv flags args)"
proof -
  have bools: "no_crash (ParseBool t)" for t by (simp add: ParseBool_def)
  have texts: "no_crash (parse_value PD v t)" for v t
    by (cases v) (auto intro!: no_crash_gbind simp: PD bools)
  have "no_crash (apply_flag PD getenv f)" for f
    by (auto simp: apply_flag_def Let_def PD bools intro!: no_crash_gbind no_crash_wrap
        split: option.splits flag_value.splits)
  moreover have "no_crash (parse_args PD flags args actual)" for actual
  proof (induction args arbitrary: actual)
    case (Cons a args)
    obtain n t where a: "a = (n, t)" by fastforce
    show ?case
    proof (cases "find_flag flags n")
      case (Some f)
      then show ?thesis
        using texts [of "flag_Value f" t] Cons.IH by (cases "parse_value PD (flag_Value f) t") (simp_all add: a)
    qed (simp add: a)
  qed simp
  moreover have "no_crash (normalizeFlags flags actual)" for actual
    by (simp add: normalizeFlags_def split: option.splits)
  ultimately show ?thesis
    unfolding cli_parse_def by (intro no_crash_gbind mapM_go_no_crash) auto
qed

end
