(* ===== verification/Spec_Config.thy ===== *)
theory Spec_Config
  imports Cli
begin

text \<open>
  The configuration of the daemon: the types of the vendored
  \<^verbatim>\<open>k8s-device-plugin/api/config/v1\<close> package (\<^verbatim>\<open>config.go\<close>, \<^verbatim>\<open>flags.go\<close>, \<^verbatim>\<open>replicas.go\<close>,
  \<^verbatim>\<open>resources.go\<close>, \<^verbatim>\<open>sharing.go\<close>), how command line and config file are combined
  (\<open>UpdateFromCLIFlags\<close>, \<open>NewConfig\<close>), and the two steps \<^verbatim>\<open>cmd/gpu-feature-discovery/main.go\<close>
  adds: \<open>loadConfig\<close> and \<open>disableResourceRenamingInConfig\<close>.  A Go pointer field is an
  \<open>option\<close>; the files and the YAML decoder (\<^verbatim>\<open>sigs.k8s.io/yaml\<close>) are the record \<open>config_source\<close>, a
  parameter of \<open>parseConfig\<close>.
\<close>

section \<open>Types\<close>

text \<open>\<^verbatim>\<open>ReplicatedDevices\<close> is a union: all devices, a number of them, or a list (nil or not).\<close>

record replicated_devices =
  rd_All :: bool
  rd_Count :: int
  rd_List :: "string list option"

record replicated_resource =
  rr_Name :: string
  rr_Rename :: string
  rr_Devices :: replicated_devices
  rr_Replicas :: int

record time_slicing =
  ts_RenameByDefault :: bool
  ts_FailRequestsGreaterThanOne :: bool
  ts_Resources :: "replicated_resource list"

record spec_resource =
  res_Pattern :: string
  res_Name :: string

record plugin_flags =
  pf_PassDeviceSpecs :: "bool option"
  pf_DeviceListStrategy :: "string list option"
  pf_DeviceIDStrategy :: "string option"
  pf_CDIAnnotationPrefix :: "string option"
  pf_NvidiaCTKPath :: "string option"
  pf_ContainerDriverRoot :: "string option"

text \<open>A \<^verbatim>\<open>Duration\<close> is a number of nanoseconds.\<close>

record gfd_flags =
  gf_Oneshot :: "bool option"
  gf_NoTimestamp :: "bool option"
  gf_SleepInterval :: "int option"
  gf_OutputFile :: "string option"
  gf_MachineTypeFile :: "string option"

record flags =
  fl_MigStrategy :: "string option"
  fl_FailOnInitError :: "bool option"
  fl_NvidiaDriverRoot :: "string option"
  fl_GDSEnabled :: "bool option"
  fl_MOFEDEnabled :: "bool option"
  fl_Plugin :: "plugin_flags option"
  fl_GFD :: "gfd_flags option"

text \<open>\<^verbatim>\<open>Sharing\<close> has the one field \<^verbatim>\<open>TimeSlicing\<close>.\<close>

record config =
  cfg_Version :: string
  cfg_Flags :: flags
  cfg_GPUs :: "spec_resource list"
  cfg_MIGs :: "spec_resource list"
  cfg_TimeSlicing :: time_slicing

definition empty_plugin_flags :: plugin_flags where
  "empty_plugin_flags = \<lparr>pf_PassDeviceSpecs = None, pf_DeviceListStrategy = None,
     pf_DeviceIDStrategy = None, pf_CDIAnnotationPrefix = None, pf_NvidiaCTKPath = None,
     pf_ContainerDriverRoot = None\<rparr>"

definition empty_gfd_flags :: gfd_flags where
  "empty_gfd_flags = \<lparr>gf_Oneshot = None, gf_NoTimestamp = None, gf_SleepInterval = None,
     gf_OutputFile = None, gf_MachineTypeFile = None\<rparr>"

definition empty_flags :: flags where
  "empty_flags = \<lparr>fl_MigStrategy = None, fl_FailOnInitError = None, fl_NvidiaDriverRoot = None,
     fl_GDSEnabled = None, fl_MOFEDEnabled = None, fl_Plugin = None, fl_GFD = None\<rparr>"

definition Version :: string where
  "Version = ''v1''"

text \<open>\<^verbatim>\<open>&Config{Version: Version}\<close>: every other field has its zero value.\<close>

definition default_config :: config where
  "default_config = \<lparr>cfg_Version = Version, cfg_Flags = empty_flags, cfg_GPUs = [], cfg_MIGs = [],
     cfg_TimeSlicing = \<lparr>ts_RenameByDefault = False, ts_FailRequestsGreaterThanOne = False,
       ts_Resources = []\<rparr>\<rparr>"

section \<open>Flags from the command line\<close>

definition updateFromCLIFlag ::
  "('a option) \<Rightarrow> cli_context \<Rightarrow> (cli_context \<Rightarrow> string \<Rightarrow> 'a) \<Rightarrow> string \<Rightarrow> 'a option" where
  "updateFromCLIFlag pflag c get flagName =
     (if cli_IsSet c flagName \<or> pflag = None then Some (get c flagName) else pflag)"

definition update_common_flag :: "cli_context \<Rightarrow> string \<Rightarrow> flags \<Rightarrow> flags" where
  "update_common_flag c n f =
     (if n = ''mig-strategy''
        then f\<lparr>fl_MigStrategy := updateFromCLIFlag (fl_MigStrategy f) c cli_String n\<rparr>
      else if n = ''fail-on-init-error''
        then f\<lparr>fl_FailOnInitError := updateFromCLIFlag (fl_FailOnInitError f) c cli_Bool n\<rparr>
      else if n = ''nvidia-driver-root''
        then f\<lparr>fl_NvidiaDriverRoot := updateFromCLIFlag (fl_NvidiaDriverRoot f) c cli_String n\<rparr>
      else if n = ''gds-enabled''
        then f\<lparr>fl_GDSEnabled := updateFromCLIFlag (fl_GDSEnabled f) c cli_Bool n\<rparr>
      else if n = ''mofed-enabled''
        then f\<lparr>fl_MOFEDEnabled := updateFromCLIFlag (fl_MOFEDEnabled f) c cli_Bool n\<rparr>
      else f)"

definition update_plugin_flag :: "cli_context \<Rightarrow> string \<Rightarrow> plugin_flags \<Rightarrow> plugin_flags" where
  "update_plugin_flag c n p =
     (if n = ''pass-device-specs''
        then p\<lparr>pf_PassDeviceSpecs := updateFromCLIFlag (pf_PassDeviceSpecs p) c cli_Bool n\<rparr>
      else if n = ''device-list-strategy''
        then p\<lparr>pf_DeviceListStrategy := updateFromCLIFlag (pf_DeviceListStrategy p) c cli_StringSlice n\<rparr>
      else if n = ''device-id-strategy''
        then p\<lparr>pf_DeviceIDStrategy := updateFromCLIFlag (pf_DeviceIDStrategy p) c cli_String n\<rparr>
      else if n = ''cdi-annotation-prefix''
        then p\<lparr>pf_CDIAnnotationPrefix := updateFromCLIFlag (pf_CDIAnnotationPrefix p) c cli_String n\<rparr>
      else if n = ''nvidia-ctk-path''
        then p\<lparr>pf_NvidiaCTKPath := updateFromCLIFlag (pf_NvidiaCTKPath p) c cli_String n\<rparr>
      else if n = ''container-driver-root''
        then p\<lparr>pf_ContainerDriverRoot := updateFromCLIFlag (pf_ContainerDriverRoot p) c cli_String n\<rparr>
      else p)"

definition update_gfd_flag :: "cli_context \<Rightarrow> string \<Rightarrow> gfd_flags \<Rightarrow> gfd_flags" where
  "update_gfd_flag c n g =
     (if n = ''oneshot''
        then g\<lparr>gf_Oneshot := updateFromCLIFlag (gf_Oneshot g) c cli_Bool n\<rparr>
      else if n = ''output-file''
        then g\<lparr>gf_OutputFile := updateFromCLIFlag (gf_OutputFile g) c cli_String n\<rparr>
      else if n = ''sleep-interval''
        then g\<lparr>gf_SleepInterval := updateFromCLIFlag (gf_SleepInterval g) c cli_Duration n\<rparr>
      else if n = ''no-timestamp''
        then g\<lparr>gf_NoTimestamp := updateFromCLIFlag (gf_NoTimestamp g) c cli_Bool n\<rparr>
      else if n = ''machine-type-file''
        then g\<lparr>gf_MachineTypeFile := updateFromCLIFlag (gf_MachineTypeFile g) c cli_String n\<rparr>
      else g)"

text \<open>One round of the loop: the three switches, the plugin and GFD parts made when nil.\<close>

definition update_flag :: "cli_context \<Rightarrow> string \<Rightarrow> flags \<Rightarrow> flags" where
  "update_flag c n f =
     (let f1 = update_common_flag c n f;
          p = (case fl_Plugin f1 of None \<Rightarrow> empty_plugin_flags | Some p \<Rightarrow> p);
          f2 = f1\<lparr>fl_Plugin := Some (update_plugin_flag c n p)\<rparr>;
          g = (case fl_GFD f2 of None \<Rightarrow> empty_gfd_flags | Some g \<Rightarrow> g)
      in f2\<lparr>fl_GFD := Some (update_gfd_flag c n g)\<rparr>)"

text \<open>A flag is given by its names (its name, then its aliases).\<close>

definition UpdateFromCLIFlags :: "cli_context \<Rightarrow> string list list \<Rightarrow> flags \<Rightarrow> flags" where
  "UpdateFromCLIFlags c fs f = fold (fold (update_flag c)) fs f"

section \<open>The config file\<close>

text \<open>
  \<open>cs_Open\<close> is \<^verbatim>\<open>os.Open\<close>, where a reader is what \<^verbatim>\<open>io.ReadAll\<close> gets out of it (the bytes of the
  file or an error); \<open>cs_Unmarshal\<close> is \<^verbatim>\<open>yaml.Unmarshal\<close> into a zero \<^verbatim>\<open>Config\<close>.
\<close>

type_synonym reader = "string go"

record config_source =
  cs_Open :: "string \<Rightarrow> reader go"
  cs_Unmarshal :: "string \<Rightarrow> config go"

definition parseConfigFrom :: "config_source \<Rightarrow> reader \<Rightarrow> config go" where
  "parseConfigFrom F reader =
     gbind (wrap ''read error: '' reader) (\<lambda>configYaml.
     gbind (wrap ''unmarshal error: '' (cs_Unmarshal F configYaml)) (\<lambda>config0.
     let config = (if cfg_Version config0 = [] then config0\<lparr>cfg_Version := Version\<rparr> else config0) in
     if cfg_Version config \<noteq> Version then Err (''unknown version: '' @ cfg_Version config)
     else Ret config))"

definition parseConfig :: "config_source \<Rightarrow> string \<Rightarrow> config go" where
  "parseConfig F configFile =
     gbind (wrap ''error opening config file: '' (cs_Open F configFile)) (\<lambda>reader.
     wrap ''error parsing config file: '' (parseConfigFrom F reader))"

lemma parseConfig_version: "parseConfig F path = Ret config \<Longrightarrow> cfg_Version config = Version"
  by (auto simp: parseConfig_def parseConfigFrom_def Let_def split: if_splits)

lemma parseConfig_no_crash:
  assumes "no_crash (cs_Open F path)" and "\<And>r. cs_Open F path = Ret r \<Longrightarrow> no_crash r"
    and "\<And>t. no_crash (cs_Unmarshal F t)"
  shows "no_crash (parseConfig F path)"
  using assms by (auto simp: parseConfig_def parseConfigFrom_def Let_def intro!: no_crash_gbind)

definition NewConfig ::
  "config_source \<Rightarrow> cli_context \<Rightarrow> string list list \<Rightarrow> config go" where
  "NewConfig F c fs =
     gbind (let configFile = cli_String c ''config-file'' in
            if configFile \<noteq> [] then wrap ''unable to parse config file: '' (parseConfig F configFile)
            else Ret default_config)
       (\<lambda>config. Ret (config\<lparr>cfg_Flags := UpdateFromCLIFlags c fs (cfg_Flags config)\<rparr>))"

text \<open>The names of the flags \<^verbatim>\<open>main\<close> declares.\<close>

definition gfd_flag_names :: "string list list" where
  "gfd_flag_names = map flag_Names main_flags"

lemma gfd_flag_names_eq:
  "gfd_flag_names =
     [[''mig-strategy''], [''fail-on-init-error''], [''oneshot''], [''no-timestamp''],
      [''sleep-interval''], [''output-file'', ''output'', ''o''], [''machine-type-file''],
      [''config-file''], [''use-node-feature-api'']]"
  by (simp add: gfd_flag_names_def main_flags_def flag_Names_def)

definition validateFlags :: "config \<Rightarrow> unit go" where
  "validateFlags config = Ret ()"

definition loadConfig ::
  "config_source \<Rightarrow> cli_context \<Rightarrow> string list list \<Rightarrow> config go" where
  "loadConfig F c fs =
     gbind (wrap ''unable to finalize config: '' (NewConfig F c fs)) (\<lambda>config.
     gbind (wrap ''unable to validate flags: '' (validateFlags config)) (\<lambda>_.
     Ret (config\<lparr>cfg_Flags := (cfg_Flags config)\<lparr>fl_Plugin := None\<rparr>\<rparr>)))"

section \<open>Resource renaming\<close>

text \<open>\<^verbatim>\<open>ResourceName.DefaultSharedRename\<close>.\<close>

definition DefaultSharedRename :: "string \<Rightarrow> string" where
  "DefaultSharedRename r = r @ ''.shared''"

text \<open>
  The body of the loop over \<^verbatim>\<open>Sharing.TimeSlicing.Resources\<close>; the loop variable \<^verbatim>\<open>r\<close> is a copy,
  so both tests on the name read the value before any assignment.
\<close>

definition disable_renaming_of :: "bool \<Rightarrow> replicated_resource \<Rightarrow> replicated_resource" where
  "disable_renaming_of renameByDefault r =
     (let r1 = (if \<not> renameByDefault \<and> rr_Rename r \<noteq> [] then r\<lparr>rr_Rename := []\<rparr> else r);
          r2 = (if renameByDefault \<and> rr_Rename r \<noteq> DefaultSharedRename (rr_Name r)
                then r1\<lparr>rr_Rename := DefaultSharedRename (rr_Name r)\<rparr> else r1)
      in if \<not> rd_All (rr_Devices r)
         then r2\<lparr>rr_Devices := (rr_Devices r2)\<lparr>rd_All := True, rd_Count := 0, rd_List := None\<rparr>\<rparr>
         else r2)"

definition disableResourceRenamingInConfig :: "config \<Rightarrow> config" where
  "disableResourceRenamingInConfig config =
     (let ts = cfg_TimeSlicing config in
      config\<lparr>cfg_GPUs := [], cfg_MIGs := [],
        cfg_TimeSlicing := ts\<lparr>ts_Resources :=
          map (disable_renaming_of (ts_RenameByDefault ts)) (ts_Resources ts)\<rparr>\<rparr>)"

text \<open>What a resource entry looks like after the step.\<close>

definition renaming_disabled :: "bool \<Rightarrow> replicated_resource \<Rightarrow> bool" where
  "renaming_disabled byDefault r \<longleftrightarrow>
     rd_All (rr_Devices r) \<and>
     rr_Rename r = (if byDefault then DefaultSharedRename (rr_Name r) else [])"

lemma disable_renaming_of_disabled: "renaming_disabled d (disable_renaming_of d r)"
  by (simp add: renaming_disabled_def disable_renaming_of_def Let_def)

lemma disable_renaming_of_keeps [simp]:
  "rr_Name (disable_renaming_of d r) = rr_Name r"
  "rr_Replicas (disable_renaming_of d r) = rr_Replicas r"
  by (simp_all add: disable_renaming_of_def Let_def)

lemma disable_renaming_of_id: "renaming_disabled d r \<Longrightarrow> disable_renaming_of d r = r"
  by (simp add: renaming_disabled_def disable_renaming_of_def Let_def)

lemma disable_keeps_flags [simp]: "cfg_Flags (disableResourceRenamingInConfig c) = cfg_Flags c"
  by (simp add: disableResourceRenamingInConfig_def Let_def)

section \<open>Which value a flag gets\<close>

text \<open>The precedence the code documents: command line (or environment), config file, default.\<close>

definition resolve :: "cli_context \<Rightarrow> (cli_context \<Rightarrow> string \<Rightarrow> 'a) \<Rightarrow> string \<Rightarrow> 'a option \<Rightarrow> 'a" where
  "resolve c get n file =
     (case file of Some v \<Rightarrow> if cli_IsSet c n then get c n else v | None \<Rightarrow> get c n)"

lemma updateFromCLIFlag_resolve: "updateFromCLIFlag p c get n = Some (resolve c get n p)"
  by (cases p) (simp_all add: updateFromCLIFlag_def resolve_def)

text \<open>Every pointer the daemon later reads through is set.\<close>

definition gfd_ready :: "gfd_flags \<Rightarrow> bool" where
  "gfd_ready g \<longleftrightarrow> gf_Oneshot g \<noteq> None \<and> gf_NoTimestamp g \<noteq> None \<and> gf_SleepInterval g \<noteq> None \<and>
     gf_OutputFile g \<noteq> None \<and> gf_MachineTypeFile g \<noteq> None"

definition config_ready :: "config \<Rightarrow> bool" where
  "config_ready config \<longleftrightarrow>
     fl_MigStrategy (cfg_Flags config) \<noteq> None \<and> fl_FailOnInitError (cfg_Flags config) \<noteq> None \<and>
     (case fl_GFD (cfg_Flags config) of None \<Rightarrow> False | Some g \<Rightarrow> gfd_ready g)"

text \<open>
  The value of \<^verbatim>\<open>Flags\<close> after the loop over \<open>gfd_flag_names\<close>, by evaluation of the nine
  rounds of the loop.
\<close>

definition file_gfd :: "flags \<Rightarrow> gfd_flags" where
  "file_gfd f = (case fl_GFD f of None \<Rightarrow> empty_gfd_flags | Some g \<Rightarrow> g)"

lemma UpdateFromCLIFlags_gfd:
  "fl_MigStrategy (UpdateFromCLIFlags c gfd_flag_names f) =
     Some (resolve c cli_String ''mig-strategy'' (fl_MigStrategy f))"
  "fl_FailOnInitError (UpdateFromCLIFlags c gfd_flag_names f) =
     Some (resolve c cli_Bool ''fail-on-init-error'' (fl_FailOnInitError f))"
  "fl_GFD (UpdateFromCLIFlags c gfd_flag_names f) = Some
     \<lparr>gf_Oneshot = Some (resolve c cli_Bool ''oneshot'' (gf_Oneshot (file_gfd f))),
      gf_NoTimestamp = Some (resolve c cli_Bool ''no-timestamp'' (gf_NoTimestamp (file_gfd f))),
      gf_SleepInterval =
        Some (resolve c cli_Duration ''sleep-interval'' (gf_SleepInterval (file_gfd f))),
      gf_OutputFile = Some (resolve c cli_String ''output-file'' (gf_OutputFile (file_gfd f))),
      gf_MachineTypeFile =
        Some (resolve c cli_String ''machine-type-file'' (gf_MachineTypeFile (file_gfd f)))\<rparr>"
  by (simp_all add: UpdateFromCLIFlags_def gfd_flag_names_eq update_flag_def Let_def
      update_common_flag_def update_plugin_flag_def update_gfd_flag_def file_gfd_def
      updateFromCLIFlag_resolve)

lemma loadConfig_Ret:
  "loadConfig F c fs = Ret config \<Longrightarrow>
   \<exists>config0. (cli_String c ''config-file'' = [] \<and> config0 = default_config \<or>
              cli_String c ''config-file'' \<noteq> [] \<and> parseConfig F (cli_String c ''config-file'') = Ret config0) \<and>
     config = config0\<lparr>cfg_Flags := (UpdateFromCLIFlags c fs (cfg_Flags config0))\<lparr>fl_Plugin := None\<rparr>\<rparr>"
  by (auto simp: loadConfig_def NewConfig_def validateFlags_def Let_def split: if_splits)

text \<open>The same, from the command line and the environment.\<close>

lemma find_flag_in:
  assumes "find_flag main_flags n = Some f"
  shows "f \<in> set main_flags" and "n \<in> set (flag_Names f)"
  using assms by (auto simp: find_flag_def find_Some_iff)

lemma resolve_chosen:
  assumes "cli_parse PD getenv main_flags args = Ret c" and "find_flag main_flags n = Some f"
  shows "same_type (flag_Value f) (StringValue []) \<Longrightarrow>
      StringValue (resolve c cli_String n p) = chosen PD getenv args f (map_option StringValue p)"
    and "same_type (flag_Value f) (BoolValue False) \<Longrightarrow>
      BoolValue (resolve c cli_Bool n q) = chosen PD getenv args f (map_option BoolValue q)"
    and "same_type (flag_Value f) (DurationValue 0) \<Longrightarrow>
      DurationValue (resolve c cli_Duration n r) = chosen PD getenv args f (map_option DurationValue r)"
proof -
  note look = context_lookup [OF assms(1) main_flags_own find_flag_in [OF assms(2)]]
  have ty: "same_type (flag_Value f) (chosen PD getenv args f None)" by (rule chosen_same_type)
  show "same_type (flag_Value f) (StringValue []) \<Longrightarrow>
      StringValue (resolve c cli_String n p) = chosen PD getenv args f (map_option StringValue p)"
    using ty by (cases p; cases "flag_Value f"; cases "chosen PD getenv args f None")
      (auto simp: resolve_def look chosen_file)
  show "same_type (flag_Value f) (BoolValue False) \<Longrightarrow>
      BoolValue (resolve c cli_Bool n q) = chosen PD getenv args f (map_option BoolValue q)"
    using ty by (cases q; cases "flag_Value f"; cases "chosen PD getenv args f None")
      (auto simp: resolve_def look chosen_file)
  show "same_type (flag_Value f) (DurationValue 0) \<Longrightarrow>
      DurationValue (resolve c cli_Duration n r) = chosen PD getenv args f (map_option DurationValue r)"
    using ty by (cases r; cases "flag_Value f"; cases "chosen PD getenv args f None")
      (auto simp: resolve_def look chosen_file)
qed

lemma main_flag_found:
  "find_flag main_flags ''config-file'' = Some (the (find_flag main_flags ''config-file''))"
  "find_flag main_flags ''mig-strategy'' = Some (the (find_flag main_flags ''mig-strategy''))"
  "find_flag main_flags ''fail-on-init-error'' = Some (the (find_flag main_flags ''fail-on-init-error''))"
  "find_flag main_flags ''oneshot'' = Some (the (find_flag main_flags ''oneshot''))"
  "find_flag main_flags ''no-timestamp'' = Some (the (find_flag main_flags ''no-timestamp''))"
  "find_flag main_flags ''sleep-interval'' = Some (the (find_flag main_flags ''sleep-interval''))"
  "find_flag main_flags ''output-file'' = Some (the (find_flag main_flags ''output-file''))"
  "find_flag main_flags ''machine-type-file'' = Some (the (find_flag main_flags ''machine-type-file''))"
  by code_simp+

lemma main_flag_type:
  "same_type (flag_Value (the (find_flag main_flags ''config-file''))) (StringValue [])"
  "same_type (flag_Value (the (find_flag main_flags ''mig-strategy''))) (StringValue [])"
  "same_type (flag_Value (the (find_flag main_flags ''fail-on-init-error''))) (BoolValue False)"
  "same_type (flag_Value (the (find_flag main_flags ''oneshot''))) (BoolValue False)"
  "same_type (flag_Value (the (find_flag main_flags ''no-timestamp''))) (BoolValue False)"
  "same_type (flag_Value (the (find_flag main_flags ''sleep-interval''))) (DurationValue 0)"
  "same_type (flag_Value (the (find_flag main_flags ''output-file''))) (StringValue [])"
  "same_type (flag_Value (the (find_flag main_flags ''machine-type-file''))) (StringValue [])"
  by code_simp+

section \<open>Properties\<close>

text \<open>
  The configuration \<open>loadConfig\<close> makes of what the file says: every flag of the daemon is
  resolved, the flags of the device plugin are dropped, the rest is kept.
\<close>

definition resolved_config :: "cli_context \<Rightarrow> config \<Rightarrow> config" where
  "resolved_config c file =
     (let f = cfg_Flags file; g = file_gfd f in
      file\<lparr>cfg_Flags :=
        \<lparr>fl_MigStrategy = Some (resolve c cli_String ''mig-strategy'' (fl_MigStrategy f)),
         fl_FailOnInitError = Some (resolve c cli_Bool ''fail-on-init-error'' (fl_FailOnInitError f)),
         fl_NvidiaDriverRoot = fl_NvidiaDriverRoot f, fl_GDSEnabled = fl_GDSEnabled f,
         fl_MOFEDEnabled = fl_MOFEDEnabled f, fl_Plugin = None,
         fl_GFD = Some
           \<lparr>gf_Oneshot = Some (resolve c cli_Bool ''oneshot'' (gf_Oneshot g)),
            gf_NoTimestamp = Some (resolve c cli_Bool ''no-timestamp'' (gf_NoTimestamp g)),
            gf_SleepInterval = Some (resolve c cli_Duration ''sleep-interval'' (gf_SleepInterval g)),
            gf_OutputFile = Some (resolve c cli_String ''output-file'' (gf_OutputFile g)),
            gf_MachineTypeFile =
              Some (resolve c cli_String ''machine-type-file'' (gf_MachineTypeFile g))\<rparr>\<rparr>\<rparr>)"

lemma update_flag_other:
  "fl_NvidiaDriverRoot (UpdateFromCLIFlags c gfd_flag_names f) = fl_NvidiaDriverRoot f"
  "fl_GDSEnabled (UpdateFromCLIFlags c gfd_flag_names f) = fl_GDSEnabled f"
  "fl_MOFEDEnabled (UpdateFromCLIFlags c gfd_flag_names f) = fl_MOFEDEnabled f"
  by (simp_all add: UpdateFromCLIFlags_def gfd_flag_names_eq update_flag_def
      update_common_flag_def Let_def)

lemma resolved_flags:
  "(UpdateFromCLIFlags c gfd_flag_names (cfg_Flags file))\<lparr>fl_Plugin := None\<rparr> =
   cfg_Flags (resolved_config c file)"
  by (rule flags.equality)
    (simp_all add: resolved_config_def Let_def UpdateFromCLIFlags_gfd update_flag_other)

lemma loadConfig_resolved:
  "loadConfig F c gfd_flag_names =
    (if cli_String c ''config-file'' = [] then Ret (resolved_config c default_config)
     else case parseConfig F (cli_String c ''config-file'') of
         Ret file \<Rightarrow> Ret (resolved_config c file)
       | Err e \<Rightarrow> Err (''unable to finalize config: unable to parse config file: '' @ e)
       | Panic p \<Rightarrow> Panic p
       | Diverge \<Rightarrow> Diverge)"
proof -
  have "config\<lparr>cfg_Flags := cfg_Flags (resolved_config c config)\<rparr> = resolved_config c config" for config
    by (simp add: resolved_config_def Let_def)
  then show ?thesis
    by (simp add: loadConfig_def NewConfig_def validateFlags_def Let_def resolved_flags
        split: go.splits)
qed

text \<open>Only a configuration of version v1 is ever used, whatever the config file says.\<close>

theorem loadConfig_version:
  "loadConfig F c fs = Ret config \<Longrightarrow> cfg_Version config = ''v1''"
  by (auto dest!: loadConfig_Ret parseConfig_version simp: default_config_def Version_def)

text \<open>Each flag has the value given on the command line when it is set there, else that of
  the config file, else the default, and a config file that cannot be parsed is an error.\<close>

theorem loadConfig_precedence:
  "loadConfig F c gfd_flag_names =
    (if cli_String c ''config-file'' = [] then Ret (resolved_config c default_config)
     else case parseConfig F (cli_String c ''config-file'') of
         Ret file \<Rightarrow> Ret (resolved_config c file)
       | Err e \<Rightarrow> Err (''unable to finalize config: unable to parse config file: '' @ e)
       | Panic p \<Rightarrow> Panic p
       | Diverge \<Rightarrow> Diverge)"
  by (rule loadConfig_resolved)

text \<open>Every flag has the value last given on the command line under one of its names, else that
  of the first of its environment variables that is set, else that of the config file, else its
  default.  The README gives the environment precedence over the command line.\<close>

theorem flag_choice:
  assumes "cli_parse PD getenv main_flags args = Ret c"
    and "(if cli_String c ''config-file'' = [] then Ret default_config
          else parseConfig F (cli_String c ''config-file'')) = Ret file"
  shows "\<exists>config g. loadConfig F c gfd_flag_names = Ret config \<and> fl_GFD (cfg_Flags config) = Some g \<and>
    (let choice = (\<lambda>n. chosen PD getenv args (the (find_flag main_flags n)));
         F = cfg_Flags config; F0 = cfg_Flags file; g0 = file_gfd F0 in
     StringValue (cli_String c ''config-file'') = choice ''config-file'' None \<and>
     map_option StringValue (fl_MigStrategy F) =
       Some (choice ''mig-strategy'' (map_option StringValue (fl_MigStrategy F0))) \<and>
     map_option BoolValue (fl_FailOnInitError F) =
       Some (choice ''fail-on-init-error'' (map_option BoolValue (fl_FailOnInitError F0))) \<and>
     map_option BoolValue (gf_Oneshot g) =
       Some (choice ''oneshot'' (map_option BoolValue (gf_Oneshot g0))) \<and>
     map_option BoolValue (gf_NoTimestamp g) =
       Some (choice ''no-timestamp'' (map_option BoolValue (gf_NoTimestamp g0))) \<and>
     map_option DurationValue (gf_SleepInterval g) =
       Some (choice ''sleep-interval'' (map_option DurationValue (gf_SleepInterval g0))) \<and>
     map_option StringValue (gf_OutputFile g) =
       Some (choice ''output-file'' (map_option StringValue (gf_OutputFile g0))) \<and>
     map_option StringValue (gf_MachineTypeFile g) =
       Some (choice ''machine-type-file'' (map_option StringValue (gf_MachineTypeFile g0))))"
proof -
  have load: "loadConfig F c gfd_flag_names = Ret (resolved_config c file)"
    using assms(2) by (auto simp: loadConfig_resolved split: if_splits)
  note choices = resolve_chosen(1) [OF assms(1) main_flag_found(1) main_flag_type(1)]
    resolve_chosen(1) [OF assms(1) main_flag_found(2) main_flag_type(2)]
    resolve_chosen(2) [OF assms(1) main_flag_found(3) main_flag_type(3)]
    resolve_chosen(2) [OF assms(1) main_flag_found(4) main_flag_type(4)]
    resolve_chosen(2) [OF assms(1) main_flag_found(5) main_flag_type(5)]
    resolve_chosen(3) [OF assms(1) main_flag_found(6) main_flag_type(6)]
    resolve_chosen(1) [OF assms(1) main_flag_found(7) main_flag_type(7)]
    resolve_chosen(1) [OF assms(1) main_flag_found(8) main_flag_type(8)]
  have "StringValue (cli_String c ''config-file'') =
      chosen PD getenv args (the (find_flag main_flags ''config-file'')) None"
    using choices(1) [of None] by (simp add: resolve_def)
  with load choices(2-) show ?thesis
    by (simp add: resolved_config_def Let_def)
qed

text \<open>The precedence the README gives, and when the order of its first two sources does not matter.\<close>

definition documented_choice ::
  "(string \<Rightarrow> int go) \<Rightarrow> (string \<Rightarrow> string option) \<Rightarrow> (string \<times> string) list \<Rightarrow> cli_flag \<Rightarrow>
   flag_value option \<Rightarrow> flag_value" where
  "documented_choice PD getenv args f fromFile =
     (case env_value PD getenv f of Some v \<Rightarrow> v
      | None \<Rightarrow> (case arg_value PD args f of Some v \<Rightarrow> v
      | None \<Rightarrow> (case fromFile of Some v \<Rightarrow> v
      | None \<Rightarrow> flag_Value f)))"

definition no_conflict ::
  "(string \<Rightarrow> int go) \<Rightarrow> (string \<Rightarrow> string option) \<Rightarrow> (string \<times> string) list \<Rightarrow> bool" where
  "no_conflict PD getenv args =
     list_all (\<lambda>f. case (arg_value PD args f, env_value PD getenv f) of
         (Some v, Some v') \<Rightarrow> v = v'
       | _ \<Rightarrow> True) main_flags"

lemma documented_chosen:
  assumes "no_conflict PD getenv args" and "find_flag main_flags n = Some f"
  shows "chosen PD getenv args f = documented_choice PD getenv args f"
proof -
  have "case (arg_value PD args f, env_value PD getenv f) of (Some v, Some v') \<Rightarrow> v = v' | _ \<Rightarrow> True"
    using assms find_flag_in(1) [OF assms(2)] by (auto simp: no_conflict_def list_all_iff)
  then show ?thesis
    by (auto simp: fun_eq_iff chosen_def documented_choice_def split: option.splits)
qed

text \<open>C33: When the command line is accepted, the config file can be read, and no option of the
  command line contradicts the environment, every flag has the value of the first of its environment variables that is set, else the one last given on the
  command line under one of its names, else that of the config file, else its default.  The name of
  the config file itself is chosen in the same way.\<close>

theorem flag_precedence:
  assumes "cli_parse PD getenv main_flags args = Ret c" and "no_conflict PD getenv args"
    and "(if cli_String c ''config-file'' = [] then Ret default_config
          else parseConfig F (cli_String c ''config-file'')) = Ret file"
  shows "\<exists>config g. loadConfig F c gfd_flag_names = Ret config \<and> fl_GFD (cfg_Flags config) = Some g \<and>
    (let choice = (\<lambda>n. documented_choice PD getenv args (the (find_flag main_flags n)));
         F = cfg_Flags config; F0 = cfg_Flags file; g0 = file_gfd F0 in
     StringValue (cli_String c ''config-file'') = choice ''config-file'' None \<and>
     map_option StringValue (fl_MigStrategy F) =
       Some (choice ''mig-strategy'' (map_option StringValue (fl_MigStrategy F0))) \<and>
     map_option BoolValue (fl_FailOnInitError F) =
       Some (choice ''fail-on-init-error'' (map_option BoolValue (fl_FailOnInitError F0))) \<and>
     map_option BoolValue (gf_Oneshot g) =
       Some (choice ''oneshot'' (map_option BoolValue (gf_Oneshot g0))) \<and>
     map_option BoolValue (gf_NoTimestamp g) =
       Some (choice ''no-timestamp'' (map_option BoolValue (gf_NoTimestamp g0))) \<and>
     map_option DurationValue (gf_SleepInterval g) =
       Some (choice ''sleep-interval'' (map_option DurationValue (gf_SleepInterval g0))) \<and>
     map_option StringValue (gf_OutputFile g) =
       Some (choice ''output-file'' (map_option StringValue (gf_OutputFile g0))) \<and>
     map_option StringValue (gf_MachineTypeFile g) =
       Some (choice ''machine-type-file'' (map_option StringValue (gf_MachineTypeFile g0))))"
  using flag_choice [OF assms(1,3)]
  unfolding documented_chosen [OF assms(2) main_flag_found(1)] documented_chosen [OF assms(2) main_flag_found(2)]
    documented_chosen [OF assms(2) main_flag_found(3)] documented_chosen [OF assms(2) main_flag_found(4)]
    documented_chosen [OF assms(2) main_flag_found(5)] documented_chosen [OF assms(2) main_flag_found(6)]
    documented_chosen [OF assms(2) main_flag_found(7)] documented_chosen [OF assms(2) main_flag_found(8)]
    Let_def .

text \<open>A config file that is empty; two options are given, one of them twice, and the environment sets
  every flag, or every flag but these two.\<close>

definition sample_source :: config_source where
  "sample_source = \<lparr>cs_Open = (\<lambda>path. Ret (Ret [])),
     cs_Unmarshal = (\<lambda>t. Ret (default_config\<lparr>cfg_Version := []\<rparr>))\<rparr>"

lemma sample_source_config: "parseConfig sample_source path = Ret default_config"
  by (simp add: parseConfig_def parseConfigFrom_def sample_source_def Let_def default_config_def Version_def)

definition sample_env_var :: "string \<Rightarrow> string option" where
  "sample_env_var v = Some ''true''"

definition sample_env_rest :: "string \<Rightarrow> string option" where
  "sample_env_rest v = (if v \<in> {''GFD_MIG_STRATEGY'', ''MIG_STRATEGY'', ''GFD_OUTPUT_FILE''} then None else Some ''true'')"

definition sample_args :: "(string \<times> string) list" where
  "sample_args = [(''mig-strategy'', ''single''), (''o'', ''/args''), (''mig-strategy'', ''mixed'')]"

definition sample_PD :: "string \<Rightarrow> int go" where
  "sample_PD t = Ret 7"

lemma variable_names:
  "list_all (\<lambda>f. list_all (\<lambda>v. trim_space v = v) (flag_EnvVars f)) main_flags"
  by (simp add: main_flags_def trim_space_word)

lemmas variable_name [simp] = variable_names [unfolded main_flags_def, simplified]

lemma sample_parse: "\<exists>c. cli_parse sample_PD sample_env_rest main_flags sample_args = Ret c"
proof -
  have "mapM_go (\<lambda>f. gbind (apply_flag sample_PD sample_env_rest f) (\<lambda>s. Ret (f, s))) main_flags =
      Ret (map (\<lambda>f. (f, if flag_Name f \<in> {''mig-strategy'', ''output-file''} then (flag_Value f, False)
          else case flag_Value f of StringValue _ \<Rightarrow> (StringValue ''true'', True)
          | BoolValue _ \<Rightarrow> (BoolValue True, True) | DurationValue _ \<Rightarrow> (DurationValue 7, True))) main_flags)"
    by (simp add: main_flags_def apply_flag_def sample_env_rest_def sample_PD_def ParseBool_def)
  moreover have "case parse_args sample_PD main_flags sample_args [] of
      Ret actual \<Rightarrow> normalizeFlags main_flags actual = Ret () | _ \<Rightarrow> False"
    by code_simp
  ultimately show ?thesis by (auto simp: cli_parse_def split: go.splits)
qed

lemma sample_no_conflict: "no_conflict sample_PD sample_env_rest sample_args"
  by (simp add: no_conflict_def main_flags_def arg_value_def env_value_def flag_Names_def sample_args_def
      sample_env_rest_def typed_def)

theorem flag_precedence_witness:
  "\<exists>c config g. cli_parse sample_PD sample_env_rest main_flags sample_args = Ret c \<and>
     loadConfig sample_source c gfd_flag_names = Ret config \<and> fl_GFD (cfg_Flags config) = Some g \<and>
     fl_MigStrategy (cfg_Flags config) = Some ''mixed'' \<and> gf_OutputFile g = Some ''/args'' \<and>
     gf_Oneshot g = Some True \<and> gf_SleepInterval g = Some 7"
proof -
  obtain c where c: "cli_parse sample_PD sample_env_rest main_flags sample_args = Ret c"
    using sample_parse by blast
  let ?ch = "\<lambda>n. documented_choice sample_PD sample_env_rest sample_args (the (find_flag main_flags n)) None"
  have "?ch ''mig-strategy'' = StringValue ''mixed''" "?ch ''output-file'' = StringValue ''/args''"
    "?ch ''oneshot'' = BoolValue True" "?ch ''sleep-interval'' = DurationValue 7"
    by (simp_all add: find_flag_def main_flags_def flag_Names_def documented_choice_def arg_value_def env_value_def
        sample_args_def sample_env_rest_def sample_PD_def typed_def ParseBool_def)
  moreover have conf: "(if cli_String c ''config-file'' = [] then Ret default_config
      else parseConfig sample_source (cli_String c ''config-file'')) = Ret default_config"
    by (simp add: sample_source_config)
  ultimately show ?thesis
    using flag_precedence [OF c sample_no_conflict conf] c
    by (auto simp: Let_def default_config_def empty_flags_def empty_gfd_flags_def file_gfd_def)
qed

text \<open>C34: Disabling renaming clears the resource patterns, makes every entry share all devices
  under the default shared name or none, keeps names, replica counts and flags, and does nothing
  the second time.\<close>

theorem disableResourceRenaming_effect:
  "cfg_GPUs (disableResourceRenamingInConfig c) = [] \<and>
   cfg_MIGs (disableResourceRenamingInConfig c) = [] \<and>
   cfg_Flags (disableResourceRenamingInConfig c) = cfg_Flags c \<and>
   list_all2
     (\<lambda>r r'. rr_Name r' = rr_Name r \<and> rr_Replicas r' = rr_Replicas r \<and> rd_All (rr_Devices r') \<and>
        rr_Rename r' = (if ts_RenameByDefault (cfg_TimeSlicing c)
                        then DefaultSharedRename (rr_Name r) else []))
     (ts_Resources (cfg_TimeSlicing c))
     (ts_Resources (cfg_TimeSlicing (disableResourceRenamingInConfig c))) \<and>
   disableResourceRenamingInConfig (disableResourceRenamingInConfig c) =
     disableResourceRenamingInConfig c"
proof -
  let ?d = "ts_RenameByDefault (cfg_TimeSlicing c)"
  have "rd_All (rr_Devices (disable_renaming_of ?d r)) \<and>
      rr_Rename (disable_renaming_of ?d r) = (if ?d then DefaultSharedRename (rr_Name r) else [])" for r
    using disable_renaming_of_disabled [of ?d r] by (simp add: renaming_disabled_def)
  moreover have "disable_renaming_of ?d (disable_renaming_of ?d r) = disable_renaming_of ?d r" for r
    by (rule disable_renaming_of_id [OF disable_renaming_of_disabled])
  ultimately show ?thesis
    by (simp add: disableResourceRenamingInConfig_def Let_def list_all2_conv_all_nth o_def)
qed

end
