(* ===== verification/Cuda.thy ===== *)
theory Cuda
  imports Go_Strings
begin

text \<open>
  \<^verbatim>\<open>internal/cuda\<close>: the Go binding of \<^verbatim>\<open>libcuda.so.1\<close>.  What the C library and the dynamic
  loader answer is the record \<open>cuda_c\<close>, a parameter of every definition; the package-level
  variable \<^verbatim>\<open>cuda\<close> (nil until the library is opened) is the boolean state \<open>cuda_loaded\<close>.
  A C \<^verbatim>\<open>int\<close> and a \<^verbatim>\<open>Result\<close> are \<open>32 word\<close>s, read as signed numbers.
\<close>

section \<open>Result codes\<close>

type_synonym c_int = "32 word"

text \<open>The \<^verbatim>\<open>const\<close> block of \<^verbatim>\<open>consts.go\<close>.\<close>

definition SUCCESS :: c_int where "SUCCESS = 0"
definition ERROR_INVALID_VALUE :: c_int where "ERROR_INVALID_VALUE = 1"
definition ERROR_OUT_OF_MEMORY :: c_int where "ERROR_OUT_OF_MEMORY = 2"
definition ERROR_NOT_INITIALIZED :: c_int where "ERROR_NOT_INITIALIZED = 3"
definition ERROR_DEINITIALIZED :: c_int where "ERROR_DEINITIALIZED = 4"
definition ERROR_PROFILER_DISABLED :: c_int where "ERROR_PROFILER_DISABLED = 5"
definition ERROR_PROFILER_NOT_INITIALIZED :: c_int where "ERROR_PROFILER_NOT_INITIALIZED = 6"
definition ERROR_PROFILER_ALREADY_STARTED :: c_int where "ERROR_PROFILER_ALREADY_STARTED = 7"
definition ERROR_PROFILER_ALREADY_STOPPED :: c_int where "ERROR_PROFILER_ALREADY_STOPPED = 8"
definition ERROR_NO_DEVICE :: c_int where "ERROR_NO_DEVICE = 100"
definition ERROR_INVALID_DEVICE :: c_int where "ERROR_INVALID_DEVICE = 101"
definition ERROR_INVALID_IMAGE :: c_int where "ERROR_INVALID_IMAGE = 200"
definition ERROR_INVALID_CONTEXT :: c_int where "ERROR_INVALID_CONTEXT = 201"
definition ERROR_CONTEXT_ALREADY_CURRENT :: c_int where "ERROR_CONTEXT_ALREADY_CURRENT = 202"
definition ERROR_MAP_FAILED :: c_int where "ERROR_MAP_FAILED = 205"
definition ERROR_UNMAP_FAILED :: c_int where "ERROR_UNMAP_FAILED = 206"
definition ERROR_ARRAY_IS_MAPPED :: c_int where "ERROR_ARRAY_IS_MAPPED = 207"
definition ERROR_ALREADY_MAPPED :: c_int where "ERROR_ALREADY_MAPPED = 208"
definition ERROR_NO_BINARY_FOR_GPU :: c_int where "ERROR_NO_BINARY_FOR_GPU = 209"
definition ERROR_ALREADY_ACQUIRED :: c_int where "ERROR_ALREADY_ACQUIRED = 210"
definition ERROR_NOT_MAPPED :: c_int where "ERROR_NOT_MAPPED = 211"
definition ERROR_NOT_MAPPED_AS_ARRAY :: c_int where "ERROR_NOT_MAPPED_AS_ARRAY = 212"
definition ERROR_NOT_MAPPED_AS_POINTER :: c_int where "ERROR_NOT_MAPPED_AS_POINTER = 213"
definition ERROR_ECC_UNCORRECTABLE :: c_int where "ERROR_ECC_UNCORRECTABLE = 214"
definition ERROR_UNSUPPORTED_LIMIT :: c_int where "ERROR_UNSUPPORTED_LIMIT = 215"
definition ERROR_CONTEXT_ALREADY_IN_USE :: c_int where "ERROR_CONTEXT_ALREADY_IN_USE = 216"
definition ERROR_PEER_ACCESS_UNSUPPORTED :: c_int where "ERROR_PEER_ACCESS_UNSUPPORTED = 217"
definition ERROR_INVALID_PTX :: c_int where "ERROR_INVALID_PTX = 218"
definition ERROR_INVALID_GRAPHICS_CONTEXT :: c_int where "ERROR_INVALID_GRAPHICS_CONTEXT = 219"
definition ERROR_NVLINK_UNCORRECTABLE :: c_int where "ERROR_NVLINK_UNCORRECTABLE = 220"
definition ERROR_JIT_COMPILER_NOT_FOUND :: c_int where "ERROR_JIT_COMPILER_NOT_FOUND = 221"
definition ERROR_INVALID_SOURCE :: c_int where "ERROR_INVALID_SOURCE = 300"
definition ERROR_FILE_NOT_FOUND :: c_int where "ERROR_FILE_NOT_FOUND = 301"
definition ERROR_SHARED_OBJECT_SYMBOL_NOT_FOUND :: c_int where "ERROR_SHARED_OBJECT_SYMBOL_NOT_FOUND = 302"
definition ERROR_SHARED_OBJECT_INIT_FAILED :: c_int where "ERROR_SHARED_OBJECT_INIT_FAILED = 303"
definition ERROR_OPERATING_SYSTEM :: c_int where "ERROR_OPERATING_SYSTEM = 304"
definition ERROR_INVALID_HANDLE :: c_int where "ERROR_INVALID_HANDLE = 400"
definition ERROR_NOT_FOUND :: c_int where "ERROR_NOT_FOUND = 500"
definition ERROR_NOT_READY :: c_int where "ERROR_NOT_READY = 600"
definition ERROR_ILLEGAL_ADDRESS :: c_int where "ERROR_ILLEGAL_ADDRESS = 700"
definition ERROR_LAUNCH_OUT_OF_RESOURCES :: c_int where "ERROR_LAUNCH_OUT_OF_RESOURCES = 701"
definition ERROR_LAUNCH_TIMEOUT :: c_int where "ERROR_LAUNCH_TIMEOUT = 702"
definition ERROR_LAUNCH_INCOMPATIBLE_TEXTURING :: c_int where "ERROR_LAUNCH_INCOMPATIBLE_TEXTURING = 703"
definition ERROR_PEER_ACCESS_ALREADY_ENABLED :: c_int where "ERROR_PEER_ACCESS_ALREADY_ENABLED = 704"
definition ERROR_PEER_ACCESS_NOT_ENABLED :: c_int where "ERROR_PEER_ACCESS_NOT_ENABLED = 705"
definition ERROR_PRIMARY_CONTEXT_ACTIVE :: c_int where "ERROR_PRIMARY_CONTEXT_ACTIVE = 708"
definition ERROR_CONTEXT_IS_DESTROYED :: c_int where "ERROR_CONTEXT_IS_DESTROYED = 709"
definition ERROR_ASSERT :: c_int where "ERROR_ASSERT = 710"
definition ERROR_TOO_MANY_PEERS :: c_int where "ERROR_TOO_MANY_PEERS = 711"
definition ERROR_HOST_MEMORY_ALREADY_REGISTERED :: c_int where "ERROR_HOST_MEMORY_ALREADY_REGISTERED = 712"
definition ERROR_HOST_MEMORY_NOT_REGISTERED :: c_int where "ERROR_HOST_MEMORY_NOT_REGISTERED = 713"
definition ERROR_HARDWARE_STACK_ERROR :: c_int where "ERROR_HARDWARE_STACK_ERROR = 714"
definition ERROR_ILLEGAL_INSTRUCTION :: c_int where "ERROR_ILLEGAL_INSTRUCTION = 715"
definition ERROR_MISALIGNED_ADDRESS :: c_int where "ERROR_MISALIGNED_ADDRESS = 716"
definition ERROR_INVALID_ADDRESS_SPACE :: c_int where "ERROR_INVALID_ADDRESS_SPACE = 717"
definition ERROR_INVALID_PC :: c_int where "ERROR_INVALID_PC = 718"
definition ERROR_LAUNCH_FAILED :: c_int where "ERROR_LAUNCH_FAILED = 719"
definition ERROR_COOPERATIVE_LAUNCH_TOO_LARGE :: c_int where "ERROR_COOPERATIVE_LAUNCH_TOO_LARGE = 720"
definition ERROR_NOT_PERMITTED :: c_int where "ERROR_NOT_PERMITTED = 800"
definition ERROR_NOT_SUPPORTED :: c_int where "ERROR_NOT_SUPPORTED = 801"
definition ERROR_UNKNOWN :: c_int where "ERROR_UNKNOWN = 99"

text \<open>The \<^verbatim>\<open>enum cudaError_enum\<close> of the C declarations in \<^verbatim>\<open>cuda.go\<close>.\<close>

definition c_cuda_results :: "(string \<times> int) list" where
  "c_cuda_results =
    [(''CUDA_SUCCESS'', 0), (''CUDA_ERROR_INVALID_VALUE'', 1), (''CUDA_ERROR_OUT_OF_MEMORY'', 2),
     (''CUDA_ERROR_NOT_INITIALIZED'', 3), (''CUDA_ERROR_DEINITIALIZED'', 4),
     (''CUDA_ERROR_PROFILER_DISABLED'', 5), (''CUDA_ERROR_PROFILER_NOT_INITIALIZED'', 6),
     (''CUDA_ERROR_PROFILER_ALREADY_STARTED'', 7), (''CUDA_ERROR_PROFILER_ALREADY_STOPPED'', 8),
     (''CUDA_ERROR_NO_DEVICE'', 100), (''CUDA_ERROR_INVALID_DEVICE'', 101),
     (''CUDA_ERROR_INVALID_IMAGE'', 200), (''CUDA_ERROR_INVALID_CONTEXT'', 201),
     (''CUDA_ERROR_CONTEXT_ALREADY_CURRENT'', 202), (''CUDA_ERROR_MAP_FAILED'', 205),
     (''CUDA_ERROR_UNMAP_FAILED'', 206), (''CUDA_ERROR_ARRAY_IS_MAPPED'', 207),
     (''CUDA_ERROR_ALREADY_MAPPED'', 208), (''CUDA_ERROR_NO_BINARY_FOR_GPU'', 209),
     (''CUDA_ERROR_ALREADY_ACQUIRED'', 210), (''CUDA_ERROR_NOT_MAPPED'', 211),
     (''CUDA_ERROR_NOT_MAPPED_AS_ARRAY'', 212), (''CUDA_ERROR_NOT_MAPPED_AS_POINTER'', 213),
     (''CUDA_ERROR_ECC_UNCORRECTABLE'', 214), (''CUDA_ERROR_UNSUPPORTED_LIMIT'', 215),
     (''CUDA_ERROR_CONTEXT_ALREADY_IN_USE'', 216), (''CUDA_ERROR_PEER_ACCESS_UNSUPPORTED'', 217),
     (''CUDA_ERROR_INVALID_PTX'', 218), (''CUDA_ERROR_INVALID_GRAPHICS_CONTEXT'', 219),
     (''CUDA_ERROR_NVLINK_UNCORRECTABLE'', 220), (''CUDA_ERROR_JIT_COMPILER_NOT_FOUND'', 221),
     (''CUDA_ERROR_INVALID_SOURCE'', 300), (''CUDA_ERROR_FILE_NOT_FOUND'', 301),
     (''CUDA_ERROR_SHARED_OBJECT_SYMBOL_NOT_FOUND'', 302),
     (''CUDA_ERROR_SHARED_OBJECT_INIT_FAILED'', 303), (''CUDA_ERROR_OPERATING_SYSTEM'', 304),
     (''CUDA_ERROR_INVALID_HANDLE'', 400), (''CUDA_ERROR_NOT_FOUND'', 500),
     (''CUDA_ERROR_NOT_READY'', 600), (''CUDA_ERROR_ILLEGAL_ADDRESS'', 700),
     (''CUDA_ERROR_LAUNCH_OUT_OF_RESOURCES'', 701), (''CUDA_ERROR_LAUNCH_TIMEOUT'', 702),
     (''CUDA_ERROR_LAUNCH_INCOMPATIBLE_TEXTURING'', 703),
     (''CUDA_ERROR_PEER_ACCESS_ALREADY_ENABLED'', 704),
     (''CUDA_ERROR_PEER_ACCESS_NOT_ENABLED'', 705), (''CUDA_ERROR_PRIMARY_CONTEXT_ACTIVE'', 708),
     (''CUDA_ERROR_CONTEXT_IS_DESTROYED'', 709), (''CUDA_ERROR_ASSERT'', 710),
     (''CUDA_ERROR_TOO_MANY_PEERS'', 711), (''CUDA_ERROR_HOST_MEMORY_ALREADY_REGISTERED'', 712),
     (''CUDA_ERROR_HOST_MEMORY_NOT_REGISTERED'', 713),
     (''CUDA_ERROR_HARDWARE_STACK_ERROR'', 714), (''CUDA_ERROR_ILLEGAL_INSTRUCTION'', 715),
     (''CUDA_ERROR_MISALIGNED_ADDRESS'', 716), (''CUDA_ERROR_INVALID_ADDRESS_SPACE'', 717),
     (''CUDA_ERROR_INVALID_PC'', 718), (''CUDA_ERROR_LAUNCH_FAILED'', 719),
     (''CUDA_ERROR_COOPERATIVE_LAUNCH_TOO_LARGE'', 720), (''CUDA_ERROR_NOT_PERMITTED'', 800),
     (''CUDA_ERROR_NOT_SUPPORTED'', 801), (''CUDA_ERROR_UNKNOWN'', 999)]"

definition COMPUTE_CAPABILITY_MAJOR :: "32 word" where "COMPUTE_CAPABILITY_MAJOR = 75"
definition COMPUTE_CAPABILITY_MINOR :: "32 word" where "COMPUTE_CAPABILITY_MINOR = 76"

text \<open>
  \<^verbatim>\<open>Result.String\<close>: the cases of the switch of \<^verbatim>\<open>defaultErrorStringFunc\<close> in their order, of which
  the first that fits is taken, and its default.
\<close>

definition string_cases :: "(c_int \<times> string) list" where
  "string_cases =
    [(SUCCESS, ''CUDA_SUCCESS''), (ERROR_INVALID_VALUE, ''CUDA_ERROR_INVALID_VALUE''),
     (ERROR_OUT_OF_MEMORY, ''CUDA_ERROR_OUT_OF_MEMORY''),
     (ERROR_NOT_INITIALIZED, ''CUDA_ERROR_NOT_INITIALIZED''),
     (ERROR_DEINITIALIZED, ''CUDA_ERROR_DEINITIALIZED''),
     (ERROR_PROFILER_DISABLED, ''CUDA_ERROR_PROFILER_DISABLED''),
     (ERROR_PROFILER_NOT_INITIALIZED, ''CUDA_ERROR_PROFILER_NOT_INITIALIZED''),
     (ERROR_PROFILER_ALREADY_STARTED, ''CUDA_ERROR_PROFILER_ALREADY_STARTED''),
     (ERROR_PROFILER_ALREADY_STOPPED, ''CUDA_ERROR_PROFILER_ALREADY_STOPPED''),
     (ERROR_NO_DEVICE, ''CUDA_ERROR_NO_DEVICE''),
     (ERROR_INVALID_DEVICE, ''CUDA_ERROR_INVALID_DEVICE''),
     (ERROR_INVALID_IMAGE, ''CUDA_ERROR_INVALID_IMAGE''),
     (ERROR_INVALID_CONTEXT, ''CUDA_ERROR_INVALID_CONTEXT''),
     (ERROR_CONTEXT_ALREADY_CURRENT, ''CUDA_ERROR_CONTEXT_ALREADY_CURRENT''),
     (ERROR_MAP_FAILED, ''CUDA_ERROR_MAP_FAILED''),
     (ERROR_UNMAP_FAILED, ''CUDA_ERROR_UNMAP_FAILED''),
     (ERROR_ARRAY_IS_MAPPED, ''CUDA_ERROR_ARRAY_IS_MAPPED''),
     (ERROR_ALREADY_MAPPED, ''CUDA_ERROR_ALREADY_MAPPED''),
     (ERROR_NO_BINARY_FOR_GPU, ''CUDA_ERROR_NO_BINARY_FOR_GPU''),
     (ERROR_ALREADY_ACQUIRED, ''CUDA_ERROR_ALREADY_ACQUIRED''),
     (ERROR_NOT_MAPPED, ''CUDA_ERROR_NOT_MAPPED''),
     (ERROR_NOT_MAPPED_AS_ARRAY, ''CUDA_ERROR_NOT_MAPPED_AS_ARRAY''),
     (ERROR_NOT_MAPPED_AS_POINTER, ''CUDA_ERROR_NOT_MAPPED_AS_POINTER''),
     (ERROR_ECC_UNCORRECTABLE, ''CUDA_ERROR_ECC_UNCORRECTABLE''),
     (ERROR_UNSUPPORTED_LIMIT, ''CUDA_ERROR_UNSUPPORTED_LIMIT''),
     (ERROR_CONTEXT_ALREADY_IN_USE, ''CUDA_ERROR_CONTEXT_ALREADY_IN_USE''),
     (ERROR_PEER_ACCESS_UNSUPPORTED, ''CUDA_ERROR_PEER_ACCESS_UNSUPPORTED''),
     (ERROR_INVALID_PTX, ''CUDA_ERROR_INVALID_PTX''),
     (ERROR_INVALID_GRAPHICS_CONTEXT, ''CUDA_ERROR_INVALID_GRAPHICS_CONTEXT''),
     (ERROR_NVLINK_UNCORRECTABLE, ''CUDA_ERROR_NVLINK_UNCORRECTABLE''),
     (ERROR_JIT_COMPILER_NOT_FOUND, ''CUDA_ERROR_JIT_COMPILER_NOT_FOUND''),
     (ERROR_INVALID_SOURCE, ''CUDA_ERROR_INVALID_SOURCE''),
     (ERROR_FILE_NOT_FOUND, ''CUDA_ERROR_FILE_NOT_FOUND''),
     (ERROR_SHARED_OBJECT_SYMBOL_NOT_FOUND, ''CUDA_ERROR_SHARED_OBJECT_SYMBOL_NOT_FOUND''),
     (ERROR_SHARED_OBJECT_INIT_FAILED, ''CUDA_ERROR_SHARED_OBJECT_INIT_FAILED''),
     (ERROR_OPERATING_SYSTEM, ''CUDA_ERROR_OPERATING_SYSTEM''),
     (ERROR_INVALID_HANDLE, ''CUDA_ERROR_INVALID_HANDLE''),
     (ERROR_NOT_FOUND, ''CUDA_ERROR_NOT_FOUND''), (ERROR_NOT_READY, ''CUDA_ERROR_NOT_READY''),
     (ERROR_ILLEGAL_ADDRESS, ''CUDA_ERROR_ILLEGAL_ADDRESS''),
     (ERROR_LAUNCH_OUT_OF_RESOURCES, ''CUDA_ERROR_LAUNCH_OUT_OF_RESOURCES''),
     (ERROR_LAUNCH_TIMEOUT, ''CUDA_ERROR_LAUNCH_TIMEOUT''),
     (ERROR_LAUNCH_INCOMPATIBLE_TEXTURING, ''CUDA_ERROR_LAUNCH_INCOMPATIBLE_TEXTURING''),
     (ERROR_PEER_ACCESS_ALREADY_ENABLED, ''CUDA_ERROR_PEER_ACCESS_ALREADY_ENABLED''),
     (ERROR_PEER_ACCESS_NOT_ENABLED, ''CUDA_ERROR_PEER_ACCESS_NOT_ENABLED''),
     (ERROR_PRIMARY_CONTEXT_ACTIVE, ''CUDA_ERROR_PRIMARY_CONTEXT_ACTIVE''),
     (ERROR_CONTEXT_IS_DESTROYED, ''CUDA_ERROR_CONTEXT_IS_DESTROYED''),
     (ERROR_ASSERT, ''CUDA_ERROR_ASSERT''), (ERROR_TOO_MANY_PEERS, ''CUDA_ERROR_TOO_MANY_PEERS''),
     (ERROR_HOST_MEMORY_ALREADY_REGISTERED, ''CUDA_ERROR_HOST_MEMORY_ALREADY_REGISTERED''),
     (ERROR_HOST_MEMORY_NOT_REGISTERED, ''CUDA_ERROR_HOST_MEMORY_NOT_REGISTERED''),
     (ERROR_HARDWARE_STACK_ERROR, ''CUDA_ERROR_HARDWARE_STACK_ERROR''),
     (ERROR_ILLEGAL_INSTRUCTION, ''CUDA_ERROR_ILLEGAL_INSTRUCTION''),
     (ERROR_MISALIGNED_ADDRESS, ''CUDA_ERROR_MISALIGNED_ADDRESS''),
     (ERROR_INVALID_ADDRESS_SPACE, ''CUDA_ERROR_INVALID_ADDRESS_SPACE''),
     (ERROR_INVALID_PC, ''CUDA_ERROR_INVALID_PC''),
     (ERROR_LAUNCH_FAILED, ''CUDA_ERROR_LAUNCH_FAILED''),
     (ERROR_COOPERATIVE_LAUNCH_TOO_LARGE, ''CUDA_ERROR_COOPERATIVE_LAUNCH_TOO_LARGE''),
     (ERROR_NOT_PERMITTED, ''CUDA_ERROR_NOT_PERMITTED''),
     (ERROR_NOT_SUPPORTED, ''CUDA_ERROR_NOT_SUPPORTED''), (ERROR_UNKNOWN, ''CUDA_ERROR_UNKNOWN'')]"

definition defaultErrorStringFunc :: "c_int \<Rightarrow> string" where
  "defaultErrorStringFunc r =
     (case map_of string_cases r of
        Some t \<Rightarrow> t
      | None \<Rightarrow> ''Unknown return value: '' @ show_int (sint r))"

definition result_string :: "c_int \<Rightarrow> string" where
  "result_string r = defaultErrorStringFunc r"

text \<open>\<^verbatim>\<open>Result.Error\<close>, which the verb \<^verbatim>\<open>%v\<close> of an error message calls.\<close>

definition result_Error :: "c_int \<Rightarrow> string" where
  "result_Error r = result_string r"

section \<open>The library\<close>

text \<open>\<^verbatim>\<open>DeviceAttribute\<close> and \<^verbatim>\<open>Device\<close>, the handle of a device, are \<^verbatim>\<open>int32\<close> too.\<close>

type_synonym device_attribute = c_int
type_synonym cuda_device = c_int

record cuda_c =
  c_Open :: "string option"              \<comment> \<open>the error of \<^verbatim>\<open>dlopen\<close>, if any\<close>
  c_Lookup_cuInit :: "string option"
  c_Close :: "string option"
  c_cuInit :: "32 word \<Rightarrow> c_int"
  c_cuDriverGetVersion :: "c_int \<times> c_int"
  c_cuDeviceGetCount :: "c_int \<times> c_int"
  c_cuDeviceGet :: "c_int \<Rightarrow> c_int \<times> c_int"
  c_cuDeviceGetAttribute :: "c_int \<Rightarrow> c_int \<Rightarrow> c_int \<times> c_int"
  c_cuDeviceTotalMem :: "c_int \<Rightarrow> 64 word \<times> c_int"
  c_cuDeviceGetName :: "nat \<Rightarrow> c_int \<Rightarrow> byte list \<times> c_int"
    \<comment> \<open>the bytes the C call stores at the start of a buffer of the given size\<close>

text \<open>
  The wrappers of \<^verbatim>\<open>cuda.go\<close>: a Go pointer argument that the C function fills in is a result, and
  the conversions between the Go and C types keep the bits.  \<open>name\<close> is the buffer \<^verbatim>\<open>cuDeviceGetName\<close>
  writes into.
\<close>

definition cuInit :: "cuda_c \<Rightarrow> 32 word \<Rightarrow> c_int" where
  "cuInit C flags = c_cuInit C flags"

definition cuDeviceGet :: "cuda_c \<Rightarrow> c_int \<Rightarrow> c_int \<times> c_int" where
  "cuDeviceGet C index = c_cuDeviceGet C index"

definition cuDeviceGetAttribute :: "cuda_c \<Rightarrow> c_int \<Rightarrow> c_int \<Rightarrow> c_int \<times> c_int" where
  "cuDeviceGetAttribute C attribute dev = c_cuDeviceGetAttribute C attribute dev"

definition cuDeviceGetCount :: "cuda_c \<Rightarrow> c_int \<times> c_int" where
  "cuDeviceGetCount C = c_cuDeviceGetCount C"

definition cuDriverGetVersion :: "cuda_c \<Rightarrow> c_int \<times> c_int" where
  "cuDriverGetVersion C = c_cuDriverGetVersion C"

definition cuDeviceTotalMem :: "cuda_c \<Rightarrow> c_int \<Rightarrow> 64 word \<times> c_int" where
  "cuDeviceTotalMem C dev = c_cuDeviceTotalMem C dev"

definition cuDeviceGetName :: "cuda_c \<Rightarrow> byte list \<Rightarrow> nat \<Rightarrow> c_int \<Rightarrow> byte list \<times> c_int" where
  "cuDeviceGetName C name len dev =
     (let (written, r) = c_cuDeviceGetName C len dev;
          written' = take len written
      in (written' @ drop (length written') name, r))"

lemmas cu_defs = cuInit_def cuDeviceGet_def cuDeviceGetAttribute_def cuDeviceGetCount_def
  cuDriverGetVersion_def cuDeviceTotalMem_def cuDeviceGetName_def

text \<open>\<^verbatim>\<open>Init\<close>: the package variable is set as soon as the library is open.\<close>

definition cuda_Init :: "cuda_c \<Rightarrow> bool \<Rightarrow> bool \<times> c_int" where
  "cuda_Init C cuda_loaded =
     (if c_Open C \<noteq> None then (cuda_loaded, ERROR_UNKNOWN)
      else if c_Lookup_cuInit C \<noteq> None then (True, ERROR_UNKNOWN)
      else (True, cuInit C 0))"

definition cuda_Shutdown :: "cuda_c \<Rightarrow> bool \<Rightarrow> c_int" where
  "cuda_Shutdown C cuda_loaded =
     (if \<not> cuda_loaded then SUCCESS
      else if c_Close C \<noteq> None then ERROR_UNKNOWN
      else SUCCESS)"

definition cuda_DriverGetVersion :: "cuda_c \<Rightarrow> int \<times> c_int" where
  "cuda_DriverGetVersion C = (let (version, r) = cuDriverGetVersion C in (sint version, r))"

definition cuda_DeviceGet :: "cuda_c \<Rightarrow> int \<Rightarrow> cuda_device \<times> c_int" where
  "cuda_DeviceGet C index = cuDeviceGet C (word_of_int index)"

definition cuda_DeviceGetAttribute :: "cuda_c \<Rightarrow> device_attribute \<Rightarrow> cuda_device \<Rightarrow> int \<times> c_int" where
  "cuda_DeviceGetAttribute C attribute device =
     (let (val, r) = cuDeviceGetAttribute C attribute device in (sint val, r))"

definition cuda_DeviceGetCount :: "cuda_c \<Rightarrow> int \<times> c_int" where
  "cuda_DeviceGetCount C = (let (cnt, r) = cuDeviceGetCount C in (sint cnt, r))"

text \<open>\<^verbatim>\<open>clen\<close>: the length of a C string in a byte slice.\<close>

fun clen :: "byte list \<Rightarrow> nat" where
  "clen [] = 0"
| "clen (b # bs) = (if b = 0 then 0 else Suc (clen bs))"

text \<open>
  \<^verbatim>\<open>DeviceGetName\<close>: the buffer is 96 zero bytes of which the C call overwrites a prefix.
\<close>

definition cuda_DeviceGetName :: "cuda_c \<Rightarrow> cuda_device \<Rightarrow> string \<times> c_int" where
  "cuda_DeviceGetName C device =
     (let len = 96;
          name = replicate len 0;
          (name', r) = cuDeviceGetName C name len device
      in (bytes_string (take (clen name') name'), r))"

definition cuda_DeviceTotalMem :: "cuda_c \<Rightarrow> cuda_device \<Rightarrow> 64 word \<times> c_int" where
  "cuda_DeviceTotalMem C device = cuDeviceTotalMem C device"

text \<open>The methods of a \<^verbatim>\<open>Device\<close>.\<close>

definition Device_GetAttribute :: "cuda_c \<Rightarrow> cuda_device \<Rightarrow> device_attribute \<Rightarrow> int \<times> c_int" where
  "Device_GetAttribute C device attribute = cuda_DeviceGetAttribute C attribute device"

definition Device_GetName :: "cuda_c \<Rightarrow> cuda_device \<Rightarrow> string \<times> c_int" where
  "Device_GetName C device = cuda_DeviceGetName C device"

definition Device_TotalMem :: "cuda_c \<Rightarrow> cuda_device \<Rightarrow> 64 word \<times> c_int" where
  "Device_TotalMem C device = cuda_DeviceTotalMem C device"

section \<open>Facts\<close>

lemma take_clen: "take (clen bs) bs = takeWhile (\<lambda>b. b \<noteq> 0) bs"
  by (induction bs) auto

text \<open>A code of the C enumeration is the same number as a \<^verbatim>\<open>Result\<close>.\<close>

lemma code_word:
  assumes "0 \<le> c" and "c < 2 ^ 31"
  shows "(r :: c_int) = word_of_int c \<longleftrightarrow> c = sint r"
proof -
  have "signed_take_bit 31 c = c" using assms by (intro signed_take_bit_int_eq_self) simp_all
  then have "sint (word_of_int c :: c_int) = c" by (simp add: sint_sbintrunc')
  moreover have "word_of_int (sint r) = r" by simp
  ultimately show ?thesis by metis
qed

lemma find_snoc: "find P (xs @ [x]) = (case find P xs of None \<Rightarrow> if P x then Some x else None | v \<Rightarrow> v)"
  by (induction xs) auto

lemma map_of_codes:
  assumes "list_all (\<lambda>(n, c). 0 \<le> c \<and> c < 2 ^ 31) xs"
  shows "map_of (map (\<lambda>(n, c). (word_of_int c :: c_int, n)) xs) r =
    map_option fst (find (\<lambda>(n, c). c = sint r) xs)"
  using assms by (induction xs) (auto simp del: of_int_eq_iff simp: code_word [symmetric] split: prod.splits)

lemma string_cases_enum:
  "string_cases = map (\<lambda>(n, c). (word_of_int c, n)) (butlast c_cuda_results) @ [(99, ''CUDA_ERROR_UNKNOWN'')]"
  by code_simp

lemma enum_codes: "list_all (\<lambda>(n, c). 0 \<le> c \<and> c < 2 ^ 31 \<and> c \<noteq> 99 \<and> c \<noteq> 999) (butlast c_cuda_results)"
  by code_simp

section \<open>Properties\<close>

text \<open>C40: Every 32-bit result prints as the name that the C enumeration of the bindings gives to that
  number, or as unknown when it has none, except for the unknown error: the enumeration has it as
  999, which prints as unknown, while its Go constant is 99, which prints as its name.\<close>

theorem result_string_names:
  "result_string r =
    (if sint r = 99 then ''CUDA_ERROR_UNKNOWN''
     else if sint r = 999 then ''Unknown return value: 999''
     else case find (\<lambda>(name, code). code = sint r) c_cuda_results of
         Some (name, code) \<Rightarrow> name
       | None \<Rightarrow> ''Unknown return value: '' @ show_int (sint r))"
proof -
  let ?xs = "butlast c_cuda_results"
  let ?f = "\<lambda>r. find (\<lambda>(name, code). code = r)"
  have cs: "list_all (\<lambda>(n, c). 0 \<le> c \<and> c < (2 :: int) ^ 31) ?xs"
    using enum_codes by (auto simp: list_all_iff)
  have none: "?f 99 ?xs = None" "?f 999 ?xs = None"
    using enum_codes by (auto simp: find_None_iff list_all_iff)
  have enum: "c_cuda_results = ?xs @ [(''CUDA_ERROR_UNKNOWN'', 999)]" by (simp add: c_cuda_results_def)
  have last: "?f (sint r) c_cuda_results = ?f (sint r) ?xs" if "sint r \<noteq> 999"
    using that by (subst enum) (simp add: find_snoc split: option.split)
  have ninety: "sint r = 99 \<longleftrightarrow> r = 99" using code_word [of 99 r] by auto
  have "show_int 999 = ''999''" by code_simp
  note shown = this
  have "map_of string_cases r = (if r = 99 then Some ''CUDA_ERROR_UNKNOWN'' else map_option fst (?f (sint r) ?xs))"
    unfolding string_cases_enum map_of_append map_add_def map_of_codes [OF cs]
    using none ninety by (auto split: option.splits)
  then show ?thesis
    using none ninety last shown
    by (auto simp: result_string_def defaultErrorStringFunc_def split: option.splits)
qed

lemma takeWhile_pad: "n \<le> m \<Longrightarrow> takeWhile (\<lambda>b. b \<noteq> 0) (xs @ replicate m 0) = takeWhile (\<lambda>b. b \<noteq> 0) xs"
  by (induction xs) (simp_all add: takeWhile_replicate)

text \<open>The name of a device is what the C call wrote up to the first NUL byte and never more
  than the 96 bytes of the buffer.\<close>

theorem DeviceGetName_is_C_string:
  "cuda_DeviceGetName C device =
    (bytes_string (takeWhile (\<lambda>b. b \<noteq> 0) (take 96 (fst (c_cuDeviceGetName C 96 device)))),
     snd (c_cuDeviceGetName C 96 device)) \<and>
   length (fst (cuda_DeviceGetName C device)) \<le> 96"
proof -
  obtain bs r where bs: "c_cuDeviceGetName C 96 device = (bs, r)"
    by fastforce
  have "takeWhile (\<lambda>b. b \<noteq> 0) (take 96 bs @ drop (length (take 96 bs)) (replicate 96 0))
      = takeWhile (\<lambda>b. b \<noteq> 0) (take 96 bs)"
    unfolding drop_replicate by (rule takeWhile_pad [of 0]) simp
  moreover have "length (takeWhile (\<lambda>b. b \<noteq> 0) (take 96 bs)) \<le> 96"
    using length_takeWhile_le [of "\<lambda>b. b \<noteq> 0" "take 96 bs"] by simp
  ultimately show ?thesis
    using bs by (simp add: cuda_DeviceGetName_def cuDeviceGetName_def Let_def take_clen bytes_string_def)
qed

end
