(* ===== verification/Managers.thy ===== *)
theory Managers
  imports Resource_Iface Spec_Config Cuda "HOL-Library.Signed_Division"
begin

text \<open>
  The implementations of the \<^verbatim>\<open>Manager\<close> and \<^verbatim>\<open>Device\<close> interfaces in \<^verbatim>\<open>internal/resource\<close>: NVML
  (\<^verbatim>\<open>nvml-lib.go\<close>, \<^verbatim>\<open>nvml-device.go\<close>, \<^verbatim>\<open>nvml-mig-device.go\<close>), CUDA on Tegra (\<^verbatim>\<open>cuda-lib.go\<close>,
  \<^verbatim>\<open>cuda-device.go\<close>), the null manager (\<^verbatim>\<open>null.go\<close>), the fallback wrapper (\<^verbatim>\<open>fallback.go\<close>) and
  the factory that chooses one (\<^verbatim>\<open>factory.go\<close>).

  The NVML library and the vendored \<^verbatim>\<open>go-nvlib\<close> wrapper around it are the record \<open>nvml_sys\<close> of
  their answers over an abstract type \<open>'h\<close> of device handles; \<^verbatim>\<open>libcuda\<close> is the record \<open>cuda_c\<close>.
\<close>

section \<open>The libraries\<close>

text \<open>\<^verbatim>\<open>nvml.DeviceAttributes\<close>, the fields that are read.\<close>

record mig_attributes =
  at_MultiprocessorCount :: "32 word"
  at_SharedCopyEngineCount :: "32 word"
  at_SharedDecoderCount :: "32 word"
  at_SharedEncoderCount :: "32 word"
  at_SharedJpegCount :: "32 word"
  at_SharedOfaCount :: "32 word"
  at_GpuInstanceSliceCount :: "32 word"
  at_ComputeInstanceSliceCount :: "32 word"
  at_MemorySizeMB :: "64 word"

text \<open>
  A call of the NVML library returns a value and a \<^verbatim>\<open>Return\<close> code, a call of \<^verbatim>\<open>go-nvlib\<close> a value
  or an error.  \<open>nvlib_mig_Profile\<close> is the string of the profile \<^verbatim>\<open>GetProfile\<close> returns.
\<close>

record 'h nvml_sys =
  nv_ErrorString :: "c_int \<Rightarrow> string"
  nv_Init :: c_int
  nv_Shutdown :: c_int
  nv_SystemGetCudaDriverVersion :: "int \<times> c_int"
  nv_SystemGetDriverVersion :: "string \<times> c_int"
  nv_dev_GetName :: "'h \<Rightarrow> string \<times> c_int"
  nv_dev_GetMemoryTotal :: "'h \<Rightarrow> 64 word \<times> c_int"
  nv_dev_GetCudaComputeCapability :: "'h \<Rightarrow> (int \<times> int) \<times> c_int"
  nv_mig_GetAttributes :: "'h \<Rightarrow> mig_attributes \<times> c_int"
  nv_mig_GetParent :: "'h \<Rightarrow> 'h \<times> c_int"
  nvlib_GetDevices :: "string + 'h list"
  nvlib_NewDevice :: "'h \<Rightarrow> string + 'h"
  nvlib_dev_IsMigCapable :: "'h \<Rightarrow> string + bool"
  nvlib_dev_IsMigEnabled :: "'h \<Rightarrow> string + bool"
  nvlib_dev_GetMigDevices :: "'h \<Rightarrow> string + 'h list"
  nvlib_mig_Profile :: "'h \<Rightarrow> string + string"

record 'h sys =
  sys_nvml :: "'h nvml_sys"
  sys_cuda :: cuda_c
  sys_HasNvml :: bool
  sys_IsTegra :: bool

text \<open>\<^verbatim>\<open>if ret != nvml.SUCCESS { return ..., ret }\<close>, and a returned \<^verbatim>\<open>(value, error)\<close> pair.\<close>

definition nv_ret :: "'h nvml_sys \<Rightarrow> 'a \<times> c_int \<Rightarrow> 'a go" where
  "nv_ret N vr = (if snd vr \<noteq> SUCCESS then Err (nv_ErrorString N (snd vr)) else Ret (fst vr))"

fun lib_ret :: "string + 'a \<Rightarrow> 'a go" where
  "lib_ret (Inl e) = Err e"
| "lib_ret (Inr x) = Ret x"

definition cuda_ret :: "string \<Rightarrow> 'a \<times> c_int \<Rightarrow> 'a go" where
  "cuda_ret msg vr = (if snd vr \<noteq> SUCCESS then Err (msg @ result_Error (snd vr)) else Ret (fst vr))"

lemma no_crash_rets [simp]:
  "no_crash (nv_ret N vr)" "no_crash (lib_ret x)" "no_crash (cuda_ret msg vr)"
  by (simp_all add: nv_ret_def cuda_ret_def) (cases x; simp)

section \<open>Devices\<close>

datatype 'h device = NvmlDevice 'h | NvmlMigDevice 'h | CudaDevice c_int

text \<open>\<^verbatim>\<open>1024 * 1024\<close>, the divisor of the two \<^verbatim>\<open>GetTotalMemoryMB\<close>.\<close>

definition bytes_to_MB :: "64 word \<Rightarrow> 64 word" where
  "bytes_to_MB tot = tot div (1024 * 1024)"

definition mig_attribute_map :: "mig_attributes \<Rightarrow> (string, attr_val) gomap" where
  "mig_attribute_map a =
     [(''memory'', VUint64 (at_MemorySizeMB a)),
      (''multiprocessors'', VUint32 (at_MultiprocessorCount a)),
      (''slices.gi'', VUint32 (at_GpuInstanceSliceCount a)),
      (''slices.ci'', VUint32 (at_ComputeInstanceSliceCount a)),
      (''engines.copy'', VUint32 (at_SharedCopyEngineCount a)),
      (''engines.decoder'', VUint32 (at_SharedDecoderCount a)),
      (''engines.encoder'', VUint32 (at_SharedEncoderCount a)),
      (''engines.jpeg'', VUint32 (at_SharedJpegCount a)),
      (''engines.ofa'', VUint32 (at_SharedOfaCount a))]"

definition totalMemory :: "(string, attr_val) gomap \<Rightarrow> (64 word) go" where
  "totalMemory attr =
     (case gget attr ''memory'' of
        None \<Rightarrow> Err ''no 'memory' attribute available''
      | Some (VUint64 w) \<Rightarrow> Ret w
      | Some (VInt i) \<Rightarrow> Ret (word_of_int i)
      | Some v \<Rightarrow> Err (''unsupported attribute type '' @ show_val v))"

text \<open>\<^verbatim>\<open>NewCudaDevice\<close>.\<close>

definition NewCudaDevice :: "c_int \<Rightarrow> 'h device" where
  "NewCudaDevice d = CudaDevice d"

subsection \<open>nvml-device.go\<close>

text \<open>
  \<^verbatim>\<open>IsMigCapable\<close> and \<^verbatim>\<open>IsMigEnabled\<close> of a full GPU are the methods of the embedded \<^verbatim>\<open>go-nvlib\<close> device.
\<close>

definition nvmlDevice_GetMigDevices :: "'h sys \<Rightarrow> 'h \<Rightarrow> 'h device list go" where
  "nvmlDevice_GetMigDevices S h =
     gbind (lib_ret (nvlib_dev_GetMigDevices (sys_nvml S) h)) (\<lambda>migs. Ret (map NvmlMigDevice migs))"

definition nvmlDevice_GetCudaComputeCapability :: "'h sys \<Rightarrow> 'h \<Rightarrow> (int \<times> int) go" where
  "nvmlDevice_GetCudaComputeCapability S h =
     nv_ret (sys_nvml S) (nv_dev_GetCudaComputeCapability (sys_nvml S) h)"

definition nvmlDevice_GetAttributes :: "'h sys \<Rightarrow> 'h \<Rightarrow> (string, attr_val) gomap go" where
  "nvmlDevice_GetAttributes S h = Err ''GetAttributes is not supported for non-MIG devices''"

definition nvmlDevice_GetDeviceHandleFromMigDeviceHandle :: "'h sys \<Rightarrow> 'h \<Rightarrow> 'h device go" where
  "nvmlDevice_GetDeviceHandleFromMigDeviceHandle S h =
     Err ''GetDeviceHandleFromMigDeviceHandle is not supported for non-MIG devices''"

definition nvmlDevice_GetName :: "'h sys \<Rightarrow> 'h \<Rightarrow> string go" where
  "nvmlDevice_GetName S h = nv_ret (sys_nvml S) (nv_dev_GetName (sys_nvml S) h)"

definition nvmlDevice_GetTotalMemoryMB :: "'h sys \<Rightarrow> 'h \<Rightarrow> (64 word) go" where
  "nvmlDevice_GetTotalMemoryMB S h =
     gbind (nv_ret (sys_nvml S) (nv_dev_GetMemoryTotal (sys_nvml S) h))
       (\<lambda>tot. Ret (bytes_to_MB tot))"

lemmas nvmlDevice_defs [simp] =
  nvmlDevice_GetMigDevices_def nvmlDevice_GetCudaComputeCapability_def nvmlDevice_GetAttributes_def
  nvmlDevice_GetDeviceHandleFromMigDeviceHandle_def nvmlDevice_GetName_def
  nvmlDevice_GetTotalMemoryMB_def

subsection \<open>nvml-mig-device.go\<close>

definition nvmlMigDevice_GetAttributes :: "'h sys \<Rightarrow> 'h \<Rightarrow> (string, attr_val) gomap go" where
  "nvmlMigDevice_GetAttributes S h =
     gbind (nv_ret (sys_nvml S) (nv_mig_GetAttributes (sys_nvml S) h))
       (\<lambda>attributes. Ret (mig_attribute_map attributes))"

definition nvmlMigDevice_GetDeviceHandleFromMigDeviceHandle :: "'h sys \<Rightarrow> 'h \<Rightarrow> 'h device go" where
  "nvmlMigDevice_GetDeviceHandleFromMigDeviceHandle S h =
     gbind (nv_ret (sys_nvml S) (nv_mig_GetParent (sys_nvml S) h)) (\<lambda>p.
     gbind (wrap ''failed to construct device: '' (lib_ret (nvlib_NewDevice (sys_nvml S) p)))
       (\<lambda>device. Ret (NvmlDevice device)))"

definition nvmlMigDevice_IsMigCapable :: "'h sys \<Rightarrow> 'h \<Rightarrow> bool go" where
  "nvmlMigDevice_IsMigCapable S h = Err ''IsMigCapable is not supported for MIG devices''"

definition nvmlMigDevice_IsMigEnabled :: "'h sys \<Rightarrow> 'h \<Rightarrow> bool go" where
  "nvmlMigDevice_IsMigEnabled S h = Err ''IsMigEnabled is not supported for MIG devices''"

definition nvmlMigDevice_GetMigDevices :: "'h sys \<Rightarrow> 'h \<Rightarrow> 'h device list go" where
  "nvmlMigDevice_GetMigDevices S h = Err ''GetMigDevices is not implemented for MIG devices''"

definition nvmlMigDevice_GetCudaComputeCapability :: "'h sys \<Rightarrow> 'h \<Rightarrow> (int \<times> int) go" where
  "nvmlMigDevice_GetCudaComputeCapability S h =
     Err ''GetCudaComputeCapability is not supported for MIG devices''"

definition nvmlMigDevice_GetName :: "'h sys \<Rightarrow> 'h \<Rightarrow> string go" where
  "nvmlMigDevice_GetName S h =
     gbind (wrap ''failed to get MIG profile: '' (lib_ret (nvlib_mig_Profile (sys_nvml S) h)))
       (\<lambda>p. Ret (replace_all CHR ''+'' CHR ''.'' p))"

definition nvmlMigDevice_GetTotalMemoryMB :: "'h sys \<Rightarrow> 'h \<Rightarrow> (64 word) go" where
  "nvmlMigDevice_GetTotalMemoryMB S h = gbind (nvmlMigDevice_GetAttributes S h) totalMemory"

lemmas nvmlMigDevice_defs [simp] =
  nvmlMigDevice_GetAttributes_def nvmlMigDevice_GetDeviceHandleFromMigDeviceHandle_def
  nvmlMigDevice_IsMigCapable_def nvmlMigDevice_IsMigEnabled_def nvmlMigDevice_GetMigDevices_def
  nvmlMigDevice_GetCudaComputeCapability_def nvmlMigDevice_GetName_def
  nvmlMigDevice_GetTotalMemoryMB_def

subsection \<open>cuda-device.go\<close>

definition cudaDevice_GetAttributes :: "'h sys \<Rightarrow> c_int \<Rightarrow> (string, attr_val) gomap go" where
  "cudaDevice_GetAttributes S c = Err ''GetAttributes is not supported for CUDA devices''"

definition cudaDevice_GetCudaComputeCapability :: "'h sys \<Rightarrow> c_int \<Rightarrow> (int \<times> int) go" where
  "cudaDevice_GetCudaComputeCapability S c =
     gbind (cuda_ret ''failed to get CUDA compute capability major for device: result=''
              (Device_GetAttribute (sys_cuda S) c COMPUTE_CAPABILITY_MAJOR)) (\<lambda>major.
     gbind (cuda_ret ''failed to get CUDA compute capability minor for device: result=''
              (Device_GetAttribute (sys_cuda S) c COMPUTE_CAPABILITY_MINOR))
       (\<lambda>minor. Ret (major, minor)))"

definition cudaDevice_GetDeviceHandleFromMigDeviceHandle :: "'h sys \<Rightarrow> c_int \<Rightarrow> 'h device go" where
  "cudaDevice_GetDeviceHandleFromMigDeviceHandle S c =
     Err ''GetDeviceHandleFromMigDeviceHandle is unsupported for CUDA devices''"

definition cudaDevice_GetTotalMemoryMB :: "'h sys \<Rightarrow> c_int \<Rightarrow> (64 word) go" where
  "cudaDevice_GetTotalMemoryMB S c =
     gbind (cuda_ret ''failed to get memory info for device: '' (Device_TotalMem (sys_cuda S) c))
       (\<lambda>tot. Ret (bytes_to_MB tot))"

definition cudaDevice_GetMigDevices :: "'h sys \<Rightarrow> c_int \<Rightarrow> 'h device list go" where
  "cudaDevice_GetMigDevices S c = Err ''GetMigDevices is unsupported for CUDA devices''"

definition cudaDevice_GetName :: "'h sys \<Rightarrow> c_int \<Rightarrow> string go" where
  "cudaDevice_GetName S c =
     cuda_ret ''failed to get device name: '' (Device_GetName (sys_cuda S) c)"

definition cudaDevice_GetUUID :: "'h sys \<Rightarrow> c_int \<Rightarrow> string go" where
  "cudaDevice_GetUUID S c = Err ''GetUUID is unsupported for CUDA devices''"

definition cudaDevice_IsMigCapable :: "'h sys \<Rightarrow> c_int \<Rightarrow> bool go" where
  "cudaDevice_IsMigCapable S c = Ret False"

definition cudaDevice_IsMigEnabled :: "'h sys \<Rightarrow> c_int \<Rightarrow> bool go" where
  "cudaDevice_IsMigEnabled S c = Ret False"

lemmas cudaDevice_defs [simp] =
  cudaDevice_GetAttributes_def cudaDevice_GetCudaComputeCapability_def
  cudaDevice_GetDeviceHandleFromMigDeviceHandle_def cudaDevice_GetTotalMemoryMB_def
  cudaDevice_GetMigDevices_def cudaDevice_GetName_def cudaDevice_IsMigCapable_def
  cudaDevice_IsMigEnabled_def

subsection \<open>The interface Device\<close>

text \<open>A call through the interface runs the method of the value's type.\<close>

fun d_IsMigEnabled :: "'h sys \<Rightarrow> 'h device \<Rightarrow> bool go" where
  "d_IsMigEnabled S (NvmlDevice h) = lib_ret (nvlib_dev_IsMigEnabled (sys_nvml S) h)"
| "d_IsMigEnabled S (NvmlMigDevice h) = nvmlMigDevice_IsMigEnabled S h"
| "d_IsMigEnabled S (CudaDevice c) = cudaDevice_IsMigEnabled S c"

fun d_IsMigCapable :: "'h sys \<Rightarrow> 'h device \<Rightarrow> bool go" where
  "d_IsMigCapable S (NvmlDevice h) = lib_ret (nvlib_dev_IsMigCapable (sys_nvml S) h)"
| "d_IsMigCapable S (NvmlMigDevice h) = nvmlMigDevice_IsMigCapable S h"
| "d_IsMigCapable S (CudaDevice c) = cudaDevice_IsMigCapable S c"

fun d_GetMigDevices :: "'h sys \<Rightarrow> 'h device \<Rightarrow> 'h device list go" where
  "d_GetMigDevices S (NvmlDevice h) = nvmlDevice_GetMigDevices S h"
| "d_GetMigDevices S (NvmlMigDevice h) = nvmlMigDevice_GetMigDevices S h"
| "d_GetMigDevices S (CudaDevice c) = cudaDevice_GetMigDevices S c"

fun d_GetAttributes :: "'h sys \<Rightarrow> 'h device \<Rightarrow> (string, attr_val) gomap go" where
  "d_GetAttributes S (NvmlDevice h) = nvmlDevice_GetAttributes S h"
| "d_GetAttributes S (NvmlMigDevice h) = nvmlMigDevice_GetAttributes S h"
| "d_GetAttributes S (CudaDevice c) = cudaDevice_GetAttributes S c"

fun d_GetName :: "'h sys \<Rightarrow> 'h device \<Rightarrow> string go" where
  "d_GetName S (NvmlDevice h) = nvmlDevice_GetName S h"
| "d_GetName S (NvmlMigDevice h) = nvmlMigDevice_GetName S h"
| "d_GetName S (CudaDevice c) = cudaDevice_GetName S c"

fun d_GetTotalMemoryMB :: "'h sys \<Rightarrow> 'h device \<Rightarrow> (64 word) go" where
  "d_GetTotalMemoryMB S (NvmlDevice h) = nvmlDevice_GetTotalMemoryMB S h"
| "d_GetTotalMemoryMB S (NvmlMigDevice h) = nvmlMigDevice_GetTotalMemoryMB S h"
| "d_GetTotalMemoryMB S (CudaDevice c) = cudaDevice_GetTotalMemoryMB S c"

fun d_GetDeviceHandleFromMigDeviceHandle :: "'h sys \<Rightarrow> 'h device \<Rightarrow> 'h device go" where
  "d_GetDeviceHandleFromMigDeviceHandle S (NvmlDevice h) = nvmlDevice_GetDeviceHandleFromMigDeviceHandle S h"
| "d_GetDeviceHandleFromMigDeviceHandle S (NvmlMigDevice h) = nvmlMigDevice_GetDeviceHandleFromMigDeviceHandle S h"
| "d_GetDeviceHandleFromMigDeviceHandle S (CudaDevice c) = cudaDevice_GetDeviceHandleFromMigDeviceHandle S c"

fun d_GetCudaComputeCapability :: "'h sys \<Rightarrow> 'h device \<Rightarrow> (int \<times> int) go" where
  "d_GetCudaComputeCapability S (NvmlDevice h) = nvmlDevice_GetCudaComputeCapability S h"
| "d_GetCudaComputeCapability S (NvmlMigDevice h) = nvmlMigDevice_GetCudaComputeCapability S h"
| "d_GetCudaComputeCapability S (CudaDevice c) = cudaDevice_GetCudaComputeCapability S c"

definition sys_devices :: "'h sys \<Rightarrow> 'h device device_ops" where
  "sys_devices S =
     \<lparr>dev_IsMigEnabled = d_IsMigEnabled S, dev_IsMigCapable = d_IsMigCapable S,
      dev_GetMigDevices = d_GetMigDevices S, dev_GetAttributes = d_GetAttributes S,
      dev_GetName = d_GetName S, dev_GetTotalMemoryMB = d_GetTotalMemoryMB S,
      dev_GetDeviceHandleFromMigDeviceHandle = d_GetDeviceHandleFromMigDeviceHandle S,
      dev_GetCudaComputeCapability = d_GetCudaComputeCapability S\<rparr>"

section \<open>Managers\<close>

text \<open>
  \<open>WithFallBack wraps fallback\<close> is \<^verbatim>\<open>*withFallBack\<close> with its two fields.  The state of a manager
  call is the manager (its pointer fields may be assigned) with the variable \<^verbatim>\<open>cuda\<close>.
\<close>

datatype manager = NvmlManager | CudaManager | NullManager | WithFallBack manager manager

type_synonym mgr_state = "manager \<times> bool"

definition NewNVMLManager :: manager where "NewNVMLManager = NvmlManager"
definition NewCudaManager :: manager where "NewCudaManager = CudaManager"
definition NewNullManager :: manager where "NewNullManager = NullManager"

definition NewFallbackToNullOnInitError :: "manager \<Rightarrow> manager" where
  "NewFallbackToNullOnInitError m = WithFallBack m NewNullManager"

subsection \<open>nvml-lib.go\<close>

text \<open>\<^verbatim>\<open>uint(v / 1000)\<close> and \<^verbatim>\<open>uint(v % 1000 / 10)\<close> on a Go \<^verbatim>\<open>int\<close>, whose division truncates.\<close>

definition nvml_cuda_version :: "int \<Rightarrow> 64 word \<times> 64 word" where
  "nvml_cuda_version v = (word_of_int (v sdiv 1000), word_of_int ((v smod 1000) sdiv 10))"

definition nvmlLib_GetCudaDriverVersion :: "'h sys \<Rightarrow> (64 word \<times> 64 word) go" where
  "nvmlLib_GetCudaDriverVersion S =
     gbind (nv_ret (sys_nvml S) (nv_SystemGetCudaDriverVersion (sys_nvml S)))
       (\<lambda>v. Ret (nvml_cuda_version v))"

definition nvmlLib_GetDevices :: "'h sys \<Rightarrow> 'h device list go" where
  "nvmlLib_GetDevices S =
     gbind (lib_ret (nvlib_GetDevices (sys_nvml S))) (\<lambda>libdevices. Ret (map NvmlDevice libdevices))"

definition nvmlLib_GetDriverVersion :: "'h sys \<Rightarrow> string go" where
  "nvmlLib_GetDriverVersion S = nv_ret (sys_nvml S) (nv_SystemGetDriverVersion (sys_nvml S))"

definition nvmlLib_Init :: "'h sys \<Rightarrow> unit go" where
  "nvmlLib_Init S = nv_ret (sys_nvml S) ((), nv_Init (sys_nvml S))"

definition nvmlLib_Shutdown :: "'h sys \<Rightarrow> unit go" where
  "nvmlLib_Shutdown S = nv_ret (sys_nvml S) ((), nv_Shutdown (sys_nvml S))"

lemmas nvmlLib_defs [simp] =
  nvmlLib_GetCudaDriverVersion_def nvmlLib_GetDevices_def nvmlLib_GetDriverVersion_def
  nvmlLib_Init_def nvmlLib_Shutdown_def

subsection \<open>cuda-lib.go\<close>

text \<open>The loop is over the indices below the device count.\<close>

definition cudaLib_GetDevices :: "'h sys \<Rightarrow> 'h device list go" where
  "cudaLib_GetDevices S =
     gbind (cuda_ret ''failed to get number of CUDA devices: '' (cuda_DeviceGetCount (sys_cuda S)))
       (\<lambda>cnt. mapM_go (\<lambda>i.
          gbind (cuda_ret (''failed to get CUDA device '' @ show_nat i @ '': '')
                   (cuda_DeviceGet (sys_cuda S) (int i)))
            (\<lambda>d. Ret (NewCudaDevice d))) [0..<nat cnt])"

text \<open>\<^verbatim>\<open>uint(version) / 1000\<close> and \<^verbatim>\<open>uint(version) % 100 / 10\<close>, on a \<^verbatim>\<open>uint\<close>.\<close>

definition cuda_cuda_version :: "int \<Rightarrow> 64 word \<times> 64 word" where
  "cuda_cuda_version version =
     (let u = (word_of_int version :: 64 word) in (u div 1000, (u mod 100) div 10))"

definition cudaLib_GetCudaDriverVersion :: "'h sys \<Rightarrow> (64 word \<times> 64 word) go" where
  "cudaLib_GetCudaDriverVersion S =
     gbind (cuda_ret ''failed to get driver version: '' (cuda_DriverGetVersion (sys_cuda S)))
       (\<lambda>version. Ret (cuda_cuda_version version))"

definition cudaLib_GetDriverVersion :: "'h sys \<Rightarrow> string go" where
  "cudaLib_GetDriverVersion S = Ret ''unknown.unknown.unknown''"

definition cudaLib_Init :: "'h sys \<Rightarrow> bool \<Rightarrow> bool \<times> unit go" where
  "cudaLib_Init S g = (let (g', r) = cuda_Init (sys_cuda S) g in (g', cuda_ret [] ((), r)))"

definition cudaLib_Shutdown :: "'h sys \<Rightarrow> bool \<Rightarrow> unit go" where
  "cudaLib_Shutdown S g = cuda_ret [] ((), cuda_Shutdown (sys_cuda S) g)"

lemmas cudaLib_defs [simp] =
  cudaLib_GetCudaDriverVersion_def cudaLib_GetDriverVersion_def cudaLib_Init_def
  cudaLib_Shutdown_def

subsection \<open>null.go\<close>

definition null_Init :: "unit go" where "null_Init = Ret ()"
definition null_Shutdown :: "unit go" where "null_Shutdown = Ret ()"
definition null_GetDevices :: "'h device list go" where "null_GetDevices = Ret []"

definition null_GetCudaDriverVersion :: "(64 word \<times> 64 word) go" where
  "null_GetCudaDriverVersion = Err ''GetCudaDriverVersion is unsupported''"

definition null_GetDriverVersion :: "string go" where
  "null_GetDriverVersion = Err ''GetDriverVersion is unsupported''"

lemmas null_defs [simp] =
  null_Init_def null_Shutdown_def null_GetDevices_def null_GetCudaDriverVersion_def
  null_GetDriverVersion_def

subsection \<open>The interface Manager and fallback.go\<close>

text \<open>
  A call through the interface runs the method of the value's type; the case of \<open>WithFallBack\<close>
  is the method of \<^verbatim>\<open>fallback.go\<close>, which calls the wrapped manager through the interface again.
\<close>

fun m_Init :: "'h sys \<Rightarrow> manager \<Rightarrow> bool \<Rightarrow> mgr_state \<times> unit go" where
  "m_Init S NvmlManager g = ((NvmlManager, g), nvmlLib_Init S)"
| "m_Init S CudaManager g = (let (g', r) = cudaLib_Init S g in ((CudaManager, g'), r))"
| "m_Init S NullManager g = ((NullManager, g), null_Init)"
| "m_Init S (WithFallBack w f) g =
     (case m_Init S w g of
        ((w', g'), Ret _) \<Rightarrow> ((WithFallBack w' f, g'), Ret ())
      | ((w', g'), Err e) \<Rightarrow> ((WithFallBack f f, g'), Ret ())
      | ((w', g'), Panic p) \<Rightarrow> ((WithFallBack w' f, g'), Panic p)
      | ((w', g'), Diverge) \<Rightarrow> ((WithFallBack w' f, g'), Diverge))"

fun m_Shutdown :: "'h sys \<Rightarrow> manager \<Rightarrow> bool \<Rightarrow> mgr_state \<times> unit go" where
  "m_Shutdown S NvmlManager g = ((NvmlManager, g), nvmlLib_Shutdown S)"
| "m_Shutdown S CudaManager g = ((CudaManager, g), cudaLib_Shutdown S g)"
| "m_Shutdown S NullManager g = ((NullManager, g), null_Shutdown)"
| "m_Shutdown S (WithFallBack w f) g =
     (let ((w', g'), r) = m_Shutdown S w g in ((WithFallBack w' f, g'), r))"

fun m_GetDevices :: "'h sys \<Rightarrow> manager \<Rightarrow> 'h device list go" where
  "m_GetDevices S NvmlManager = nvmlLib_GetDevices S"
| "m_GetDevices S CudaManager = cudaLib_GetDevices S"
| "m_GetDevices S NullManager = null_GetDevices"
| "m_GetDevices S (WithFallBack w f) = m_GetDevices S w"

fun m_GetDriverVersion :: "'h sys \<Rightarrow> manager \<Rightarrow> string go" where
  "m_GetDriverVersion S NvmlManager = nvmlLib_GetDriverVersion S"
| "m_GetDriverVersion S CudaManager = cudaLib_GetDriverVersion S"
| "m_GetDriverVersion S NullManager = null_GetDriverVersion"
| "m_GetDriverVersion S (WithFallBack w f) = m_GetDriverVersion S w"

fun m_GetCudaDriverVersion :: "'h sys \<Rightarrow> manager \<Rightarrow> (64 word \<times> 64 word) go" where
  "m_GetCudaDriverVersion S NvmlManager = nvmlLib_GetCudaDriverVersion S"
| "m_GetCudaDriverVersion S CudaManager = cudaLib_GetCudaDriverVersion S"
| "m_GetCudaDriverVersion S NullManager = null_GetCudaDriverVersion"
| "m_GetCudaDriverVersion S (WithFallBack w f) = m_GetCudaDriverVersion S w"

definition sys_managers :: "'h sys \<Rightarrow> (mgr_state, 'h device) manager_ops" where
  "sys_managers S =
     \<lparr>mgr_Init = (\<lambda>(m, g). m_Init S m g), mgr_Shutdown = (\<lambda>(m, g). m_Shutdown S m g),
      mgr_GetDevices = (\<lambda>(m, g). m_GetDevices S m),
      mgr_GetDriverVersion = (\<lambda>(m, g). m_GetDriverVersion S m),
      mgr_GetCudaDriverVersion = (\<lambda>(m, g). m_GetCudaDriverVersion S m)\<rparr>"

section \<open>Factory\<close>

definition WithConfig :: "manager \<Rightarrow> config \<Rightarrow> manager go" where
  "WithConfig m config =
     gbind (deref (fl_FailOnInitError (cfg_Flags config))) (\<lambda>failOnInitError.
     if failOnInitError then Ret m else Ret (NewFallbackToNullOnInitError m))"

definition getManager :: "'h sys \<Rightarrow> manager" where
  "getManager S =
     (let hasNVML = sys_HasNvml S;
          isTegra = (if hasNVML \<and> sys_IsTegra S then False else sys_IsTegra S)
      in if hasNVML then NewNVMLManager
         else if isTegra then NewCudaManager
         else NewNullManager)"

definition NewManager :: "'h sys \<Rightarrow> config \<Rightarrow> manager go" where
  "NewManager S config = WithConfig (getManager S) config"

section \<open>The contracts hold\<close>

lemma totalMemory_no_crash [simp]: "no_crash (totalMemory attr)"
  by (simp add: totalMemory_def split: option.splits attr_val.splits)

lemma no_crash_gbind_Ret [simp]: "no_crash m \<Longrightarrow> no_crash (gbind m (\<lambda>x. Ret (f x)))"
  by (cases m) auto

interpretation sysdev: device_contract "sys_devices S" for S :: "'h sys"
proof (unfold_locales, goal_cases)
  case (4 d) then show ?case by (cases d) (simp_all add: sys_devices_def)
next
  case (6 d) then show ?case
    by (cases d) (auto simp: sys_devices_def intro!: no_crash_gbind)
next
  case (7 d) then show ?case
    by (cases d) (auto simp: sys_devices_def intro!: no_crash_gbind)
next
  case (8 d) then show ?case
    by (cases d) (auto simp: sys_devices_def intro!: no_crash_gbind)
qed (simp_all add: sys_devices_def, (case_tac d; simp)+)

lemma m_Init_result: "m_Init S m g = (st, r) \<Longrightarrow> no_crash r"
proof (induction m arbitrary: g st r)
  case (WithFallBack w f)
  then have "\<And>w' g' p. m_Init S w g \<noteq> ((w', g'), Panic p)" "\<And>w' g'. m_Init S w g \<noteq> ((w', g'), Diverge)"
    by fastforce+
  with WithFallBack.prems show ?case by (auto split: prod.splits go.splits)
qed (auto simp: Let_def split: prod.splits)

lemma m_Shutdown_result: "m_Shutdown S m g = (st, r) \<Longrightarrow> no_crash r"
  by (induction m arbitrary: g st r) (auto simp: Let_def split: prod.splits)

lemma m_Init_no_crash: "no_crash (snd (m_Init S m g))"
  by (cases "m_Init S m g") (simp add: m_Init_result)

lemma m_Shutdown_no_crash: "no_crash (snd (m_Shutdown S m g))"
  by (cases "m_Shutdown S m g") (simp add: m_Shutdown_result)

lemma m_Init_not_crash [simp]:
  "m_Init S m g \<noteq> (st, Panic p)" "m_Init S m g \<noteq> (st, Diverge)"
  using m_Init_result by fastforce+

lemma m_GetDevices_no_crash: "no_crash (m_GetDevices S m)"
  by (induction m) (auto simp: cudaLib_GetDevices_def intro!: no_crash_gbind mapM_go_no_crash)

lemma m_GetDriverVersion_no_crash: "no_crash (m_GetDriverVersion S m)"
  by (induction m) auto

lemma m_GetCudaDriverVersion_no_crash: "no_crash (m_GetCudaDriverVersion S m)"
  by (induction m) auto

interpretation sysmgr: manager_contract "sys_devices S" "sys_managers S" "\<lambda>_. True"
  for S :: "'h sys"
  by unfold_locales
    (auto simp: sys_managers_def m_Init_no_crash m_Shutdown_no_crash m_GetDevices_no_crash
      m_GetDriverVersion_no_crash m_GetCudaDriverVersion_no_crash)

text \<open>
  The managers whose \<^verbatim>\<open>Init\<close> cannot fail: the null manager and every wrapper whose fallback is
  the null manager.
\<close>

fun cannot_fail_init :: "manager \<Rightarrow> bool" where
  "cannot_fail_init NullManager = True"
| "cannot_fail_init (WithFallBack w f) = (f = NullManager)"
| "cannot_fail_init _ = False"

lemma m_Init_fallback:
  "m_Init S (WithFallBack w f) g =
     (case m_Init S w g of
        ((w', g'), Ret _) \<Rightarrow> ((WithFallBack w' f, g'), Ret ())
      | ((w', g'), _) \<Rightarrow> ((WithFallBack f f, g'), Ret ()))"
  by (auto split: prod.splits go.splits)

lemma cannot_fail_Init:
  "cannot_fail_init m \<Longrightarrow> m_Init S m g = (st, r) \<Longrightarrow> returns r \<and> cannot_fail_init (fst st)"
  by (cases m) (auto simp: m_Init_fallback split: prod.splits go.splits)

lemma cannot_fail_Shutdown:
  "cannot_fail_init m \<Longrightarrow> m_Shutdown S m g = (st, r) \<Longrightarrow> cannot_fail_init (fst st)"
  by (cases m) (auto simp: Let_def split: prod.splits)

interpretation fallback: infallible_manager "sys_devices S" "sys_managers S"
    "\<lambda>(m, g). cannot_fail_init m" for S :: "'h sys"
proof (unfold_locales, goal_cases)
  case (6 s)
  then show ?case
    by (cases s; cases "m_Init S (fst s) (snd s)")
      (auto simp: sys_managers_def dest: cannot_fail_Init)
next
  case (7 s)
  then show ?case
    by (cases s; cases "m_Shutdown S (fst s) (snd s)")
      (auto simp: sys_managers_def dest: cannot_fail_Shutdown)
next
  case (8 s)
  then show ?case
    by (cases s; cases "m_Init S (fst s) (snd s)")
      (auto simp: sys_managers_def dest: cannot_fail_Init)
qed (auto simp: sys_managers_def m_Init_no_crash m_Shutdown_no_crash m_GetDevices_no_crash
      m_GetDriverVersion_no_crash m_GetCudaDriverVersion_no_crash)

lemma cannot_fail_init_WithConfig:
  "WithConfig m config = Ret m' \<Longrightarrow> fl_FailOnInitError (cfg_Flags config) = Some False \<Longrightarrow>
   cannot_fail_init m'"
  by (auto simp: WithConfig_def NewFallbackToNullOnInitError_def NewNullManager_def)

section \<open>Properties\<close>

lemma version_words:
  assumes "0 \<le> v" and "v < 2 ^ 63"
  shows "nvml_cuda_version v = (word_of_int (v div 1000), word_of_int (v mod 1000 div 10))"
    and "cuda_cuda_version v = (word_of_int (v div 1000), word_of_int (v mod 100 div 10))"
proof -
  have v: "uint (word_of_int v :: 64 word) = v"
    using assms by (simp add: uint_word_of_int)
  show "nvml_cuda_version v = (word_of_int (v div 1000), word_of_int (v mod 1000 div 10))"
    using assms by (cases "v = 0"; cases "v mod 1000 = 0")
      (auto simp: nvml_cuda_version_def signed_divide_int_def signed_modulo_int_def sgn_if)
  show "cuda_cuda_version v = (word_of_int (v div 1000), word_of_int (v mod 100 div 10))"
    using assms v
    by (simp add: cuda_cuda_version_def Let_def word_div_def word_mod_def uint_word_of_int take_bit_eq_mod)
qed

lemma small_words_eq:
  "0 \<le> a \<Longrightarrow> a < 1000 \<Longrightarrow> 0 \<le> b \<Longrightarrow> b < 1000 \<Longrightarrow>
   (word_of_int a :: 64 word) = word_of_int b \<longleftrightarrow> a = (b :: int)"
  by (simp add: word_of_int_eq_iff take_bit_eq_mod)

lemma minor_versions_eq: "v mod 1000 div 10 = v mod 100 div 10 \<longleftrightarrow> v div 100 mod 10 = (0 :: int)"
proof -
  have "v mod 1000 = v mod 100 + 10 * (v div 100 mod 10) * 10"
    using zmod_zmult2_eq [of 10 v 100] by simp
  then have "v mod 1000 div 10 = 10 * (v div 100 mod 10) + v mod 100 div 10"
    by (simp only: div_mult_self1 [of "10 :: int"])
  then show ?thesis by simp
qed

text \<open>C35: For the same driver answer the two managers report the same CUDA version exactly when
  the hundreds digit is zero: the minor version of the CUDA manager drops it.\<close>

theorem cuda_versions_agree:
  assumes "nv_SystemGetCudaDriverVersion (sys_nvml S) = (v, SUCCESS)"
    and "c_cuDriverGetVersion (sys_cuda S) = (w, SUCCESS)" and "sint w = v" and "0 \<le> v"
  shows "m_GetCudaDriverVersion S NvmlManager = m_GetCudaDriverVersion S CudaManager \<longleftrightarrow>
    v div 100 mod 10 = 0"
proof -
  have "v < 2 ^ 63" using sint_lt [of w] assms(3) by simp
  then show ?thesis
    using assms by (simp add: nv_ret_def cuda_ret_def cuda_DriverGetVersion_def cu_defs version_words
        small_words_eq minor_versions_eq)
qed

text \<open>Every library call succeeds; there is one MIG-enabled GPU, \<open>0\<close>, without MIG devices.\<close>

definition sample_nvml :: "nat nvml_sys" where
  "sample_nvml =
     \<lparr>nv_ErrorString = (\<lambda>r. ''ERROR''), nv_Init = 0, nv_Shutdown = 0,
      nv_SystemGetCudaDriverVersion = (12100, 0), nv_SystemGetDriverVersion = (''400.300'', 0),
      nv_dev_GetName = (\<lambda>h. (''MODEL'', 0)), nv_dev_GetMemoryTotal = (\<lambda>h. (0, 0)),
      nv_dev_GetCudaComputeCapability = (\<lambda>h. ((8, 0), 0)),
      nv_mig_GetAttributes = (\<lambda>h. (\<lparr>at_MultiprocessorCount = 0, at_SharedCopyEngineCount = 0,
        at_SharedDecoderCount = 0, at_SharedEncoderCount = 0, at_SharedJpegCount = 0,
        at_SharedOfaCount = 0, at_GpuInstanceSliceCount = 1, at_ComputeInstanceSliceCount = 1,
        at_MemorySizeMB = 5\<rparr>, 0)),
      nv_mig_GetParent = (\<lambda>h. (0, 0)), nvlib_GetDevices = Inr [0], nvlib_NewDevice = Inr,
      nvlib_dev_IsMigCapable = (\<lambda>h. Inr True), nvlib_dev_IsMigEnabled = (\<lambda>h. Inr True),
      nvlib_dev_GetMigDevices = (\<lambda>h. Inr []), nvlib_mig_Profile = (\<lambda>h. Inr ''1g.5gb'')\<rparr>"

definition sample_cuda :: cuda_c where
  "sample_cuda =
     \<lparr>c_Open = None, c_Lookup_cuInit = None, c_Close = None, c_cuInit = (\<lambda>flags. 0),
      c_cuDriverGetVersion = (12100, 0), c_cuDeviceGetCount = (1, 0),
      c_cuDeviceGet = (\<lambda>i. (i, 0)), c_cuDeviceGetAttribute = (\<lambda>a d. (8, 0)),
      c_cuDeviceTotalMem = (\<lambda>d. (0, 0)), c_cuDeviceGetName = (\<lambda>n d. ([], 0))\<rparr>"

definition sample_sys :: "nat sys" where
  "sample_sys = \<lparr>sys_nvml = sample_nvml, sys_cuda = sample_cuda, sys_HasNvml = True,
     sys_IsTegra = False\<rparr>"

lemmas sample_defs = sample_sys_def sample_nvml_def sample_cuda_def SUCCESS_def

theorem cuda_versions_agree_witness:
  "m_GetCudaDriverVersion sample_sys NvmlManager \<noteq> m_GetCudaDriverVersion sample_sys CudaManager"
  using cuda_versions_agree [of sample_sys 12100 12100] by (simp add: sample_defs)

text \<open>C25: Unless failing is asked for, initialising the manager never fails; when the manager it
  wraps cannot be initialised it is replaced for good: from then on, whatever the hardware does,
  there are no devices, and \<open>Init\<close> and \<open>Shutdown\<close> succeed without changing anything.\<close>

theorem fallback_to_null:
  assumes "NewManager S config = Ret m" and "fl_FailOnInitError (cfg_Flags config) = Some False"
  shows "(\<exists>m' g'. m_Init S' m g = ((m', g'), Ret ())) \<and>
    (\<forall>w g' e. m_Init S' (getManager S) g = ((w, g'), Err e) \<longrightarrow>
      (\<exists>m'. m_Init S' m g = ((m', g'), Ret ()) \<and>
        (\<forall>T. m_GetDevices T m' = Ret [] \<and>
          (\<forall>h. m_Init T m' h = ((m', h), Ret ()) \<and> m_Shutdown T m' h = ((m', h), Ret ())))))"
proof (intro conjI allI impI)
  have "cannot_fail_init m"
    using assms by (auto simp: NewManager_def intro: cannot_fail_init_WithConfig)
  then show "\<exists>m' g'. m_Init S' m g = ((m', g'), Ret ())"
    using fallback.Init_never_fails [of "(m, g)" S'] by (auto simp: sys_managers_def)
next
  fix w g' e
  assume "m_Init S' (getManager S) g = ((w, g'), Err e)"
  moreover have "m = WithFallBack (getManager S) NullManager"
    using assms
    by (simp add: NewManager_def WithConfig_def NewFallbackToNullOnInitError_def NewNullManager_def)
  ultimately show "\<exists>m'. m_Init S' m g = ((m', g'), Ret ()) \<and>
      (\<forall>T. m_GetDevices T m' = Ret [] \<and>
        (\<forall>h. m_Init T m' h = ((m', h), Ret ()) \<and> m_Shutdown T m' h = ((m', h), Ret ())))"
    by (intro exI [of _ "WithFallBack NullManager NullManager"]) simp
qed

text \<open>The configuration of the command line defaults, with the given strategy.\<close>

definition sample_config :: "string \<Rightarrow> config" where
  "sample_config strategy = default_config\<lparr>cfg_Flags := empty_flags\<lparr>fl_MigStrategy := Some strategy,
     fl_FailOnInitError := Some False,
     fl_GFD := Some \<lparr>gf_Oneshot = Some False, gf_NoTimestamp = Some True,
       gf_SleepInterval = Some 60, gf_OutputFile = Some ''/out/gfd'',
       gf_MachineTypeFile = Some []\<rparr>\<rparr>\<rparr>"

theorem fallback_to_null_witness:
  "\<exists>m'. m_Init (sample_sys\<lparr>sys_nvml := sample_nvml\<lparr>nv_Init := 9\<rparr>\<rparr>)
      (WithFallBack NvmlManager NullManager) False = ((m', False), Ret ()) \<and>
    m_GetDevices sample_sys m' = Ret []"
  using fallback_to_null [of sample_sys "sample_config ''none''" "WithFallBack NvmlManager NullManager"
      "sample_sys\<lparr>sys_nvml := sample_nvml\<lparr>nv_Init := 9\<rparr>\<rparr>" False]
  by (auto simp: sample_config_def NewManager_def WithConfig_def getManager_def Let_def sample_defs
      NewNVMLManager_def NewFallbackToNullOnInitError_def NewNullManager_def nv_ret_def)

end
