(* ===== verification/Mocks.thy ===== *)
theory Mocks
  imports Resource_Iface
begin

text \<open>
  The mocks of the two interfaces that \<^verbatim>\<open>moq\<close> generates for the tests, \<^verbatim>\<open>device_mock.go\<close> and
  \<^verbatim>\<open>manager_mock.go\<close> of \<^verbatim>\<open>internal/resource\<close>.  A mock holds a function for every method, nil
  (\<open>None\<close>) when the test did not set it, and the list of the calls of every method.  The functions
  take no argument, so one is given by its outcome.  The locks around the lists order the calls of
  concurrent tests; here the calls are in sequence.
\<close>

section \<open>A call of a mock\<close>

text \<open>
  All methods have one shape: a nil function panics, otherwise the call is recorded and the
  function is called.
\<close>

definition mock_call ::
  "string \<Rightarrow> string \<Rightarrow> string \<Rightarrow> ('m \<Rightarrow> 'a go option) \<Rightarrow> ('m \<Rightarrow> 'm) \<Rightarrow> ('m, 'a) sgo" where
  "mock_call mockType iface method func note_call = (\<lambda>mock.
     case func mock of
       None \<Rightarrow> (mock, Panic (mockType @ ''.'' @ method @ ''Func: method is nil but '' @ iface @ ''.'' @ method @
                 '' was just called''))
     | Some r \<Rightarrow> (note_call mock, r))"

section \<open>DeviceMock\<close>

record 'd device_mock =
  dmk_GetAttributesFunc :: "((string, attr_val) gomap) go option"
  dmk_GetCudaComputeCapabilityFunc :: "(int \<times> int) go option"
  dmk_GetDeviceHandleFromMigDeviceHandleFunc :: "('d) go option"
  dmk_GetMigDevicesFunc :: "('d list) go option"
  dmk_GetNameFunc :: "(string) go option"
  dmk_GetTotalMemoryMBFunc :: "(64 word) go option"
  dmk_IsMigCapableFunc :: "(bool) go option"
  dmk_IsMigEnabledFunc :: "(bool) go option"
  dmk_calls_GetAttributes :: "unit list"
  dmk_calls_GetCudaComputeCapability :: "unit list"
  dmk_calls_GetDeviceHandleFromMigDeviceHandle :: "unit list"
  dmk_calls_GetMigDevices :: "unit list"
  dmk_calls_GetName :: "unit list"
  dmk_calls_GetTotalMemoryMB :: "unit list"
  dmk_calls_IsMigCapable :: "unit list"
  dmk_calls_IsMigEnabled :: "unit list"

definition DeviceMock_GetAttributes :: "('d device_mock, (string, attr_val) gomap) sgo" where
  "DeviceMock_GetAttributes =
     mock_call ''DeviceMock'' ''Device'' ''GetAttributes'' dmk_GetAttributesFunc
       (\<lambda>mock. mock\<lparr>dmk_calls_GetAttributes := dmk_calls_GetAttributes mock @ [()]\<rparr>)"

definition DeviceMock_GetAttributesCalls :: "'d device_mock \<Rightarrow> unit list" where
  "DeviceMock_GetAttributesCalls mock = dmk_calls_GetAttributes mock"

definition DeviceMock_GetCudaComputeCapability :: "('d device_mock, int \<times> int) sgo" where
  "DeviceMock_GetCudaComputeCapability =
     mock_call ''DeviceMock'' ''Device'' ''GetCudaComputeCapability'' dmk_GetCudaComputeCapabilityFunc
       (\<lambda>mock. mock\<lparr>dmk_calls_GetCudaComputeCapability := dmk_calls_GetCudaComputeCapability mock @ [()]\<rparr>)"

definition DeviceMock_GetCudaComputeCapabilityCalls :: "'d device_mock \<Rightarrow> unit list" where
  "DeviceMock_GetCudaComputeCapabilityCalls mock = dmk_calls_GetCudaComputeCapability mock"

definition DeviceMock_GetDeviceHandleFromMigDeviceHandle :: "('d device_mock, 'd) sgo" where
  "DeviceMock_GetDeviceHandleFromMigDeviceHandle =
     mock_call ''DeviceMock'' ''Device'' ''GetDeviceHandleFromMigDeviceHandle'' dmk_GetDeviceHandleFromMigDeviceHandleFunc
       (\<lambda>mock. mock\<lparr>dmk_calls_GetDeviceHandleFromMigDeviceHandle := dmk_calls_GetDeviceHandleFromMigDeviceHandle mock @ [()]\<rparr>)"

definition DeviceMock_GetDeviceHandleFromMigDeviceHandleCalls :: "'d device_mock \<Rightarrow> unit list" where
  "DeviceMock_GetDeviceHandleFromMigDeviceHandleCalls mock = dmk_calls_GetDeviceHandleFromMigDeviceHandle mock"

definition DeviceMock_GetMigDevices :: "('d device_mock, 'd list) sgo" where
  "DeviceMock_GetMigDevices =
     mock_call ''DeviceMock'' ''Device'' ''GetMigDevices'' dmk_GetMigDevicesFunc
       (\<lambda>mock. mock\<lparr>dmk_calls_GetMigDevices := dmk_calls_GetMigDevices mock @ [()]\<rparr>)"

definition DeviceMock_GetMigDevicesCalls :: "'d device_mock \<Rightarrow> unit list" where
  "DeviceMock_GetMigDevicesCalls mock = dmk_calls_GetMigDevices mock"

definition DeviceMock_GetName :: "('d device_mock, string) sgo" where
  "DeviceMock_GetName =
     mock_call ''DeviceMock'' ''Device'' ''GetName'' dmk_GetNameFunc
       (\<lambda>mock. mock\<lparr>dmk_calls_GetName := dmk_calls_GetName mock @ [()]\<rparr>)"

definition DeviceMock_GetNameCalls :: "'d device_mock \<Rightarrow> unit list" where
  "DeviceMock_GetNameCalls mock = dmk_calls_GetName mock"

definition DeviceMock_GetTotalMemoryMB :: "('d device_mock, 64 word) sgo" where
  "DeviceMock_GetTotalMemoryMB =
     mock_call ''DeviceMock'' ''Device'' ''GetTotalMemoryMB'' dmk_GetTotalMemoryMBFunc
       (\<lambda>mock. mock\<lparr>dmk_calls_GetTotalMemoryMB := dmk_calls_GetTotalMemoryMB mock @ [()]\<rparr>)"

definition DeviceMock_GetTotalMemoryMBCalls :: "'d device_mock \<Rightarrow> unit list" where
  "DeviceMock_GetTotalMemoryMBCalls mock = dmk_calls_GetTotalMemoryMB mock"

definition DeviceMock_IsMigCapable :: "('d device_mock, bool) sgo" where
  "DeviceMock_IsMigCapable =
     mock_call ''DeviceMock'' ''Device'' ''IsMigCapable'' dmk_IsMigCapableFunc
       (\<lambda>mock. mock\<lparr>dmk_calls_IsMigCapable := dmk_calls_IsMigCapable mock @ [()]\<rparr>)"

definition DeviceMock_IsMigCapableCalls :: "'d device_mock \<Rightarrow> unit list" where
  "DeviceMock_IsMigCapableCalls mock = dmk_calls_IsMigCapable mock"

definition DeviceMock_IsMigEnabled :: "('d device_mock, bool) sgo" where
  "DeviceMock_IsMigEnabled =
     mock_call ''DeviceMock'' ''Device'' ''IsMigEnabled'' dmk_IsMigEnabledFunc
       (\<lambda>mock. mock\<lparr>dmk_calls_IsMigEnabled := dmk_calls_IsMigEnabled mock @ [()]\<rparr>)"

definition DeviceMock_IsMigEnabledCalls :: "'d device_mock \<Rightarrow> unit list" where
  "DeviceMock_IsMigEnabledCalls mock = dmk_calls_IsMigEnabled mock"

lemmas DeviceMock_defs = mock_call_def
  DeviceMock_GetAttributes_def DeviceMock_GetAttributesCalls_def
  DeviceMock_GetCudaComputeCapability_def DeviceMock_GetCudaComputeCapabilityCalls_def
  DeviceMock_GetDeviceHandleFromMigDeviceHandle_def DeviceMock_GetDeviceHandleFromMigDeviceHandleCalls_def
  DeviceMock_GetMigDevices_def DeviceMock_GetMigDevicesCalls_def
  DeviceMock_GetName_def DeviceMock_GetNameCalls_def
  DeviceMock_GetTotalMemoryMB_def DeviceMock_GetTotalMemoryMBCalls_def
  DeviceMock_IsMigCapable_def DeviceMock_IsMigCapableCalls_def
  DeviceMock_IsMigEnabled_def DeviceMock_IsMigEnabledCalls_def

text \<open>The methods by name: a call without its value, whether the function is set, the number of calls.\<close>

datatype device_mock_method = D_GetAttributes | D_GetCudaComputeCapability | D_GetDeviceHandleFromMigDeviceHandle | D_GetMigDevices | D_GetName | D_GetTotalMemoryMB | D_IsMigCapable | D_IsMigEnabled

fun device_mock_call :: "device_mock_method \<Rightarrow> ('d device_mock, unit) sgo" where
  "device_mock_call D_GetAttributes = sbind DeviceMock_GetAttributes (\<lambda>_. sret ())"
| "device_mock_call D_GetCudaComputeCapability = sbind DeviceMock_GetCudaComputeCapability (\<lambda>_. sret ())"
| "device_mock_call D_GetDeviceHandleFromMigDeviceHandle = sbind DeviceMock_GetDeviceHandleFromMigDeviceHandle (\<lambda>_. sret ())"
| "device_mock_call D_GetMigDevices = sbind DeviceMock_GetMigDevices (\<lambda>_. sret ())"
| "device_mock_call D_GetName = sbind DeviceMock_GetName (\<lambda>_. sret ())"
| "device_mock_call D_GetTotalMemoryMB = sbind DeviceMock_GetTotalMemoryMB (\<lambda>_. sret ())"
| "device_mock_call D_IsMigCapable = sbind DeviceMock_IsMigCapable (\<lambda>_. sret ())"
| "device_mock_call D_IsMigEnabled = sbind DeviceMock_IsMigEnabled (\<lambda>_. sret ())"

fun device_mock_set :: "device_mock_method \<Rightarrow> 'd device_mock \<Rightarrow> bool" where
  "device_mock_set D_GetAttributes mock = (dmk_GetAttributesFunc mock \<noteq> None)"
| "device_mock_set D_GetCudaComputeCapability mock = (dmk_GetCudaComputeCapabilityFunc mock \<noteq> None)"
| "device_mock_set D_GetDeviceHandleFromMigDeviceHandle mock = (dmk_GetDeviceHandleFromMigDeviceHandleFunc mock \<noteq> None)"
| "device_mock_set D_GetMigDevices mock = (dmk_GetMigDevicesFunc mock \<noteq> None)"
| "device_mock_set D_GetName mock = (dmk_GetNameFunc mock \<noteq> None)"
| "device_mock_set D_GetTotalMemoryMB mock = (dmk_GetTotalMemoryMBFunc mock \<noteq> None)"
| "device_mock_set D_IsMigCapable mock = (dmk_IsMigCapableFunc mock \<noteq> None)"
| "device_mock_set D_IsMigEnabled mock = (dmk_IsMigEnabledFunc mock \<noteq> None)"

fun device_mock_count :: "device_mock_method \<Rightarrow> 'd device_mock \<Rightarrow> nat" where
  "device_mock_count D_GetAttributes mock = length (DeviceMock_GetAttributesCalls mock)"
| "device_mock_count D_GetCudaComputeCapability mock = length (DeviceMock_GetCudaComputeCapabilityCalls mock)"
| "device_mock_count D_GetDeviceHandleFromMigDeviceHandle mock = length (DeviceMock_GetDeviceHandleFromMigDeviceHandleCalls mock)"
| "device_mock_count D_GetMigDevices mock = length (DeviceMock_GetMigDevicesCalls mock)"
| "device_mock_count D_GetName mock = length (DeviceMock_GetNameCalls mock)"
| "device_mock_count D_GetTotalMemoryMB mock = length (DeviceMock_GetTotalMemoryMBCalls mock)"
| "device_mock_count D_IsMigCapable mock = length (DeviceMock_IsMigCapableCalls mock)"
| "device_mock_count D_IsMigEnabled mock = length (DeviceMock_IsMigEnabledCalls mock)"

lemma device_mock_call_effect:
  "device_mock_count k (fst (device_mock_call m mock)) = device_mock_count k mock + (if m = k \<and> device_mock_set k mock then 1 else 0)"
  "device_mock_set k (fst (device_mock_call m mock)) = device_mock_set k mock"
  "\<not> device_mock_set m mock \<Longrightarrow> \<exists>p. device_mock_call m mock = (mock, Panic p)"
  by ((cases m; cases k), auto simp: DeviceMock_defs sbind_def sret_def split: option.splits go.splits)+

section \<open>ManagerMock\<close>

record 'd manager_mock =
  mmk_GetCudaDriverVersionFunc :: "(64 word \<times> 64 word) go option"
  mmk_GetDevicesFunc :: "('d list) go option"
  mmk_GetDriverVersionFunc :: "(string) go option"
  mmk_InitFunc :: "(unit) go option"
  mmk_ShutdownFunc :: "(unit) go option"
  mmk_calls_GetCudaDriverVersion :: "unit list"
  mmk_calls_GetDevices :: "unit list"
  mmk_calls_GetDriverVersion :: "unit list"
  mmk_calls_Init :: "unit list"
  mmk_calls_Shutdown :: "unit list"

definition ManagerMock_GetCudaDriverVersion :: "('d manager_mock, 64 word \<times> 64 word) sgo" where
  "ManagerMock_GetCudaDriverVersion =
     mock_call ''ManagerMock'' ''Manager'' ''GetCudaDriverVersion'' mmk_GetCudaDriverVersionFunc
       (\<lambda>mock. mock\<lparr>mmk_calls_GetCudaDriverVersion := mmk_calls_GetCudaDriverVersion mock @ [()]\<rparr>)"

definition ManagerMock_GetCudaDriverVersionCalls :: "'d manager_mock \<Rightarrow> unit list" where
  "ManagerMock_GetCudaDriverVersionCalls mock = mmk_calls_GetCudaDriverVersion mock"

definition ManagerMock_GetDevices :: "('d manager_mock, 'd list) sgo" where
  "ManagerMock_GetDevices =
     mock_call ''ManagerMock'' ''Manager'' ''GetDevices'' mmk_GetDevicesFunc
       (\<lambda>mock. mock\<lparr>mmk_calls_GetDevices := mmk_calls_GetDevices mock @ [()]\<rparr>)"

definition ManagerMock_GetDevicesCalls :: "'d manager_mock \<Rightarrow> unit list" where
  "ManagerMock_GetDevicesCalls mock = mmk_calls_GetDevices mock"

definition ManagerMock_GetDriverVersion :: "('d manager_mock, string) sgo" where
  "ManagerMock_GetDriverVersion =
     mock_call ''ManagerMock'' ''Manager'' ''GetDriverVersion'' mmk_GetDriverVersionFunc
       (\<lambda>mock. mock\<lparr>mmk_calls_GetDriverVersion := mmk_calls_GetDriverVersion mock @ [()]\<rparr>)"

definition ManagerMock_GetDriverVersionCalls :: "'d manager_mock \<Rightarrow> unit list" where
  "ManagerMock_GetDriverVersionCalls mock = mmk_calls_GetDriverVersion mock"

definition ManagerMock_Init :: "('d manager_mock, unit) sgo" where
  "ManagerMock_Init =
     mock_call ''ManagerMock'' ''Manager'' ''Init'' mmk_InitFunc
       (\<lambda>mock. mock\<lparr>mmk_calls_Init := mmk_calls_Init mock @ [()]\<rparr>)"

definition ManagerMock_InitCalls :: "'d manager_mock \<Rightarrow> unit list" where
  "ManagerMock_InitCalls mock = mmk_calls_Init mock"

definition ManagerMock_Shutdown :: "('d manager_mock, unit) sgo" where
  "ManagerMock_Shutdown =
     mock_call ''ManagerMock'' ''Manager'' ''Shutdown'' mmk_ShutdownFunc
       (\<lambda>mock. mock\<lparr>mmk_calls_Shutdown := mmk_calls_Shutdown mock @ [()]\<rparr>)"

definition ManagerMock_ShutdownCalls :: "'d manager_mock \<Rightarrow> unit list" where
  "ManagerMock_ShutdownCalls mock = mmk_calls_Shutdown mock"

lemmas ManagerMock_defs = mock_call_def
  ManagerMock_GetCudaDriverVersion_def ManagerMock_GetCudaDriverVersionCalls_def
  ManagerMock_GetDevices_def ManagerMock_GetDevicesCalls_def
  ManagerMock_GetDriverVersion_def ManagerMock_GetDriverVersionCalls_def
  ManagerMock_Init_def ManagerMock_InitCalls_def
  ManagerMock_Shutdown_def ManagerMock_ShutdownCalls_def

text \<open>The methods by name: a call without its value, whether the function is set, the number of calls.\<close>

datatype manager_mock_method = M_GetCudaDriverVersion | M_GetDevices | M_GetDriverVersion | M_Init | M_Shutdown

fun manager_mock_call :: "manager_mock_method \<Rightarrow> ('d manager_mock, unit) sgo" where
  "manager_mock_call M_GetCudaDriverVersion = sbind ManagerMock_GetCudaDriverVersion (\<lambda>_. sret ())"
| "manager_mock_call M_GetDevices = sbind ManagerMock_GetDevices (\<lambda>_. sret ())"
| "manager_mock_call M_GetDriverVersion = sbind ManagerMock_GetDriverVersion (\<lambda>_. sret ())"
| "manager_mock_call M_Init = sbind ManagerMock_Init (\<lambda>_. sret ())"
| "manager_mock_call M_Shutdown = sbind ManagerMock_Shutdown (\<lambda>_. sret ())"

fun manager_mock_set :: "manager_mock_method \<Rightarrow> 'd manager_mock \<Rightarrow> bool" where
  "manager_mock_set M_GetCudaDriverVersion mock = (mmk_GetCudaDriverVersionFunc mock \<noteq> None)"
| "manager_mock_set M_GetDevices mock = (mmk_GetDevicesFunc mock \<noteq> None)"
| "manager_mock_set M_GetDriverVersion mock = (mmk_GetDriverVersionFunc mock \<noteq> None)"
| "manager_mock_set M_Init mock = (mmk_InitFunc mock \<noteq> None)"
| "manager_mock_set M_Shutdown mock = (mmk_ShutdownFunc mock \<noteq> None)"

fun manager_mock_count :: "manager_mock_method \<Rightarrow> 'd manager_mock \<Rightarrow> nat" where
  "manager_mock_count M_GetCudaDriverVersion mock = length (ManagerMock_GetCudaDriverVersionCalls mock)"
| "manager_mock_count M_GetDevices mock = length (ManagerMock_GetDevicesCalls mock)"
| "manager_mock_count M_GetDriverVersion mock = length (ManagerMock_GetDriverVersionCalls mock)"
| "manager_mock_count M_Init mock = length (ManagerMock_InitCalls mock)"
| "manager_mock_count M_Shutdown mock = length (ManagerMock_ShutdownCalls mock)"

lemma manager_mock_call_effect:
  "manager_mock_count k (fst (manager_mock_call m mock)) = manager_mock_count k mock + (if m = k \<and> manager_mock_set k mock then 1 else 0)"
  "manager_mock_set k (fst (manager_mock_call m mock)) = manager_mock_set k mock"
  "\<not> manager_mock_set m mock \<Longrightarrow> \<exists>p. manager_mock_call m mock = (mock, Panic p)"
  by ((cases m; cases k), auto simp: ManagerMock_defs sbind_def sret_def split: option.splits go.splits)+

section \<open>Calls are counted\<close>

text \<open>What the tests rely on: a mock whose methods are named by \<open>'k\<close>.\<close>

locale call_recorder =
  fixes call :: "'k \<Rightarrow> ('m, unit) sgo"
    and is_set :: "'k \<Rightarrow> 'm \<Rightarrow> bool"
    and calls :: "'k \<Rightarrow> 'm \<Rightarrow> nat"
  assumes call_counts: "calls k (fst (call m mock)) = calls k mock + (if m = k \<and> is_set k mock then 1 else 0)"
    and call_keeps: "is_set k (fst (call m mock)) = is_set k mock"
    and nil_panics: "\<not> is_set m mock \<Longrightarrow> \<exists>p. call m mock = (mock, Panic p)"
begin

lemma calls_counted:
  "calls k (fold (\<lambda>m mock. fst (call m mock)) ms mock) =
   calls k mock + (if is_set k mock then count_list ms k else 0)"
  by (induction ms arbitrary: mock) (auto simp: call_counts call_keeps)

end

interpretation dmk: call_recorder device_mock_call device_mock_set device_mock_count
  by unfold_locales (rule device_mock_call_effect, assumption?)+

interpretation mmk: call_recorder manager_mock_call manager_mock_set manager_mock_count
  by unfold_locales (rule manager_mock_call_effect, assumption?)+

text \<open>C21: After any sequence of calls of its methods a generated mock reports, for every method whose
  function is set, exactly the calls of that method, and none for a method without a function.\<close>

theorem mock_calls_counted:
  "device_mock_count k (fold (\<lambda>m mock. fst (device_mock_call m mock)) ms dev) =
     device_mock_count k dev + (if device_mock_set k dev then count_list ms k else 0) \<and>
   manager_mock_count j (fold (\<lambda>m mock. fst (manager_mock_call m mock)) ns mgr) =
     manager_mock_count j mgr + (if manager_mock_set j mgr then count_list ns j else 0)"
  by (intro conjI dmk.calls_counted mmk.calls_counted)

end
