(* ===== verification/Mock_Node.thy ===== *)
theory Mock_Node
  imports Mocks
begin

text \<open>
  \<^verbatim>\<open>internal/resource/testing/resource-testing.go\<close>: the devices and managers the tests of the
  repository use, on the mocks of \<^verbatim>\<open>device_mock.go\<close> and \<^verbatim>\<open>manager_mock.go\<close>.  They are the concrete
  nodes on which the properties of the label code are evaluated.  A method whose function field
  is nil panics, so the mocks do not satisfy \<open>device_contract\<close> and are no instance of it.
\<close>

section \<open>Devices\<close>

text \<open>
  The arguments of \<^verbatim>\<open>NewMigDevice\<close>, with the optional attributes already merged into one map.
\<close>

record mock_mig =
  mm_gi :: int
  mm_ci :: int
  mm_gb :: "64 word"
  mm_attributes :: "(string, attr_val) gomap"

text \<open>
  The pointers to mocks the constructors make: \<open>MockGPU b migs\<close> is \<^verbatim>\<open>NewDeviceMock(b)\<close> with the MIG
  devices \<open>migs\<close> attached.  A MIG device holds its parent once it is attached; the parent is given
  by its mode and the list of its MIG devices.
\<close>

datatype mock_device = MockGPU bool "mock_mig list" | MockMig mock_mig "(bool \<times> mock_mig list) option"

definition NewDeviceMock :: "bool \<Rightarrow> mock_device" where
  "NewDeviceMock migEnabled = MockGPU migEnabled []"

definition NewFullGPU :: mock_device where
  "NewFullGPU = NewDeviceMock False"

definition NewMigDevice :: "int \<Rightarrow> int \<Rightarrow> 64 word \<Rightarrow> (string, attr_val) gomap list \<Rightarrow> mock_mig" where
  "NewMigDevice gi ci gb attributes =
     \<lparr>mm_gi = gi, mm_ci = ci, mm_gb = gb,
      mm_attributes = fold gset_all attributes
        [(''memory'', VUint64 gb), (''multiprocessors'', VInt 0), (''slices.gi'', VInt gi),
         (''slices.ci'', VInt ci), (''engines.copy'', VInt 0), (''engines.decoder'', VInt 0),
         (''engines.encoder'', VInt 0), (''engines.jpeg'', VInt 0), (''engines.ofa'', VInt 0)]\<rparr>"

fun WithMigDevices :: "mock_device \<Rightarrow> mock_mig list \<Rightarrow> mock_device" where
  "WithMigDevices (MockGPU b _) migs = MockGPU b migs"
| "WithMigDevices (MockMig m p) migs = MockMig m p"

definition NewMigEnabledDevice :: "mock_mig list \<Rightarrow> mock_device" where
  "NewMigEnabledDevice migs = WithMigDevices (NewDeviceMock True) migs"

text \<open>
  The mock behind such a pointer, before any call: the function fields \<^verbatim>\<open>NewDeviceMock\<close>,
  \<^verbatim>\<open>NewMigDevice\<close> and \<^verbatim>\<open>WithMigDevices\<close> set.
\<close>

definition no_device_mock :: "mock_device device_mock" where
  "no_device_mock =
     \<lparr>dmk_GetAttributesFunc = None, dmk_GetCudaComputeCapabilityFunc = None,
      dmk_GetDeviceHandleFromMigDeviceHandleFunc = None, dmk_GetMigDevicesFunc = None,
      dmk_GetNameFunc = None, dmk_GetTotalMemoryMBFunc = None, dmk_IsMigCapableFunc = None,
      dmk_IsMigEnabledFunc = None, dmk_calls_GetAttributes = [], dmk_calls_GetCudaComputeCapability = [],
      dmk_calls_GetDeviceHandleFromMigDeviceHandle = [], dmk_calls_GetMigDevices = [],
      dmk_calls_GetName = [], dmk_calls_GetTotalMemoryMB = [], dmk_calls_IsMigCapable = [],
      dmk_calls_IsMigEnabled = []\<rparr>"

fun device_mock_of :: "mock_device \<Rightarrow> mock_device device_mock" where
  "device_mock_of (MockGPU migEnabled migs) = no_device_mock
     \<lparr>dmk_GetNameFunc := Some (Ret ''MOCKMODEL''),
      dmk_GetCudaComputeCapabilityFunc := Some (if migEnabled then Ret (0, 0) else Ret (8, 0)),
      dmk_GetTotalMemoryMBFunc := Some (Ret 300),
      dmk_IsMigEnabledFunc := Some (Ret migEnabled),
      dmk_IsMigCapableFunc := Some (Ret migEnabled),
      dmk_GetMigDevicesFunc := Some (Ret (map (\<lambda>m. MockMig m (Some (migEnabled, migs))) migs))\<rparr>"
| "device_mock_of (MockMig m parent) = no_device_mock
     \<lparr>dmk_GetNameFunc := Some (Ret (show_int (mm_gi m) @ ''g.'' @ show_nat (unat (mm_gb m)) @ ''gb'')),
      dmk_GetAttributesFunc := Some (Ret (mm_attributes m)),
      dmk_GetDeviceHandleFromMigDeviceHandleFunc :=
        (case parent of None \<Rightarrow> None | Some (b, migs) \<Rightarrow> Some (Ret (MockGPU b migs)))\<rparr>"

text \<open>The results of the methods, without the recorded calls.\<close>

definition mock_GetName :: "mock_device \<Rightarrow> string go" where
  "mock_GetName d = snd (DeviceMock_GetName (device_mock_of d))"

definition mock_GetCudaComputeCapability :: "mock_device \<Rightarrow> (int \<times> int) go" where
  "mock_GetCudaComputeCapability d = snd (DeviceMock_GetCudaComputeCapability (device_mock_of d))"

definition mock_GetTotalMemoryMB :: "mock_device \<Rightarrow> (64 word) go" where
  "mock_GetTotalMemoryMB d = snd (DeviceMock_GetTotalMemoryMB (device_mock_of d))"

definition mock_IsMigEnabled :: "mock_device \<Rightarrow> bool go" where
  "mock_IsMigEnabled d = snd (DeviceMock_IsMigEnabled (device_mock_of d))"

definition mock_IsMigCapable :: "mock_device \<Rightarrow> bool go" where
  "mock_IsMigCapable d = snd (DeviceMock_IsMigCapable (device_mock_of d))"

definition mock_GetMigDevices :: "mock_device \<Rightarrow> mock_device list go" where
  "mock_GetMigDevices d = snd (DeviceMock_GetMigDevices (device_mock_of d))"

definition mock_GetAttributes :: "mock_device \<Rightarrow> (string, attr_val) gomap go" where
  "mock_GetAttributes d = snd (DeviceMock_GetAttributes (device_mock_of d))"

definition mock_GetParent :: "mock_device \<Rightarrow> mock_device go" where
  "mock_GetParent d = snd (DeviceMock_GetDeviceHandleFromMigDeviceHandle (device_mock_of d))"

lemmas mock_method_defs = mock_GetName_def mock_GetCudaComputeCapability_def mock_GetTotalMemoryMB_def
  mock_IsMigEnabled_def mock_IsMigCapable_def mock_GetMigDevices_def mock_GetAttributes_def
  mock_GetParent_def DeviceMock_defs no_device_mock_def

text \<open>The functions that are set, by kind of device.\<close>

lemma mock_methods [simp]:
  "mock_GetName (MockGPU b migs) = Ret ''MOCKMODEL''"
  "mock_GetName (MockMig m p) = Ret (show_int (mm_gi m) @ ''g.'' @ show_nat (unat (mm_gb m)) @ ''gb'')"
  "mock_GetCudaComputeCapability (MockGPU b migs) = Ret (if b then (0, 0) else (8, 0))"
  "mock_GetTotalMemoryMB (MockGPU b migs) = Ret 300"
  "mock_IsMigEnabled (MockGPU b migs) = Ret b"
  "mock_IsMigCapable (MockGPU b migs) = Ret b"
  "mock_GetMigDevices (MockGPU b migs) = Ret (map (\<lambda>m. MockMig m (Some (b, migs))) migs)"
  "mock_GetAttributes (MockMig m p) = Ret (mm_attributes m)"
  "mock_GetParent (MockMig m (Some q)) = Ret (MockGPU (fst q) (snd q))"
  by (simp_all add: mock_method_defs split: prod.splits)

definition mock_devices :: "mock_device device_ops" where
  "mock_devices =
     \<lparr>dev_IsMigEnabled = mock_IsMigEnabled, dev_IsMigCapable = mock_IsMigCapable,
      dev_GetMigDevices = mock_GetMigDevices, dev_GetAttributes = mock_GetAttributes,
      dev_GetName = mock_GetName, dev_GetTotalMemoryMB = mock_GetTotalMemoryMB,
      dev_GetDeviceHandleFromMigDeviceHandle = mock_GetParent,
      dev_GetCudaComputeCapability = mock_GetCudaComputeCapability\<rparr>"

section \<open>Managers\<close>

text \<open>
  \<open>new_manager_mock\<close> is the \<^verbatim>\<open>ManagerMock\<close> the constructor fills in.  The program reads the results of
  its methods; the recorded calls are left out of the operations, so they have no state.
\<close>

definition new_manager_mock :: "mock_device list \<Rightarrow> mock_device manager_mock" where
  "new_manager_mock devices =
     \<lparr>mmk_GetCudaDriverVersionFunc = Some (Ret (8, 0)), mmk_GetDevicesFunc = Some (Ret devices),
      mmk_GetDriverVersionFunc = Some (Ret ''400.300''), mmk_InitFunc = Some (Ret ()),
      mmk_ShutdownFunc = Some (Ret ()), mmk_calls_GetCudaDriverVersion = [], mmk_calls_GetDevices = [],
      mmk_calls_GetDriverVersion = [], mmk_calls_Init = [], mmk_calls_Shutdown = []\<rparr>"

definition manager_mock_results :: "mock_device manager_mock \<Rightarrow> (unit, mock_device) manager_ops" where
  "manager_mock_results mock =
     \<lparr>mgr_Init = (\<lambda>s. (s, snd (ManagerMock_Init mock))),
      mgr_Shutdown = (\<lambda>s. (s, snd (ManagerMock_Shutdown mock))),
      mgr_GetDevices = (\<lambda>s. snd (ManagerMock_GetDevices mock)),
      mgr_GetDriverVersion = (\<lambda>s. snd (ManagerMock_GetDriverVersion mock)),
      mgr_GetCudaDriverVersion = (\<lambda>s. snd (ManagerMock_GetCudaDriverVersion mock))\<rparr>"

definition NewManagerMockWithDevices :: "mock_device list \<Rightarrow> (unit, mock_device) manager_ops" where
  "NewManagerMockWithDevices devices = manager_mock_results (new_manager_mock devices)"

definition WithErrorOnInit :: "mock_device manager_mock \<Rightarrow> string option \<Rightarrow> mock_device manager_mock" where
  "WithErrorOnInit mock err =
     mock\<lparr>mmk_InitFunc := Some (case err of None \<Rightarrow> Ret () | Some e \<Rightarrow> Err e)\<rparr>"

lemma NewManagerMockWithDevices_ops:
  "NewManagerMockWithDevices devices =
     \<lparr>mgr_Init = (\<lambda>s. (s, Ret ())), mgr_Shutdown = (\<lambda>s. (s, Ret ())),
      mgr_GetDevices = (\<lambda>s. Ret devices), mgr_GetDriverVersion = (\<lambda>s. Ret ''400.300''),
      mgr_GetCudaDriverVersion = (\<lambda>s. Ret (8, 0))\<rparr>"
  by (simp add: NewManagerMockWithDevices_def manager_mock_results_def new_manager_mock_def ManagerMock_defs)

lemmas mock_simps = mock_devices_def NewManagerMockWithDevices_ops NewFullGPU_def
  NewMigEnabledDevice_def NewDeviceMock_def

end
