(* ===== verification/Mig.thy ===== *)
theory Mig
  imports Mock_Node
begin

text \<open>
  \<^verbatim>\<open>internal/mig/mig.go\<close>: the devices of a node, separated by whether MIG is enabled on them.
  The map is built on first use and kept in the \<^verbatim>\<open>DeviceInfo\<close>, so the operations pass that
  record along (\<open>sgo\<close>).
\<close>

section \<open>Operations\<close>

type_synonym 'd devices_map = "(bool, 'd list) gomap"

text \<open>\<^verbatim>\<open>DeviceInfo\<close>; its \<^verbatim>\<open>manager\<close> field never changes and is an argument of the operations.\<close>

record 'd device_info =
  di_devicesMap :: "'d devices_map option"

definition NewDeviceInfo :: "'d device_info" where
  "NewDeviceInfo = \<lparr>di_devicesMap = None\<rparr>"

definition devs_of :: "'d devices_map \<Rightarrow> bool \<Rightarrow> 'd list" where
  "devs_of m b = (case gget m b of None \<Rightarrow> [] | Some ds \<Rightarrow> ds)"

definition add_device :: "'d device_ops \<Rightarrow> 'd \<Rightarrow> 'd devices_map \<Rightarrow> 'd devices_map go" where
  "add_device D d m =
     gbind (dev_IsMigEnabled D d) (\<lambda>isMigEnabled.
     Ret (gset isMigEnabled (devs_of m isMigEnabled @ [d]) m))"

definition GetDevicesMap ::
  "'d device_ops \<Rightarrow> ('s, 'd) manager_ops \<Rightarrow> 's \<Rightarrow> ('d device_info, 'd devices_map) sgo" where
  "GetDevicesMap D M s = (\<lambda>di.
     case di_devicesMap di of
       Some m \<Rightarrow> (di, Ret m)
     | None \<Rightarrow>
         sbind (slift (gbind (mgr_GetDevices M s) (\<lambda>devices. foldM_go (add_device D) devices [])))
           (\<lambda>m di. (di\<lparr>di_devicesMap := Some m\<rparr>, Ret m)) di)"

definition GetDevicesWithMigEnabled ::
  "'d device_ops \<Rightarrow> ('s, 'd) manager_ops \<Rightarrow> 's \<Rightarrow> ('d device_info, 'd list) sgo" where
  "GetDevicesWithMigEnabled D M s =
     sbind (GetDevicesMap D M s) (\<lambda>devicesMap. sret (devs_of devicesMap True))"

definition GetDevicesWithMigDisabled ::
  "'d device_ops \<Rightarrow> ('s, 'd) manager_ops \<Rightarrow> 's \<Rightarrow> ('d device_info, 'd list) sgo" where
  "GetDevicesWithMigDisabled D M s =
     sbind (GetDevicesMap D M s) (\<lambda>devicesMap. sret (devs_of devicesMap False))"

fun any_empty :: "'d device_ops \<Rightarrow> 'd list \<Rightarrow> bool go" where
  "any_empty D [] = Ret False"
| "any_empty D (d # ds) =
     gbind (dev_GetMigDevices D d) (\<lambda>migs. if migs = [] then Ret True else any_empty D ds)"

text \<open>
  \<^verbatim>\<open>AnyMigEnabledDeviceIsEmpty\<close>, which also answers true when no device has MIG enabled
  (\<open>AnyMigEnabledDeviceIsEmpty_no_mig\<close>).
\<close>

definition AnyMigEnabledDeviceIsEmpty ::
  "'d device_ops \<Rightarrow> ('s, 'd) manager_ops \<Rightarrow> 's \<Rightarrow> ('d device_info, bool) sgo" where
  "AnyMigEnabledDeviceIsEmpty D M s =
     sbind (GetDevicesMap D M s) (\<lambda>devicesMap.
     if devs_of devicesMap True = [] then sret True
     else slift (any_empty D (devs_of devicesMap True)))"

definition GetAllMigDevices ::
  "'d device_ops \<Rightarrow> ('s, 'd) manager_ops \<Rightarrow> 's \<Rightarrow> ('d device_info, 'd list) sgo" where
  "GetAllMigDevices D M s =
     sbind (GetDevicesMap D M s) (\<lambda>devicesMap.
     slift (foldM_go (\<lambda>d migs. gbind (dev_GetMigDevices D d) (\<lambda>devs. Ret (migs @ devs)))
       (devs_of devicesMap True) []))"

section \<open>The map\<close>

text \<open>The abstract view: the devices whose MIG mode is \<open>b\<close>, in the order of the manager.\<close>

definition with_mode :: "'d device_ops \<Rightarrow> bool \<Rightarrow> 'd list \<Rightarrow> 'd list" where
  "with_mode D b ds = filter (\<lambda>d. dev_IsMigEnabled D d = Ret b) ds"

definition modes_known :: "'d device_ops \<Rightarrow> 'd list \<Rightarrow> bool" where
  "modes_known D ds \<longleftrightarrow> (\<forall>d \<in> set ds. returns (dev_IsMigEnabled D d))"

lemma devs_of_gset: "devs_of (gset b ds m) b' = (if b' = b then ds else devs_of m b')"
  by (simp add: devs_of_def gget_gset)

lemma devs_of_Nil [simp]: "devs_of [] b = []"
  by (simp add: devs_of_def)

lemma add_device_Ret:
  "add_device D d m = Ret m' \<longleftrightarrow>
   (\<exists>e. dev_IsMigEnabled D d = Ret e \<and> m' = gset e (devs_of m e @ [d]) m)"
  by (auto simp: add_device_def)

lemma fold_add_device:
  "foldM_go (add_device D) ds m = Ret m' \<Longrightarrow>
   modes_known D ds \<and> devs_of m' b = devs_of m b @ with_mode D b ds"
proof (induction ds arbitrary: m)
  case Nil
  then show ?case by (simp add: modes_known_def with_mode_def)
next
  case (Cons d ds)
  then obtain e where e: "dev_IsMigEnabled D d = Ret e"
    and rest: "foldM_go (add_device D) ds (gset e (devs_of m e @ [d]) m) = Ret m'"
    by (auto simp: add_device_Ret)
  from Cons.IH [OF rest] show ?case
    using e by (auto simp: modes_known_def with_mode_def devs_of_gset)
qed

lemma fold_add_device_keys:
  "foldM_go (add_device D) ds m = Ret m' \<Longrightarrow> gmap_ok m \<Longrightarrow>
   gmap_ok m' \<and> fst ` set m' = fst ` set m \<union> {b. with_mode D b ds \<noteq> []}"
proof (induction ds arbitrary: m)
  case Nil
  then show ?case by (simp add: with_mode_def)
next
  case (Cons d ds)
  then obtain e where e: "dev_IsMigEnabled D d = Ret e"
    and rest: "foldM_go (add_device D) ds (gset e (devs_of m e @ [d]) m) = Ret m'"
    by (auto simp: add_device_Ret)
  have "fst ` set (gset e (devs_of m e @ [d]) m) = insert e (fst ` set m)"
    by (metis dom_map_of_conv_image_fst dom_update insert_def Un_commute insert_is_Un)
  then show ?case
    using Cons.IH [OF rest] Cons.prems(2) e by (auto simp: with_mode_def)
qed

lemma fold_add_device_total:
  "modes_known D ds \<Longrightarrow> \<exists>m'. foldM_go (add_device D) ds m = Ret m'"
proof (induction ds arbitrary: m)
  case Nil
  then show ?case by simp
next
  case (Cons d ds)
  then obtain e where "dev_IsMigEnabled D d = Ret e" by (auto simp: modes_known_def returns_iff)
  then have "add_device D d m = Ret (gset e (devs_of m e @ [d]) m)" by (simp add: add_device_Ret)
  moreover obtain m' where "foldM_go (add_device D) ds (gset e (devs_of m e @ [d]) m) = Ret m'"
    using Cons by (auto simp: modes_known_def)
  ultimately show ?case by simp
qed

text \<open>What \<open>DeviceInfo\<close> caches is the map of the devices \<open>ds\<close>.\<close>

definition map_of_devices :: "'d device_ops \<Rightarrow> 'd list \<Rightarrow> 'd devices_map \<Rightarrow> bool" where
  "map_of_devices D ds m \<longleftrightarrow>
     modes_known D ds \<and> gmap_ok m \<and> (m = [] \<longleftrightarrow> ds = []) \<and> (\<forall>b. devs_of m b = with_mode D b ds)"

lemma with_mode_empty_iff:
  "modes_known D ds \<Longrightarrow> with_mode D True ds = [] \<Longrightarrow> with_mode D False ds = [] \<Longrightarrow> ds = []"
proof (cases ds)
  case (Cons d ds')
  moreover assume "modes_known D ds" and "with_mode D True ds = []" and "with_mode D False ds = []"
  ultimately show ?thesis
    by (cases "dev_IsMigEnabled D d") (auto simp: modes_known_def with_mode_def split: if_splits)
qed simp

lemma built_map: "foldM_go (add_device D) ds [] = Ret m \<Longrightarrow> map_of_devices D ds m"
proof -
  assume built: "foldM_go (add_device D) ds [] = Ret m"
  have keys: "fst ` set m = {b. with_mode D b ds \<noteq> []}" and ok: "gmap_ok m"
    using fold_add_device_keys [OF built] by auto
  have known: "modes_known D ds" using fold_add_device [OF built] by blast
  have "m = [] \<longleftrightarrow> ds = []"
  proof
    assume "m = []"
    with keys have "with_mode D b ds = []" for b by auto
    with known show "ds = []" by (blast intro: with_mode_empty_iff)
  qed (use keys in \<open>auto simp: with_mode_def\<close>)
  then show ?thesis using fold_add_device [OF built] ok by (simp add: map_of_devices_def)
qed

section \<open>The operations on a fresh and on a filled cache\<close>

lemma GetDevicesMap_cached [simp]:
  "di_devicesMap di = Some m \<Longrightarrow> GetDevicesMap D M s di = (di, Ret m)"
  by (simp add: GetDevicesMap_def)

lemma GetDevicesMap_fresh:
  assumes "di_devicesMap di = None" and "mgr_GetDevices M s = Ret ds" and "modes_known D ds"
  shows "\<exists>m. map_of_devices D ds m \<and> GetDevicesMap D M s di = (di\<lparr>di_devicesMap := Some m\<rparr>, Ret m)"
proof -
  obtain m where "foldM_go (add_device D) ds [] = Ret m"
    using fold_add_device_total [OF assms(3)] by blast
  then show ?thesis
    using assms(1,2) built_map by (auto simp: GetDevicesMap_def)
qed

lemma any_empty_spec:
  assumes "\<And>d. d \<in> set ds \<Longrightarrow> dev_GetMigDevices D d = Ret (migs d)"
  shows "any_empty D ds = Ret (\<exists>d \<in> set ds. migs d = [])"
  using assms by (induction ds) auto

lemma any_empty_no_crash:
  "(\<And>d. d \<in> set ds \<Longrightarrow> no_crash (dev_GetMigDevices D d)) \<Longrightarrow> no_crash (any_empty D ds)"
  by (induction ds) (auto intro!: no_crash_gbind)

lemma collect_migs:
  assumes "\<And>d. d \<in> set ds \<Longrightarrow> dev_GetMigDevices D d = Ret (migs d)"
  shows "foldM_go (\<lambda>d acc. gbind (dev_GetMigDevices D d) (\<lambda>devs. Ret (acc @ devs))) ds acc =
    Ret (acc @ concat (map migs ds))"
  using assms by (induction ds arbitrary: acc) auto

text \<open>
  The node as \<open>DeviceInfo\<close> sees it: devices with known MIG mode, and the MIG devices of each
  MIG-enabled one.
\<close>

definition mig_node ::
  "'d device_ops \<Rightarrow> ('s, 'd) manager_ops \<Rightarrow> 's \<Rightarrow> 'd list \<Rightarrow> ('d \<Rightarrow> 'd list) \<Rightarrow> bool" where
  "mig_node D M s ds migs \<longleftrightarrow>
     mgr_GetDevices M s = Ret ds \<and> modes_known D ds \<and>
     (\<forall>d \<in> set (with_mode D True ds). dev_GetMigDevices D d = Ret (migs d))"

text \<open>A cache that is empty or holds the map of these devices; every operation keeps it so.\<close>

definition di_ok :: "'d device_ops \<Rightarrow> 'd list \<Rightarrow> 'd device_info \<Rightarrow> bool" where
  "di_ok D ds di \<longleftrightarrow>
     (case di_devicesMap di of None \<Rightarrow> True | Some m \<Rightarrow> map_of_devices D ds m)"

lemma di_ok_New [simp]: "di_ok D ds NewDeviceInfo"
  by (simp add: di_ok_def NewDeviceInfo_def)

lemma GetDevicesMap_ok:
  assumes "mig_node D M s ds migs" and "di_ok D ds di"
  shows "\<exists>m di'. GetDevicesMap D M s di = (di', Ret m) \<and> di_ok D ds di' \<and> map_of_devices D ds m"
proof (cases "di_devicesMap di")
  case None
  with GetDevicesMap_fresh [OF None, of M s ds D] assms(1) show ?thesis
    by (auto simp: mig_node_def di_ok_def)
next
  case (Some m)
  with assms(2) show ?thesis by (auto simp: di_ok_def)
qed

lemma device_info_ops:
  assumes N: "mig_node D M s ds migs" and "di_ok D ds di"
  shows "\<exists>di'. GetDevicesWithMigEnabled D M s di = (di', Ret (with_mode D True ds)) \<and> di_ok D ds di'"
    and "\<exists>di'. GetDevicesWithMigDisabled D M s di = (di', Ret (with_mode D False ds)) \<and> di_ok D ds di'"
    and "\<exists>di'. AnyMigEnabledDeviceIsEmpty D M s di =
      (di', Ret (with_mode D True ds = [] \<or> (\<exists>d \<in> set (with_mode D True ds). migs d = []))) \<and>
      di_ok D ds di'"
    and "\<exists>di'. GetAllMigDevices D M s di = (di', Ret (concat (map migs (with_mode D True ds)))) \<and>
      di_ok D ds di'"
proof -
  obtain m di' where get: "GetDevicesMap D M s di = (di', Ret m)"
    and ok: "di_ok D ds di'" "map_of_devices D ds m"
    using GetDevicesMap_ok [OF assms] by blast
  then have devs: "devs_of m b = with_mode D b ds" for b by (simp add: map_of_devices_def)
  have migs: "\<And>d. d \<in> set (with_mode D True ds) \<Longrightarrow> dev_GetMigDevices D d = Ret (migs d)"
    using N by (simp add: mig_node_def)
  show "\<exists>di'. GetDevicesWithMigEnabled D M s di = (di', Ret (with_mode D True ds)) \<and> di_ok D ds di'"
    using get ok devs by (auto simp: GetDevicesWithMigEnabled_def)
  show "\<exists>di'. GetDevicesWithMigDisabled D M s di = (di', Ret (with_mode D False ds)) \<and> di_ok D ds di'"
    using get ok devs by (auto simp: GetDevicesWithMigDisabled_def)
  show "\<exists>di'. AnyMigEnabledDeviceIsEmpty D M s di =
      (di', Ret (with_mode D True ds = [] \<or> (\<exists>d \<in> set (with_mode D True ds). migs d = []))) \<and>
      di_ok D ds di'"
    using get ok devs any_empty_spec [OF migs] by (auto simp: AnyMigEnabledDeviceIsEmpty_def)
  show "\<exists>di'. GetAllMigDevices D M s di = (di', Ret (concat (map migs (with_mode D True ds)))) \<and>
      di_ok D ds di'"
    using get ok devs collect_migs [OF migs, where acc = "[]"] by (auto simp: GetAllMigDevices_def)
qed

section \<open>No operation crashes\<close>

lemma add_device_no_crash:
  "no_crash (dev_IsMigEnabled D d) \<Longrightarrow> no_crash (add_device D d m)"
  by (auto simp: add_device_def intro!: no_crash_gbind)

context manager_contract
begin

lemma GetDevicesMap_no_crash: "inv s \<Longrightarrow> no_crash (snd (GetDevicesMap D M s di))"
  unfolding GetDevicesMap_def
  by (auto split: option.splits
      intro!: no_crash_sbind no_crash_gbind foldM_go_no_crash add_device_no_crash
      simp: GetDevices_no_crash device_no_crash)

lemma device_info_no_crash:
  assumes "inv s"
  shows "no_crash (snd (GetDevicesWithMigEnabled D M s di))"
    and "no_crash (snd (GetDevicesWithMigDisabled D M s di))"
    and "no_crash (snd (AnyMigEnabledDeviceIsEmpty D M s di))"
    and "no_crash (snd (GetAllMigDevices D M s di))"
  unfolding GetDevicesWithMigEnabled_def GetDevicesWithMigDisabled_def
    AnyMigEnabledDeviceIsEmpty_def GetAllMigDevices_def
  by (rule no_crash_sbind;
      auto simp: GetDevicesMap_no_crash [OF assms] device_no_crash any_empty_no_crash
      intro!: foldM_go_no_crash no_crash_gbind)+

end

section \<open>Properties\<close>

lemma modes_mset: "modes_known D ds \<Longrightarrow> mset (with_mode D True ds) + mset (with_mode D False ds) = mset ds"
proof (induction ds)
  case (Cons d ds)
  then show ?case
    by (cases "dev_IsMigEnabled D d") (auto simp: modes_known_def with_mode_def)
qed (simp add: with_mode_def)

text \<open>
  On a node without a GPU in MIG mode \<open>AnyMigEnabledDeviceIsEmpty\<close> answers true, where its comment
  speaks of at least one such GPU without MIG devices.
\<close>

theorem AnyMigEnabledDeviceIsEmpty_no_mig:
  assumes "mig_node D M s ds migs" and "di_ok D ds di" and "with_mode D True ds = []"
  shows "snd (AnyMigEnabledDeviceIsEmpty D M s di) = Ret True"
  using device_info_ops(3) [OF assms(1,2)] assms(3) by auto

text \<open>C22: The operations of \<open>DeviceInfo\<close>, called in any order on an empty or filled cache, agree with
  one another: they separate the devices of the manager by MIG mode, list the MIG devices of the
  enabled ones, and, on a node with at least one enabled GPU, tell whether one of the enabled ones
  has no MIG devices; each of them leaves a cache on which this holds again.\<close>

theorem DeviceInfo_operations:
  assumes "mig_node D M s ds migs" and "di_ok D ds di"
  shows "\<exists>enabled disabled isEmpty di1 di2 di3 di4.
    enabled = filter (\<lambda>d. dev_IsMigEnabled D d = Ret True) ds \<and>
    disabled = filter (\<lambda>d. dev_IsMigEnabled D d = Ret False) ds \<and>
    mset enabled + mset disabled = mset ds \<and>
    GetDevicesWithMigEnabled D M s di = (di1, Ret enabled) \<and> di_ok D ds di1 \<and>
    GetDevicesWithMigDisabled D M s di = (di2, Ret disabled) \<and> di_ok D ds di2 \<and>
    AnyMigEnabledDeviceIsEmpty D M s di = (di3, Ret isEmpty) \<and> di_ok D ds di3 \<and>
    (enabled \<noteq> [] \<longrightarrow> isEmpty = ([] \<in> migs ` set enabled)) \<and>
    GetAllMigDevices D M s di = (di4, Ret (concat (map migs enabled))) \<and> di_ok D ds di4"
proof -
  let ?en = "filter (\<lambda>d. dev_IsMigEnabled D d = Ret True) ds"
  let ?dis = "filter (\<lambda>d. dev_IsMigEnabled D d = Ret False) ds"
  have "mset ?en + mset ?dis = mset ds"
    using assms(1) modes_mset [of D ds] by (simp add: mig_node_def with_mode_def)
  moreover have "(\<exists>d \<in> set ?en. migs d = []) \<longleftrightarrow> [] \<in> migs ` set ?en" by force
  moreover note device_info_ops [OF assms, unfolded with_mode_def]
  ultimately show ?thesis
    by (intro exI [of _ ?en] exI [of _ ?dis] exI [of _ "?en = [] \<or> [] \<in> migs ` set ?en"]) auto
qed

text \<open>A node of the tests: one GPU without MIG, one with two MIG devices.\<close>

definition sample_migs :: "mock_mig list" where
  "sample_migs = [NewMigDevice 1 1 5 [], NewMigDevice 2 2 10 []]"

definition sample_mixed_node :: "mock_device list" where
  "sample_mixed_node = [NewFullGPU, NewMigEnabledDevice sample_migs]"

theorem DeviceInfo_operations_witness:
  "(\<exists>di. GetAllMigDevices mock_devices (NewManagerMockWithDevices sample_mixed_node) () NewDeviceInfo =
     (di, Ret (map (\<lambda>m. MockMig m (Some (True, sample_migs))) sample_migs))) \<and>
   (\<exists>di. AnyMigEnabledDeviceIsEmpty mock_devices (NewManagerMockWithDevices sample_mixed_node) () NewDeviceInfo =
     (di, Ret False))"
proof -
  have "mig_node mock_devices (NewManagerMockWithDevices sample_mixed_node) () sample_mixed_node
      (\<lambda>d. case mock_GetMigDevices d of Ret ms \<Rightarrow> ms | _ \<Rightarrow> [])"
    by (simp add: mig_node_def modes_known_def with_mode_def sample_mixed_node_def mock_simps)
  from DeviceInfo_operations [OF this di_ok_New] show ?thesis
    by (auto simp: sample_mixed_node_def mock_simps sample_migs_def)
qed

end
