(* ===== verification/Pci.thy ===== *)
theory Pci
  imports Go_Strings
begin

text \<open>
  \<^verbatim>\<open>internal/vgpu/pciutil.go\<close>: the NVIDIA devices of sysfs and the walk over a device's
  capability list.  A byte slice keeps the bytes between its length and its capacity
  (\<open>sl_spare\<close>), because \<^verbatim>\<open>s[lo:hi]\<close> is bounded by the capacity while \<^verbatim>\<open>s[i]\<close> is bounded by the
  length.
\<close>

unbundle bit_operations_syntax

section \<open>Byte slices\<close>

record byte_slice =
  sl_data :: "byte list"
  sl_spare :: "byte list"

definition sl_len :: "byte_slice \<Rightarrow> nat" where
  "sl_len s = length (sl_data s)"

definition sl_cap :: "byte_slice \<Rightarrow> nat" where
  "sl_cap s = length (sl_data s) + length (sl_spare s)"

text \<open>\<^verbatim>\<open>GetByte\<close>: an index outside the slice panics.\<close>

definition GetByte :: "byte_slice \<Rightarrow> nat \<Rightarrow> byte go" where
  "GetByte buffer pos =
     (if pos < sl_len buffer then Ret (sl_data buffer ! pos)
      else Panic ''index out of range'')"

text \<open>\<^verbatim>\<open>GetWord\<close> and \<^verbatim>\<open>GetLong\<close>: little-endian integers of two and four bytes.\<close>

definition GetWord :: "byte_slice \<Rightarrow> nat \<Rightarrow> 16 word go" where
  "GetWord buffer pos =
     gbind (GetByte buffer pos) (\<lambda>b0. gbind (GetByte buffer (pos + 1)) (\<lambda>b1.
     Ret (ucast b0 OR push_bit 8 (ucast b1))))"

definition GetLong :: "byte_slice \<Rightarrow> nat \<Rightarrow> 32 word go" where
  "GetLong buffer pos =
     gbind (GetByte buffer pos) (\<lambda>b0. gbind (GetByte buffer (pos + 1)) (\<lambda>b1.
     gbind (GetByte buffer (pos + 2)) (\<lambda>b2. gbind (GetByte buffer (pos + 3)) (\<lambda>b3.
     Ret (ucast b0 OR push_bit 8 (ucast b1) OR push_bit 16 (ucast b2) OR push_bit 24 (ucast b3))))))"

text \<open>\<^verbatim>\<open>s[lo:hi]\<close>.\<close>

definition go_slice :: "byte_slice \<Rightarrow> nat \<Rightarrow> nat \<Rightarrow> byte_slice go" where
  "go_slice s lo hi =
     (if lo \<le> hi \<and> hi \<le> sl_cap s
      then let all = sl_data s @ sl_spare s
           in Ret \<lparr>sl_data = take (hi - lo) (drop lo all), sl_spare = drop hi all\<rparr>
      else Panic ''slice bounds out of range'')"

lemma GetByte_in: "pos < sl_len s \<Longrightarrow> GetByte s pos = Ret (sl_data s ! pos)"
  by (simp add: GetByte_def)

lemma GetByte_not [simp]: "GetByte s pos \<noteq> Err e" "GetByte s pos \<noteq> Diverge"
  by (simp_all add: GetByte_def)

lemma go_slice_no_crash: "lo \<le> hi \<Longrightarrow> hi \<le> sl_cap s \<Longrightarrow> \<exists>t. go_slice s lo hi = Ret t"
  by (simp add: go_slice_def Let_def)

section \<open>Devices\<close>

record pci_device =
  pci_Path :: string
  pci_Address :: string
  pci_Class :: string
  pci_Vendor :: string
  pci_Config :: byte_slice

definition PciStatusByte :: nat where "PciStatusByte = 0x06"
definition PciStatusCapabilityList :: byte where "PciStatusCapabilityList = 0x10"
definition PciCapabilityList :: nat where "PciCapabilityList = 0x34"
definition PciCapabilityListID :: nat where "PciCapabilityListID = 0"
definition PciCapabilityListNext :: nat where "PciCapabilityListNext = 1"
definition PciCapabilityLength :: nat where "PciCapabilityLength = 2"
definition PciCapabilityVendorSpecificID :: byte where "PciCapabilityVendorSpecificID = 0x09"
definition PciNvidiaVendorID :: string where "PciNvidiaVendorID = ''0x10de''"
definition PciDevicesRoot :: string where "PciDevicesRoot = ''/sys/bus/pci/devices''"

lemma count_zero_update:
  "pos < length xs \<Longrightarrow> xs ! pos = 0 \<Longrightarrow> y \<noteq> 0 \<Longrightarrow>
   length (filter (\<lambda>x. x = 0) (xs[pos := y])) < length (filter (\<lambda>x. x = (0 :: 'a :: zero)) xs)"
proof -
  assume a: "pos < length xs" "xs ! pos = 0" "y \<noteq> 0"
  then have "mset (filter (\<lambda>x. x = 0) (xs[pos := y])) = mset (filter (\<lambda>x. x = 0) xs) - {#0#}"
    by (simp add: mset_update)
  moreover have "0 \<in># mset (filter (\<lambda>x. x = 0) xs)" using a by (auto simp: in_set_conv_nth)
  ultimately show ?thesis
    by (metis One_nat_def diff_Suc_less size_Diff_singleton size_mset length_pos_if_in_set
        set_mset_mset)
qed

text \<open>
  The capability walk.  \<open>visited\<close> is the array \<^verbatim>\<open>[256]byte\<close>; all three bytes of a list entry are
  read before any test, and every test ends the loop with \<^verbatim>\<open>break\<close> (nil) but the one for the
  vendor specific id, which returns the slice.
\<close>

function cap_loop :: "byte_slice \<Rightarrow> byte list \<Rightarrow> nat \<Rightarrow> byte_slice option go" where
  "cap_loop config visited pos =
     (if pos = 0 then Ret None
      else
        gbind (GetByte config (pos + PciCapabilityListID)) (\<lambda>id.
        gbind (GetByte config (pos + PciCapabilityListNext)) (\<lambda>next.
        gbind (GetByte config (pos + PciCapabilityLength)) (\<lambda>len.
        if \<not> pos < length visited then Panic ''index out of range''
        else if visited ! pos \<noteq> 0 then Ret None
        else if id = 0xff then Ret None
        else if id = PciCapabilityVendorSpecificID
          then gbind (go_slice config (pos + PciCapabilityListID)
                        (pos + PciCapabilityListID + unat len)) (\<lambda>capability. Ret (Some capability))
        else cap_loop config (visited[pos := visited ! pos + 1]) (unat next)))))"
  by pat_completeness auto

termination
  by (relation "measure (\<lambda>(config, visited, pos). length (filter (\<lambda>x. x = 0) visited))")
    (auto intro: count_zero_update)

declare cap_loop.simps [simp del]

text \<open>\<^verbatim>\<open>GetVendorSpecificCapability\<close>: a nil slice is \<open>None\<close>.\<close>

definition GetVendorSpecificCapability :: "pci_device \<Rightarrow> byte_slice option go" where
  "GetVendorSpecificCapability d =
     (if sl_len (pci_Config d) < 256
      then Err (''entire PCI configuration is not read for device '' @ pci_Address d @
        ''. Please run GFD with privileged mode to read complete PCI configuration data'')
      else if sl_data (pci_Config d) ! PciStatusByte AND PciStatusCapabilityList = 0
      then Ret None
      else gbind (GetByte (pci_Config d) PciCapabilityList) (\<lambda>pos.
        cap_loop (pci_Config d) (replicate 256 0) (unat pos)))"

section \<open>Devices of sysfs\<close>

text \<open>
  What the operating system answers: the entries of \<^verbatim>\<open>/sys/bus/pci/devices\<close>, and the contents
  of a file with the spare capacity \<^verbatim>\<open>os.ReadFile\<close> leaves behind them.
\<close>

record sysfs =
  sysfs_ReadDir :: "string \<Rightarrow> string list go"
  sysfs_ReadFile :: "string \<Rightarrow> byte_slice go"

definition path_join :: "string \<Rightarrow> string \<Rightarrow> string" where
  "path_join dir name = dir @ ''/'' @ name"

definition slice_string :: "byte_slice \<Rightarrow> string" where
  "slice_string s = bytes_string (sl_data s)"

text \<open>One round of the loop over the directory entries: \<open>None\<close> is \<^verbatim>\<open>continue\<close>.\<close>

definition read_pci_device :: "sysfs \<Rightarrow> string \<Rightarrow> pci_device option go" where
  "read_pci_device F name =
     (let devicePath = path_join PciDevicesRoot name; address = name in
      gbind (wrap (''unable to read PCI device vendor id for '' @ address @ '': '')
               (sysfs_ReadFile F (path_join devicePath ''vendor''))) (\<lambda>vendor.
      if trim_space (slice_string vendor) \<noteq> PciNvidiaVendorID then Ret None
      else
      gbind (wrap (''unable to read PCI device class for '' @ address @ '': '')
               (sysfs_ReadFile F (path_join devicePath ''class''))) (\<lambda>class.
      gbind (wrap (''unable to read PCI configuration space for '' @ address @ '': '')
               (sysfs_ReadFile F (path_join devicePath ''config''))) (\<lambda>config.
      if length (slice_string class) < 4 then Panic ''slice bounds out of range''
      else Ret (Some \<lparr>pci_Path = devicePath, pci_Address = address,
             pci_Class = take 4 (slice_string class),
             pci_Vendor = trim_space (slice_string vendor), pci_Config = config\<rparr>)))))"

text \<open>A value of the interface \<^verbatim>\<open>NvidiaPCI\<close> is what its one method \<^verbatim>\<open>Devices\<close> returns.\<close>

type_synonym nvidia_pci = "pci_device list go"

definition NvidiaPCILib_Devices :: "sysfs \<Rightarrow> nvidia_pci" where
  "NvidiaPCILib_Devices F =
     gbind (wrap ''unable to read PCI bus devices: '' (sysfs_ReadDir F PciDevicesRoot)) (\<lambda>deviceDirs.
     gbind (mapM_go (read_pci_device F) deviceDirs) (\<lambda>ds. Ret (List.map_filter id ds)))"

text \<open>\<^verbatim>\<open>NewNvidiaPCILib\<close>, over the files it will read.\<close>

definition NewNvidiaPCILib :: "sysfs \<Rightarrow> nvidia_pci" where
  "NewNvidiaPCILib F = NvidiaPCILib_Devices F"

section \<open>What the walk computes\<close>

definition cap_id :: "byte_slice \<Rightarrow> nat \<Rightarrow> byte" where
  "cap_id config pos = sl_data config ! pos"

definition cap_next :: "byte_slice \<Rightarrow> nat \<Rightarrow> nat" where
  "cap_next config pos = unat (sl_data config ! Suc pos)"

definition cap_length :: "byte_slice \<Rightarrow> nat \<Rightarrow> nat" where
  "cap_length config pos = unat (sl_data config ! Suc (Suc pos))"

text \<open>
  The specification, without any bookkeeping of visited entries: \<open>vendor_cap config k pos p\<close>
  when following the list from \<open>pos\<close> reaches a vendor specific entry at \<open>p\<close> after \<open>k\<close> links.
\<close>

inductive vendor_cap :: "byte_slice \<Rightarrow> nat \<Rightarrow> nat \<Rightarrow> nat \<Rightarrow> bool" for config where
  here: "pos \<noteq> 0 \<Longrightarrow> cap_id config pos = PciCapabilityVendorSpecificID \<Longrightarrow> vendor_cap config 0 pos pos"
| link: "pos \<noteq> 0 \<Longrightarrow> cap_id config pos \<noteq> PciCapabilityVendorSpecificID \<Longrightarrow>
     cap_id config pos \<noteq> 0xff \<Longrightarrow> vendor_cap config k (cap_next config pos) p \<Longrightarrow>
     vendor_cap config (Suc k) pos p"

inductive_cases vendor_capE: "vendor_cap config k pos p"
inductive_cases vendor_cap_0E: "vendor_cap config 0 pos p"
inductive_cases vendor_cap_SucE: "vendor_cap config (Suc k) pos p"
inductive_simps vendor_cap_at_null: "vendor_cap config k 0 p"

lemma vendor_cap_deterministic:
  "vendor_cap config k pos p \<Longrightarrow> vendor_cap config k' pos p' \<Longrightarrow> k' = k \<and> p' = p"
proof (induction arbitrary: k' p' rule: vendor_cap.induct)
  case (here pos)
  from here.prems here.hyps show ?case by (auto elim: vendor_capE)
next
  case (link pos k p)
  from link.prems obtain j where "k' = Suc j" "vendor_cap config j (cap_next config pos) p'"
    using link.hyps by (auto elim: vendor_capE)
  with link.IH show ?case by blast
qed

text \<open>
  An entry can be read: its three bytes lie in the slice, and a vendor specific capability
  itself lies in the capacity.  It always holds with 512 bytes of configuration space.
\<close>

definition cap_readable :: "byte_slice \<Rightarrow> nat \<Rightarrow> bool" where
  "cap_readable config pos \<longleftrightarrow> pos + 2 < sl_len config \<and>
     (cap_id config pos = PciCapabilityVendorSpecificID \<longrightarrow>
        pos + cap_length config pos \<le> sl_cap config)"

lemma next_bound: "cap_next config pos < 256"
proof -
  have "unat (sl_data config ! Suc pos) < 2 ^ LENGTH(8)" by (rule unsigned_less)
  then show ?thesis by (simp add: cap_next_def)
qed

lemma length_bound: "cap_length config pos < 256"
proof -
  have "unat (sl_data config ! Suc (Suc pos)) < 2 ^ LENGTH(8)" by (rule unsigned_less)
  then show ?thesis by (simp add: cap_length_def)
qed

lemma cap_readable_512: "512 \<le> sl_len config \<Longrightarrow> pos < 256 \<Longrightarrow> cap_readable config pos"
  using length_bound [of config pos] by (simp add: cap_readable_def sl_cap_def sl_len_def)

lemma cap_loop_step:
  assumes "cap_readable config pos" and "pos \<noteq> 0" and "pos < length visited"
  shows "cap_loop config visited pos =
     (if visited ! pos \<noteq> 0 then Ret None
      else if cap_id config pos = 0xff then Ret None
      else if cap_id config pos = PciCapabilityVendorSpecificID
        then gbind (go_slice config pos (pos + cap_length config pos)) (\<lambda>c. Ret (Some c))
      else cap_loop config (visited[pos := visited ! pos + 1]) (cap_next config pos))"
  using assms
  by (subst cap_loop.simps)
    (simp add: cap_readable_def GetByte_in PciCapabilityListID_def PciCapabilityListNext_def
      PciCapabilityLength_def cap_id_def cap_next_def cap_length_def)

lemma cap_loop_null: "cap_loop config visited 0 = Ret None"
  by (subst cap_loop.simps) simp

text \<open>The entries the walk comes to when it starts at \<open>pos\<close>, and that all of them can be read.\<close>

inductive on_list :: "byte_slice \<Rightarrow> nat \<Rightarrow> nat \<Rightarrow> bool" for config where
  first: "on_list config pos pos"
| follow: "pos \<noteq> 0 \<Longrightarrow> cap_id config pos \<noteq> PciCapabilityVendorSpecificID \<Longrightarrow>
     cap_id config pos \<noteq> 0xff \<Longrightarrow> on_list config (cap_next config pos) q \<Longrightarrow> on_list config pos q"

inductive_cases on_listE: "on_list config pos q"

definition all_readable :: "byte_slice \<Rightarrow> nat \<Rightarrow> bool" where
  "all_readable config start \<longleftrightarrow> (\<forall>pos. on_list config start pos \<and> pos \<noteq> 0 \<longrightarrow> cap_readable config pos)"

lemma all_readable_here: "all_readable config pos \<Longrightarrow> pos \<noteq> 0 \<Longrightarrow> cap_readable config pos"
  by (auto simp: all_readable_def intro: on_list.first)

lemma all_readable_next:
  "all_readable config pos \<Longrightarrow> pos \<noteq> 0 \<Longrightarrow> cap_id config pos \<noteq> PciCapabilityVendorSpecificID \<Longrightarrow>
   cap_id config pos \<noteq> 0xff \<Longrightarrow> all_readable config (cap_next config pos)"
  by (auto simp: all_readable_def intro: on_list.follow)

lemma on_list_bound: "on_list config pos q \<Longrightarrow> pos < 256 \<Longrightarrow> q < 256"
  by (induction rule: on_list.induct) (auto intro: next_bound)

lemma all_readable_512: "512 \<le> sl_len config \<Longrightarrow> pos < 256 \<Longrightarrow> all_readable config pos"
  using on_list_bound cap_readable_512 by (auto simp: all_readable_def)

text \<open>A walk of at most \<open>n\<close> entries that checks it, for concrete configurations.\<close>

fun check_list :: "nat \<Rightarrow> byte_slice \<Rightarrow> nat \<Rightarrow> bool" where
  "check_list 0 config pos = (pos = 0)"
| "check_list (Suc n) config pos =
     (pos = 0 \<or> cap_readable config pos \<and>
       (cap_id config pos = PciCapabilityVendorSpecificID \<or> cap_id config pos = 0xff \<or>
        check_list n config (cap_next config pos)))"

lemma check_list_on_list: "on_list config pos q \<Longrightarrow> check_list n config pos \<Longrightarrow> q = 0 \<or> cap_readable config q"
proof (induction arbitrary: n rule: on_list.induct)
  case (first pos)
  then show ?case by (cases n) auto
next
  case (follow pos q)
  then show ?case by (cases n) auto
qed

lemma check_list_readable: "check_list n config pos \<Longrightarrow> all_readable config pos"
  using check_list_on_list by (auto simp: all_readable_def)

lemma cap_loop_finds:
  "vendor_cap config k pos p \<Longrightarrow> all_readable config pos \<Longrightarrow> pos < 256 \<Longrightarrow> length visited = 256 \<Longrightarrow>
    (\<And>v. v < 256 \<Longrightarrow> visited ! v \<noteq> 0 \<Longrightarrow> \<exists>k'>k. vendor_cap config k' v p) \<Longrightarrow>
    cap_loop config visited pos =
      gbind (go_slice config p (p + cap_length config p)) (\<lambda>c. Ret (Some c))"
proof (induction arbitrary: visited rule: vendor_cap.induct)
  case (here pos)
  then have "visited ! pos = 0"
    by (metis vendor_cap.here vendor_cap_deterministic less_irrefl)
  moreover have "cap_id config pos \<noteq> 0xff"
    using here by (simp add: PciCapabilityVendorSpecificID_def)
  ultimately show ?case using here by (simp add: cap_loop_step all_readable_here)
next
  case (link pos k p)
  have step: "vendor_cap config (Suc k) pos p" using link.hyps by (rule vendor_cap.link)
  have fresh: "visited ! pos = 0"
    using link.prems(2,4) step by (metis vendor_cap_deterministic less_irrefl)
  have "cap_loop config (visited[pos := visited ! pos + 1]) (cap_next config pos) =
      gbind (go_slice config p (p + cap_length config p)) (\<lambda>c. Ret (Some c))"
  proof (rule link.IH [OF all_readable_next [OF link.prems(1) link.hyps(1-3)] next_bound])
    show "length (visited[pos := visited ! pos + 1]) = 256" using link.prems(3) by simp
    fix v assume v: "v < 256" "visited[pos := visited ! pos + 1] ! v \<noteq> 0"
    show "\<exists>k'>k. vendor_cap config k' v p"
      using link.prems(4) [OF v(1)] v(2) step by (cases "v = pos") (auto intro: Suc_lessD)
  qed
  with link fresh show ?case by (simp add: cap_loop_step all_readable_here)
qed

lemma cap_loop_fresh:
  assumes "all_readable config pos" and "vendor_cap config k pos p" and "pos < 256"
  shows "cap_loop config (replicate 256 0) pos =
    gbind (go_slice config p (p + cap_length config p)) (\<lambda>c. Ret (Some c))"
  by (rule cap_loop_finds [OF assms(2,1,3)]) simp_all

lemma cap_loop_sound:
  "all_readable config pos \<Longrightarrow> pos < 256 \<Longrightarrow> length visited = 256 \<Longrightarrow>
    cap_loop config visited pos = Ret None \<or> (\<exists>k p. vendor_cap config k pos p)"
proof (induction "length (filter (\<lambda>x. x = 0) visited)" arbitrary: visited pos rule: less_induct)
  case less
  show ?case
  proof (cases "pos = 0 \<or> visited ! pos \<noteq> 0 \<or> cap_id config pos = 0xff")
    case True
    with less.prems show ?thesis
      by (cases "pos = 0") (auto simp: cap_loop_null cap_loop_step all_readable_here)
  next
    case False
    note step = cap_loop_step [of config pos visited]
    show ?thesis
    proof (cases "cap_id config pos = PciCapabilityVendorSpecificID")
      case True
      with False show ?thesis by (blast intro: vendor_cap.here)
    next
      case id: False
      have "cap_loop config (visited[pos := visited ! pos + 1]) (cap_next config pos) = Ret None \<or>
          (\<exists>k p. vendor_cap config k (cap_next config pos) p)"
        using False id less.prems
        by (intro less.hyps [OF _ _ next_bound]) (auto intro: count_zero_update all_readable_next)
      then show ?thesis
        using False id less.prems step by (auto simp: all_readable_here intro: vendor_cap.link)
    qed
  qed
qed

text \<open>
  The walk with its array of visited entries decides reachability: it returns the first vendor
  specific capability on the list, and nil exactly when following the links never meets one
  (because the list ends, is broken, or runs in a circle).
\<close>

lemma cap_loop_decides:
  assumes "all_readable config pos" and "pos < 256"
  shows "cap_loop config (replicate 256 0) pos = Ret None \<longleftrightarrow> \<not> (\<exists>k p. vendor_cap config k pos p)"
proof
  assume none: "cap_loop config (replicate 256 0) pos = Ret None"
  show "\<not> (\<exists>k p. vendor_cap config k pos p)"
  proof (rule notI, elim exE)
    fix k p assume "vendor_cap config k pos p"
    from cap_loop_fresh [OF assms(1) this assms(2)] none show False
      by (cases "go_slice config p (p + cap_length config p)") simp_all
  qed
next
  assume "\<not> (\<exists>k p. vendor_cap config k pos p)"
  with cap_loop_sound [OF assms, of "replicate 256 0"]
  show "cap_loop config (replicate 256 0) pos = Ret None" by auto
qed

lemma vendor_cap_nonzero: "vendor_cap config k pos p \<Longrightarrow> p \<noteq> 0"
  by (induction rule: vendor_cap.induct) auto

lemma vendor_cap_id: "vendor_cap config k pos p \<Longrightarrow> cap_id config p = PciCapabilityVendorSpecificID"
  by (induction rule: vendor_cap.induct) auto

lemma vendor_cap_on_list: "vendor_cap config k pos p \<Longrightarrow> on_list config pos p"
  by (induction rule: vendor_cap.induct) (auto intro: on_list.intros)

lemma cap_loop_returns:
  assumes "all_readable config pos" and "pos < 256"
  shows "returns (cap_loop config (replicate 256 0) pos)"
proof (cases "\<exists>k p. vendor_cap config k pos p")
  case True
  then obtain k p where kp: "vendor_cap config k pos p" by blast
  then have "cap_readable config p"
    using assms(1) vendor_cap_on_list vendor_cap_nonzero by (simp add: all_readable_def)
  then obtain t where "go_slice config p (p + cap_length config p) = Ret t"
    using go_slice_no_crash [of p "p + cap_length config p" config] vendor_cap_id [OF kp]
    by (auto simp: cap_readable_def)
  with cap_loop_fresh [OF assms(1) kp assms(2)] show ?thesis by simp
next
  case False
  then show ?thesis using cap_loop_decides [OF assms] by simp
qed

text \<open>Conversely, a walk that does not panic has read every entry of the list.\<close>

definition walk_closed :: "byte_slice \<Rightarrow> nat set \<Rightarrow> bool" where
  "walk_closed config S \<longleftrightarrow>
     (\<forall>v \<in> S. v = 0 \<or> cap_readable config v \<and>
        (cap_id config v = PciCapabilityVendorSpecificID \<or> cap_id config v = 0xff \<or> cap_next config v \<in> S))"

lemma on_list_closed: "on_list config v q \<Longrightarrow> walk_closed config S \<Longrightarrow> v \<in> S \<Longrightarrow> q \<in> S"
  by (induction rule: on_list.induct) (auto simp: walk_closed_def)

lemma closed_readable: "walk_closed config S \<Longrightarrow> v \<in> S \<Longrightarrow> all_readable config v"
  unfolding all_readable_def using on_list_closed [of config v _ S] by (metis walk_closed_def)

lemma cap_loop_unreadable:
  assumes "pos \<noteq> 0" and "pos < length visited" and "visited ! pos = 0" and "\<not> cap_readable config pos"
  shows "\<not> no_crash (cap_loop config visited pos)"
proof (cases "pos + 2 < sl_len config")
  case True
  then have "cap_id config pos = PciCapabilityVendorSpecificID" and "sl_cap config < pos + cap_length config pos"
    using assms(4) by (auto simp: cap_readable_def)
  with True assms(1-3) show ?thesis
    by (subst cap_loop.simps)
      (simp add: GetByte_in PciCapabilityListID_def PciCapabilityListNext_def PciCapabilityLength_def
        cap_id_def cap_length_def go_slice_def PciCapabilityVendorSpecificID_def)
next
  case False
  with assms(1) show ?thesis
    by (subst cap_loop.simps)
      (auto simp: GetByte_def PciCapabilityListID_def PciCapabilityListNext_def PciCapabilityLength_def)
qed

text \<open>\<open>walked config visited pos\<close>: the visited entries could be read, and each links to another of them or to \<open>pos\<close>.\<close>

definition walked :: "byte_slice \<Rightarrow> byte list \<Rightarrow> nat \<Rightarrow> bool" where
  "walked config visited pos \<longleftrightarrow>
     (\<forall>v < length visited. visited ! v \<noteq> 0 \<longrightarrow> cap_readable config v \<and>
        (cap_next config v = pos \<or> cap_next config v < length visited \<and> visited ! cap_next config v \<noteq> 0))"

lemma walked_closed:
  assumes "walked config visited pos"
    and "pos = 0 \<or> cap_readable config pos \<and>
      (cap_id config pos = PciCapabilityVendorSpecificID \<or> cap_id config pos = 0xff \<or>
       pos < length visited \<and> visited ! pos \<noteq> 0)"
  shows "walk_closed config (insert pos {v. v < length visited \<and> visited ! v \<noteq> 0})"
  using assms by (auto simp: walked_def walk_closed_def)

lemma walked_step:
  assumes "walked config visited pos" and "cap_readable config pos" and "length visited = 256"
    and new: "visited ! pos = 0" "pos < 256"
  shows "walked config (visited[pos := visited ! pos + 1]) (cap_next config pos)"
  unfolding walked_def
proof (intro allI impI)
  fix v assume v: "v < length (visited[pos := visited ! pos + 1])" "visited[pos := visited ! pos + 1] ! v \<noteq> 0"
  show "cap_readable config v \<and> (cap_next config v = cap_next config pos \<or>
      cap_next config v < length (visited[pos := visited ! pos + 1]) \<and>
      visited[pos := visited ! pos + 1] ! cap_next config v \<noteq> 0)"
  proof (cases "v = pos")
    case False
    with assms(1) v have "cap_readable config v"
      "cap_next config v = pos \<or> cap_next config v < length visited \<and> visited ! cap_next config v \<noteq> 0"
      by (auto simp: walked_def)
    with new assms(3) show ?thesis by (auto simp: nth_list_update)
  qed (use assms(2) in simp)
qed

lemma cap_loop_reads:
  "no_crash (cap_loop config visited pos) \<Longrightarrow> length visited = 256 \<Longrightarrow> pos < 256 \<Longrightarrow>
   walked config visited pos \<Longrightarrow>
   v \<in> insert pos {v. v < length visited \<and> visited ! v \<noteq> 0} \<Longrightarrow> all_readable config v"
proof (induction "length (filter (\<lambda>x. x = 0) visited)" arbitrary: visited pos rule: less_induct)
  case less
  have readable: "pos = 0 \<or> cap_readable config pos"
    using cap_loop_unreadable [of pos visited config] less.prems by (auto simp: walked_def)
  show ?case
  proof (cases "pos = 0 \<or> visited ! pos \<noteq> 0 \<or> cap_id config pos = 0xff \<or>
      cap_id config pos = PciCapabilityVendorSpecificID")
    case True
    then have "walk_closed config (insert pos {v. v < length visited \<and> visited ! v \<noteq> 0})"
      using readable less.prems by (intro walked_closed) auto
    then show ?thesis using closed_readable less.prems(5) by blast
  next
    case False
    let ?visited = "visited[pos := visited ! pos + 1]"
    have r: "cap_readable config pos" using readable False by simp
    have step: "no_crash (cap_loop config ?visited (cap_next config pos))"
      using less.prems(1-3) False r by (simp add: cap_loop_step)
    have "length (filter (\<lambda>x. x = 0) ?visited) < length (filter (\<lambda>x. x = 0) visited)"
      using less.prems(2,3) False by (intro count_zero_update) auto
    moreover have "walked config ?visited (cap_next config pos)"
      using walked_step [OF less.prems(4) r less.prems(2)] False less.prems(3) by simp
    moreover have "v \<in> insert (cap_next config pos) {v. v < length ?visited \<and> ?visited ! v \<noteq> 0}"
      using less.prems(2,3,5) False by (auto simp: nth_list_update)
    ultimately show ?thesis
      using less.hyps [of ?visited "cap_next config pos"] step next_bound less.prems(2) by simp
  qed
qed

section \<open>Properties\<close>

lemma GetVendorSpecificCapability_walk:
  assumes "256 \<le> sl_len (pci_Config d)"
    and "sl_data (pci_Config d) ! PciStatusByte AND PciStatusCapabilityList \<noteq> 0"
  shows "GetVendorSpecificCapability d =
    cap_loop (pci_Config d) (replicate 256 0) (unat (sl_data (pci_Config d) ! PciCapabilityList))"
  using assms by (simp add: GetVendorSpecificCapability_def GetByte_in PciCapabilityList_def)

lemma go_slice_data:
  "go_slice s p (p + n) = Ret c \<Longrightarrow> sl_data c = take n (drop p (sl_data s @ sl_spare s))"
  by (auto simp: go_slice_def Let_def split: if_splits)

text \<open>C17: When the configuration space was read in full (256 bytes or more), announces a capability
  list, and every entry on it can be read (as it always can in 512 bytes), the search for the vendor
  specific capability finds the first one reachable from the head of the list, with the bytes its
  length byte announces, and returns nil exactly when none is reachable, also when the list runs in
  a circle.\<close>

theorem GetVendorSpecificCapability_decides:
  assumes "256 \<le> sl_len (pci_Config d)"
    and "sl_data (pci_Config d) ! PciStatusByte AND PciStatusCapabilityList \<noteq> 0"
    and "all_readable (pci_Config d) (unat (sl_data (pci_Config d) ! PciCapabilityList))"
  shows "case GetVendorSpecificCapability d of
      Ret None \<Rightarrow> \<not> (\<exists>k p. vendor_cap (pci_Config d) k
        (unat (sl_data (pci_Config d) ! PciCapabilityList)) p)
    | Ret (Some c) \<Rightarrow> \<exists>k p. vendor_cap (pci_Config d) k
        (unat (sl_data (pci_Config d) ! PciCapabilityList)) p \<and>
        sl_data c = take (cap_length (pci_Config d) p)
          (drop p (sl_data (pci_Config d) @ sl_spare (pci_Config d)))
    | _ \<Rightarrow> False"
proof -
  let ?s = "unat (sl_data (pci_Config d) ! PciCapabilityList)"
  have s: "?s < 256" using unsigned_less [of "sl_data (pci_Config d) ! PciCapabilityList"] by simp
  have run: "GetVendorSpecificCapability d = cap_loop (pci_Config d) (replicate 256 0) ?s"
    by (rule GetVendorSpecificCapability_walk [OF assms(1,2)])
  obtain r where r: "cap_loop (pci_Config d) (replicate 256 0) ?s = Ret r"
    using cap_loop_returns [OF assms(3) s] by (auto simp: returns_iff)
  show ?thesis
  proof (cases r)
    case None
    then show ?thesis using cap_loop_decides [OF assms(3) s] run r by simp
  next
    case (Some c)
    then obtain k p where kp: "vendor_cap (pci_Config d) k ?s p"
      using cap_loop_decides [OF assms(3) s] r by auto
    then have "go_slice (pci_Config d) p (p + cap_length (pci_Config d) p) = Ret c"
      using cap_loop_fresh [OF assms(3) kp s] r Some
      by (cases "go_slice (pci_Config d) p (p + cap_length (pci_Config d) p)") simp_all
    from go_slice_data [OF this] kp show ?thesis using run r Some by auto
  qed
qed

text \<open>
  A configuration space of 256 bytes with a list of two entries: at \<open>0x40\<close> one of another kind,
  then at \<open>0x50\<close> one of five bytes that is vendor specific.
\<close>

definition sample_config_space :: "byte list" where
  "sample_config_space = ((((replicate 256 0)[6 := 16, 0x34 := 0x40])[0x40 := 5, 0x41 := 0x50])
     [0x50 := 9, 0x52 := 5])[0x53 := 86, 0x54 := 70]"

definition sample_pci :: pci_device where
  "sample_pci = \<lparr>pci_Path = [], pci_Address = ''0000:01:00.0'', pci_Class = ''0x03'',
     pci_Vendor = PciNvidiaVendorID,
     pci_Config = \<lparr>sl_data = sample_config_space, sl_spare = []\<rparr>\<rparr>"

lemma sample_check: "check_list 2 (pci_Config sample_pci) 0x40"
  by code_simp

theorem GetVendorSpecificCapability_decides_witness:
  "case GetVendorSpecificCapability sample_pci of
      Ret None \<Rightarrow> \<not> (\<exists>k p. vendor_cap (pci_Config sample_pci) k 0x40 p)
    | Ret (Some c) \<Rightarrow> \<exists>k p. vendor_cap (pci_Config sample_pci) k 0x40 p \<and>
        sl_data c = take (cap_length (pci_Config sample_pci) p)
          (drop p (sl_data (pci_Config sample_pci) @ sl_spare (pci_Config sample_pci)))
    | _ \<Rightarrow> False"
proof -
  have start: "unat (sl_data (pci_Config sample_pci) ! PciCapabilityList) = 0x40"
    by (simp add: sample_pci_def sample_config_space_def PciCapabilityList_def)
  have "256 \<le> sl_len (pci_Config sample_pci)"
    and "sl_data (pci_Config sample_pci) ! PciStatusByte AND PciStatusCapabilityList \<noteq> 0"
    by (simp_all add: sample_pci_def sample_config_space_def sl_len_def PciStatusByte_def
        PciStatusCapabilityList_def)
  from GetVendorSpecificCapability_decides [OF this, unfolded start, OF check_list_readable [OF sample_check]]
  show ?thesis .
qed

text \<open>C36: With 512 or more bytes of configuration space the search always returns normally,
  whatever the bytes are.\<close>

theorem GetVendorSpecificCapability_total:
  assumes "512 \<le> sl_len (pci_Config d)"
  shows "returns (GetVendorSpecificCapability d)"
proof -
  let ?s = "unat (sl_data (pci_Config d) ! PciCapabilityList)"
  have "?s < 256" using unsigned_less [of "sl_data (pci_Config d) ! PciCapabilityList"] by simp
  then have "returns (cap_loop (pci_Config d) (replicate 256 0) ?s)"
    using cap_loop_returns all_readable_512 assms by blast
  then show ?thesis
    using assms GetVendorSpecificCapability_walk [of d]
    by (cases "sl_data (pci_Config d) ! PciStatusByte AND PciStatusCapabilityList = 0")
      (simp_all add: GetVendorSpecificCapability_def)
qed

theorem GetVendorSpecificCapability_total_witness:
  "returns (GetVendorSpecificCapability
     (sample_pci\<lparr>pci_Config := \<lparr>sl_data = replicate 4096 255, sl_spare = []\<rparr>\<rparr>))"
  by (rule GetVendorSpecificCapability_total) (simp add: sl_len_def)

lemma cap_loop_ends: "cap_loop config visited pos \<noteq> Diverge"
proof (induction config visited pos rule: cap_loop.induct)
  case (1 config visited pos)
  then show ?case
    by (subst cap_loop.simps) (auto simp: GetByte_def go_slice_def Let_def)
qed

text \<open>C37: The search never hangs, and it panics exactly when the configuration space is read in full
  (256 bytes or more), announces a capability list, and one of the entries the walk comes to cannot
  be read: one of its first three bytes lies behind the end, or the entry is vendor specific and the
  length it announces goes beyond the capacity of the slice.\<close>

theorem GetVendorSpecificCapability_no_crash_iff:
  "GetVendorSpecificCapability d \<noteq> Diverge \<and>
   (no_crash (GetVendorSpecificCapability d) \<longleftrightarrow>
     sl_len (pci_Config d) < 256 \<or>
     sl_data (pci_Config d) ! PciStatusByte AND PciStatusCapabilityList = 0 \<or>
     all_readable (pci_Config d) (unat (sl_data (pci_Config d) ! PciCapabilityList)))"
proof (cases "256 \<le> sl_len (pci_Config d) \<and> sl_data (pci_Config d) ! PciStatusByte AND PciStatusCapabilityList \<noteq> 0")
  case True
  let ?s = "unat (sl_data (pci_Config d) ! PciCapabilityList)"
  have s: "?s < 256" using unsigned_less [of "sl_data (pci_Config d) ! PciCapabilityList"] by simp
  have run: "GetVendorSpecificCapability d = cap_loop (pci_Config d) (replicate 256 0) ?s"
    by (rule GetVendorSpecificCapability_walk) (use True in simp_all)
  have "walked (pci_Config d) (replicate 256 0) ?s" by (simp add: walked_def)
  then have "no_crash (cap_loop (pci_Config d) (replicate 256 0) ?s) \<longleftrightarrow> all_readable (pci_Config d) ?s"
    using cap_loop_reads [of "pci_Config d" "replicate 256 0" ?s ?s] cap_loop_returns [of "pci_Config d" ?s] s
    by (auto simp: returns_iff)
  with True run show ?thesis by (simp add: cap_loop_ends)
next
  case False
  then show ?thesis by (auto simp: GetVendorSpecificCapability_def)
qed

text \<open>An unreachable device reads as \<open>0xff\<close> everywhere: on 256 bytes of it the search panics, since
  the id is only compared with \<open>0xff\<close> after two further bytes are read.\<close>

theorem GetVendorSpecificCapability_all_ones:
  "GetVendorSpecificCapability (d\<lparr>pci_Config := \<lparr>sl_data = replicate 256 0xff, sl_spare = []\<rparr>\<rparr>) =
   Panic ''index out of range''"
  by (simp add: GetVendorSpecificCapability_def sl_len_def PciStatusByte_def PciStatusCapabilityList_def
      GetByte_def PciCapabilityList_def cap_loop.simps PciCapabilityListID_def PciCapabilityListNext_def)

end
