(* ===== verification/Vgpu.thy ===== *)
theory Vgpu
  imports Pci
begin

text \<open>
  \<^verbatim>\<open>internal/vgpu/vgpu.go\<close>: which PCI devices are vGPUs, and the host driver version and branch
  in the vendor specific capability of one.  \<open>GetInfo\<close> follows a list of records whose length
  bytes come from the device; a record of length zero makes the loop run forever, so the loop
  is a \<^theory_text>\<open>partial_function\<close> and not returning is the outcome \<open>Diverge\<close>.
\<close>

section \<open>The library\<close>

record vgpu_device =
  vd_pci :: pci_device
  vd_vGPUCapability :: byte_slice

record vgpu_info =
  HostDriverVersion :: string
  HostDriverBranch :: string

definition VGPUCapabilityRecordStart :: nat where "VGPUCapabilityRecordStart = 5"
definition HostDriverVersionLength :: nat where "HostDriverVersionLength = 10"
definition HostDriverBranchLength :: nat where "HostDriverBranchLength = 10"

text \<open>\<^verbatim>\<open>Lib\<close> holds a value of the interface \<^verbatim>\<open>NvidiaPCI\<close>.\<close>

record vgpu_lib =
  lib_pci_Devices :: nvidia_pci

definition NewVGPULib :: "nvidia_pci \<Rightarrow> vgpu_lib" where
  "NewVGPULib pci = \<lparr>lib_pci_Devices = pci\<rparr>"

definition IsVGPUDevice :: "byte_slice \<Rightarrow> bool" where
  "IsVGPUDevice capability =
     (if sl_len capability < 5 then False
      else if sl_data capability ! 3 \<noteq> 0x56 then False
      else if sl_data capability ! 4 \<noteq> 0x46 then False
      else True)"

text \<open>One round of the loop of \<^verbatim>\<open>Lib.Devices\<close>; \<open>None\<close> is a device that is not kept.\<close>

definition vgpu_of_pci :: "pci_device \<Rightarrow> vgpu_device option go" where
  "vgpu_of_pci device =
     gbind (wrap (''unable to read vendor specific capability for '' @ pci_Address device @ '': '')
              (GetVendorSpecificCapability device)) (\<lambda>capability.
     case capability of
       None \<Rightarrow> Ret None
     | Some c \<Rightarrow> Ret (if IsVGPUDevice c then Some \<lparr>vd_pci = device, vd_vGPUCapability = c\<rparr> else None))"

definition vgpu_Devices :: "vgpu_lib \<Rightarrow> vgpu_device list go" where
  "vgpu_Devices v =
     gbind (wrap ''error getting NVIDIA specific PCI devices: '' (lib_pci_Devices v)) (\<lambda>pciDevices.
     gbind (mapM_go vgpu_of_pci pciDevices) (\<lambda>ds. Ret (List.map_filter id ds)))"

section \<open>Host driver information\<close>

text \<open>
  The loop over the records: the outcome is the position and record id at which it stops, or
  the panic of an index outside the slice.
\<close>

partial_function (option) find_record :: "byte_slice \<Rightarrow> nat \<Rightarrow> byte \<Rightarrow> (nat \<times> byte) go option" where
  "find_record cap pos record =
     (if record \<noteq> 0 \<and> pos < sl_len cap
      then if \<not> pos + 1 < sl_len cap then Some (Panic ''index out of range'')
        else let pos' = pos + unat (sl_data cap ! (pos + 1))
             in if \<not> pos' < sl_len cap then Some (Panic ''index out of range'')
                else find_record cap pos' (sl_data cap ! pos')
      else Some (Ret (pos, record)))"

declare find_record.simps [code]

definition record_loop :: "byte_slice \<Rightarrow> nat \<Rightarrow> byte \<Rightarrow> (nat \<times> byte) go" where
  "record_loop cap pos record =
     (case find_record cap pos record of None \<Rightarrow> Diverge | Some r \<Rightarrow> r)"

text \<open>\<^verbatim>\<open>for ; i < end; i++ { s += string(GetByte(cap, i)) }\<close>: a byte becomes a rune.\<close>

definition read_runes :: "byte_slice \<Rightarrow> nat \<Rightarrow> nat \<Rightarrow> string go" where
  "read_runes cap i n =
     gbind (mapM_go (\<lambda>j. gbind (GetByte cap j) (\<lambda>b. Ret (rune_string b))) [i..<i + n])
       (\<lambda>parts. Ret (concat parts))"

definition GetInfo :: "vgpu_device \<Rightarrow> vgpu_info go" where
  "GetInfo d =
     (let cap = vd_vGPUCapability d; address = pci_Address (vd_pci d) in
      if sl_len cap = 0
      then Err (''vendor capability record is not populated for device '' @ address)
      else
      gbind (GetByte cap VGPUCapabilityRecordStart) (\<lambda>record0.
      gbind (record_loop cap VGPUCapabilityRecordStart record0) (\<lambda>(pos, record).
      if record = 0 \<and> pos + 2 + HostDriverVersionLength + HostDriverBranchLength \<le> sl_len cap
      then
        gbind (read_runes cap (pos + 2) HostDriverVersionLength) (\<lambda>version.
        gbind (read_runes cap (pos + 2 + HostDriverVersionLength) HostDriverBranchLength) (\<lambda>branch.
        Ret \<lparr>HostDriverVersion = trim_nul version, HostDriverBranch = trim_nul branch\<rparr>))
      else Err (''cannot find driver version record in vendor specific capability for device '' @
        address))))"

section \<open>The mock devices of the repository\<close>

definition bytes_of :: "nat list \<Rightarrow> byte list" where
  "bytes_of ns = map of_nat ns"

definition gpuPassThroughConfig :: "byte list" where
  "gpuPassThroughConfig = bytes_of
    [222, 16, 138, 17, 7, 4, 16, 0, 161, 0, 0, 3, 0, 248, 0, 0, 0, 0, 0, 236, 12, 0, 0, 224,
     0, 0, 0, 0, 12, 0, 0, 234, 0, 0, 0, 0, 1, 193, 0, 0, 0, 0, 0, 0, 222, 16, 20, 16, 0, 0,
     0, 238, 96, 0, 0, 0, 0, 0, 0, 0, 5, 1, 0, 0, 222, 16, 20, 16, 0, 0, 0, 0, 0, 0, 0, 0, 0,
     0, 0, 0, 1, 0, 0, 0, 1, 0, 0, 0, 206, 214, 35, 0, 0, 0, 0, 0, 1, 104, 3, 0, 8, 0, 0, 0,
     5, 120, 129, 0, 0, 112, 230, 254, 0, 0, 0, 0, 0, 67, 0, 0, 16, 180, 2, 0, 225, 141, 100,
     0, 16, 41, 0, 0, 3, 61, 69, 16, 0, 0, 1, 17, 0, 0, 0, 0, 0, 0, 0, 0, 0, 0, 0, 0, 0, 0, 0,
     0, 19, 0, 0, 0, 0, 0, 0, 0, 14, 0, 0, 0, 3, 0, 62, 0, 0, 0, 0, 0, 0, 0, 0, 0, 9, 0, 20,
     1, 0, 0, 0, 0, 0, 0, 0, 0, 0, 0, 0, 0, 0, 0, 0, 0, 0, 0, 0, 0, 0, 0, 0, 0, 0, 0, 0, 0, 0,
     0, 0, 0, 0, 0, 0, 0, 0, 0, 0, 0, 0, 0, 0, 0, 0, 0, 0, 0, 0, 0, 0, 0, 0, 0, 0, 0, 0, 0, 0,
     0, 0, 0, 0, 0, 0, 0, 0, 0, 0, 0, 0, 0]"

definition vgpuConfig :: "byte list" where
  "vgpuConfig = bytes_of
    [222, 16, 184, 30, 2, 5, 255, 6, 161, 0, 0, 3, 0, 0, 0, 0, 0, 0, 0, 252, 12, 0, 0, 208, 0,
     0, 0, 0, 4, 0, 0, 250, 0, 0, 0, 0, 0, 0, 0, 0, 0, 0, 0, 0, 222, 16, 15, 19, 0, 0, 0, 0,
     208, 0, 0, 0, 0, 0, 0, 0, 10, 1, 0, 0, 0, 0, 0, 0, 0, 0, 0, 0, 0, 0, 0, 0, 0, 0, 0, 0, 1,
     0, 0, 0, 1, 0, 0, 0, 206, 214, 35, 0, 0, 0, 0, 0, 0, 0, 0, 0, 0, 0, 0, 0, 5, 0, 129, 0,
     0, 0, 224, 254, 0, 0, 0, 0, 78, 64, 0, 0, 0, 0, 0, 0, 0, 0, 0, 0, 0, 0, 0, 0, 0, 0, 0, 0,
     0, 0, 0, 0, 0, 0, 0, 0, 0, 0, 0, 0, 0, 0, 0, 0, 0, 0, 0, 0, 0, 0, 0, 0, 0, 0, 0, 0, 0, 0,
     0, 0, 0, 0, 0, 0, 0, 0, 0, 0, 0, 0, 0, 0, 0, 0, 0, 0, 0, 0, 0, 0, 0, 0, 0, 0, 0, 0, 0, 0,
     0, 0, 0, 0, 0, 0, 0, 0, 0, 0, 0, 0, 9, 104, 27, 86, 70, 0, 22, 52, 54, 48, 46, 49, 54, 0,
     0, 0, 0, 114, 52, 54, 48, 95, 48, 48, 0, 0, 0, 0, 0, 0, 0, 0, 0, 0, 0, 0, 0, 0, 0, 0, 0,
     0, 0, 0, 0, 0, 0, 0]"

text \<open>\<^verbatim>\<open>MockNvidiaPCI\<close> keeps the list its \<^verbatim>\<open>Devices\<close> returns.\<close>

definition MockNvidiaPCI_Devices :: "pci_device list \<Rightarrow> nvidia_pci" where
  "MockNvidiaPCI_Devices devices = Ret devices"

definition NewMockNvidiaPCI :: nvidia_pci where
  "NewMockNvidiaPCI = MockNvidiaPCI_Devices
     [\<lparr>pci_Path = '''', pci_Address = ''passthrough'', pci_Class = ''300'', pci_Vendor = ''0x10de'',
       pci_Config = \<lparr>sl_data = gpuPassThroughConfig, sl_spare = []\<rparr>\<rparr>,
      \<lparr>pci_Path = '''', pci_Address = ''vgpu'', pci_Class = ''300'', pci_Vendor = ''0x10de'',
       pci_Config = \<lparr>sl_data = vgpuConfig, sl_spare = []\<rparr>\<rparr>]"

definition NewMockVGPU :: vgpu_lib where
  "NewMockVGPU = NewVGPULib NewMockNvidiaPCI"

section \<open>The record loop\<close>

lemma find_record_stop:
  "\<not> (record \<noteq> 0 \<and> pos < sl_len cap) \<Longrightarrow> find_record cap pos record = Some (Ret (pos, record))"
  by (subst find_record.simps) auto

lemma find_record_step:
  assumes "record \<noteq> 0" and "pos + 1 < sl_len cap"
    and "pos + unat (sl_data cap ! (pos + 1)) < sl_len cap"
  shows "find_record cap pos record =
    find_record cap (pos + unat (sl_data cap ! (pos + 1)))
      (sl_data cap ! (pos + unat (sl_data cap ! (pos + 1))))"
  using assms by (subst find_record.simps) (simp add: Let_def)

lemma find_record_outside:
  assumes "record \<noteq> 0" and "pos < sl_len cap"
    and "\<not> (pos + 1 < sl_len cap \<and> pos + unat (sl_data cap ! (pos + 1)) < sl_len cap)"
  shows "find_record cap pos record = Some (Panic ''index out of range'')"
  using assms by (subst find_record.simps) (auto simp: Let_def)

text \<open>A record with a non-zero id and length zero: the next record is the record itself.\<close>

definition stuck :: "byte_slice \<Rightarrow> nat \<Rightarrow> bool" where
  "stuck cap pos \<longleftrightarrow> pos + 1 < sl_len cap \<and> sl_data cap ! pos \<noteq> 0 \<and> sl_data cap ! (pos + 1) = 0"

inductive reaches_stuck :: "byte_slice \<Rightarrow> nat \<Rightarrow> bool" for cap where
  at_stuck: "stuck cap pos \<Longrightarrow> reaches_stuck cap pos"
| advance: "sl_data cap ! pos \<noteq> 0 \<Longrightarrow> pos + 1 < sl_len cap \<Longrightarrow>
     n = unat (sl_data cap ! (pos + 1)) \<Longrightarrow> pos + n < sl_len cap \<Longrightarrow>
     reaches_stuck cap (pos + n) \<Longrightarrow> reaches_stuck cap pos"

lemma find_record_stuck:
  assumes "stuck cap pos"
  shows "find_record cap pos (sl_data cap ! pos) = None"
proof (rule ccontr)
  assume "find_record cap pos (sl_data cap ! pos) \<noteq> None"
  then obtain r where ret: "find_record cap pos (sl_data cap ! pos) = Some r" by blast
  have "\<not> (stuck cap pos \<and> sl_data cap ! pos = sl_data cap ! pos)"
  proof (rule find_record.raw_induct
      [where P = "\<lambda>c p rec r. \<not> (stuck c p \<and> rec = sl_data c ! p)", OF _ ret])
    fix f :: "byte_slice \<Rightarrow> nat \<Rightarrow> byte \<Rightarrow> (nat \<times> byte) go option" and c p rec r
    assume IH: "\<And>c p rec r. f c p rec = Some r \<Longrightarrow> \<not> (stuck c p \<and> rec = sl_data c ! p)"
      and eq: "(if rec \<noteq> 0 \<and> p < sl_len c
         then if \<not> p + 1 < sl_len c then Some (Panic ''index out of range'')
           else let pos' = p + unat (sl_data c ! (p + 1))
                in if \<not> pos' < sl_len c then Some (Panic ''index out of range'')
                   else f c pos' (sl_data c ! pos')
         else Some (Ret (p, rec))) = Some r"
    show "\<not> (stuck c p \<and> rec = sl_data c ! p)"
    proof
      assume st: "stuck c p \<and> rec = sl_data c ! p"
      then have "f c p rec = Some r" using eq by (simp add: stuck_def Let_def)
      with IH st show False by blast
    qed
  qed
  with assms show False by simp
qed

lemma find_record_diverges:
  "reaches_stuck cap pos \<Longrightarrow> find_record cap pos (sl_data cap ! pos) = None"
proof (induction rule: reaches_stuck.induct)
  case (at_stuck pos)
  then show ?case by (rule find_record_stuck)
next
  case (advance pos n)
  then show ?case using find_record_step [of "sl_data cap ! pos" pos cap] by simp
qed

lemma find_record_returns:
  "\<not> reaches_stuck cap pos \<Longrightarrow> pos < sl_len cap \<Longrightarrow> \<exists>r. find_record cap pos (sl_data cap ! pos) = Some r"
proof (induction "sl_len cap - pos" arbitrary: pos rule: less_induct)
  case less
  let ?n = "unat (sl_data cap ! (pos + 1))"
  show ?case
  proof (cases "sl_data cap ! pos = 0")
    case True
    then show ?thesis by (simp add: find_record_stop)
  next
    case nz: False
    show ?thesis
    proof (cases "pos + 1 < sl_len cap \<and> pos + ?n < sl_len cap")
      case True
      have "\<not> stuck cap pos" using less.prems(1) by (blast intro: at_stuck)
      then have "?n \<noteq> 0" using nz True by (auto simp: stuck_def unat_eq_0)
      moreover have "\<not> reaches_stuck cap (pos + ?n)"
        using less.prems(1) nz True by (blast intro: advance)
      moreover have "sl_len cap - (pos + ?n) < sl_len cap - pos"
        using \<open>?n \<noteq> 0\<close> True by linarith
      ultimately have "\<exists>r. find_record cap (pos + ?n) (sl_data cap ! (pos + ?n)) = Some r"
        using less.hyps [of "pos + ?n"] True by simp
      with True nz show ?thesis using find_record_step [of "sl_data cap ! pos" pos cap] by simp
    next
      case False
      with nz less.prems(2) show ?thesis by (auto simp: find_record_outside)
    qed
  qed
qed

text \<open>The loop runs forever exactly when it comes to a record of length zero.\<close>

lemma record_loop_diverges_iff:
  assumes "pos < sl_len cap"
  shows "record_loop cap pos (sl_data cap ! pos) = Diverge \<longleftrightarrow> reaches_stuck cap pos"
proof -
  have "find_record cap pos (sl_data cap ! pos) \<noteq> Some Diverge"
  proof
    assume ret: "find_record cap pos (sl_data cap ! pos) = Some Diverge"
    have "Diverge \<noteq> (Diverge :: (nat \<times> byte) go)"
      by (rule find_record.raw_induct [where P = "\<lambda>_ _ _ r. r \<noteq> Diverge", OF _ ret])
        (auto simp: Let_def split: if_splits)
    then show False by simp
  qed
  moreover have "find_record cap pos (sl_data cap ! pos) = None \<longleftrightarrow> reaches_stuck cap pos"
    using find_record_diverges find_record_returns [OF _ assms] by fastforce
  ultimately show ?thesis by (auto simp: record_loop_def split: option.splits)
qed

section \<open>Reading the strings\<close>

lemma read_runes_in:
  assumes "i + n \<le> sl_len cap"
  shows "read_runes cap i n = Ret (concat (map rune_string (take n (drop i (sl_data cap)))))"
proof -
  have "mapM_go (\<lambda>j. gbind (GetByte cap j) (\<lambda>b. Ret (rune_string b))) [i..<i + n] =
      Ret (map (\<lambda>j. rune_string (sl_data cap ! j)) [i..<i + n])"
    using assms by (intro mapM_go_all_Ret) (auto simp: GetByte_in)
  moreover have "map (\<lambda>j. rune_string (sl_data cap ! j)) [i..<i + n] =
      map rune_string (take n (drop i (sl_data cap)))"
    using assms by (auto simp: sl_len_def list_eq_iff_nth_eq)
  ultimately show ?thesis by (simp add: read_runes_def)
qed

text \<open>A field of ten bytes: an ASCII string, padded with NUL bytes.\<close>

definition ascii_field :: "string \<Rightarrow> bool" where
  "ascii_field s \<longleftrightarrow> length s \<le> 10 \<and> (\<forall>c \<in> set s. (of_char c :: nat) < 128) \<and>
     (s = [] \<or> hd s \<noteq> CHR 0x00 \<and> last s \<noteq> CHR 0x00)"

definition pad_field :: "string \<Rightarrow> byte list" where
  "pad_field s = map char_byte s @ replicate (10 - length s) 0"

lemma length_pad_field [simp]: "ascii_field s \<Longrightarrow> length (pad_field s) = 10"
  by (simp add: pad_field_def ascii_field_def)

lemma rune_string_0: "rune_string 0 = [CHR 0x00]"
  by (simp add: rune_string_def char_of_def)

lemma pad_field_runes:
  assumes "ascii_field s"
  shows "concat (map rune_string (pad_field s)) = s @ replicate (10 - length s) (CHR 0x00)"
proof -
  have "concat (map rune_string (map char_byte s)) = concat (map (\<lambda>c. [c]) s)"
    using assms by (intro arg_cong [where f = concat]) (auto simp: ascii_field_def rune_string_ascii)
  also have "concat (map (\<lambda>c. [c]) s) = s" by (induction s) auto
  finally have "concat (map rune_string (map char_byte s)) = s" .
  moreover have "concat (map rune_string (replicate n 0)) = replicate n (CHR 0x00)" for n
    by (induction n) (simp_all add: rune_string_0)
  ultimately show ?thesis by (simp add: pad_field_def)
qed

lemma trim_pad_field:
  "ascii_field s \<Longrightarrow> trim_nul (concat (map rune_string (pad_field s))) = s"
  by (simp add: pad_field_runes trim_nul_padding ascii_field_def)

section \<open>Encoded capabilities\<close>

text \<open>
  The layout the reader expects: five header bytes, records of the form id, total length,
  payload with non-zero ids, the host driver record (id 0), then anything.
\<close>

definition encode_record :: "byte \<times> byte list \<Rightarrow> byte list" where
  "encode_record r = fst r # of_nat (2 + length (snd r)) # snd r"

lemma length_encode_record [simp]: "length (encode_record r) = 2 + length (snd r)"
  by (simp add: encode_record_def)

definition record_ok :: "byte \<times> byte list \<Rightarrow> bool" where
  "record_ok r \<longleftrightarrow> fst r \<noteq> 0 \<and> length (snd r) \<le> 253"

definition encode_vgpu ::
  "byte list \<Rightarrow> (byte \<times> byte list) list \<Rightarrow> string \<Rightarrow> string \<Rightarrow> byte list \<Rightarrow> byte list" where
  "encode_vgpu header recs version branch rest =
     header @ concat (map encode_record recs) @ 0 # 22 # pad_field version @ pad_field branch @ rest"

lemma record_loop_skips:
  assumes "\<forall>r \<in> set recs. record_ok r" and "pos = length pre"
    and "sl_data cap = pre @ concat (map encode_record recs) @ 0 # rest"
  shows "find_record cap pos (sl_data cap ! pos) =
    Some (Ret (pos + length (concat (map encode_record recs)), 0))"
  using assms
proof (induction recs arbitrary: pos pre)
  case Nil
  then show ?case by (simp add: find_record_stop)
next
  case (Cons r recs)
  let ?n = "2 + length (snd r)"
  have ok: "record_ok r" and n: "?n < 256" using Cons.prems(1) by (auto simp: record_ok_def)
  have "unat (of_nat ?n :: byte) = ?n" using n by (simp only: unat_of_nat) simp
  then have u: "unat (2 + of_nat (length (snd r)) :: byte) = ?n" by simp
  have cur: "sl_data cap ! pos = fst r" and len: "unat (sl_data cap ! (pos + 1)) = ?n"
    using Cons.prems(2,3) u by (auto simp: encode_record_def nth_append)
  have inside: "pos + ?n < sl_len cap"
    using Cons.prems(2,3) by (simp add: sl_len_def encode_record_def)
  have "find_record cap pos (sl_data cap ! pos) = find_record cap (pos + ?n) (sl_data cap ! (pos + ?n))"
    using find_record_step [of "sl_data cap ! pos" pos cap] ok inside cur len
    by (simp add: record_ok_def)
  also have "\<dots> = Some (Ret (pos + ?n + length (concat (map encode_record recs)), 0))"
    using Cons.prems by (intro Cons.IH [of _ "pre @ encode_record r"]) (auto simp: encode_record_def)
  finally show ?case by simp
qed

lemma GetInfo_encoded:
  assumes "sl_data (vd_vGPUCapability d) = encode_vgpu header recs version branch rest"
    and "length header = 5" and "\<forall>r \<in> set recs. record_ok r"
    and "ascii_field version" and "ascii_field branch"
  shows "GetInfo d = Ret \<lparr>HostDriverVersion = version, HostDriverBranch = branch\<rparr>"
proof -
  let ?cap = "vd_vGPUCapability d"
  let ?body = "concat (map encode_record recs)"
  let ?pos = "5 + length ?body"
  have data: "sl_data ?cap = header @ ?body @ 0 # 22 # pad_field version @ pad_field branch @ rest"
    using assms(1) by (simp add: encode_vgpu_def)
  have len: "?pos + 22 \<le> sl_len ?cap"
    using assms(2,4,5) by (simp add: sl_len_def data)
  have loop: "record_loop ?cap 5 (sl_data ?cap ! 5) = Ret (?pos, 0)"
    using record_loop_skips [of recs 5 header ?cap "22 # pad_field version @ pad_field branch @ rest"]
      assms(2,3) data by (simp add: record_loop_def)
  have "take 10 (drop (?pos + 2) (sl_data ?cap)) = pad_field version"
    "take 10 (drop (?pos + 12) (sl_data ?cap)) = pad_field branch"
    using assms(2,4,5) by (simp_all add: data)
  then have "read_runes ?cap (?pos + 2) 10 = Ret (concat (map rune_string (pad_field version)))"
    "read_runes ?cap (?pos + 12) 10 = Ret (concat (map rune_string (pad_field branch)))"
    using read_runes_in [of "?pos + 2" 10 ?cap] read_runes_in [of "?pos + 12" 10 ?cap] len
    by simp_all
  moreover have "?pos + 2 + 10 = ?pos + 12" by simp
  ultimately show ?thesis
    using loop len assms(4,5)
    by (simp add: GetInfo_def Let_def VGPUCapabilityRecordStart_def HostDriverVersionLength_def
        HostDriverBranchLength_def GetByte_in trim_pad_field add.assoc del: add_Suc_right)
qed

lemma GetInfo_loop:
  assumes "5 < sl_len (vd_vGPUCapability d)"
  shows "GetInfo d = Diverge \<longleftrightarrow>
    record_loop (vd_vGPUCapability d) 5 (sl_data (vd_vGPUCapability d) ! 5) = Diverge"
proof (cases "record_loop (vd_vGPUCapability d) 5 (sl_data (vd_vGPUCapability d) ! 5)")
  case (Ret x)
  with assms show ?thesis
    by (cases x) (simp add: GetInfo_def Let_def VGPUCapabilityRecordStart_def GetByte_in
        HostDriverVersionLength_def HostDriverBranchLength_def read_runes_in)
qed (use assms in \<open>auto simp: GetInfo_def Let_def VGPUCapabilityRecordStart_def GetByte_in\<close>)

lemma GetInfo_no_crash_loop:
  assumes "5 < sl_len (vd_vGPUCapability d)"
  shows "no_crash (GetInfo d) \<longleftrightarrow>
    no_crash (record_loop (vd_vGPUCapability d) 5 (sl_data (vd_vGPUCapability d) ! 5))"
proof (cases "record_loop (vd_vGPUCapability d) 5 (sl_data (vd_vGPUCapability d) ! 5)")
  case (Ret x)
  with assms show ?thesis
    by (cases x) (simp add: GetInfo_def Let_def VGPUCapabilityRecordStart_def GetByte_in
        HostDriverVersionLength_def HostDriverBranchLength_def read_runes_in)
qed (use assms in \<open>auto simp: GetInfo_def Let_def VGPUCapabilityRecordStart_def GetByte_in\<close>)

text \<open>
  The records from \<open>pos\<close> on lead to the one with id 0: every one before it has a length that is
  not zero and does not lead out of the capability.
\<close>

inductive record_chain :: "byte_slice \<Rightarrow> nat \<Rightarrow> bool" for cap where
  host_driver: "sl_data cap ! pos = 0 \<Longrightarrow> record_chain cap pos"
| other: "sl_data cap ! pos \<noteq> 0 \<Longrightarrow> pos + 1 < sl_len cap \<Longrightarrow>
     n = unat (sl_data cap ! (pos + 1)) \<Longrightarrow> n \<noteq> 0 \<Longrightarrow> pos + n < sl_len cap \<Longrightarrow>
     record_chain cap (pos + n) \<Longrightarrow> record_chain cap pos"

lemma record_chain_loop: "record_chain cap pos \<Longrightarrow> no_crash (record_loop cap pos (sl_data cap ! pos))"
proof (induction rule: record_chain.induct)
  case (host_driver pos)
  then show ?case by (simp add: record_loop_def find_record_stop)
next
  case (other pos n)
  then show ?case using find_record_step [of "sl_data cap ! pos" pos cap] by (simp add: record_loop_def)
qed

lemma record_loop_chain:
  "pos < sl_len cap \<Longrightarrow> no_crash (record_loop cap pos (sl_data cap ! pos)) \<Longrightarrow> record_chain cap pos"
proof (induction "sl_len cap - pos" arbitrary: pos rule: less_induct)
  case less
  let ?n = "unat (sl_data cap ! (pos + 1))"
  show ?case
  proof (cases "sl_data cap ! pos = 0")
    case True
    then show ?thesis by (rule host_driver)
  next
    case nz: False
    have "pos + 1 < sl_len cap \<and> pos + ?n < sl_len cap"
    proof (rule ccontr)
      assume "\<not> (pos + 1 < sl_len cap \<and> pos + ?n < sl_len cap)"
      from find_record_outside [OF nz less.prems(1) this] less.prems(2) show False
        by (simp add: record_loop_def)
    qed
    then have inside: "pos + 1 < sl_len cap" "pos + ?n < sl_len cap" by simp_all
    have "\<not> stuck cap pos"
      using find_record_stuck [of cap pos] less.prems(2) by (auto simp: record_loop_def)
    then have n: "?n \<noteq> 0" using nz inside by (auto simp: stuck_def unat_eq_0)
    have "no_crash (record_loop cap (pos + ?n) (sl_data cap ! (pos + ?n)))"
      using less.prems(2) find_record_step [OF nz inside] by (metis record_loop_def)
    then have "record_chain cap (pos + ?n)"
      using n inside(2) by (intro less.hyps) simp_all
    with other [OF nz inside(1) refl n inside(2)] show ?thesis .
  qed
qed

section \<open>Properties\<close>

text \<open>C20: Reading the host driver version and branch from a capability gives back what was encoded
  in it, whatever well-formed records (a nonzero id, at most 253 bytes) stand before it and whatever
  bytes follow.  The header has its five bytes, and version and branch are ASCII texts of at
  most ten bytes that neither begin nor end with a zero byte.\<close>

theorem GetInfo_roundtrip:
  assumes "sl_data (vd_vGPUCapability d) = encode_vgpu header recs version branch rest"
    and "length header = 5" and "\<forall>r \<in> set recs. record_ok r"
    and "ascii_field version" and "ascii_field branch"
  shows "GetInfo d = Ret \<lparr>HostDriverVersion = version, HostDriverBranch = branch\<rparr>"
  by (rule GetInfo_encoded [OF assms])

theorem GetInfo_roundtrip_witness:
  "GetInfo \<lparr>vd_pci = sample_pci, vd_vGPUCapability =
     \<lparr>sl_data = encode_vgpu [9, 0, 27, 86, 70] [(7, [1, 2, 3])] ''460.16'' ''r460_00'' [255],
      sl_spare = []\<rparr>\<rparr> =
   Ret \<lparr>HostDriverVersion = ''460.16'', HostDriverBranch = ''r460_00''\<rparr>"
  by (rule GetInfo_roundtrip [where header = "[9, 0, 27, 86, 70]" and recs = "[(7, [1, 2, 3])]"
        and rest = "[255]"])
    (simp_all add: record_ok_def ascii_field_def)

text \<open>C19: \<open>GetInfo\<close> never returns exactly on the capabilities in which following the record
  lengths comes to a record of length zero.\<close>

theorem GetInfo_diverges_iff:
  "GetInfo d = Diverge \<longleftrightarrow>
     5 < sl_len (vd_vGPUCapability d) \<and> reaches_stuck (vd_vGPUCapability d) 5"
proof (cases "5 < sl_len (vd_vGPUCapability d)")
  case True
  then show ?thesis using GetInfo_loop record_loop_diverges_iff by blast
next
  case False
  then show ?thesis
    by (auto simp: GetInfo_def Let_def VGPUCapabilityRecordStart_def GetByte_def)
qed

text \<open>C18: \<open>GetInfo\<close> returns or gives an error exactly on an empty capability and on those of more
  than five bytes whose records lead to the one of the host driver; on any other it panics or
  hangs, also on the five bytes \<open>IsVGPUDevice\<close> accepts.\<close>

theorem GetInfo_no_crash_iff:
  "no_crash (GetInfo d) \<longleftrightarrow>
     sl_len (vd_vGPUCapability d) = 0 \<or>
     5 < sl_len (vd_vGPUCapability d) \<and> record_chain (vd_vGPUCapability d) 5"
proof (cases "5 < sl_len (vd_vGPUCapability d)")
  case True
  then show ?thesis
    using GetInfo_no_crash_loop [OF True] record_chain_loop record_loop_chain by auto
next
  case False
  then show ?thesis by (auto simp: GetInfo_def Let_def VGPUCapabilityRecordStart_def GetByte_def)
qed

end
