(* ===== verification/Labels.thy ===== *)
theory Labels
  imports Spec_Config Vgpu
begin

text \<open>
  The label sets of \<^verbatim>\<open>internal/lm\<close> and their sources: \<^verbatim>\<open>labels.go\<close> (the type and \<^verbatim>\<open>WriteTo\<close>),
  \<^verbatim>\<open>list.go\<close>, \<^verbatim>\<open>empty.go\<close>, \<^verbatim>\<open>timestamp.go\<close>, \<^verbatim>\<open>machine-type.go\<close>, \<^verbatim>\<open>strategy.go\<close> and \<^verbatim>\<open>vgpu.go\<close>.
  The interface \<^verbatim>\<open>Labeler\<close> has four implementations in the program; \<open>labeler\<close> is the datatype
  of its values and \<open>Labels_of\<close> the method \<^verbatim>\<open>Labels()\<close>.
\<close>

section \<open>Labelers\<close>

type_synonym labels = "(string, string) gomap"

datatype labeler = LEmpty | LLabels labels | LList "labeler list" | LVGPU vgpu_lib

definition Merge :: "labeler list \<Rightarrow> labeler" where
  "Merge labelers = LList labelers"

text \<open>\<^verbatim>\<open>vgpuLabeler.Labels\<close>.\<close>

definition add_vgpu_info :: "vgpu_device \<Rightarrow> labels \<Rightarrow> labels go" where
  "add_vgpu_info device labels =
     gbind (wrap ''error getting vGPU device info: '' (GetInfo device)) (\<lambda>info.
     Ret (gset ''nvidia.com/vgpu.host-driver-branch'' (HostDriverBranch info)
            (gset ''nvidia.com/vgpu.host-driver-version'' (HostDriverVersion info) labels)))"

definition vgpu_Labels :: "vgpu_lib \<Rightarrow> labels go" where
  "vgpu_Labels lib =
     gbind (wrap ''unable to get vGPU devices: '' (vgpu_Devices lib)) (\<lambda>devices.
     foldM_go add_vgpu_info devices
       (if length devices > 0 then gset ''nvidia.com/vgpu.present'' ''true'' [] else []))"

definition NewVGPULabeler :: "vgpu_lib \<Rightarrow> labeler" where
  "NewVGPULabeler vgpu = LVGPU vgpu"

text \<open>
  \<^verbatim>\<open>Labels()\<close>, with the loop of \<^verbatim>\<open>list.Labels\<close> over the members.  A nil map and an empty map are
  both \<open>[]\<close>: the program only reads the results.
\<close>

text \<open>\<^verbatim>\<open>empty.Labels\<close> and \<^verbatim>\<open>Labels.Labels\<close>.\<close>

definition empty_Labels :: "labels go" where
  [simp]: "empty_Labels = Ret []"

definition Labels_Labels :: "labels \<Rightarrow> labels go" where
  [simp]: "Labels_Labels labels = Ret labels"

fun Labels_of :: "labeler \<Rightarrow> labels go"
and list_Labels :: "labeler list \<Rightarrow> labels \<Rightarrow> labels go" where
  "Labels_of LEmpty = empty_Labels"
| "Labels_of (LLabels m) = Labels_Labels m"
| "Labels_of (LList ls) = list_Labels ls []"
| "Labels_of (LVGPU v) = vgpu_Labels v"
| "list_Labels [] allLabels = Ret allLabels"
| "list_Labels (l # ls) allLabels =
     gbind (wrap ''error generating labels: '' (Labels_of l))
       (\<lambda>labels. list_Labels ls (gset_all labels allLabels))"

section \<open>Small labelers\<close>

text \<open>\<^verbatim>\<open>*config.Flags.GFD.<field>\<close>: two pointers are read.\<close>

definition gfd_flag :: "config \<Rightarrow> (gfd_flags \<Rightarrow> 'a option) \<Rightarrow> 'a go" where
  "gfd_flag config field = gbind (deref (fl_GFD (cfg_Flags config))) (\<lambda>g. deref (field g))"

text \<open>\<open>now\<close> is \<^verbatim>\<open>time.Now().Unix()\<close> at the call.\<close>

definition NewTimestampLabeler :: "int \<Rightarrow> config \<Rightarrow> labeler go" where
  "NewTimestampLabeler now config =
     gbind (gfd_flag config gf_NoTimestamp) (\<lambda>noTimestamp.
     if noTimestamp then Ret LEmpty
     else Ret (LLabels [(''nvidia.com/gfd.timestamp'', show_int now)]))"

definition machineTypeUnknown :: string where
  "machineTypeUnknown = ''unknown''"

text \<open>\<open>readFile\<close> is \<^verbatim>\<open>os.ReadFile\<close>, with the bytes read as a string.\<close>

definition getMachineType :: "(string \<Rightarrow> string go) \<Rightarrow> string \<Rightarrow> string go" where
  "getMachineType readFile path =
     (if path = '''' then Ret machineTypeUnknown
      else gbind (wrap ''could not open machine type file: '' (readFile path))
             (\<lambda>data. Ret (trim_space data)))"

definition newMachineTypeLabeler :: "(string \<Rightarrow> string go) \<Rightarrow> string \<Rightarrow> labeler go" where
  "newMachineTypeLabeler readFile machineTypePath =
     gbind (case getMachineType readFile machineTypePath of
              Err e \<Rightarrow> Ret machineTypeUnknown
            | r \<Rightarrow> r)
       (\<lambda>machineType.
        Ret (LLabels [(''nvidia.com/gpu.machine'', replace_all CHR '' '' CHR ''-'' machineType)]))"

abbreviation MigStrategyNone :: string where "MigStrategyNone \<equiv> ''none''"
abbreviation MigStrategySingle :: string where "MigStrategySingle \<equiv> ''single''"
abbreviation MigStrategyMixed :: string where "MigStrategyMixed \<equiv> ''mixed''"

definition migStrategyLabeler :: "string \<Rightarrow> labeler" where
  "migStrategyLabeler strategy =
     (if strategy = MigStrategyNone then LEmpty else LLabels [(''nvidia.com/mig.strategy'', strategy)])"

section \<open>Writing\<close>

text \<open>
  \<^verbatim>\<open>WriteTo\<close> on a writer \<open>write\<close>: a call takes the state of the writer and the bytes, and gives
  the new state, the number of bytes written and an error, if any.  \<open>cs\<close> chooses the order of
  the \<^verbatim>\<open>range\<close> loop over the labels.
\<close>

type_synonym 'w writer = "'w \<Rightarrow> string \<Rightarrow> 'w \<times> nat \<times> string option"

definition label_line :: "string \<times> string \<Rightarrow> string" where
  "label_line kv = fst kv @ ''='' @ snd kv @ [CHR 0x0A]"

fun write_loop :: "'w writer \<Rightarrow> (string \<times> string) list \<Rightarrow> 'w \<Rightarrow> nat \<Rightarrow> 'w \<times> nat \<times> string option" where
  "write_loop write [] w tot = (w, tot, None)"
| "write_loop write (kv # kvs) w tot =
     (let (w', n, err) = write w (label_line kv) in
      case err of
        Some e \<Rightarrow> (w', tot + n, Some e)
      | None \<Rightarrow> write_loop write kvs w' (tot + n))"

definition WriteTo :: "nat list \<Rightarrow> labels \<Rightarrow> 'w writer \<Rightarrow> 'w \<Rightarrow> 'w \<times> nat \<times> string option" where
  "WriteTo cs labels write w = write_loop write (range_perm cs labels) w 0"

text \<open>\<^verbatim>\<open>bytes.Buffer\<close>: a write appends and never fails.\<close>

definition buffer_write :: "string writer" where
  "buffer_write b s = (b @ s, length s, None)"

definition render :: "nat list \<Rightarrow> labels \<Rightarrow> string" where
  "render cs labels = fst (WriteTo cs labels buffer_write '''')"

section \<open>Facts about label sets\<close>

text \<open>What a consumer of a \<^verbatim>\<open>Labeler\<close> may rely on: the label sets it gives have distinct keys.\<close>

locale labeler_contract =
  fixes labels :: "'l \<Rightarrow> labels go"
    and ok :: "'l \<Rightarrow> bool"
  assumes labels_distinct: "ok l \<Longrightarrow> labels l = Ret m \<Longrightarrow> gmap_ok m"
begin

text \<open>
  Copying such a set over another overwrites key by key, in whatever order the copying loop
  visits it.
\<close>

lemma overlay:
  assumes "ok l" and "labels l = Ret m" and "mset kvs = mset m"
  shows "gget (gset_all kvs acc) = gget acc ++ gget m"
proof -
  from assms(1,2) have m: "gmap_ok m" by (rule labels_distinct)
  with assms(3) have "gmap_ok kvs" by (metis gmap_ok_perm)
  then show ?thesis using gget_perm [OF m assms(3)] by (simp add: gget_gset_all_ok)
qed

end

text \<open>A labeler is well formed when the label sets in it are.\<close>

fun labeler_ok :: "labeler \<Rightarrow> bool" where
  "labeler_ok LEmpty = True"
| "labeler_ok (LLabels m) = gmap_ok m"
| "labeler_ok (LList ls) = list_all labeler_ok ls"
| "labeler_ok (LVGPU v) = True"

lemma foldM_add_vgpu_info_ok:
  "foldM_go add_vgpu_info ds m = Ret m' \<Longrightarrow> gmap_ok m \<Longrightarrow> gmap_ok m'"
proof (induction ds arbitrary: m)
  case (Cons d ds)
  then show ?case by (auto simp: add_vgpu_info_def [of d])
qed simp

definition vgpu_present :: "vgpu_device list \<Rightarrow> labels" where
  "vgpu_present ds = (if ds \<noteq> [] then gset ''nvidia.com/vgpu.present'' ''true'' [] else [])"

lemma vgpu_Labels_Ret:
  "vgpu_Labels v = Ret m \<longleftrightarrow>
   (\<exists>ds. vgpu_Devices v = Ret ds \<and> foldM_go add_vgpu_info ds (vgpu_present ds) = Ret m)"
  unfolding vgpu_Labels_def vgpu_present_def by simp

lemma vgpu_Labels_ok: "vgpu_Labels v = Ret m \<Longrightarrow> gmap_ok m"
proof -
  assume "vgpu_Labels v = Ret m"
  then obtain ds where "foldM_go add_vgpu_info ds (vgpu_present ds) = Ret m"
    using vgpu_Labels_Ret by blast
  then show "gmap_ok m" by (rule foldM_add_vgpu_info_ok) (simp add: vgpu_present_def)
qed

lemma Labels_of_ok:
  "labeler_ok l \<Longrightarrow> Labels_of l = Ret m \<Longrightarrow> gmap_ok m"
  "list_all labeler_ok ls \<Longrightarrow> gmap_ok acc \<Longrightarrow> list_Labels ls acc = Ret m \<Longrightarrow> gmap_ok m"
  by (induction l and ls acc arbitrary: m and m rule: Labels_of_list_Labels.induct)
    (auto intro: vgpu_Labels_ok)

interpretation lab: labeler_contract Labels_of labeler_ok
  by unfold_locales (rule Labels_of_ok)

text \<open>\<open>last_wins\<close>: the value of a key after merging label sets in order.\<close>

definition last_wins :: "labels list \<Rightarrow> string \<Rightarrow> string option" where
  "last_wins ms = fold (\<lambda>m acc. acc ++ gget m) ms Map.empty"

lemma fold_map_add: "fold (\<lambda>m acc. acc ++ f m) ms acc0 = acc0 ++ fold (\<lambda>m acc. acc ++ f m) ms Map.empty"
proof (induction ms arbitrary: acc0)
  case (Cons m ms)
  show ?case using Cons.IH [of "acc0 ++ f m"] Cons.IH [of "f m"] by simp
qed simp

lemma list_Labels_spec:
  assumes "list_all2 (\<lambda>l m. Labels_of l = Ret m) ls ms" and "list_all labeler_ok ls"
  shows "\<exists>m. list_Labels ls acc = Ret m \<and> gget m = gget acc ++ last_wins ms"
  using assms
proof (induction ls ms arbitrary: acc rule: list_all2_induct)
  case Nil
  then show ?case by (simp add: last_wins_def)
next
  case (Cons l ls m ms)
  have "gget (gset_all m acc) = gget acc ++ gget m"
    using lab.overlay [of l m m acc] Cons by simp
  moreover obtain r where "list_Labels ls (gset_all m acc) = Ret r"
    "gget r = gget (gset_all m acc) ++ last_wins ms"
    using Cons by fastforce
  moreover have "last_wins (m # ms) = gget m ++ last_wins ms"
    unfolding last_wins_def using fold_map_add [of gget ms "gget m"] by simp
  ultimately show ?case using Cons.hyps by simp
qed

lemma last_wins_Nil [simp]: "last_wins [] = Map.empty"
  by (simp add: last_wins_def)

lemma last_wins_Cons [simp]: "last_wins (m # ms) = gget m ++ last_wins ms"
  unfolding last_wins_def using fold_map_add [of gget ms "gget m"] by simp

lemma Labels_Merge:
  assumes "list_all2 (\<lambda>l m. Labels_of l = Ret m) ls ms" and "list_all labeler_ok ls"
  shows "\<exists>m. Labels_of (Merge ls) = Ret m \<and> gmap_ok m \<and> gget m = last_wins ms"
proof -
  obtain m where m: "list_Labels ls [] = Ret m" "gget m = last_wins ms"
    using list_Labels_spec [OF assms, of "[]"] by auto
  moreover have "gmap_ok m" using Labels_of_ok(2) [OF assms(2) _ m(1)] by simp
  ultimately show ?thesis by (auto simp: Merge_def)
qed

text \<open>The namespace of the labels: every key starts with \<^verbatim>\<open>nvidia.com/\<close>.\<close>

definition in_namespace :: "string \<Rightarrow> bool" where
  "in_namespace k = has_prefix ''nvidia.com/'' k"

definition labels_in_ns :: "labels \<Rightarrow> bool" where
  "labels_in_ns m \<longleftrightarrow> (\<forall>k \<in> fst ` set m. in_namespace k)"

fun labeler_in_ns :: "labeler \<Rightarrow> bool" where
  "labeler_in_ns LEmpty = True"
| "labeler_in_ns (LLabels m) = labels_in_ns m"
| "labeler_in_ns (LList ls) = list_all labeler_in_ns ls"
| "labeler_in_ns (LVGPU v) = True"

lemma labels_in_ns_Nil [simp]: "labels_in_ns []"
  by (simp add: labels_in_ns_def)

lemma labels_in_ns_Cons [simp]: "labels_in_ns ((k, v) # m) \<longleftrightarrow> in_namespace k \<and> labels_in_ns m"
  by (simp add: labels_in_ns_def)

lemma gset_keys: "fst ` set (gset k v m) = insert k (fst ` set m)"
  by (metis dom_map_of_conv_image_fst dom_update insert_def Un_commute insert_is_Un)

lemma labels_in_ns_gset [simp]: "labels_in_ns (gset k v m) \<longleftrightarrow> in_namespace k \<and> labels_in_ns m"
  by (auto simp: labels_in_ns_def gset_keys)

lemma labels_in_ns_gset_all: "labels_in_ns kvs \<Longrightarrow> labels_in_ns m \<Longrightarrow> labels_in_ns (gset_all kvs m)"
proof (induction kvs arbitrary: m)
  case (Cons kv kvs)
  then have "in_namespace (fst kv)" "labels_in_ns kvs" by (simp_all add: labels_in_ns_def)
  with Cons show ?case by simp
qed simp

lemma in_namespace_const [simp]: "in_namespace (''nvidia.com/'' @ s)"
  by (simp add: in_namespace_def del: append_Cons append_Nil)

lemma in_namespace_vgpu [simp]:
  "in_namespace ''nvidia.com/vgpu.host-driver-branch''"
  "in_namespace ''nvidia.com/vgpu.host-driver-version''"
  "in_namespace ''nvidia.com/vgpu.present''"
  by (simp_all add: in_namespace_def has_prefix_def)

lemma foldM_add_vgpu_info_ns:
  "foldM_go add_vgpu_info ds m = Ret m' \<Longrightarrow> labels_in_ns m \<Longrightarrow> labels_in_ns m'"
proof (induction ds arbitrary: m)
  case (Cons d ds)
  then show ?case by (auto simp: add_vgpu_info_def [of d])
qed simp

lemma vgpu_Labels_ns: "vgpu_Labels v = Ret m \<Longrightarrow> labels_in_ns m"
proof -
  assume "vgpu_Labels v = Ret m"
  then obtain ds where "foldM_go add_vgpu_info ds (vgpu_present ds) = Ret m"
    using vgpu_Labels_Ret by blast
  then show "labels_in_ns m" by (rule foldM_add_vgpu_info_ns) (simp add: vgpu_present_def)
qed

lemma Labels_of_ns:
  "labeler_in_ns l \<Longrightarrow> Labels_of l = Ret m \<Longrightarrow> labels_in_ns m"
  "list_all labeler_in_ns ls \<Longrightarrow> labels_in_ns acc \<Longrightarrow> list_Labels ls acc = Ret m \<Longrightarrow> labels_in_ns m"
proof (induction l and ls acc arbitrary: m and m rule: Labels_of_list_Labels.induct)
  case (4 v)
  then show ?case using vgpu_Labels_ns by simp
next
  case (6 l ls acc)
  from "6.prems" obtain x where x: "Labels_of l = Ret x" "list_Labels ls (gset_all x acc) = Ret m"
    by auto
  from "6.prems"(1) have ns: "labeler_in_ns l" "list_all labeler_in_ns ls" by simp_all
  from "6.IH"(1) [OF ns(1) x(1)] have "labels_in_ns (gset_all x acc)"
    using "6.prems"(2) by (rule labels_in_ns_gset_all)
  with "6.IH"(2) [OF _ ns(2) _ x(2)] x(1) show ?case by simp
qed simp_all

section \<open>The rendered text\<close>

lemma write_buffer:
  "write_loop buffer_write kvs b tot =
     (b @ concat (map label_line kvs), tot + length (concat (map label_line kvs)), None)"
  by (induction kvs arbitrary: b tot) (simp_all add: buffer_write_def)

lemma render_lines: "render cs labels = concat (map label_line (range_perm cs labels))"
  by (simp add: render_def WriteTo_def write_buffer)

text \<open>
  The reader's side of the features file: a line is a key, \<^verbatim>\<open>=\<close> and a value, and a later line
  for the same key wins.
\<close>

definition parse_line :: "string \<Rightarrow> string \<times> string" where
  "parse_line l = (takeWhile (\<lambda>c. c \<noteq> CHR ''='') l, tl (dropWhile (\<lambda>c. c \<noteq> CHR ''='') l))"

definition parse_features :: "string \<Rightarrow> labels" where
  "parse_features text =
     gset_all (map parse_line (filter (\<lambda>l. CHR ''='' \<in> set l) (go_split (CHR 0x0A) text))) []"

definition printable :: "labels \<Rightarrow> bool" where
  "printable m \<longleftrightarrow>
     (\<forall>(k, v) \<in> set m. CHR ''='' \<notin> set k \<and> CHR 0x0A \<notin> set k \<and> CHR 0x0A \<notin> set v)"

lemma printable_perm: "mset xs = mset ys \<Longrightarrow> printable xs = printable ys"
  by (drule mset_eq_setD) (simp add: printable_def)

lemma parse_label_line:
  "CHR ''='' \<notin> set k \<Longrightarrow> parse_line (k @ ''='' @ v) = (k, v)"
  by (auto simp: parse_line_def takeWhile_append dropWhile_append)

lemma split_lines:
  "printable kvs \<Longrightarrow>
   go_split (CHR 0x0A) (concat (map label_line kvs)) = map (\<lambda>(k, v). k @ ''='' @ v) kvs @ ['''']"
proof (induction kvs)
  case Nil
  then show ?case by simp
next
  case (Cons kv kvs)
  obtain k v where kv: "kv = (k, v)" by (cases kv)
  have nl: "CHR 0x0A \<notin> set (k @ ''='' @ v)" and pr: "printable kvs"
    using Cons.prems by (auto simp: printable_def kv)
  have "concat (map label_line (kv # kvs)) =
      (k @ ''='' @ v) @ CHR 0x0A # concat (map label_line kvs)"
    by (simp add: label_line_def kv)
  then show ?case using split_append [OF nl] Cons.IH [OF pr] by (simp add: kv)
qed

lemma parse_lines:
  assumes "printable kvs"
  shows "map parse_line (filter (\<lambda>l. CHR ''='' \<in> set l)
    (go_split (CHR 0x0A) (concat (map label_line kvs)))) = kvs"
proof -
  have "\<forall>(k, v) \<in> set kvs. parse_line (k @ ''='' @ v) = (k, v)"
    using assms by (auto simp: printable_def parse_label_line [simplified])
  then show ?thesis
    using assms by (auto simp: split_lines filter_map comp_def case_prod_unfold intro!: map_idI)
qed

section \<open>Labelers without devices behind them\<close>

text \<open>Everything but the vGPU labeler is a fixed set of labels: asking for it cannot fail.\<close>

fun static :: "labeler \<Rightarrow> bool" where
  "static (LVGPU v) = False"
| "static (LList ls) = list_all static ls"
| "static l = True"

lemma static_Ret:
  "static l \<Longrightarrow> \<exists>m. Labels_of l = Ret m"
  "list_all static ls \<Longrightarrow> \<exists>m. list_Labels ls acc = Ret m"
  by (induction l and ls acc rule: Labels_of_list_Labels.induct) auto

lemma static_Merge [simp]: "static (Merge ls) = list_all static ls"
  by (simp add: Merge_def)

lemma static_migStrategyLabeler [simp]: "static (migStrategyLabeler s)"
  by (simp add: migStrategyLabeler_def)

section \<open>Properties\<close>

lemma last_wins_filter:
  "last_wins ms k =
   (case filter (\<lambda>m. gget m k \<noteq> None) ms of [] \<Rightarrow> None | m # rest \<Rightarrow> gget (last (m # rest)) k)"
proof (induction ms)
  case (Cons m ms)
  show ?case
  proof (cases "filter (\<lambda>m. gget m k \<noteq> None) ms")
    case Nil
    with Cons.IH show ?thesis by (simp add: map_add_def)
  next
    case fs: (Cons a list)
    have "last (a # list) \<in> set (filter (\<lambda>m. gget m k \<noteq> None) ms)"
      unfolding fs by (rule last_in_set) simp
    then have "gget (last (a # list)) k \<noteq> None" by simp
    with Cons.IH fs show ?thesis by (cases "gget m k") (auto simp: map_add_def)
  qed
qed simp

text \<open>C16: Merging labelers gives the union of their labels; where several of them have a label of
  the same name, the value of the last one stands.\<close>

theorem Merge_last_wins:
  assumes "list_all2 (\<lambda>l m. Labels_of l = Ret m) ls ms" and "list_all labeler_ok ls"
  shows "\<exists>m. Labels_of (Merge ls) = Ret m \<and> gmap_ok m \<and>
    (\<forall>k. gget m k = (case filter (\<lambda>m. gget m k \<noteq> None) ms of
        [] \<Rightarrow> None
      | m # rest \<Rightarrow> gget (last (m # rest)) k))"
  using Labels_Merge [OF assms] last_wins_filter by metis

theorem Merge_last_wins_witness:
  "\<exists>m. Labels_of (Merge [LLabels [(''a'', ''1''), (''b'', ''2'')], LEmpty, LLabels [(''a'', ''3'')]]) = Ret m \<and>
     gget m ''a'' = Some ''3'' \<and> gget m ''b'' = Some ''2''"
proof -
  let ?ls = "[LLabels [(''a'', ''1''), (''b'', ''2'')], LEmpty, LLabels [(''a'', ''3'')]]"
  let ?ms = "[[(''a'', ''1''), (''b'', ''2'')], [], [(''a'', ''3'')]]"
  have "list_all2 (\<lambda>l m. Labels_of l = Ret m) ?ls ?ms" and "list_all labeler_ok ?ls"
    by (simp_all add: gmap_ok_def)
  from Merge_last_wins [OF this] show ?thesis by auto
qed

lemma list_Labels_prefix:
  "list_all static pre \<Longrightarrow> \<exists>acc'. list_Labels (pre @ ls) acc = list_Labels ls acc'"
proof (induction pre arbitrary: acc)
  case (Cons l pre)
  then obtain m where "Labels_of l = Ret m" using static_Ret(1) by fastforce
  with Cons show ?case by simp
qed auto

text \<open>The first labeler of a list that fails decides the outcome, however many labels those
  before it have given: an error is passed on with the text the code puts before it.\<close>

theorem Merge_first_error:
  assumes "list_all static before" and "Labels_of l = Err e"
  shows "Labels_of (Merge (before @ l # others)) = Err (''error generating labels: '' @ e)"
  using list_Labels_prefix [OF assms(1), of "l # others" "[]"] assms(2) by (auto simp: Merge_def)

theorem Merge_first_error_witness:
  "Labels_of (Merge ([LLabels [(''a'', ''1'')]] @ LVGPU (NewVGPULib (Err ''e'')) # [LEmpty])) =
   Err (''error generating labels: '' @ ''unable to get vGPU devices: '' @
     ''error getting NVIDIA specific PCI devices: '' @ ''e'')"
  by (rule Merge_first_error)
    (simp_all add: vgpu_Labels_def vgpu_Devices_def NewVGPULib_def)

lemma parse_render:
  assumes "gmap_ok m" and "printable m"
  shows "gget (parse_features (render cs m)) = gget m"
proof -
  have pm: "mset (range_perm cs m) = mset m" by (rule mset_range_perm)
  have "printable (range_perm cs m)" using assms(2) printable_perm [OF pm] by simp
  then have "parse_features (render cs m) = gset_all (range_perm cs m) []"
    by (simp add: parse_features_def render_lines parse_lines)
  then show ?thesis
    using lab.overlay [of "LLabels m" m "range_perm cs m" "[]"] assms(1) pm by simp
qed

text \<open>C38: What is written to the features file reads back as the same labels, in whatever order the
  lines were written, as long as no name has an equals sign and nothing has a line break.\<close>

theorem features_roundtrip:
  assumes "gmap_ok m" and "printable m"
  shows "gget (parse_features (render cs m)) = gget m"
  by (rule parse_render [OF assms])

theorem features_roundtrip_witness:
  "gget (parse_features (render [1, 0] [(''nvidia.com/gpu.count'', ''2''), (''nvidia.com/gpu.machine'', ''a=b'')]))
     ''nvidia.com/gpu.machine'' = Some ''a=b''"
  by (subst features_roundtrip) (simp_all add: gmap_ok_def printable_def)

lemma add_infos:
  assumes "\<forall>d \<in> set ds. GetInfo d = Ret (info d)" and "gmap_ok m"
  shows "\<exists>m'. foldM_go add_vgpu_info ds m = Ret m' \<and>
    gget m' = (if ds = [] then gget m
      else (gget m)(''nvidia.com/vgpu.host-driver-version'' \<mapsto> HostDriverVersion (info (last ds)),
                    ''nvidia.com/vgpu.host-driver-branch'' \<mapsto> HostDriverBranch (info (last ds))))"
  using assms
proof (induction ds arbitrary: m)
  case (Cons d ds)
  let ?m = "gset ''nvidia.com/vgpu.host-driver-branch'' (HostDriverBranch (info d))
     (gset ''nvidia.com/vgpu.host-driver-version'' (HostDriverVersion (info d)) m)"
  have "gmap_ok ?m" using Cons.prems(2) by (simp add: gmap_ok_def distinct_update)
  with Cons.IH [of ?m] Cons.prems(1) show ?case
    by (auto simp: add_vgpu_info_def update_conv fun_eq_iff)
qed simp

lemma vgpu_labels_map:
  assumes "vgpu_Devices lib = Ret ds" and "\<forall>d \<in> set ds. GetInfo d = Ret (info d)"
  shows "\<exists>m. Labels_of (NewVGPULabeler lib) = Ret m \<and>
    gget m = (if ds = [] then Map.empty
      else [''nvidia.com/vgpu.present'' \<mapsto> ''true'',
            ''nvidia.com/vgpu.host-driver-version'' \<mapsto> HostDriverVersion (info (last ds)),
            ''nvidia.com/vgpu.host-driver-branch'' \<mapsto> HostDriverBranch (info (last ds))])"
proof -
  have "gmap_ok (vgpu_present ds)" by (simp add: vgpu_present_def gmap_ok_def)
  from add_infos [OF assms(2) this] obtain m where
    "foldM_go add_vgpu_info ds (vgpu_present ds) = Ret m"
    "gget m = (if ds = [] then gget (vgpu_present ds)
      else (gget (vgpu_present ds))(''nvidia.com/vgpu.host-driver-version'' \<mapsto> HostDriverVersion (info (last ds)),
                    ''nvidia.com/vgpu.host-driver-branch'' \<mapsto> HostDriverBranch (info (last ds))))"
    by blast
  then show ?thesis
    using assms(1) by (auto simp: NewVGPULabeler_def vgpu_Labels_Ret vgpu_present_def)
qed

text \<open>C39: A machine with vGPUs whose host driver records can be read is labelled as having them,
  with the host driver version and branch of the last one, and one without has no such labels.\<close>

theorem vgpu_node_labels:
  assumes "vgpu_Devices lib = Ret ds" and "\<forall>d \<in> set ds. GetInfo d = Ret (info d)"
  shows "\<exists>m. Labels_of (NewVGPULabeler lib) = Ret m \<and>
    gget m = (if ds = [] then Map.empty
      else [''nvidia.com/vgpu.present'' \<mapsto> ''true'',
            ''nvidia.com/vgpu.host-driver-version'' \<mapsto> HostDriverVersion (info (last ds)),
            ''nvidia.com/vgpu.host-driver-branch'' \<mapsto> HostDriverBranch (info (last ds))])"
  by (rule vgpu_labels_map [OF assms])

text \<open>The capability of the vGPU among the repository's mock devices.\<close>

definition mock_vgpu_device :: vgpu_device where
  "mock_vgpu_device =
     \<lparr>vd_pci = \<lparr>pci_Path = [], pci_Address = ''vgpu'', pci_Class = ''300'', pci_Vendor = ''0x10de'',
        pci_Config = \<lparr>sl_data = vgpuConfig, sl_spare = []\<rparr>\<rparr>,
      vd_vGPUCapability = \<lparr>sl_data = take 27 (drop 208 vgpuConfig), sl_spare = drop 235 vgpuConfig\<rparr>\<rparr>"

theorem vgpu_node_labels_witness:
  "\<exists>m. Labels_of (NewVGPULabeler NewMockVGPU) = Ret m \<and>
     gget m ''nvidia.com/vgpu.present'' = Some ''true'' \<and>
     gget m ''nvidia.com/vgpu.host-driver-version'' = Some ''460.16'' \<and>
     gget m ''nvidia.com/vgpu.host-driver-branch'' = Some ''r460_00''"
proof -
  have "vgpu_Devices NewMockVGPU = Ret [mock_vgpu_device]" by code_simp
  moreover have "sl_data (vd_vGPUCapability mock_vgpu_device) =
      encode_vgpu [9, 104, 27, 86, 70] [] ''460.16'' ''r460_00'' []" by code_simp
  then have "GetInfo mock_vgpu_device =
      Ret \<lparr>HostDriverVersion = ''460.16'', HostDriverBranch = ''r460_00''\<rparr>"
    by (rule GetInfo_encoded) (simp_all add: ascii_field_def)
  ultimately show ?thesis
    using vgpu_node_labels [of NewMockVGPU "[mock_vgpu_device]"
        "\<lambda>_. \<lparr>HostDriverVersion = ''460.16'', HostDriverBranch = ''r460_00''\<rparr>"] by auto
qed

end
