(* ===== verification/Resource_Labels.thy ===== *)
theory Resource_Labels
  imports Labels Mock_Node
begin

text \<open>
  \<^verbatim>\<open>internal/lm/resource.go\<close>: the labels of one resource, that is of the GPUs of one model or of
  the MIG devices of one profile.  Everything is defined over an arbitrary implementation \<open>D\<close>
  of the \<^verbatim>\<open>Device\<close> interface.  The values of the labels are specified in \<open>gpu_value\<close> and
  \<open>mig_value\<close>, suffix by suffix, and the labelers are shown to implement them.
\<close>

section \<open>The resource labeler\<close>

definition fullGPUResourceName :: string where
  "fullGPUResourceName = ''nvidia.com/gpu''"

text \<open>A nil \<^verbatim>\<open>config\<close> signals that sharing is disabled.\<close>

record resource_labeler =
  rl_resourceName :: string
  rl_config :: "config option"

definition rl_key :: "resource_labeler \<Rightarrow> string \<Rightarrow> string" where
  "rl_key rl suffix = rl_resourceName rl @ ''.'' @ suffix"

definition rl_updateLabel :: "resource_labeler \<Rightarrow> labels \<Rightarrow> string \<Rightarrow> attr_val \<Rightarrow> labels" where
  "rl_updateLabel rl labels suffix v = gset (rl_key rl suffix) (show_val v) labels"

definition rl_labels :: "resource_labeler \<Rightarrow> (string, attr_val) gomap \<Rightarrow> labels" where
  "rl_labels rl suffixValues =
     fold (\<lambda>(suffix, v) labels. rl_updateLabel rl labels suffix v) suffixValues []"

definition rl_single :: "resource_labeler \<Rightarrow> string \<Rightarrow> attr_val \<Rightarrow> labels" where
  "rl_single rl suffix v = rl_labels rl [(suffix, v)]"

definition rl_replicationInfo :: "resource_labeler \<Rightarrow> replicated_resource option" where
  "rl_replicationInfo rl =
     (case rl_config rl of
        None \<Rightarrow> None
      | Some config \<Rightarrow>
          find (\<lambda>r. rr_Name r = rl_resourceName rl) (ts_Resources (cfg_TimeSlicing config)))"

definition rl_isShared :: "resource_labeler \<Rightarrow> bool" where
  "rl_isShared rl = (case rl_replicationInfo rl of None \<Rightarrow> False | Some r \<Rightarrow> rr_Replicas r > 1)"

definition rl_isRenamed :: "resource_labeler \<Rightarrow> bool" where
  "rl_isRenamed rl = (case rl_replicationInfo rl of None \<Rightarrow> False | Some r \<Rightarrow> rr_Rename r \<noteq> '''')"

definition rl_sharingDisabled :: "resource_labeler \<Rightarrow> bool" where
  "rl_sharingDisabled rl = (rl_config rl = None)"

definition rl_productLabel :: "resource_labeler \<Rightarrow> string list \<Rightarrow> labels" where
  "rl_productLabel rl parts =
     (let strippedParts = map (replace_all CHR '' '' CHR ''-'') (filter (\<lambda>p. p \<noteq> '''') parts) in
      if strippedParts = [] then []
      else
        let strippedParts =
              (if rl_isShared rl \<and> \<not> rl_isRenamed rl then strippedParts @ [''SHARED''] else strippedParts)
        in rl_single rl ''product'' (VString (go_join ''-'' strippedParts)))"

definition rl_countLabel :: "resource_labeler \<Rightarrow> int \<Rightarrow> labels" where
  "rl_countLabel rl cnt = rl_single rl ''count'' (VInt cnt)"

definition rl_replicas :: "resource_labeler \<Rightarrow> int" where
  "rl_replicas rl =
     (if rl_sharingDisabled rl then 0
      else case rl_replicationInfo rl of
          None \<Rightarrow> 1
        | Some r \<Rightarrow> if rr_Replicas r > 1 then rr_Replicas r else 1)"

definition rl_replicasLabel :: "resource_labeler \<Rightarrow> labels" where
  "rl_replicasLabel rl = rl_single rl ''replicas'' (VInt (rl_replicas rl))"

definition rl_baseLabeler :: "resource_labeler \<Rightarrow> int \<Rightarrow> string list \<Rightarrow> labeler" where
  "rl_baseLabeler rl cnt parts =
     Merge [LLabels (rl_productLabel rl parts), LLabels (rl_countLabel rl cnt),
            LLabels (rl_replicasLabel rl)]"

definition getArchFamily :: "int \<Rightarrow> int \<Rightarrow> string" where
  "getArchFamily computeMajor computeMinor =
     (if computeMajor = 1 then ''tesla''
      else if computeMajor = 2 then ''fermi''
      else if computeMajor = 3 then ''kepler''
      else if computeMajor = 5 then ''maxwell''
      else if computeMajor = 6 then ''pascal''
      else if computeMajor = 7 then (if computeMinor < 5 then ''volta'' else ''turing'')
      else if computeMajor = 8 then ''ampere''
      else if computeMajor = 9 then ''hopper''
      else ''undefined'')"

definition newArchitectureLabels :: "'d device_ops \<Rightarrow> resource_labeler \<Rightarrow> 'd \<Rightarrow> labels go" where
  "newArchitectureLabels D rl device =
     gbind (wrap ''failed to determine CUDA compute capability: ''
              (dev_GetCudaComputeCapability D device)) (\<lambda>(computeMajor, computeMinor).
     if computeMajor = 0 then Ret []
     else Ret (rl_labels rl
            [(''family'', VString (getArchFamily computeMajor computeMinor)),
             (''compute.major'', VInt computeMajor), (''compute.minor'', VInt computeMinor)]))"

definition newMigAttributeLabels :: "'d device_ops \<Rightarrow> resource_labeler \<Rightarrow> 'd \<Rightarrow> labels go" where
  "newMigAttributeLabels D rl device =
     gbind (wrap ''unable to get attributes of MIG device: '' (dev_GetAttributes D device))
       (\<lambda>attributes. Ret (rl_labels rl attributes))"

definition NewGPUResourceLabeler ::
  "'d device_ops \<Rightarrow> config option \<Rightarrow> 'd \<Rightarrow> int \<Rightarrow> labeler go" where
  "NewGPUResourceLabeler D config device cnt =
     (if cnt = 0 then Ret LEmpty
      else
      gbind (wrap ''failed to get device model: '' (dev_GetName D device)) (\<lambda>model.
      gbind (wrap ''failed to get memory info for device: '' (dev_GetTotalMemoryMB D device))
        (\<lambda>totalMemoryMB.
      let rl = \<lparr>rl_resourceName = fullGPUResourceName, rl_config = config\<rparr> in
      gbind (wrap ''failed to create architecture labels: '' (newArchitectureLabels D rl device))
        (\<lambda>architectureLabels.
      let memoryLabeler = (if totalMemoryMB \<noteq> 0
            then LLabels (rl_single rl ''memory'' (VUint64 totalMemoryMB)) else LEmpty) in
      Ret (Merge [rl_baseLabeler rl cnt [model], memoryLabeler, LLabels architectureLabels])))))"

definition NewGPUResourceLabelerWithoutSharing :: "'d device_ops \<Rightarrow> 'd \<Rightarrow> int \<Rightarrow> labeler go" where
  "NewGPUResourceLabelerWithoutSharing D device cnt = NewGPUResourceLabeler D None device cnt"

definition NewMIGResourceLabeler ::
  "'d device_ops \<Rightarrow> string \<Rightarrow> config option \<Rightarrow> 'd \<Rightarrow> int \<Rightarrow> labeler go" where
  "NewMIGResourceLabeler D resourceName config device cnt =
     (if cnt = 0 then Ret LEmpty
      else
      gbind (wrap ''failed to get parent of MIG device: ''
               (dev_GetDeviceHandleFromMigDeviceHandle D device)) (\<lambda>parent.
      gbind (wrap ''failed to get device model: '' (dev_GetName D parent)) (\<lambda>model.
      gbind (wrap ''failed to get MIG profile name: '' (dev_GetName D device)) (\<lambda>migProfile.
      let rl = \<lparr>rl_resourceName = resourceName, rl_config = config\<rparr> in
      gbind (wrap ''faled to get MIG attribute labels: '' (newMigAttributeLabels D rl device))
        (\<lambda>attributeLabels.
      Ret (Merge [rl_baseLabeler rl cnt [model, ''MIG'', migProfile], LLabels attributeLabels]))))))"

section \<open>Facts about the label sets\<close>

lemma rl_key_inject [simp]: "rl_key rl s = rl_key rl t \<longleftrightarrow> s = t"
  by (simp add: rl_key_def)

lemma gmap_ok_rl_labels [simp]: "gmap_ok (rl_labels rl sv)"
proof -
  have "gmap_ok acc \<Longrightarrow> gmap_ok (fold (\<lambda>(s, v) ls. rl_updateLabel rl ls s v) sv acc)" for acc
    by (induction sv arbitrary: acc) (auto simp: rl_updateLabel_def)
  then show ?thesis by (simp add: rl_labels_def)
qed

lemma gget_updateLabel:
  "gget (rl_updateLabel rl ls s v) (rl_key rl t) =
   (if t = s then Some (show_val v) else gget ls (rl_key rl t))"
  by (simp add: rl_updateLabel_def gget_gset)

lemma gget_fold_update:
  "gget (fold (\<lambda>(s, v) ls. rl_updateLabel rl ls s v) sv acc) (rl_key rl t) =
   (case gget (rev sv) t of None \<Rightarrow> gget acc (rl_key rl t) | Some v \<Rightarrow> Some (show_val v))"
proof (induction sv arbitrary: acc)
  case (Cons sv1 sv)
  show ?case
    by (simp add: Cons.IH gget_updateLabel map_add_def split: option.splits prod.splits)
qed simp

lemma gget_rl_labels:
  assumes "gmap_ok sv"
  shows "gget (rl_labels rl sv) (rl_key rl t) = map_option show_val (gget sv t)"
proof -
  have rev: "gget (rev sv) = gget sv" using assms by (rule gget_perm) simp
  show ?thesis by (simp add: rl_labels_def gget_fold_update rev split: option.splits)
qed

lemma fold_update_keys:
  "fst ` set (fold (\<lambda>(s, v) ls. rl_updateLabel rl ls s v) sv acc) =
   fst ` set acc \<union> rl_key rl ` fst ` set sv"
proof (induction sv arbitrary: acc)
  case (Cons sv1 sv)
  obtain s v where "sv1 = (s, v)" by (cases sv1)
  with Cons.IH show ?case by (simp add: rl_updateLabel_def gset_keys)
qed simp

lemma rl_labels_keys: "fst ` set (rl_labels rl sv) = rl_key rl ` fst ` set sv"
  by (simp add: rl_labels_def fold_update_keys)

lemma gget_rl_single:
  "gget (rl_single rl s v) (rl_key rl t) = (if t = s then Some (show_val v) else None)"
  by (simp add: rl_single_def gget_rl_labels)

lemma gmap_ok_rl_single [simp]: "gmap_ok (rl_single rl s v)"
  by (simp add: rl_single_def)

lemma gmap_ok_rl_productLabel [simp]: "gmap_ok (rl_productLabel rl parts)"
  by (simp add: rl_productLabel_def Let_def)

text \<open>The product of a list of parts, if there is one.\<close>

definition product_value :: "resource_labeler \<Rightarrow> string list \<Rightarrow> string option" where
  "product_value rl parts =
     (let ps = map (replace_all CHR '' '' CHR ''-'') (filter (\<lambda>p. p \<noteq> '''') parts) in
      if ps = [] then None
      else Some (go_join ''-'' (ps @ (if rl_isShared rl \<and> \<not> rl_isRenamed rl then [''SHARED''] else []))))"

lemma gget_productLabel:
  "gget (rl_productLabel rl parts) (rl_key rl t) = (if t = ''product'' then product_value rl parts else None)"
  by (simp add: rl_productLabel_def product_value_def Let_def gget_rl_single)

definition base_value :: "resource_labeler \<Rightarrow> int \<Rightarrow> string list \<Rightarrow> string \<Rightarrow> string option" where
  "base_value rl cnt parts t =
     (if t = ''product'' then product_value rl parts
      else if t = ''count'' then Some (show_int cnt)
      else if t = ''replicas'' then Some (show_int (rl_replicas rl))
      else None)"

text \<open>The labels of full GPUs of one model, by suffix.\<close>

definition gpu_value ::
  "config option \<Rightarrow> int \<Rightarrow> string \<Rightarrow> 64 word \<Rightarrow> int \<times> int \<Rightarrow> string \<Rightarrow> string option" where
  "gpu_value config cnt model mem cc t =
     (let rl = \<lparr>rl_resourceName = fullGPUResourceName, rl_config = config\<rparr> in
      if t = ''memory'' then (if mem = 0 then None else Some (show_nat (unat mem)))
      else if t = ''family'' then (if fst cc = 0 then None else Some (getArchFamily (fst cc) (snd cc)))
      else if t = ''compute.major'' then (if fst cc = 0 then None else Some (show_int (fst cc)))
      else if t = ''compute.minor'' then (if fst cc = 0 then None else Some (show_int (snd cc)))
      else base_value rl cnt [model] t)"

text \<open>The labels of the MIG devices of one profile, by suffix.\<close>

definition mig_value ::
  "string \<Rightarrow> config option \<Rightarrow> int \<Rightarrow> string \<Rightarrow> string \<Rightarrow> (string, attr_val) gomap \<Rightarrow> string \<Rightarrow>
   string option" where
  "mig_value name config cnt model profile attrs t =
     (case gget attrs t of
        Some v \<Rightarrow> Some (show_val v)
      | None \<Rightarrow> base_value \<lparr>rl_resourceName = name, rl_config = config\<rparr> cnt [model, ''MIG'', profile] t)"

section \<open>The labelers implement the specification\<close>

text \<open>Every label of a resource belongs to it: its name is the resource's, a dot and a suffix.\<close>

definition owned :: "resource_labeler \<Rightarrow> labels \<Rightarrow> bool" where
  "owned rl m \<longleftrightarrow> fst ` set m \<subseteq> range (rl_key rl)"

definition implements_labels :: "resource_labeler \<Rightarrow> labeler \<Rightarrow> (string \<Rightarrow> string option) \<Rightarrow> bool" where
  "implements_labels rl l f \<longleftrightarrow>
     labeler_ok l \<and>
     (\<exists>m. Labels_of l = Ret m \<and> gmap_ok m \<and> owned rl m \<and> (\<forall>t. gget m (rl_key rl t) = f t))"

lemma owned_rl_labels [simp]: "owned rl (rl_labels rl sv)"
  by (auto simp: owned_def rl_labels_keys)

lemma owned_Nil [simp]: "owned rl []"
  by (simp add: owned_def)

lemma owned_rl_single [simp]: "owned rl (rl_single rl s v)"
  by (simp add: rl_single_def)

lemma owned_rl_productLabel [simp]: "owned rl (rl_productLabel rl parts)"
  by (simp add: rl_productLabel_def Let_def)

lemma owned_iff: "owned rl m \<longleftrightarrow> (\<forall>k. gget m k \<noteq> None \<longrightarrow> k \<in> range (rl_key rl))"
  by (auto simp: owned_def gget_None_iff subset_iff)

lemma implements_LLabels:
  "gmap_ok m \<Longrightarrow> owned rl m \<Longrightarrow> implements_labels rl (LLabels m) (\<lambda>t. gget m (rl_key rl t))"
  by (auto simp: implements_labels_def)

lemma implements_LEmpty: "implements_labels rl LEmpty (\<lambda>t. None)"
  by (auto simp: implements_labels_def)

text \<open>Merging labelers of one resource merges their specifications, the last one first.\<close>

lemma implements_Merge:
  assumes "list_all2 (implements_labels rl) ls fs"
  shows "implements_labels rl (Merge ls) (fold (\<lambda>f acc. acc ++ f) fs Map.empty)"
proof -
  from assms have "\<exists>ms. list_all2 (\<lambda>l m. Labels_of l = Ret m) ls ms \<and> list_all labeler_ok ls \<and>
      (\<forall>m \<in> set ms. owned rl m) \<and>
      (\<forall>t. last_wins ms (rl_key rl t) = fold (\<lambda>f acc. acc ++ f) fs Map.empty t)"
  proof (induction rule: list_all2_induct)
    case Nil
    then show ?case by simp
  next
    case (Cons l ls f fs)
    then obtain ms where ms: "list_all2 (\<lambda>l m. Labels_of l = Ret m) ls ms" "list_all labeler_ok ls"
      "\<forall>m \<in> set ms. owned rl m"
      "\<And>t. last_wins ms (rl_key rl t) = fold (\<lambda>f acc. acc ++ f) fs Map.empty t" by blast
    from Cons.hyps obtain m where m: "labeler_ok l" "Labels_of l = Ret m" "owned rl m"
      "\<And>t. gget m (rl_key rl t) = f t" by (auto simp: implements_labels_def)
    have "fold (\<lambda>f acc. acc ++ f) (f # fs) Map.empty = f ++ fold (\<lambda>f acc. acc ++ f) fs Map.empty"
      using fold_map_add [of "\<lambda>f. f" fs f] by simp
    then have "last_wins (m # ms) (rl_key rl t) = fold (\<lambda>f acc. acc ++ f) (f # fs) Map.empty t" for t
      by (simp add: map_add_def ms(4) m(4) split: option.split)
    with ms m show ?case by (intro exI [of _ "m # ms"]) simp
  qed
  then obtain ms where ms: "list_all2 (\<lambda>l m. Labels_of l = Ret m) ls ms" "list_all labeler_ok ls"
      "\<forall>m \<in> set ms. owned rl m"
      "\<forall>t. last_wins ms (rl_key rl t) = fold (\<lambda>f acc. acc ++ f) fs Map.empty t" by blast
  obtain m where m: "Labels_of (Merge ls) = Ret m" "gmap_ok m" "gget m = last_wins ms"
    using Labels_Merge [OF ms(1,2)] by blast
  have "\<forall>m \<in> set ms. owned rl m \<Longrightarrow> last_wins ms k \<noteq> None \<Longrightarrow> k \<in> range (rl_key rl)" for k
    by (induction ms) (auto simp: owned_iff map_add_def split: option.splits)
  with ms(3) have "owned rl m" by (auto simp: owned_iff m(3))
  with ms(2,4) m show ?thesis by (auto simp: implements_labels_def Merge_def)
qed

lemma implements_cong:
  "implements_labels rl l f \<Longrightarrow> (\<And>t. f t = g t) \<Longrightarrow> implements_labels rl l g"
  by (simp add: implements_labels_def)

lemma baseLabeler_implements: "implements_labels rl (rl_baseLabeler rl cnt parts) (base_value rl cnt parts)"
proof -
  let ?g = "\<lambda>m t. gget m (rl_key rl t)"
  let ?ms = "[rl_productLabel rl parts, rl_countLabel rl cnt, rl_replicasLabel rl]"
  have "implements_labels rl (rl_baseLabeler rl cnt parts)
      (fold (\<lambda>f acc. acc ++ f) (map ?g ?ms) Map.empty)"
    unfolding rl_baseLabeler_def
    by (rule implements_Merge) (simp add: implements_LLabels rl_countLabel_def rl_replicasLabel_def)
  then show ?thesis
    by (rule implements_cong)
      (simp add: map_add_def gget_productLabel rl_countLabel_def rl_replicasLabel_def
        gget_rl_single base_value_def split: option.splits)
qed

text \<open>What a device must answer for its labels to be made.\<close>

definition gpu_answers ::
  "'d device_ops \<Rightarrow> 'd \<Rightarrow> string \<Rightarrow> 64 word \<Rightarrow> int \<times> int \<Rightarrow> bool" where
  "gpu_answers D d model mem cc \<longleftrightarrow>
     dev_GetName D d = Ret model \<and> dev_GetTotalMemoryMB D d = Ret mem \<and>
     dev_GetCudaComputeCapability D d = Ret cc"

definition mig_answers ::
  "'d device_ops \<Rightarrow> 'd \<Rightarrow> string \<Rightarrow> string \<Rightarrow> (string, attr_val) gomap \<Rightarrow> bool" where
  "mig_answers D d model profile attrs \<longleftrightarrow>
     (\<exists>parent. dev_GetDeviceHandleFromMigDeviceHandle D d = Ret parent \<and>
        dev_GetName D parent = Ret model) \<and>
     dev_GetName D d = Ret profile \<and> dev_GetAttributes D d = Ret attrs \<and> gmap_ok attrs"

definition gpu_rl :: "config option \<Rightarrow> resource_labeler" where
  "gpu_rl config = \<lparr>rl_resourceName = fullGPUResourceName, rl_config = config\<rparr>"

definition mig_rl :: "string \<Rightarrow> config option \<Rightarrow> resource_labeler" where
  "mig_rl name config = \<lparr>rl_resourceName = name, rl_config = config\<rparr>"

lemma gpu_labels:
  assumes "gpu_answers D d model mem cc" and "cnt \<noteq> 0"
  shows "\<exists>l. NewGPUResourceLabeler D config d cnt = Ret l \<and>
    implements_labels (gpu_rl config) l (gpu_value config cnt model mem cc)"
proof -
  let ?rl = "gpu_rl config"
  obtain maj mi where cc: "cc = (maj, mi)" by (cases cc)
  let ?arch = "if maj = 0 then [] else rl_labels ?rl
      [(''family'', VString (getArchFamily maj mi)), (''compute.major'', VInt maj),
       (''compute.minor'', VInt mi)]"
  let ?mem = "if mem \<noteq> 0 then rl_single ?rl ''memory'' (VUint64 mem) else []"
  let ?meml = "if mem \<noteq> 0 then LLabels (rl_single ?rl ''memory'' (VUint64 mem)) else LEmpty"
  let ?l = "Merge [rl_baseLabeler ?rl cnt [model], ?meml, LLabels ?arch]"
  let ?g = "\<lambda>m t. gget m (rl_key ?rl t)"
  have l: "NewGPUResourceLabeler D config d cnt = Ret ?l"
    using assms by (simp add: NewGPUResourceLabeler_def gpu_answers_def newArchitectureLabels_def
        cc gpu_rl_def Let_def)
  have "implements_labels ?rl ?meml (?g ?mem)"
    by (simp add: implements_LLabels implements_LEmpty)
  moreover have "implements_labels ?rl (LLabels ?arch) (?g ?arch)"
    by (rule implements_LLabels) simp_all
  ultimately have "list_all2 (implements_labels ?rl)
      [rl_baseLabeler ?rl cnt [model], ?meml, LLabels ?arch]
      [base_value ?rl cnt [model], ?g ?mem, ?g ?arch]"
    using baseLabeler_implements by (simp only: list_all2_Cons list_all2_Nil simp_thms)
  from implements_Merge [OF this] have "implements_labels ?rl ?l (gpu_value config cnt model mem cc)"
    by (rule implements_cong)
      (simp add: map_add_def gget_rl_single gget_rl_labels gmap_ok_def gpu_value_def base_value_def
        gpu_rl_def [symmetric] cc split: option.splits)
  with l show ?thesis by blast
qed

lemma mig_labels:
  assumes "mig_answers D d model profile attrs" and "cnt \<noteq> 0"
  shows "\<exists>l. NewMIGResourceLabeler D name config d cnt = Ret l \<and>
    implements_labels (mig_rl name config) l (mig_value name config cnt model profile attrs)"
proof -
  let ?rl = "mig_rl name config"
  let ?attr = "rl_labels ?rl attrs"
  let ?l = "Merge [rl_baseLabeler ?rl cnt [model, ''MIG'', profile], LLabels ?attr]"
  let ?g = "\<lambda>m t. gget m (rl_key ?rl t)"
  have ok: "gmap_ok attrs" using assms by (simp add: mig_answers_def)
  have l: "NewMIGResourceLabeler D name config d cnt = Ret ?l"
    using assms by (auto simp: NewMIGResourceLabeler_def mig_answers_def newMigAttributeLabels_def
        mig_rl_def Let_def)
  have "list_all2 (implements_labels ?rl)
      [rl_baseLabeler ?rl cnt [model, ''MIG'', profile], LLabels ?attr]
      [base_value ?rl cnt [model, ''MIG'', profile], ?g ?attr]"
    using baseLabeler_implements implements_LLabels [of ?attr ?rl] by simp
  from implements_Merge [OF this]
  have "implements_labels ?rl ?l (mig_value name config cnt model profile attrs)"
    by (rule implements_cong)
      (simp add: map_add_def gget_rl_labels [OF ok] mig_value_def mig_rl_def split: option.splits)
  with l show ?thesis by blast
qed

lemma NewGPUResourceLabeler_zero [simp]: "NewGPUResourceLabeler D config d 0 = Ret LEmpty"
  by (simp add: NewGPUResourceLabeler_def)

lemma NewMIGResourceLabeler_zero [simp]: "NewMIGResourceLabeler D name config d 0 = Ret LEmpty"
  by (simp add: NewMIGResourceLabeler_def)

context device_contract
begin

lemma NewGPUResourceLabeler_no_crash: "no_crash (NewGPUResourceLabeler D config d cnt)"
  unfolding NewGPUResourceLabeler_def newArchitectureLabels_def
  by (auto intro!: no_crash_gbind simp: device_no_crash Let_def)

lemma NewMIGResourceLabeler_no_crash: "no_crash (NewMIGResourceLabeler D name config d cnt)"
  unfolding NewMIGResourceLabeler_def newMigAttributeLabels_def
  by (auto intro!: no_crash_gbind simp: device_no_crash Let_def)

end

section \<open>Properties\<close>

text \<open>
  What the sharing configuration says of a resource: the entry of its name decides.  A nil
  configuration means that there is no sharing, not even of one replica.
\<close>

definition shared_as :: "config option \<Rightarrow> string \<Rightarrow> replicated_resource option" where
  "shared_as config name =
     Option.bind config (\<lambda>c. find (\<lambda>r. rr_Name r = name) (ts_Resources (cfg_TimeSlicing c)))"

definition replica_count :: "config option \<Rightarrow> string \<Rightarrow> int" where
  "replica_count config name =
     (if config = None then 0
      else case shared_as config name of None \<Rightarrow> 1 | Some r \<Rightarrow> max 1 (rr_Replicas r))"

definition shared_suffix :: "config option \<Rightarrow> string \<Rightarrow> string" where
  "shared_suffix config name =
     (case shared_as config name of
        None \<Rightarrow> []
      | Some r \<Rightarrow> if rr_Replicas r > 1 \<and> rr_Rename r = [] then ''-SHARED'' else [])"

lemma replicationInfo_shared:
  "rl_replicationInfo \<lparr>rl_resourceName = name, rl_config = config\<rparr> = shared_as config name"
  by (simp add: rl_replicationInfo_def shared_as_def split: option.splits)

lemma replicas_count: "rl_replicas \<lparr>rl_resourceName = name, rl_config = config\<rparr> = replica_count config name"
  by (auto simp: rl_replicas_def rl_sharingDisabled_def replica_count_def replicationInfo_shared
      split: option.splits)

lemma go_join_snoc: "xs \<noteq> [] \<Longrightarrow> go_join s (xs @ [y]) = go_join s xs @ s @ y"
  by (induction s xs rule: go_join.induct) auto

lemma product_shared:
  assumes "parts \<noteq> []" and "[] \<notin> set parts"
  shows "product_value \<lparr>rl_resourceName = name, rl_config = config\<rparr> parts =
    Some (go_join ''-'' (map (replace_all CHR '' '' CHR ''-'') parts) @ shared_suffix config name)"
proof -
  have "filter (\<lambda>p. p \<noteq> []) parts = parts" using assms(2) by (auto simp: filter_id_conv)
  then show ?thesis
    using assms(1) by (auto simp: product_value_def Let_def rl_isShared_def rl_isRenamed_def
        replicationInfo_shared shared_suffix_def go_join_snoc split: option.splits)
qed

lemma owned_keys:
  assumes "owned rl m"
  shows "fst ` set m = rl_key rl ` {t. gget m (rl_key rl t) \<noteq> None}"
  unfolding map_of_eq_None_iff not_not
proof (intro equalityI subsetI)
  fix k assume k: "k \<in> fst ` set m"
  then obtain t where t: "k = rl_key rl t" using assms unfolding owned_def by blast
  have "t \<in> {t. rl_key rl t \<in> fst ` set m}" using k unfolding t by (rule CollectI)
  then show "k \<in> rl_key rl ` {t. rl_key rl t \<in> fst ` set m}" unfolding t by (rule imageI)
next
  fix k assume "k \<in> rl_key rl ` {t. rl_key rl t \<in> fst ` set m}"
  then show "k \<in> fst ` set m" by auto
qed

lemma rl_key_gpu_fun: "rl_key (gpu_rl config) = (\<lambda>t. ''nvidia.com/gpu.'' @ t)"
  by (simp add: rl_key_def gpu_rl_def fullGPUResourceName_def fun_eq_iff)

lemma rl_key_gpu: "rl_key (gpu_rl config) t = ''nvidia.com/gpu.'' @ t"
  by (simp add: rl_key_def gpu_rl_def fullGPUResourceName_def)

text \<open>The suffixes of the labels of a GPU.\<close>

definition gpu_suffixes :: "64 word \<Rightarrow> int \<Rightarrow> string list" where
  "gpu_suffixes mem major = [''product'', ''count'', ''replicas''] @
     (if mem = 0 then [] else [''memory'']) @
     (if major = 0 then [] else [''family'', ''compute.major'', ''compute.minor''])"

lemma gpu_value_suffixes:
  assumes "model \<noteq> []"
  shows "{t. gpu_value config cnt model mem (major, minor) t \<noteq> None} = set (gpu_suffixes mem major)"
  using assms by (auto simp: gpu_value_def Let_def base_value_def product_shared gpu_suffixes_def
      split: if_splits)

text \<open>C15: The labels of the GPUs of one model: their number, how often each is shared, the model
  with blanks as dashes and marked when shared under its own name, the memory unless it is
  unknown, and the architecture unless the compute capability is unknown; there are no others.\<close>

theorem NewGPUResourceLabeler_labels:
  assumes "gpu_answers D d model mem (major, minor)" and "cnt \<noteq> 0" and "model \<noteq> []"
  shows "\<exists>l m. NewGPUResourceLabeler D config d cnt = Ret l \<and> Labels_of l = Ret m \<and>
    fst ` set m = (\<lambda>t. ''nvidia.com/gpu.'' @ t) ` set (gpu_suffixes mem major) \<and>
    gget m ''nvidia.com/gpu.count'' = Some (show_int cnt) \<and>
    gget m ''nvidia.com/gpu.replicas'' = Some (show_int (replica_count config ''nvidia.com/gpu'')) \<and>
    gget m ''nvidia.com/gpu.product'' =
      Some (replace_all CHR '' '' CHR ''-'' model @ shared_suffix config ''nvidia.com/gpu'') \<and>
    gget m ''nvidia.com/gpu.memory'' = (if mem = 0 then None else Some (show_nat (unat mem))) \<and>
    gget m ''nvidia.com/gpu.family'' = (if major = 0 then None else Some (getArchFamily major minor)) \<and>
    gget m ''nvidia.com/gpu.compute.major'' = (if major = 0 then None else Some (show_int major)) \<and>
    gget m ''nvidia.com/gpu.compute.minor'' = (if major = 0 then None else Some (show_int minor))"
proof -
  obtain l m where l: "NewGPUResourceLabeler D config d cnt = Ret l" and m: "Labels_of l = Ret m"
    and owned: "owned (gpu_rl config) m"
    and val: "\<And>t. gget m (''nvidia.com/gpu.'' @ t) = gpu_value config cnt model mem (major, minor) t"
    using gpu_labels [OF assms(1,2), of config] by (auto simp: implements_labels_def rl_key_gpu)
  have "fst ` set m = (\<lambda>t. ''nvidia.com/gpu.'' @ t) ` set (gpu_suffixes mem major)"
    using owned_keys [OF owned] unfolding rl_key_gpu_fun val gpu_value_suffixes [OF assms(3)] .
  moreover note val [of "''count''"] val [of "''replicas''"] val [of "''product''"] val [of "''memory''"]
    val [of "''family''"] val [of "''compute.major''"] val [of "''compute.minor''"]
  ultimately show ?thesis
    using l m assms(3)
    by (simp add: gpu_value_def Let_def base_value_def replicas_count product_shared
        fullGPUResourceName_def)
qed

lemma sample_gpu: "gpu_answers mock_devices NewFullGPU ''MOCKMODEL'' 300 (8, 0)"
  by (simp add: gpu_answers_def mock_simps)

theorem NewGPUResourceLabeler_labels_witness:
  "\<exists>l m. NewGPUResourceLabeler mock_devices None NewFullGPU 2 = Ret l \<and> Labels_of l = Ret m \<and>
     gget m ''nvidia.com/gpu.count'' = Some ''2'' \<and> gget m ''nvidia.com/gpu.replicas'' = Some ''0'' \<and>
     gget m ''nvidia.com/gpu.product'' = Some ''MOCKMODEL'' \<and>
     gget m ''nvidia.com/gpu.family'' = Some ''ampere''"
proof -
  have digits: "show_int 2 = ''2''" "show_int 0 = ''0''" "getArchFamily 8 0 = ''ampere''"
    "replace_all CHR '' '' CHR ''-'' ''MOCKMODEL'' = ''MOCKMODEL''" by code_simp+
  from NewGPUResourceLabeler_labels [OF sample_gpu, of 2 None] show ?thesis
    by (auto simp: digits replica_count_def shared_suffix_def shared_as_def)
qed

lemma shared_as_disabled:
  "shared_as (Some (disableResourceRenamingInConfig c)) name =
   map_option (disable_renaming_of (ts_RenameByDefault (cfg_TimeSlicing c))) (shared_as (Some c) name)"
proof -
  have "find (\<lambda>r. rr_Name r = name) (map (disable_renaming_of b) rs) =
      map_option (disable_renaming_of b) (find (\<lambda>r. rr_Name r = name) rs)" for b rs
    by (induction rs) simp_all
  then show ?thesis by (simp add: shared_as_def disableResourceRenamingInConfig_def Let_def)
qed

text \<open>C26: With the configuration the daemon runs on, in which renaming is disabled, a shared GPU
  is marked in the product label unless sharing renames resources by default, whatever name the
  config file gave it, and the number of replicas is that of the file.\<close>

theorem shared_GPU_labels:
  assumes "gpu_answers D d model mem cc" and "cnt \<noteq> 0" and "model \<noteq> []"
    and "find (\<lambda>r. rr_Name r = ''nvidia.com/gpu'') (ts_Resources (cfg_TimeSlicing config)) = Some r"
    and "1 < rr_Replicas r"
  shows "\<exists>l m. NewGPUResourceLabeler D (Some (disableResourceRenamingInConfig config)) d cnt = Ret l \<and>
    Labels_of l = Ret m \<and>
    gget m ''nvidia.com/gpu.replicas'' = Some (show_int (rr_Replicas r)) \<and>
    gget m ''nvidia.com/gpu.product'' = Some (replace_all CHR '' '' CHR ''-'' model @
      (if ts_RenameByDefault (cfg_TimeSlicing config) then [] else ''-SHARED''))"
proof -
  let ?c = "Some (disableResourceRenamingInConfig config)" and ?b = "ts_RenameByDefault (cfg_TimeSlicing config)"
  have sh: "shared_as ?c ''nvidia.com/gpu'' = Some (disable_renaming_of ?b r)"
    using assms(4) by (subst shared_as_disabled) (simp add: shared_as_def)
  have suffix: "shared_suffix ?c ''nvidia.com/gpu'' = (if ?b then [] else ''-SHARED'')"
    using assms(5) disable_renaming_of_disabled [of ?b r]
    by (simp add: shared_suffix_def sh renaming_disabled_def DefaultSharedRename_def)
  have reps: "replica_count ?c ''nvidia.com/gpu'' = rr_Replicas r"
    using assms(5) by (simp add: replica_count_def sh)
  obtain l m where "NewGPUResourceLabeler D ?c d cnt = Ret l" "Labels_of l = Ret m"
    and val: "\<And>t. gget m (''nvidia.com/gpu.'' @ t) = gpu_value ?c cnt model mem cc t"
    using gpu_labels [OF assms(1,2), of ?c] by (auto simp: implements_labels_def rl_key_gpu)
  then show ?thesis
    using val [of "''replicas''"] val [of "''product''"] assms(3)
    by (simp add: gpu_value_def Let_def base_value_def replicas_count product_shared
        fullGPUResourceName_def suffix reps)
qed

definition sample_sharing :: config where
  "sample_sharing = default_config\<lparr>cfg_TimeSlicing := \<lparr>ts_RenameByDefault = False,
     ts_FailRequestsGreaterThanOne = False,
     ts_Resources = [\<lparr>rr_Name = ''nvidia.com/gpu'', rr_Rename = ''nvidia.com/mine'',
       rr_Devices = \<lparr>rd_All = False, rd_Count = 1, rd_List = None\<rparr>, rr_Replicas = 4\<rparr>]\<rparr>\<rparr>"

theorem shared_GPU_labels_witness:
  "\<exists>l m. NewGPUResourceLabeler mock_devices (Some (disableResourceRenamingInConfig sample_sharing))
       NewFullGPU 1 = Ret l \<and> Labels_of l = Ret m \<and>
     gget m ''nvidia.com/gpu.replicas'' = Some ''4'' \<and>
     gget m ''nvidia.com/gpu.product'' = Some ''MOCKMODEL-SHARED''"
proof -
  have digits: "show_int 4 = ''4''"
    "replace_all CHR '' '' CHR ''-'' ''MOCKMODEL'' = ''MOCKMODEL''" by code_simp+
  from shared_GPU_labels [OF sample_gpu, of 1 sample_sharing] show ?thesis
    by (simp add: sample_sharing_def digits)
qed

end
