(* ===== verification/Mig_Strategy.thy ===== *)
theory Mig_Strategy
  imports Mig Resource_Labels
begin

text \<open>
  \<^verbatim>\<open>internal/lm/mig-strategy.go\<close>: the labels of the GPUs and MIG devices of a node under the
  three MIG strategies.  The \<^verbatim>\<open>DeviceInfo\<close> of each function is local to it, so the functions
  run on a fresh one and keep only the result.  Loops over Go maps take their order from an
  \<open>orders\<close> argument: the code promises the same labels for all of them only where the lemmas
  below say so.
\<close>

section \<open>Operations\<close>

record 'd mig_resource =
  mr_name :: string
  mr_device :: 'd
  mr_count :: int

text \<open>The iteration orders of the three loops over maps.\<close>

record orders =
  ord_mig :: "nat list"
  ord_full :: "nat list"
  ord_profiles :: "nat list"

definition collect_gpu ::
  "'d device_ops \<Rightarrow> 'd \<Rightarrow> (string, 'd) gomap \<times> (string, nat) gomap \<Rightarrow>
   ((string, 'd) gomap \<times> (string, nat) gomap) go" where
  "collect_gpu D device st =
     gbind (wrap ''error getting device name: '' (dev_GetName D device)) (\<lambda>name.
     Ret (gset name device (fst st), gincr name (snd st)))"

definition newGPULabelers ::
  "'d device_ops \<Rightarrow> ('s, 'd) manager_ops \<Rightarrow> 's \<Rightarrow> orders \<Rightarrow> config \<Rightarrow> labeler go" where
  "newGPULabelers D M s os config =
     gbind (wrap ''error getting map of devices: '' (snd (GetDevicesMap D M s NewDeviceInfo)))
       (\<lambda>devicesByMigEnabled.
     if devicesByMigEnabled = [] then Err ''no GPU devices detected''
     else
     gbind (foldM_go (collect_gpu D) (devs_of devicesByMigEnabled True) ([], []))
       (\<lambda>(migEnabledDevices, counts).
     gbind (foldM_go (collect_gpu D) (devs_of devicesByMigEnabled False) ([], counts))
       (\<lambda>(fullGPUs, counts).
     gbind (mapM_go (\<lambda>(name, migEnabledDevice). wrap ''failed to construct labeler: ''
              (NewGPUResourceLabelerWithoutSharing D migEnabledDevice (int (gcount counts name))))
              (range_perm (ord_mig os) migEnabledDevices)) (\<lambda>ls1.
     gbind (mapM_go (\<lambda>(name, fullGPU). wrap ''failed to construct labeler: ''
              (NewGPUResourceLabeler D (Some config) fullGPU (int (gcount counts name))))
              (range_perm (ord_full os) fullGPUs)) (\<lambda>ls2.
     gbind (list_Labels (ls1 @ ls2) []) (\<lambda>labels. Ret (LLabels labels)))))))"

text \<open>One round of the loop over the MIG devices; \<open>nameOf\<close> names the resource of a profile.\<close>

definition count_mig ::
  "'d device_ops \<Rightarrow> (string \<Rightarrow> string) \<Rightarrow> 'd \<Rightarrow> (string, 'd mig_resource) gomap \<Rightarrow>
   (string, 'd mig_resource) gomap go" where
  "count_mig D nameOf mig resources =
     gbind (wrap ''unable to get MIG device name: '' (dev_GetName D mig)) (\<lambda>name.
     let resource = (case gget resources name of
             Some r \<Rightarrow> r
           | None \<Rightarrow> \<lparr>mr_name = nameOf name, mr_device = mig, mr_count = 0\<rparr>)
     in Ret (gset name (resource\<lparr>mr_count := mr_count resource + 1\<rparr>) resources))"

definition newMIGDeviceLabelers ::
  "'d device_ops \<Rightarrow> orders \<Rightarrow> (string, 'd mig_resource) gomap \<Rightarrow> config \<Rightarrow> labeler go" where
  "newMIGDeviceLabelers D os resources config =
     gbind (mapM_go (\<lambda>(_, r). wrap ''failed to construct labeler: ''
              (NewMIGResourceLabeler D (mr_name r) (Some config) (mr_device r) (mr_count r)))
              (range_perm (ord_profiles os) resources)) (\<lambda>labelers.
     Ret (LList labelers))"

definition newInvalidMigStrategyLabeler :: "'d device_ops \<Rightarrow> 'd \<Rightarrow> string \<Rightarrow> labeler go" where
  "newInvalidMigStrategyLabeler D device reason =
     gbind (wrap ''failed to get device model: '' (dev_GetName D device)) (\<lambda>model.
     let rl = \<lparr>rl_resourceName = ''nvidia.com/gpu'', rl_config = None\<rparr>;
         labels = rl_productLabel rl [model, ''MIG'', ''INVALID''];
         labels = rl_updateLabel rl labels ''count'' (VInt 0);
         labels = rl_updateLabel rl labels ''replicas'' (VInt 0);
         labels = rl_updateLabel rl labels ''memory'' (VInt 0)
     in Ret (LLabels labels))"

definition newMigStrategySingleLabeler ::
  "'d device_ops \<Rightarrow> ('s, 'd) manager_ops \<Rightarrow> 's \<Rightarrow> orders \<Rightarrow> config \<Rightarrow> labeler go" where
  "newMigStrategySingleLabeler D M s os config = snd (
     (sbind (swrap ''unabled to retrieve list of MIG-enabled devices: ''
               (GetDevicesWithMigEnabled D M s)) (\<lambda>migEnabledDevices.
      if migEnabledDevices = [] then sret LEmpty
      else
      sbind (swrap ''failed to check for empty MIG-enabled devices: ''
               (AnyMigEnabledDeviceIsEmpty D M s)) (\<lambda>hasEmpty.
      if hasEmpty
      then slift (newInvalidMigStrategyLabeler D (hd migEnabledDevices)
                    ''at least one MIG device is enabled but empty'')
      else
      sbind (swrap ''unabled to retrieve list of non-MIG-enabled devices: ''
               (GetDevicesWithMigDisabled D M s)) (\<lambda>migDisabledDevices.
      if migDisabledDevices \<noteq> []
      then slift (newInvalidMigStrategyLabeler D (hd migEnabledDevices)
                    ''devices with MIG enabled and disable detected'')
      else
      sbind (swrap ''unable to retrieve list of MIG devices: '' (GetAllMigDevices D M s)) (\<lambda>migs.
      slift (
        gbind (foldM_go (count_mig D (\<lambda>_. fullGPUResourceName)) migs []) (\<lambda>resources.
        if length resources \<noteq> 1
        then newInvalidMigStrategyLabeler D (hd migEnabledDevices)
               ''more than one MIG device type present on node''
        else newMIGDeviceLabelers D os resources config)))))))
     NewDeviceInfo)"

definition newMigStrategyMixedLabeler ::
  "'d device_ops \<Rightarrow> ('s, 'd) manager_ops \<Rightarrow> 's \<Rightarrow> orders \<Rightarrow> config \<Rightarrow> labeler go" where
  "newMigStrategyMixedLabeler D M s os config = snd (
     (sbind (swrap ''unable to retrieve list of MIG devices: '' (GetAllMigDevices D M s)) (\<lambda>migs.
      slift (
        gbind (foldM_go (count_mig D (\<lambda>name. ''nvidia.com/mig-'' @ name)) migs []) (\<lambda>resources.
        newMIGDeviceLabelers D os resources config))))
     NewDeviceInfo)"

definition newMigLabeler ::
  "'d device_ops \<Rightarrow> ('s, 'd) manager_ops \<Rightarrow> 's \<Rightarrow> orders \<Rightarrow> config \<Rightarrow> labeler go" where
  "newMigLabeler D M s os config =
     gbind (deref (fl_MigStrategy (cfg_Flags config))) (\<lambda>migStrategy.
     gbind
       (if migStrategy = MigStrategyNone then Ret LEmpty
        else if migStrategy = MigStrategySingle
        then wrap ''failed to create labeler for mig-strategy=single: ''
               (newMigStrategySingleLabeler D M s os config)
        else if migStrategy = MigStrategyMixed
        then wrap ''failed to create labeler for mig-strategy=mixed: ''
               (newMigStrategyMixedLabeler D M s os config)
        else Err (''unknown strategy: '' @ migStrategy))
       (\<lambda>labeler. Ret (Merge [migStrategyLabeler migStrategy, labeler])))"

definition NewResourceLabeler ::
  "'d device_ops \<Rightarrow> ('s, 'd) manager_ops \<Rightarrow> 's \<Rightarrow> orders \<Rightarrow> config \<Rightarrow> labeler go" where
  "NewResourceLabeler D M s os config =
     gbind (wrap ''error getting devices: '' (mgr_GetDevices M s)) (\<lambda>devices.
     if devices = [] then Ret LEmpty
     else
     gbind (wrap ''failed to construct GPU labeler: '' (newGPULabelers D M s os config))
       (\<lambda>fullGPULabeler.
     gbind (deref (fl_MigStrategy (cfg_Flags config))) (\<lambda>migStrategy.
     if migStrategy = MigStrategyNone then Ret fullGPULabeler
     else
     gbind (wrap ''failed to construct MIG resource labeler: '' (newMigLabeler D M s os config))
       (\<lambda>migLabeler. Ret (Merge [fullGPULabeler, migLabeler])))))"

section \<open>The loops that count devices\<close>

text \<open>The first device of a name, and how many there are.\<close>

definition named :: "('d \<Rightarrow> string) \<Rightarrow> string \<Rightarrow> 'd list \<Rightarrow> 'd list" where
  "named nm n ds = filter (\<lambda>d. nm d = n) ds"

lemma named_append [simp]: "named nm n (xs @ ys) = named nm n xs @ named nm n ys"
  by (simp add: named_def)

lemma named_simps [simp]:
  "named nm n [] = []"
  "named nm n (d # ds) = (if nm d = n then d # named nm n ds else named nm n ds)"
  by (simp_all add: named_def)

lemma named_Nil_iff: "named nm n ds = [] \<longleftrightarrow> n \<notin> nm ` set ds"
  by (auto simp: named_def filter_empty_conv)

lemma set_named: "d \<in> set (named nm n ds) \<longleftrightarrow> d \<in> set ds \<and> nm d = n"
  by (auto simp: named_def)

lemma hd_named: "n \<in> nm ` set ds \<Longrightarrow> hd (named nm n ds) \<in> set ds \<and> nm (hd (named nm n ds)) = n"
  using set_named [of "hd (named nm n ds)" nm n ds] named_Nil_iff [of nm n ds] by auto

lemma last_named: "n \<in> nm ` set ds \<Longrightarrow> last (named nm n ds) \<in> set ds \<and> nm (last (named nm n ds)) = n"
  using set_named [of "last (named nm n ds)" nm n ds] named_Nil_iff [of nm n ds] by auto

definition names_known :: "'d device_ops \<Rightarrow> ('d \<Rightarrow> string) \<Rightarrow> 'd list \<Rightarrow> bool" where
  "names_known D nm ds \<longleftrightarrow> (\<forall>d \<in> set ds. dev_GetName D d = Ret (nm d))"

text \<open>
  After the loop over the MIG devices there is one entry per profile, for the first device with
  that profile, with the number of its devices.
\<close>

lemma count_migs:
  assumes "names_known D nm ds"
  shows "\<exists>rs. foldM_go (count_mig D f) ds [] = Ret rs \<and> gmap_ok rs \<and> fst ` set rs = nm ` set ds \<and>
    (\<forall>p \<in> nm ` set ds. gget rs p = Some \<lparr>mr_name = f p, mr_device = hd (named nm p ds),
       mr_count = int (length (named nm p ds))\<rparr>)"
  using assms
proof (induction ds rule: rev_induct)
  case Nil
  then show ?case by simp
next
  case (snoc d ds)
  then have d: "dev_GetName D d = Ret (nm d)" and "names_known D nm ds"
    by (simp_all add: names_known_def)
  with snoc.IH obtain rs where rs: "foldM_go (count_mig D f) ds [] = Ret rs" "gmap_ok rs"
    "fst ` set rs = nm ` set ds"
    "\<And>p. p \<in> nm ` set ds \<Longrightarrow> gget rs p = Some \<lparr>mr_name = f p, mr_device = hd (named nm p ds),
       mr_count = int (length (named nm p ds))\<rparr>" by auto
  define r where "r = \<lparr>mr_name = f (nm d), mr_device = hd (named nm (nm d) (ds @ [d])),
       mr_count = int (length (named nm (nm d) (ds @ [d])))\<rparr>"
  have "count_mig D f d rs = Ret (gset (nm d) r rs)"
  proof (cases "nm d \<in> nm ` set ds")
    case True
    then have "named nm (nm d) ds \<noteq> []" by (simp add: named_Nil_iff)
    with True show ?thesis by (simp add: count_mig_def d rs(4) r_def add.commute)
  next
    case False
    then have "gget rs (nm d) = None" by (simp add: gget_None_iff rs(3))
    moreover from False have "named nm (nm d) ds = []" by (simp add: named_Nil_iff)
    ultimately show ?thesis by (simp add: count_mig_def d r_def)
  qed
  then have fold: "foldM_go (count_mig D f) (ds @ [d]) [] = Ret (gset (nm d) r rs)"
    by (simp add: foldM_go_append rs(1))
  have "gget (gset (nm d) r rs) p = Some \<lparr>mr_name = f p, mr_device = hd (named nm p (ds @ [d])),
       mr_count = int (length (named nm p (ds @ [d])))\<rparr>" if "p \<in> nm ` set (ds @ [d])" for p
  proof (cases "p = nm d")
    case True
    then show ?thesis by (simp add: gget_gset r_def)
  next
    case False
    with that have "p \<in> nm ` set ds" by auto
    with False show ?thesis by (simp add: gget_gset rs(4))
  qed
  with fold rs(2,3) show ?case by (simp add: gset_keys)
qed

text \<open>The loop over the GPUs keeps the last device of a name and counts them.\<close>

lemma collect_gpus:
  assumes "names_known D nm ds"
  shows "\<exists>devs cs'. foldM_go (collect_gpu D) ds ([], cs) = Ret (devs, cs') \<and> gmap_ok devs \<and>
    fst ` set devs = nm ` set ds \<and>
    (\<forall>n \<in> nm ` set ds. gget devs n = Some (last (named nm n ds))) \<and>
    (\<forall>n. gcount cs' n = gcount cs n + length (named nm n ds))"
  using assms
proof (induction ds rule: rev_induct)
  case Nil
  then show ?case by simp
next
  case (snoc d ds)
  then have d: "dev_GetName D d = Ret (nm d)" and "names_known D nm ds"
    by (simp_all add: names_known_def)
  with snoc.IH obtain devs cs' where IH: "foldM_go (collect_gpu D) ds ([], cs) = Ret (devs, cs')"
    "gmap_ok devs" "fst ` set devs = nm ` set ds"
    "\<forall>n \<in> nm ` set ds. gget devs n = Some (last (named nm n ds))"
    "\<forall>n. gcount cs' n = gcount cs n + length (named nm n ds)" by auto
  have "foldM_go (collect_gpu D) (ds @ [d]) ([], cs) =
      Ret (gset (nm d) d devs, gincr (nm d) cs')"
    by (simp add: foldM_go_append IH(1) collect_gpu_def d)
  with IH(2-) show ?case by (auto simp: gset_keys gget_gset gcount_gincr)
qed

text \<open>Both together: with known MIG modes every device is counted once.\<close>

lemma named_modes:
  "modes_known D ds \<Longrightarrow>
   length (named nm n (with_mode D True ds)) + length (named nm n (with_mode D False ds)) =
   length (named nm n ds)"
proof (induction ds)
  case (Cons d ds)
  then obtain b where "dev_IsMigEnabled D d = Ret b" by (auto simp: modes_known_def returns_iff)
  with Cons show ?case by (cases b) (auto simp: with_mode_def modes_known_def)
qed (simp add: with_mode_def)

section \<open>The labels of full GPUs\<close>

lemma implements_gpu_rl: "implements_labels (gpu_rl c) = implements_labels (gpu_rl None)"
  by (intro ext) (simp add: implements_labels_def owned_def gpu_rl_def rl_key_def [abs_def])

definition gpu_node ::
  "'d device_ops \<Rightarrow> 'd list \<Rightarrow> ('d \<Rightarrow> string) \<Rightarrow> ('d \<Rightarrow> 64 word) \<Rightarrow> ('d \<Rightarrow> int \<times> int) \<Rightarrow> bool" where
  "gpu_node D ds nm mem cc \<longleftrightarrow> (\<forall>d \<in> set ds. gpu_answers D d (nm d) (mem d) (cc d))"

lemma gpu_node_names: "gpu_node D ds nm mem cc \<Longrightarrow> set xs \<subseteq> set ds \<Longrightarrow> names_known D nm xs"
  by (auto simp: gpu_node_def names_known_def gpu_answers_def)

lemma gpu_labelers:
  assumes "\<And>n d. (n, d) \<in> set xs \<Longrightarrow> gpu_answers D d n (mem d) (cc d) \<and> cnt n \<noteq> 0"
  shows "\<exists>ls. mapM_go (\<lambda>(n, d). wrap msg (NewGPUResourceLabeler D config d (cnt n))) xs = Ret ls \<and>
    list_all2 (implements_labels (gpu_rl None)) ls
      (map (\<lambda>(n, d). gpu_value config (cnt n) n (mem d) (cc d)) xs)"
  using assms
proof (induction xs)
  case Nil
  then show ?case by simp
next
  case (Cons x xs)
  obtain n d where x: "x = (n, d)" by (cases x)
  from Cons.prems [of n d] have "gpu_answers D d n (mem d) (cc d)" "cnt n \<noteq> 0"
    by (simp_all add: x)
  from gpu_labels [OF this, of config, unfolded implements_gpu_rl [of config]] obtain l where "NewGPUResourceLabeler D config d (cnt n) = Ret l"
    "implements_labels (gpu_rl None) l (gpu_value config (cnt n) n (mem d) (cc d))"
    by blast
  moreover have "\<And>n d. (n, d) \<in> set xs \<Longrightarrow> gpu_answers D d n (mem d) (cc d) \<and> cnt n \<noteq> 0"
    by (rule Cons.prems) simp
  from Cons.IH [OF this] obtain ls where
    "mapM_go (\<lambda>(n, d). wrap msg (NewGPUResourceLabeler D config d (cnt n))) xs = Ret ls"
    "list_all2 (implements_labels (gpu_rl None)) ls
      (map (\<lambda>(n, d). gpu_value config (cnt n) n (mem d) (cc d)) xs)" by blast
  ultimately show ?case by (simp add: x)
qed

text \<open>One map entry per model: the last device of the model with that MIG mode.\<close>

definition models :: "('d \<Rightarrow> string) \<Rightarrow> 'd list \<Rightarrow> (string, 'd) gomap \<Rightarrow> bool" where
  "models nm ds A \<longleftrightarrow> gmap_ok A \<and> fst ` set A = nm ` set ds \<and>
     (\<forall>n \<in> nm ` set ds. gget A n = Some (last (named nm n ds)))"

lemma models_entry:
  assumes "models nm ds A" and "(n, d) \<in> set A"
  shows "d \<in> set ds \<and> nm d = n \<and> d = last (named nm n ds)"
proof -
  have "gget A n = Some d" using assms by (auto simp: models_def gmap_ok_def intro: map_of_is_SomeI)
  moreover have n: "n \<in> nm ` set ds"
    using assms(1) image_eqI [of n fst "(n, d)" "set A"] assms(2) by (simp add: models_def)
  ultimately have "d = last (named nm n ds)" using assms(1) by (auto simp: models_def)
  with last_named [OF n] show ?thesis by simp
qed

text \<open>The value of a label: the GPU models in the order of the loops, the last one wins.\<close>

definition gpu_values ::
  "config option \<Rightarrow> (string \<Rightarrow> int) \<Rightarrow> ('d \<Rightarrow> 64 word) \<Rightarrow> ('d \<Rightarrow> int \<times> int) \<Rightarrow> (string \<times> 'd) list \<Rightarrow>
   (string \<Rightarrow> string option) list" where
  "gpu_values config cnt mem cc xs =
     map (\<lambda>(n, d). gpu_value config (cnt n) n (mem d) (cc d)) xs"

definition overlay_all :: "(string \<Rightarrow> string option) list \<Rightarrow> string \<Rightarrow> string option" where
  "overlay_all fs = fold (\<lambda>f acc. acc ++ f) fs Map.empty"

lemma overlay_all_simps [simp]:
  "overlay_all [] = Map.empty"
  "overlay_all (f # fs) = f ++ overlay_all fs"
  unfolding overlay_all_def using fold_map_add [of "\<lambda>f. f" fs f] by simp_all

lemma newGPULabelers_orders:
  assumes "mgr_GetDevices M s = Ret ds" and "ds \<noteq> []" and "modes_known D ds"
    and node: "gpu_node D ds nm mem cc"
  shows "\<exists>A B. models nm (with_mode D True ds) A \<and> models nm (with_mode D False ds) B \<and>
    (\<forall>os. \<exists>m. newGPULabelers D M s os config = Ret (LLabels m) \<and>
      implements_labels (gpu_rl None) (LLabels m)
        (overlay_all
          (gpu_values None (\<lambda>n. int (length (named nm n ds))) mem cc (range_perm (ord_mig os) A) @
           gpu_values (Some config) (\<lambda>n. int (length (named nm n ds))) mem cc
             (range_perm (ord_full os) B))))"
proof -
  let ?cnt = "\<lambda>n. int (length (named nm n ds))"
  obtain dm where dm: "map_of_devices D ds dm" "snd (GetDevicesMap D M s NewDeviceInfo) = Ret dm"
    using GetDevicesMap_fresh [of NewDeviceInfo M s ds D] assms(1,3) by (auto simp: NewDeviceInfo_def)
  then have devs: "devs_of dm b = with_mode D b ds" for b by (simp add: map_of_devices_def)
  have sub: "set (with_mode D b ds) \<subseteq> set ds" for b by (auto simp: with_mode_def)
  obtain A cs where A: "foldM_go (collect_gpu D) (devs_of dm True) ([], []) = Ret (A, cs)"
    "models nm (with_mode D True ds) A" "\<forall>n. gcount cs n = length (named nm n (with_mode D True ds))"
    using collect_gpus [OF gpu_node_names [OF node sub], of True "[]"] by (auto simp: models_def devs)
  obtain B cs' where B: "foldM_go (collect_gpu D) (devs_of dm False) ([], cs) = Ret (B, cs')"
    "models nm (with_mode D False ds) B"
    "\<forall>n. gcount cs' n = gcount cs n + length (named nm n (with_mode D False ds))"
    using collect_gpus [OF gpu_node_names [OF node sub], of False cs] by (auto simp: models_def devs)
  have cnt: "int (gcount cs' n) = ?cnt n" for n
    using named_modes [OF assms(3), of nm n] A(3) B(3) by simp
  have entry: "gpu_answers D d n (mem d) (cc d) \<and> ?cnt n \<noteq> 0"
    if "(n, d) \<in> set (range_perm cs X)" "models nm (with_mode D b ds) X" for n d cs X b
  proof -
    from that(1) have "(n, d) \<in> set X" by simp
    from models_entry [OF that(2) this] have "d \<in> set ds" "nm d = n" using sub [of b] by blast+
    then show ?thesis using node named_Nil_iff [of nm n ds] by (auto simp: gpu_node_def)
  qed
  have "\<exists>m. newGPULabelers D M s os config = Ret (LLabels m) \<and>
      implements_labels (gpu_rl None) (LLabels m)
        (overlay_all (gpu_values None ?cnt mem cc (range_perm (ord_mig os) A) @
          gpu_values (Some config) ?cnt mem cc (range_perm (ord_full os) B)))" for os
  proof -
    have eA: "gpu_answers D d n (mem d) (cc d) \<and> ?cnt n \<noteq> 0"
      if "(n, d) \<in> set (range_perm (ord_mig os) A)" for n d
      using that A(2) by (rule entry)
    obtain ls1 where ls1: "mapM_go (\<lambda>(n, d). wrap ''failed to construct labeler: ''
        (NewGPUResourceLabeler D None d (?cnt n))) (range_perm (ord_mig os) A) = Ret ls1"
      "list_all2 (implements_labels (gpu_rl None)) ls1
        (gpu_values None ?cnt mem cc (range_perm (ord_mig os) A))"
      using gpu_labelers [OF eA, where config = None] unfolding gpu_values_def by blast
    have eB: "gpu_answers D d n (mem d) (cc d) \<and> ?cnt n \<noteq> 0"
      if "(n, d) \<in> set (range_perm (ord_full os) B)" for n d
      using that B(2) by (rule entry)
    obtain ls2 where ls2: "mapM_go (\<lambda>(n, d). wrap ''failed to construct labeler: ''
        (NewGPUResourceLabeler D (Some config) d (?cnt n))) (range_perm (ord_full os) B) = Ret ls2"
      "list_all2 (implements_labels (gpu_rl None)) ls2
        (gpu_values (Some config) ?cnt mem cc (range_perm (ord_full os) B))"
      using gpu_labelers [OF eB, where config = "Some config"]
      unfolding gpu_values_def by blast
    from implements_Merge [OF list_all2_appendI [OF ls1(2) ls2(2)]] obtain m where
      m: "list_Labels (ls1 @ ls2) [] = Ret m" "implements_labels (gpu_rl None) (LLabels m)
        (overlay_all (gpu_values None ?cnt mem cc (range_perm (ord_mig os) A) @
           gpu_values (Some config) ?cnt mem cc (range_perm (ord_full os) B)))"
      by (auto simp: implements_labels_def Merge_def overlay_all_def)
    have "dm \<noteq> []" using dm(1) assms(2) by (simp add: map_of_devices_def)
    then have "newGPULabelers D M s os config = Ret (LLabels m)"
      using ls1(1) ls2(1) m(1) A(1) B(1)
      by (simp add: newGPULabelers_def dm(2) NewGPUResourceLabelerWithoutSharing_def cnt)
    with m(2) show ?thesis by blast
  qed
  with A(2) B(2) show ?thesis by blast
qed

lemma newGPULabelers_spec:
  assumes "mgr_GetDevices M s = Ret ds" and "ds \<noteq> []" and "modes_known D ds"
    and "gpu_node D ds nm mem cc"
  shows "\<exists>A B m. models nm (with_mode D True ds) A \<and> models nm (with_mode D False ds) B \<and>
    newGPULabelers D M s os config = Ret (LLabels m) \<and>
    implements_labels (gpu_rl None) (LLabels m)
      (overlay_all
        (gpu_values None (\<lambda>n. int (length (named nm n ds))) mem cc (range_perm (ord_mig os) A) @
         gpu_values (Some config) (\<lambda>n. int (length (named nm n ds))) mem cc
           (range_perm (ord_full os) B)))"
  using newGPULabelers_orders [OF assms] by blast

text \<open>The last model in the order of the loop over the full GPUs has the last word.\<close>

lemma overlay_all_last: "last fs t = Some v \<Longrightarrow> fs \<noteq> [] \<Longrightarrow> overlay_all fs t = Some v"
  by (cases fs rule: rev_cases) (simp_all add: overlay_all_def)

lemma gpu_value_base:
  assumes "model \<noteq> []"
  shows "gpu_value config cnt model mem cc ''product'' =
      Some (replace_all CHR '' '' CHR ''-'' model @ shared_suffix config ''nvidia.com/gpu'')"
    and "gpu_value config cnt model mem cc ''count'' = Some (show_int cnt)"
  using assms by (simp_all add: gpu_value_def base_value_def product_shared fullGPUResourceName_def)

text \<open>On a node with one model of GPU the order of the loops does not matter.\<close>

definition one_model_value ::
  "config \<Rightarrow> 'd list \<Rightarrow> 'd list \<Rightarrow> string \<Rightarrow> ('d \<Rightarrow> 64 word) \<Rightarrow> ('d \<Rightarrow> int \<times> int) \<Rightarrow> string \<Rightarrow>
   string option" where
  "one_model_value config migEnabled full model mem cc =
     (let cnt = int (length migEnabled + length full);
          value = (\<lambda>c d. gpu_value c cnt model (mem d) (cc d))
      in overlay_all
           ((if migEnabled = [] then [] else [value None (last migEnabled)]) @
            (if full = [] then [] else [value (Some config) (last full)])))"

lemma named_all: "(\<forall>d \<in> set ds. nm d = n) \<Longrightarrow> named nm n ds = ds"
  by (simp add: named_def)

lemma models_single:
  assumes "models nm ds A" and "\<forall>d \<in> set ds. nm d = n"
  shows "A = (if ds = [] then [] else [(n, last ds)])"
proof (cases "ds = []")
  case True
  with assms(1) show ?thesis by (simp add: models_def)
next
  case False
  then have n: "nm ` set ds = {n}" using assms(2) by (cases ds) auto
  with assms(1) have A: "distinct (map fst A)" "set (map fst A) = {n}" "gget A n = Some (last ds)"
    using named_all [OF assms(2)] by (simp_all add: models_def gmap_ok_def)
  then have "length (map fst A) = 1" by (metis distinct_card card_1_singleton_iff One_nat_def)
  then obtain d where "A = [d]" by (auto simp: length_Suc_conv)
  with A False show ?thesis by (cases d) auto
qed

lemma length_modes:
  "modes_known D ds \<Longrightarrow> length (with_mode D True ds) + length (with_mode D False ds) = length ds"
proof (induction ds)
  case (Cons d ds)
  then obtain b where "dev_IsMigEnabled D d = Ret b" by (auto simp: modes_known_def returns_iff)
  with Cons show ?case by (cases b) (auto simp: with_mode_def modes_known_def)
qed (simp add: with_mode_def)

lemma newGPULabelers_one_model:
  assumes "mgr_GetDevices M s = Ret ds" and "ds \<noteq> []" and known: "modes_known D ds"
    and "gpu_node D ds nm mem cc" and one: "\<forall>d \<in> set ds. nm d = model"
  shows "\<exists>m. newGPULabelers D M s os config = Ret (LLabels m) \<and>
    implements_labels (gpu_rl None) (LLabels m)
      (one_model_value config (with_mode D True ds) (with_mode D False ds) model mem cc)"
proof -
  obtain A B m where AB: "models nm (with_mode D True ds) A" "models nm (with_mode D False ds) B"
    and m: "newGPULabelers D M s os config = Ret (LLabels m)"
      "implements_labels (gpu_rl None) (LLabels m)
      (overlay_all
        (gpu_values None (\<lambda>n. int (length (named nm n ds))) mem cc (range_perm (ord_mig os) A) @
         gpu_values (Some config) (\<lambda>n. int (length (named nm n ds))) mem cc
           (range_perm (ord_full os) B)))"
    using newGPULabelers_spec [OF assms(1-4), of os config] by blast
  have one': "\<forall>d \<in> set (with_mode D b ds). nm d = model" for b
    using one by (simp add: with_mode_def)
  have "A = (if with_mode D True ds = [] then [] else [(model, last (with_mode D True ds))])"
    "B = (if with_mode D False ds = [] then [] else [(model, last (with_mode D False ds))])"
    using models_single [OF AB(1) one'] models_single [OF AB(2) one'] by auto
  moreover have "length (named nm model ds) = length (with_mode D True ds) + length (with_mode D False ds)"
    using length_modes [OF known] named_all [OF one] by simp
  ultimately have "implements_labels (gpu_rl None) (LLabels m)
      (one_model_value config (with_mode D True ds) (with_mode D False ds) model mem cc)"
    by (intro implements_cong [OF m(2)])
      (simp add: one_model_value_def Let_def gpu_values_def del: overlay_all_simps)
  with m(1) show ?thesis by blast
qed

section \<open>The labels of MIG devices\<close>

definition mig_devices_node ::
  "'d device_ops \<Rightarrow> 'd list \<Rightarrow> ('d \<Rightarrow> string) \<Rightarrow> ('d \<Rightarrow> string) \<Rightarrow>
   ('d \<Rightarrow> (string, attr_val) gomap) \<Rightarrow> bool" where
  "mig_devices_node D migs model profile attrs \<longleftrightarrow>
     (\<forall>d \<in> set migs. mig_answers D d (model d) (profile d) (attrs d))"

lemma mig_devices_names: "mig_devices_node D migs model profile attrs \<Longrightarrow> names_known D profile migs"
  by (auto simp: mig_devices_node_def mig_answers_def names_known_def)

text \<open>The labels of one profile: those of its first device, with the number of its devices.\<close>

definition profile_value ::
  "config \<Rightarrow> string \<Rightarrow> 'd list \<Rightarrow> ('d \<Rightarrow> string) \<Rightarrow> ('d \<Rightarrow> string) \<Rightarrow> ('d \<Rightarrow> (string, attr_val) gomap) \<Rightarrow>
   string \<Rightarrow> string \<Rightarrow> string option" where
  "profile_value config name migs model profile attrs p =
     (let ds = named profile p migs; d = hd ds
      in mig_value name (Some config) (int (length ds)) (model d) p (attrs d))"

lemma profile_labeler:
  assumes "mig_devices_node D migs model profile attrs" and p: "p \<in> profile ` set migs"
  shows "\<exists>l. NewMIGResourceLabeler D name (Some config) (hd (named profile p migs))
      (int (length (named profile p migs))) = Ret l \<and>
    implements_labels (mig_rl name (Some config)) l
      (profile_value config name migs model profile attrs p)"
proof -
  let ?d = "hd (named profile p migs)"
  from hd_named [OF p] assms(1) have "mig_answers D ?d (model ?d) p (attrs ?d)"
    by (auto simp: mig_devices_node_def)
  moreover have "int (length (named profile p migs)) \<noteq> 0" using p by (simp add: named_Nil_iff)
  ultimately show ?thesis unfolding profile_value_def Let_def by (rule mig_labels)
qed

text \<open>The labelers made from the counted profiles, in the order of the loop.\<close>

lemma newMIGDeviceLabelers_spec:
  assumes node: "mig_devices_node D migs model profile attrs"
    and rs: "gmap_ok rs" "fst ` set rs = profile ` set migs"
      "\<forall>p \<in> profile ` set migs. gget rs p = Some \<lparr>mr_name = f p, mr_device = hd (named profile p migs),
         mr_count = int (length (named profile p migs))\<rparr>"
  shows "\<exists>ls. newMIGDeviceLabelers D os rs config = Ret (LList ls) \<and>
    list_all2 (\<lambda>l p. implements_labels (mig_rl (f p) (Some config)) l
        (profile_value config (f p) migs model profile attrs p)) ls
      (map fst (range_perm (ord_profiles os) rs))"
proof -
  have "\<exists>ls. mapM_go (\<lambda>(_, r). wrap ''failed to construct labeler: ''
        (NewMIGResourceLabeler D (mr_name r) (Some config) (mr_device r) (mr_count r))) xs = Ret ls \<and>
      list_all2 (\<lambda>l p. implements_labels (mig_rl (f p) (Some config)) l
        (profile_value config (f p) migs model profile attrs p)) ls (map fst xs)"
    if "set xs \<subseteq> set rs" for xs
    using that
  proof (induction xs)
    case Nil
    then show ?case by simp
  next
    case (Cons x xs)
    then obtain p r where x: "x = (p, r)" "(p, r) \<in> set rs" by (cases x) auto
    then have p: "p \<in> profile ` set migs" using rs(2) image_eqI [of p fst "(p, r)" "set rs"] by simp
    moreover have "gget rs p = Some r" using x(2) rs(1) by (simp add: gmap_ok_def)
    ultimately have r: "r = \<lparr>mr_name = f p, mr_device = hd (named profile p migs),
         mr_count = int (length (named profile p migs))\<rparr>" using rs(3) by simp
    from profile_labeler [OF node p, of "f p" config] Cons show ?case by (auto simp: x(1) r)
  qed
  from this [of "range_perm (ord_profiles os) rs"] show ?thesis
    by (auto simp: newMIGDeviceLabelers_def)
qed

section \<open>The single strategy\<close>

text \<open>
  The node is valid for the strategy when all of its GPUs are MIG-enabled, none of them is
  empty, and their MIG devices have one profile.
\<close>

definition single_valid ::
  "'d list \<Rightarrow> 'd list \<Rightarrow> ('d \<Rightarrow> 'd list) \<Rightarrow> ('d \<Rightarrow> string) \<Rightarrow> string \<Rightarrow> bool" where
  "single_valid enabled disabled migs profile p \<longleftrightarrow>
     enabled \<noteq> [] \<and> disabled = [] \<and> (\<forall>d \<in> set enabled. migs d \<noteq> []) \<and>
     (\<forall>d \<in> set enabled. \<forall>m \<in> set (migs d). profile m = p)"

definition invalid_value :: "string \<Rightarrow> string \<Rightarrow> string option" where
  "invalid_value model t =
     (if t \<in> {''count'', ''replicas'', ''memory''} then Some ''0''
      else if t = ''product''
      then Some (go_join ''-'' (map (replace_all CHR '' '' CHR ''-'')
                   (filter (\<lambda>p. p \<noteq> '''') [model, ''MIG'', ''INVALID''])))
      else None)"

lemma owned_updateLabel [simp]: "owned rl (rl_updateLabel rl m s v) \<longleftrightarrow> owned rl m"
  by (auto simp: owned_def rl_updateLabel_def gset_keys)

lemma gmap_ok_updateLabel [simp]: "gmap_ok m \<Longrightarrow> gmap_ok (rl_updateLabel rl m s v)"
  by (simp add: rl_updateLabel_def)

lemma show_zero [simp]: "show_int 0 = ''0''"
  by code_simp

lemma invalid_labels:
  assumes "dev_GetName D d = Ret model"
  shows "\<exists>l. newInvalidMigStrategyLabeler D d reason = Ret l \<and>
    implements_labels (gpu_rl None) l (invalid_value model)"
proof -
  let ?rl = "gpu_rl None"
  let ?m = "rl_updateLabel ?rl (rl_updateLabel ?rl (rl_updateLabel ?rl
      (rl_productLabel ?rl [model, ''MIG'', ''INVALID'']) ''count'' (VInt 0)) ''replicas'' (VInt 0))
      ''memory'' (VInt 0)"
  have "newInvalidMigStrategyLabeler D d reason = Ret (LLabels ?m)"
    using assms by (simp add: newInvalidMigStrategyLabeler_def gpu_rl_def fullGPUResourceName_def Let_def)
  moreover have "implements_labels ?rl (LLabels ?m) (\<lambda>t. gget ?m (rl_key ?rl t))"
    by (rule implements_LLabels) simp_all
  then have "implements_labels ?rl (LLabels ?m) (invalid_value model)"
    by (rule implements_cong)
      (simp add: gget_updateLabel gget_productLabel invalid_value_def product_value_def
        rl_isShared_def rl_replicationInfo_def gpu_rl_def)
  ultimately show ?thesis by blast
qed

lemma single_no_mig:
  assumes "mig_node D M s ds migs" and "with_mode D True ds = []"
  shows "newMigStrategySingleLabeler D M s os config = Ret LEmpty"
proof -
  obtain di where "GetDevicesWithMigEnabled D M s NewDeviceInfo = (di, Ret [])"
    using device_info_ops(1) [OF assms(1) di_ok_New] assms(2) by auto
  then show ?thesis by (simp add: newMigStrategySingleLabeler_def)
qed

text \<open>The function up to the tests, on a node with MIG-enabled devices.\<close>

lemma single_run:
  assumes N: "mig_node D M s ds migs" and en: "with_mode D True ds \<noteq> []"
  shows "newMigStrategySingleLabeler D M s os config =
    (if (\<exists>d \<in> set (with_mode D True ds). migs d = []) then
       newInvalidMigStrategyLabeler D (hd (with_mode D True ds))
         ''at least one MIG device is enabled but empty''
     else if with_mode D False ds \<noteq> [] then
       newInvalidMigStrategyLabeler D (hd (with_mode D True ds))
         ''devices with MIG enabled and disable detected''
     else
       gbind (foldM_go (count_mig D (\<lambda>_. fullGPUResourceName))
                (concat (map migs (with_mode D True ds))) []) (\<lambda>resources.
       if length resources \<noteq> 1
       then newInvalidMigStrategyLabeler D (hd (with_mode D True ds))
              ''more than one MIG device type present on node''
       else newMIGDeviceLabelers D os resources config))"
proof -
  obtain d1 where 1: "GetDevicesWithMigEnabled D M s NewDeviceInfo = (d1, Ret (with_mode D True ds))"
    "di_ok D ds d1" using device_info_ops(1) [OF N di_ok_New] by blast
  obtain d2 where 2: "AnyMigEnabledDeviceIsEmpty D M s d1 =
      (d2, Ret (\<exists>d \<in> set (with_mode D True ds). migs d = []))" "di_ok D ds d2"
    using device_info_ops(3) [OF N 1(2)] en by auto
  obtain d3 where 3: "GetDevicesWithMigDisabled D M s d2 = (d3, Ret (with_mode D False ds))"
    "di_ok D ds d3" using device_info_ops(2) [OF N 2(2)] by blast
  obtain d4 where 4: "GetAllMigDevices D M s d3 =
      (d4, Ret (concat (map migs (with_mode D True ds))))"
    using device_info_ops(4) [OF N 3(2)] by blast
  show ?thesis
    using 1(1) 2(1) 3(1) 4 en by (simp add: newMigStrategySingleLabeler_def)
qed

lemma mig_rl_full: "mig_rl fullGPUResourceName c = gpu_rl c"
  by (simp add: mig_rl_def gpu_rl_def)

lemma single_labels_valid:
  assumes N: "mig_node D M s ds migs"
    and node: "mig_devices_node D (concat (map migs (with_mode D True ds))) model profile attrs"
    and valid: "single_valid (with_mode D True ds) (with_mode D False ds) migs profile p"
  shows "\<exists>l. newMigStrategySingleLabeler D M s os config = Ret l \<and>
    implements_labels (gpu_rl (Some config)) l
      (profile_value config fullGPUResourceName (concat (map migs (with_mode D True ds)))
         model profile attrs p)"
proof -
  let ?en = "with_mode D True ds" and ?f = "\<lambda>_ :: string. fullGPUResourceName"
  let ?migs = "concat (map migs ?en)"
  have en: "?en \<noteq> []" and ne: "\<not> (\<exists>d \<in> set ?en. migs d = [])" and dis: "with_mode D False ds = []"
    and all: "\<forall>d \<in> set ?migs. profile d = p"
    using valid by (auto simp: single_valid_def)
  have "?migs \<noteq> []" using en ne by (cases ?en) auto
  then have ps: "profile ` set ?migs = {p}" using all by (cases ?migs) auto
  obtain rs where rs: "foldM_go (count_mig D ?f) ?migs [] = Ret rs" "gmap_ok rs"
    "fst ` set rs = profile ` set ?migs"
    "\<forall>p \<in> profile ` set ?migs. gget rs p = Some \<lparr>mr_name = ?f p,
       mr_device = hd (named profile p ?migs), mr_count = int (length (named profile p ?migs))\<rparr>"
    using count_migs [OF mig_devices_names [OF node], of ?f] by blast
  have "length rs = card (fst ` set rs)"
    using rs(2) distinct_card [of "map fst rs"] by (simp add: gmap_ok_def)
  then have len: "length rs = 1" unfolding rs(3) ps by simp
  then obtain r where r: "rs = [r]" by (auto simp: length_Suc_conv)
  then have "fst r = p" using rs(3) ps by simp
  moreover obtain ls where "newMIGDeviceLabelers D os rs config = Ret (LList ls)"
    "list_all2 (\<lambda>l p. implements_labels (mig_rl fullGPUResourceName (Some config)) l
        (profile_value config fullGPUResourceName ?migs model profile attrs p)) ls
      (map fst (range_perm (ord_profiles os) rs))"
    using newMIGDeviceLabelers_spec [OF node rs(2-4)] by blast
  ultimately obtain l where l: "newMIGDeviceLabelers D os rs config = Ret (LList [l])"
    "implements_labels (mig_rl fullGPUResourceName (Some config)) l
       (profile_value config fullGPUResourceName ?migs model profile attrs p)"
    by (auto simp: r list_all2_Cons2)
  from implements_Merge [of "mig_rl fullGPUResourceName (Some config)" "[l]"
      "[profile_value config fullGPUResourceName ?migs model profile attrs p]"] l(2)
  have "implements_labels (gpu_rl (Some config)) (LList [l])
      (profile_value config fullGPUResourceName ?migs model profile attrs p)"
    by (simp add: mig_rl_full Merge_def)
  moreover have "newMigStrategySingleLabeler D M s os config = Ret (LList [l])"
    using single_run [OF N en] ne dis rs(1) len l(1) by simp
  ultimately show ?thesis by blast
qed

lemma single_labels_invalid:
  assumes N: "mig_node D M s ds migs"
    and names: "names_known D profile (concat (map migs (with_mode D True ds)))"
    and en: "with_mode D True ds \<noteq> []"
    and name: "dev_GetName D (hd (with_mode D True ds)) = Ret model"
    and invalid: "\<nexists>p. single_valid (with_mode D True ds) (with_mode D False ds) migs profile p"
  shows "\<exists>l. newMigStrategySingleLabeler D M s os config = Ret l \<and>
    implements_labels (gpu_rl None) l (invalid_value model)"
proof -
  let ?en = "with_mode D True ds" and ?f = "\<lambda>_ :: string. fullGPUResourceName"
  let ?migs = "concat (map migs ?en)"
  obtain rs where rs: "foldM_go (count_mig D ?f) ?migs [] = Ret rs" "gmap_ok rs"
    "fst ` set rs = profile ` set ?migs"
    using count_migs [OF names, of ?f] by blast
  have "length rs \<noteq> 1" if "\<forall>d \<in> set ?en. migs d \<noteq> []" "with_mode D False ds = []"
  proof
    assume "length rs = 1"
    then obtain r where "rs = [r]" by (auto simp: length_Suc_conv)
    with rs(3) have "profile ` set ?migs = {fst r}" by simp
    then have "\<forall>d \<in> set ?en. \<forall>m \<in> set (migs d). profile m = fst r" by auto
    with that en invalid show False by (auto simp: single_valid_def)
  qed
  then show ?thesis
    using single_run [OF N en, of os config] rs(1) invalid_labels [OF name] by auto
qed

section \<open>The mixed strategy\<close>

text \<open>The suffixes of the labels of MIG devices: the common ones and the attributes of NVML.\<close>

definition mig_attribute_names :: "string list" where
  "mig_attribute_names =
     [''memory'', ''multiprocessors'', ''slices.gi'', ''slices.ci'', ''engines.copy'',
      ''engines.decoder'', ''engines.encoder'', ''engines.jpeg'', ''engines.ofa'']"

definition mig_suffixes :: "string list" where
  "mig_suffixes = [''product'', ''count'', ''replicas''] @ mig_attribute_names"

text \<open>
  No suffix ends in a dot and another one, so the labels of two profiles never have the same
  name, whatever the profiles are called.
\<close>

lemma suffixes_separate:
  "list_all (\<lambda>t. list_all (\<lambda>u. \<not> has_suffix (CHR ''.'' # t) u) mig_suffixes) mig_suffixes"
  by code_simp

lemma suffix_not_dotted: "t \<in> set mig_suffixes \<Longrightarrow> u \<in> set mig_suffixes \<Longrightarrow> u \<noteq> w @ ''.'' @ t"
proof
  assume "t \<in> set mig_suffixes" and "u \<in> set mig_suffixes" and u: "u = w @ ''.'' @ t"
  then have "\<not> has_suffix (CHR ''.'' # t) u" using suffixes_separate by (simp add: list_all_iff)
  then show False by (simp add: u has_suffix_def has_prefix_iff)
qed

lemma profile_keys_inject:
  assumes "t \<in> set mig_suffixes" and "u \<in> set mig_suffixes" and eq: "p @ ''.'' @ t = q @ ''.'' @ u"
  shows "p = q \<and> t = u"
proof -
  have aux: "us = []" if "us @ ''.'' @ b = ''.'' @ a" "a \<in> set mig_suffixes" "b \<in> set mig_suffixes"
    for us a b
  proof (rule ccontr)
    assume "us \<noteq> []"
    then have "a = tl us @ ''.'' @ b" using that(1) by (cases us) auto
    with suffix_not_dotted [OF that(3,2)] show False by blast
  qed
  from eq obtain us where "p = q @ us \<and> us @ ''.'' @ t = ''.'' @ u \<or> p @ us = q \<and> ''.'' @ t = us @ ''.'' @ u"
    by (auto simp: append_eq_append_conv2)
  with aux [of us t u] aux [of us u t] assms(1,2) have "us = []" by metis
  with \<open>p = q @ us \<and> _ \<or> _\<close> show ?thesis by auto
qed

lemma overlay_none: "(\<And>f. f \<in> set fs \<Longrightarrow> f k = None) \<Longrightarrow> overlay_all fs k = None"
  by (induction fs) (auto simp: map_add_def)

lemma overlay_unique:
  "x \<in> set xs \<Longrightarrow> (\<And>y. y \<in> set xs \<Longrightarrow> g y k \<noteq> None \<Longrightarrow> y = x) \<Longrightarrow> overlay_all (map g xs) k = g x k"
proof (induction xs)
  case (Cons y ys)
  show ?case
  proof (cases "x \<in> set ys")
    case True
    then have tail: "overlay_all (map g ys) k = g x k" using Cons by simp
    show ?thesis
    proof (cases "g x k")
      case None
      then have "g y k = None" using Cons.prems(2) [of y] by fastforce
      then show ?thesis by (simp add: map_add_def tail None)
    next
      case (Some v)
      then show ?thesis by (simp add: map_add_def tail)
    qed
  next
    case False
    with Cons.prems(1) have y: "y = x" by simp
    have "overlay_all (map g ys) k = None"
    proof (rule overlay_none)
      fix f assume "f \<in> set (map g ys)"
      then obtain z where "z \<in> set ys" "f = g z" by auto
      with Cons.prems(2) [of z] False show "f k = None" by fastforce
    qed
    then show ?thesis by (simp add: map_add_def y)
  qed
qed simp

lemma last_wins_overlay: "last_wins ms = overlay_all (map gget ms)"
  by (induction ms) auto

text \<open>
  Labelers of resources with different names: a label keeps the value its own labeler gives it
  when no other labeler has a label of that name.
\<close>

lemma separate_Merge:
  assumes "list_all2 (\<lambda>l x. implements_labels (rl x) l (f x)) ls xs" and "distinct xs"
  shows "\<exists>m. Labels_of (LList ls) = Ret m \<and> gmap_ok m \<and> list_all labeler_ok ls \<and>
    (\<forall>k \<in> fst ` set m. \<exists>x \<in> set xs. k \<in> range (rl_key (rl x))) \<and>
    (\<forall>x \<in> set xs. \<forall>t.
       (\<forall>y \<in> set xs. \<forall>u. rl_key (rl x) t = rl_key (rl y) u \<and> f y u \<noteq> None \<longrightarrow> y = x) \<longrightarrow>
       gget m (rl_key (rl x) t) = f x t)"
proof -
  from assms have "\<exists>g. list_all2 (\<lambda>l m. Labels_of l = Ret m) ls (map g xs) \<and> list_all labeler_ok ls \<and>
      (\<forall>x \<in> set xs. owned (rl x) (g x) \<and> (\<forall>t. gget (g x) (rl_key (rl x) t) = f x t))"
  proof (induction rule: list_all2_induct)
    case Nil
    then show ?case by simp
  next
    case (Cons l ls x xs)
    then obtain g where g: "list_all2 (\<lambda>l m. Labels_of l = Ret m) ls (map g xs)" "list_all labeler_ok ls"
      "\<forall>x \<in> set xs. owned (rl x) (g x) \<and> (\<forall>t. gget (g x) (rl_key (rl x) t) = f x t)" by auto
    from Cons.hyps obtain m where m: "labeler_ok l" "Labels_of l = Ret m" "owned (rl x) m"
      "\<forall>t. gget m (rl_key (rl x) t) = f x t" by (auto simp: implements_labels_def)
    from Cons.prems have x: "x \<notin> set xs" by simp
    then have map: "map (g(x := m)) xs = map g xs" by simp
    have "list_all2 (\<lambda>l m. Labels_of l = Ret m) (l # ls) (map (g(x := m)) (x # xs))"
      using g(1) m(2) by (simp only: list.map map list_all2_Cons fun_upd_same)
    moreover have "\<forall>y \<in> set (x # xs). owned (rl y) ((g(x := m)) y) \<and>
        (\<forall>t. gget ((g(x := m)) y) (rl_key (rl y) t) = f y t)"
      using g(3) m(3,4) by simp
    moreover have "list_all labeler_ok (l # ls)" using g(2) m(1) by simp
    ultimately show ?case by blast
  qed
  then obtain g where g: "list_all2 (\<lambda>l m. Labels_of l = Ret m) ls (map g xs)" "list_all labeler_ok ls"
    "\<forall>x \<in> set xs. owned (rl x) (g x) \<and> (\<forall>t. gget (g x) (rl_key (rl x) t) = f x t)" by blast
  obtain m where m: "Labels_of (LList ls) = Ret m" "gmap_ok m" "gget m = overlay_all (map (\<lambda>x. gget (g x)) xs)"
    using Labels_Merge [OF g(1,2)] by (auto simp: Merge_def last_wins_overlay comp_def)
  have keys: "\<exists>x \<in> set xs. k \<in> range (rl_key (rl x))" if "k \<in> fst ` set m" for k
  proof -
    from that have "overlay_all (map (\<lambda>x. gget (g x)) xs) k \<noteq> None"
      using gget_None_iff [of m k] by (simp only: m(3) not_not simp_thms)
    then obtain x where "x \<in> set xs" "gget (g x) k \<noteq> None"
      using overlay_none [of "map (\<lambda>x. gget (g x)) xs" k] by (metis (no_types, lifting) image_iff list.set_map)
    with g(3) show ?thesis unfolding owned_iff by blast
  qed
  have "gget m (rl_key (rl x) t) = f x t" if x: "x \<in> set xs"
    and sep: "\<forall>y \<in> set xs. \<forall>u. rl_key (rl x) t = rl_key (rl y) u \<and> f y u \<noteq> None \<longrightarrow> y = x" for x t
  proof -
    have "overlay_all (map (\<lambda>x. gget (g x)) xs) (rl_key (rl x) t) = gget (g x) (rl_key (rl x) t)"
    proof (rule overlay_unique [OF x])
      fix y assume y: "y \<in> set xs" "gget (g y) (rl_key (rl x) t) \<noteq> None"
      with g(3) obtain u where u: "rl_key (rl x) t = rl_key (rl y) u" unfolding owned_iff by blast
      with y g(3) have "f y u \<noteq> None" by metis
      with sep y(1) u show "y = x" by blast
    qed
    with x g(3) show ?thesis by (simp add: m(3))
  qed
  with m(1,2) g(2) keys show ?thesis by blast
qed

definition profile_resource :: "string \<Rightarrow> string" where
  "profile_resource p = ''nvidia.com/mig-'' @ p"

lemma profile_value_suffix:
  "fst ` set (attrs (hd (named profile p migs))) \<subseteq> set mig_attribute_names \<Longrightarrow>
   profile_value config name migs model profile attrs p t \<noteq> None \<Longrightarrow> t \<in> set mig_suffixes"
  by (auto simp: profile_value_def mig_value_def Let_def base_value_def mig_suffixes_def gget_None_iff
      split: option.splits if_splits dest!: map_of_SomeD)

lemma rl_key_profile:
  "rl_key (mig_rl (profile_resource p) c) t = ''nvidia.com/mig-'' @ p @ ''.'' @ t"
  by (simp add: rl_key_def mig_rl_def profile_resource_def)

text \<open>The MIG labels of a node under the mixed strategy, for every order of the loop.\<close>

lemma mixed_labels:
  assumes N: "mig_node D M s ds migs"
    and all: "all = concat (map migs (with_mode D True ds))"
    and node: "mig_devices_node D all model profile attrs"
    and nvml: "\<forall>d \<in> set all. fst ` set (attrs d) \<subseteq> set mig_attribute_names"
  shows "\<exists>l m. newMigStrategyMixedLabeler D M s os config = Ret l \<and> labeler_ok l \<and>
    Labels_of l = Ret m \<and> gmap_ok m \<and>
    (\<forall>k \<in> fst ` set m. \<exists>p \<in> profile ` set all. \<exists>t. k = ''nvidia.com/mig-'' @ p @ ''.'' @ t) \<and>
    (\<forall>p \<in> profile ` set all. \<forall>t \<in> set mig_suffixes.
       gget m (''nvidia.com/mig-'' @ p @ ''.'' @ t) =
       profile_value config (profile_resource p) all model profile attrs p t)"
proof -
  let ?f = profile_resource
  let ?rl = "\<lambda>p. mig_rl (?f p) (Some config)"
  let ?v = "\<lambda>p. profile_value config (?f p) all model profile attrs p"
  obtain di where di: "GetAllMigDevices D M s NewDeviceInfo = (di, Ret all)"
    using device_info_ops(4) [OF N di_ok_New] all by blast
  obtain rs where rs: "foldM_go (count_mig D ?f) all [] = Ret rs" "gmap_ok rs"
    "fst ` set rs = profile ` set all"
    "\<forall>p \<in> profile ` set all. gget rs p = Some \<lparr>mr_name = ?f p,
       mr_device = hd (named profile p all), mr_count = int (length (named profile p all))\<rparr>"
    using count_migs [OF mig_devices_names [OF node], of ?f] by blast
  let ?ps = "map fst (range_perm (ord_profiles os) rs)"
  obtain ls where ls: "newMIGDeviceLabelers D os rs config = Ret (LList ls)"
    "list_all2 (\<lambda>l p. implements_labels (?rl p) l (?v p)) ls ?ps"
    using newMIGDeviceLabelers_spec [OF node rs(2-4)] by blast
  have ps: "set ?ps = profile ` set all" "distinct ?ps"
    using rs(2,3) by (simp_all add: rng.ord_map_distinct gmap_ok_def)
  obtain m where m: "Labels_of (LList ls) = Ret m" "gmap_ok m" "list_all labeler_ok ls"
    "\<forall>k \<in> fst ` set m. \<exists>p \<in> set ?ps. k \<in> range (rl_key (?rl p))"
    "\<forall>p \<in> set ?ps. \<forall>t. (\<forall>q \<in> set ?ps. \<forall>u. rl_key (?rl p) t = rl_key (?rl q) u \<and> ?v q u \<noteq> None \<longrightarrow> q = p)
       \<longrightarrow> gget m (rl_key (?rl p) t) = ?v p t"
    using separate_Merge [OF ls(2) ps(2)] by blast
  have "gget m (rl_key (?rl p) t) = ?v p t" if p: "p \<in> set ?ps" and t: "t \<in> set mig_suffixes" for p t
  proof -
    have "q = p" if "q \<in> set ?ps" "rl_key (?rl p) t = rl_key (?rl q) u" "?v q u \<noteq> None" for q u
    proof -
      from that(1) ps(1) have "hd (named profile q all) \<in> set all" using hd_named [of q profile all] by simp
      with nvml have "u \<in> set mig_suffixes" using profile_value_suffix [OF _ that(3)] by blast
      with t that(2) profile_keys_inject [of t u p q] show ?thesis by (simp add: rl_key_profile)
    qed
    with m(5) p show ?thesis by blast
  qed
  moreover have "newMigStrategyMixedLabeler D M s os config = Ret (LList ls)"
    using di rs(1) ls(1) by (simp add: newMigStrategyMixedLabeler_def profile_resource_def [abs_def])
  moreover have "\<exists>p \<in> profile ` set all. \<exists>t. k = ''nvidia.com/mig-'' @ p @ ''.'' @ t" if "k \<in> fst ` set m" for k
  proof -
    from m(4) that obtain p t where "p \<in> set ?ps" "k = rl_key (?rl p) t" by blast
    then show ?thesis unfolding ps(1) rl_key_profile by blast
  qed
  moreover have "labeler_ok (LList ls)" using m(3) by simp
  ultimately show ?thesis
    using m(1,2) unfolding ps(1) rl_key_profile by blast
qed

section \<open>No crash\<close>

lemma NewGPUResourceLabeler_static: "NewGPUResourceLabeler D config d cnt = Ret l \<Longrightarrow> static l"
  by (auto simp: NewGPUResourceLabeler_def rl_baseLabeler_def Let_def split: if_splits)

text \<open>
  Over any manager and devices that keep their contracts, the labelers are made or an error is
  returned, once the configuration names a strategy.
\<close>

context manager_contract
begin

lemma newInvalid_no_crash: "no_crash (newInvalidMigStrategyLabeler D d reason)"
  unfolding newInvalidMigStrategyLabeler_def
  by (auto intro!: no_crash_gbind simp: device_no_crash Let_def)

lemma count_mig_no_crash: "no_crash (count_mig D f d rs)"
  unfolding count_mig_def by (auto intro!: no_crash_gbind simp: device_no_crash Let_def)

lemma newMIGDeviceLabelers_no_crash: "no_crash (newMIGDeviceLabelers D os rs config)"
  unfolding newMIGDeviceLabelers_def
  by (auto intro!: no_crash_gbind mapM_go_no_crash simp: NewMIGResourceLabeler_no_crash)

lemma newMigStrategySingle_no_crash:
  "inv s \<Longrightarrow> no_crash (newMigStrategySingleLabeler D M s os config)"
  unfolding newMigStrategySingleLabeler_def
  by (auto intro!: no_crash_sbind no_crash_gbind foldM_go_no_crash
      simp: device_info_no_crash newInvalid_no_crash newMIGDeviceLabelers_no_crash count_mig_no_crash)

lemma newMigStrategyMixed_no_crash:
  "inv s \<Longrightarrow> no_crash (newMigStrategyMixedLabeler D M s os config)"
  unfolding newMigStrategyMixedLabeler_def
  by (auto intro!: no_crash_sbind no_crash_gbind foldM_go_no_crash
      simp: device_info_no_crash newMIGDeviceLabelers_no_crash count_mig_no_crash)

lemma collect_gpu_no_crash: "no_crash (collect_gpu D d st)"
  unfolding collect_gpu_def by (auto intro!: no_crash_gbind simp: device_no_crash)

lemma newGPULabelers_no_crash:
  assumes "inv s"
  shows "no_crash (newGPULabelers D M s os config)"
proof -
  have "no_crash (list_Labels (ls1 @ ls2) [])"
    if "mapM_go (\<lambda>(n, d). wrap msg (NewGPUResourceLabeler D c (g n d) (h n d))) xs = Ret ls1"
      "mapM_go (\<lambda>(n, d). wrap msg (NewGPUResourceLabeler D c' (g n d) (h n d))) ys = Ret ls2"
    for ls1 ls2 msg c c' g h xs ys
  proof -
    from that have "list_all static ls1" "list_all static ls2"
      by (auto simp: mapM_go_Ret_iff list_all2_conv_all_nth list_all_length split_beta
          dest: NewGPUResourceLabeler_static)
    then obtain m where "list_Labels (ls1 @ ls2) [] = Ret m"
      using static_Ret(2) [of "ls1 @ ls2" "[]"] by auto
    then show ?thesis by simp
  qed
  then show ?thesis
    unfolding newGPULabelers_def NewGPUResourceLabelerWithoutSharing_def
    by (auto intro!: no_crash_gbind mapM_go_no_crash foldM_go_no_crash
        simp: GetDevicesMap_no_crash [OF assms] NewGPUResourceLabeler_no_crash collect_gpu_no_crash)
qed

lemma newMigLabeler_no_crash:
  "inv s \<Longrightarrow> fl_MigStrategy (cfg_Flags config) \<noteq> None \<Longrightarrow> no_crash (newMigLabeler D M s os config)"
  unfolding newMigLabeler_def
  by (auto intro!: no_crash_gbind
      simp: newMigStrategySingle_no_crash newMigStrategyMixed_no_crash)

lemma NewResourceLabeler_no_crash:
  "inv s \<Longrightarrow> fl_MigStrategy (cfg_Flags config) \<noteq> None \<Longrightarrow>
   no_crash (NewResourceLabeler D M s os config)"
  unfolding NewResourceLabeler_def
  by (auto intro!: no_crash_gbind
      simp: GetDevices_no_crash newGPULabelers_no_crash newMigLabeler_no_crash)

end

end
