(* ===== verification/Nvml_Labels.thy ===== *)
theory Nvml_Labels
  imports Managers Mig_Strategy
begin

text \<open>
  \<^verbatim>\<open>internal/lm/nvml.go\<close> and \<^verbatim>\<open>internal/lm/labeler.go\<close>: the labels of a node from its manager
  (machine type, versions, MIG capability, resources), between \<^verbatim>\<open>Init\<close> and the deferred
  \<^verbatim>\<open>Shutdown\<close>, merged with those of the vGPUs.
\<close>

section \<open>Operations\<close>

definition newVersionLabeler :: "('s, 'd) manager_ops \<Rightarrow> 's \<Rightarrow> labeler go" where
  "newVersionLabeler M s =
     gbind (wrap ''error getting driver version: '' (mgr_GetDriverVersion M s)) (\<lambda>driverVersion.
     let driverVersionSplit = go_split CHR ''.'' driverVersion in
     if length driverVersionSplit > 3 \<or> length driverVersionSplit < 2
     then Err (''error getting driver version: Version '' @ [CHR 0x22] @ driverVersion @ [CHR 0x22] @
               '' does not match format '' @ [CHR 0x22] @ ''X.Y[.Z]'' @ [CHR 0x22])
     else
     let driverMajor = driverVersionSplit ! 0;
         driverMinor = driverVersionSplit ! 1;
         driverRev = (if length driverVersionSplit > 2 then driverVersionSplit ! 2 else []) in
     gbind (wrap ''error getting cuda driver version: '' (mgr_GetCudaDriverVersion M s))
       (\<lambda>(cudaMajor, cudaMinor).
     Ret (LLabels
       [(''nvidia.com/cuda.driver.major'', driverMajor),
        (''nvidia.com/cuda.driver.minor'', driverMinor),
        (''nvidia.com/cuda.driver.rev'', driverRev),
        (''nvidia.com/cuda.runtime.major'', show_nat (unat cudaMajor)),
        (''nvidia.com/cuda.runtime.minor'', show_nat (unat cudaMinor))])))"

fun any_capable :: "'d device_ops \<Rightarrow> 'd list \<Rightarrow> bool go" where
  "any_capable D [] = Ret False"
| "any_capable D (d # ds) =
     gbind (wrap ''error getting mig capability: '' (dev_IsMigCapable D d))
       (\<lambda>isMigCapable. if isMigCapable then Ret True else any_capable D ds)"

definition newMigCapabilityLabeler ::
  "'d device_ops \<Rightarrow> ('s, 'd) manager_ops \<Rightarrow> 's \<Rightarrow> labeler go" where
  "newMigCapabilityLabeler D M s =
     gbind (mgr_GetDevices M s) (\<lambda>devices.
     if devices = [] then Ret LEmpty
     else
     gbind (any_capable D devices) (\<lambda>isMigCapable.
     Ret (LLabels [(''nvidia.com/mig.capable'', show_bool isMigCapable)])))"

text \<open>The part of \<^verbatim>\<open>NewNVMLLabeler\<close> after \<^verbatim>\<open>Init\<close>; the manager does not change in it.\<close>

definition nvml_labeler_body ::
  "(string \<Rightarrow> string go) \<Rightarrow> 'd device_ops \<Rightarrow> ('s, 'd) manager_ops \<Rightarrow> orders \<Rightarrow> config \<Rightarrow> 's \<Rightarrow>
   labeler go" where
  "nvml_labeler_body readFile D M os config s =
     gbind (wrap ''error getting devices: '' (mgr_GetDevices M s)) (\<lambda>devices.
     if devices = [] then Ret LEmpty
     else
     gbind (gfd_flag config gf_MachineTypeFile) (\<lambda>machineTypeFile.
     gbind (wrap ''failed to construct machine type labeler: ''
              (newMachineTypeLabeler readFile machineTypeFile)) (\<lambda>machineTypeLabeler.
     gbind (wrap ''failed to construct version labeler: '' (newVersionLabeler M s))
       (\<lambda>versionLabeler.
     gbind (wrap ''error creating mig capability labeler: '' (newMigCapabilityLabeler D M s))
       (\<lambda>migCapabilityLabeler.
     gbind (wrap ''error creating resource labeler: '' (NewResourceLabeler D M s os config))
       (\<lambda>resourceLabeler.
     Ret (Merge [machineTypeLabeler, versionLabeler, migCapabilityLabeler, resourceLabeler])))))))"

text \<open>
  \<^verbatim>\<open>defer manager.Shutdown()\<close>: it runs when the body returns or panics, its error is dropped.
\<close>

definition defer_shutdown ::
  "('s, 'd) manager_ops \<Rightarrow> ('s \<Rightarrow> 'a go) \<Rightarrow> ('s, 'a) sgo" where
  "defer_shutdown M body = (\<lambda>s.
     case body s of
       Diverge \<Rightarrow> (s, Diverge)
     | r \<Rightarrow> (case mgr_Shutdown M s of
           (s', Panic p) \<Rightarrow> (s', Panic p)
         | (s', Diverge) \<Rightarrow> (s', Diverge)
         | (s', _) \<Rightarrow> (s', r)))"

definition NewNVMLLabeler ::
  "(string \<Rightarrow> string go) \<Rightarrow> 'd device_ops \<Rightarrow> ('s, 'd) manager_ops \<Rightarrow> orders \<Rightarrow> config \<Rightarrow>
   ('s, labeler) sgo" where
  "NewNVMLLabeler readFile D M os config =
     sbind (swrap ''failed to initialize NVML: '' (mgr_Init M)) (\<lambda>_.
     defer_shutdown M (nvml_labeler_body readFile D M os config))"

definition NewLabelers ::
  "(string \<Rightarrow> string go) \<Rightarrow> 'd device_ops \<Rightarrow> ('s, 'd) manager_ops \<Rightarrow> orders \<Rightarrow> vgpu_lib \<Rightarrow> config \<Rightarrow>
   ('s, labeler) sgo" where
  "NewLabelers readFile D M os vgpu config =
     sbind (swrap ''error creating NVML labeler: '' (NewNVMLLabeler readFile D M os config))
       (\<lambda>nvmlLabeler. sret (Merge [nvmlLabeler, NewVGPULabeler vgpu]))"

section \<open>MIG capability\<close>

lemma any_capable_spec:
  assumes "\<And>d. d \<in> set ds \<Longrightarrow> dev_IsMigCapable D d = Ret (f d)"
  shows "any_capable D ds = Ret (\<exists>d \<in> set ds. f d)"
  using assms by (induction ds) auto

lemma any_capable_no_crash:
  "(\<And>d. d \<in> set ds \<Longrightarrow> no_crash (dev_IsMigCapable D d)) \<Longrightarrow> no_crash (any_capable D ds)"
  by (induction ds) (auto intro!: no_crash_gbind)

section \<open>Init and Shutdown\<close>

lemma defer_shutdown_Ret: "defer_shutdown M body s = (s', Ret x) \<Longrightarrow> body s = Ret x"
  by (cases "body s"; cases "mgr_Shutdown M s"; cases "snd (mgr_Shutdown M s)")
    (simp_all add: defer_shutdown_def)

text \<open>
  The manager is shut down exactly when its initialisation succeeded, whatever the labelers do,
  and a failure of \<^verbatim>\<open>Shutdown\<close> is not reported.
\<close>

lemma NewNVMLLabeler_shutdown:
  assumes "mgr_Init M s = (s1, Ret ())" and "nvml_labeler_body readFile D M os config s1 = r"
    and "r \<noteq> Diverge" and "no_crash (snd (mgr_Shutdown M s1))"
  shows "NewNVMLLabeler readFile D M os config s = (fst (mgr_Shutdown M s1), r)"
  using assms
  by (cases "mgr_Shutdown M s1")
    (auto simp: NewNVMLLabeler_def defer_shutdown_def split: go.splits)

lemma NewNVMLLabeler_init_error:
  "mgr_Init M s = (s1, Err e) \<Longrightarrow>
   NewNVMLLabeler readFile D M os config s = (s1, Err (''failed to initialize NVML: '' @ e))"
  by (simp add: NewNVMLLabeler_def)

definition reads_files :: "(string \<Rightarrow> string go) \<Rightarrow> bool" where
  "reads_files readFile \<longleftrightarrow> (\<forall>path. no_crash (readFile path))"

lemma newMachineTypeLabeler_no_crash:
  assumes "reads_files readFile"
  shows "no_crash (newMachineTypeLabeler readFile path)"
proof -
  have "no_crash (getMachineType readFile path)"
    using assms by (auto simp: getMachineType_def reads_files_def intro!: no_crash_gbind)
  then show ?thesis
    by (cases "getMachineType readFile path") (auto simp: newMachineTypeLabeler_def)
qed

lemma config_ready_machineType: "config_ready config \<Longrightarrow> no_crash (gfd_flag config gf_MachineTypeFile)"
  by (auto simp: config_ready_def gfd_ready_def gfd_flag_def split: option.splits)

context manager_contract
begin

lemma newVersionLabeler_no_crash: "inv s \<Longrightarrow> no_crash (newVersionLabeler M s)"
  unfolding newVersionLabeler_def
  by (auto intro!: no_crash_gbind simp: GetDriverVersion_no_crash GetCudaDriverVersion_no_crash Let_def)

lemma newMigCapabilityLabeler_no_crash: "inv s \<Longrightarrow> no_crash (newMigCapabilityLabeler D M s)"
  unfolding newMigCapabilityLabeler_def
  by (auto intro!: no_crash_gbind any_capable_no_crash simp: GetDevices_no_crash device_no_crash)

lemma nvml_labeler_body_no_crash:
  assumes "inv s" and "config_ready config" and "reads_files readFile"
  shows "no_crash (nvml_labeler_body readFile D M os config s)"
proof -
  have "fl_MigStrategy (cfg_Flags config) \<noteq> None" using assms(2) by (simp add: config_ready_def)
  then show ?thesis
    unfolding nvml_labeler_body_def
    by (auto intro!: no_crash_gbind simp: GetDevices_no_crash assms config_ready_machineType
        newMachineTypeLabeler_no_crash newVersionLabeler_no_crash newMigCapabilityLabeler_no_crash
        NewResourceLabeler_no_crash)
qed

lemma defer_shutdown_contract:
  "inv s \<Longrightarrow> no_crash (body s) \<Longrightarrow>
   no_crash (snd (defer_shutdown M body s)) \<and> inv (fst (defer_shutdown M body s))"
  using Shutdown_no_crash [of s] Shutdown_inv [of s]
  by (cases "mgr_Shutdown M s") (auto simp: defer_shutdown_def split: go.splits)

lemma NewNVMLLabeler_no_crash:
  assumes "inv s" and "config_ready config" and "reads_files readFile"
  shows "no_crash (snd (NewNVMLLabeler readFile D M os config s)) \<and>
    inv (fst (NewNVMLLabeler readFile D M os config s))"
proof -
  obtain s1 r where init: "mgr_Init M s = (s1, r)" by (cases "mgr_Init M s")
  with Init_no_crash [OF assms(1)] Init_inv [OF assms(1)] have r: "no_crash r" "inv s1" by simp_all
  show ?thesis
  proof (cases r)
    case (Ret x)
    with init have "NewNVMLLabeler readFile D M os config s =
        defer_shutdown M (nvml_labeler_body readFile D M os config) s1"
      by (simp add: NewNVMLLabeler_def)
    then show ?thesis
      using defer_shutdown_contract [of s1 "nvml_labeler_body readFile D M os config"]
        nvml_labeler_body_no_crash [OF r(2) assms(2,3), of os] r(2) by simp
  next
    case (Err e)
    with init r(2) show ?thesis by (simp add: NewNVMLLabeler_init_error)
  qed (use r in auto)
qed

text \<open>\<^verbatim>\<open>NewLabelers\<close> gives labelers or an error and keeps the manager usable.\<close>

lemma NewLabelers_no_crash:
  assumes "inv s" and "config_ready config" and "reads_files readFile"
  shows "no_crash (snd (NewLabelers readFile D M os vgpu config s)) \<and>
    inv (fst (NewLabelers readFile D M os vgpu config s))"
  using NewNVMLLabeler_no_crash [OF assms, of os]
  by (cases "NewNVMLLabeler readFile D M os config s"; cases "snd (NewNVMLLabeler readFile D M os config s)")
    (auto simp: NewLabelers_def)

end

section \<open>Every label is in the namespace\<close>

lemma has_prefix_trans_append: "has_prefix p s \<Longrightarrow> has_prefix p (s @ t)"
  by (auto simp: has_prefix_iff)

lemma rl_key_ns: "in_namespace (rl_resourceName rl) \<Longrightarrow> in_namespace (rl_key rl t)"
  by (simp add: in_namespace_def rl_key_def has_prefix_trans_append del: append_Cons)

lemma rl_labels_ns: "in_namespace (rl_resourceName rl) \<Longrightarrow> labels_in_ns (rl_labels rl sv)"
  by (auto simp: labels_in_ns_def rl_labels_keys rl_key_ns)

lemma rl_productLabel_ns: "in_namespace (rl_resourceName rl) \<Longrightarrow> labels_in_ns (rl_productLabel rl ps)"
  by (simp add: rl_productLabel_def rl_single_def rl_labels_ns Let_def)

lemma rl_updateLabel_ns:
  "in_namespace (rl_resourceName rl) \<Longrightarrow> labels_in_ns m \<Longrightarrow> labels_in_ns (rl_updateLabel rl m s v)"
  by (simp add: rl_updateLabel_def rl_key_ns)

lemma labeler_in_ns_Merge [simp]: "labeler_in_ns (Merge ls) = list_all labeler_in_ns ls"
  by (simp add: Merge_def)

lemma rl_baseLabeler_ns: "in_namespace (rl_resourceName rl) \<Longrightarrow> labeler_in_ns (rl_baseLabeler rl cnt ps)"
  by (simp add: rl_baseLabeler_def rl_countLabel_def rl_replicasLabel_def rl_single_def rl_labels_ns
      rl_productLabel_ns)

lemma fullGPU_ns [simp]: "in_namespace fullGPUResourceName"
  by (simp add: fullGPUResourceName_def in_namespace_def has_prefix_def)

lemma NewGPUResourceLabeler_ns: "NewGPUResourceLabeler D config d cnt = Ret l \<Longrightarrow> labeler_in_ns l"
  by (auto simp: NewGPUResourceLabeler_def newArchitectureLabels_def rl_single_def rl_labels_ns
      rl_baseLabeler_ns Let_def split: if_splits)

lemma NewMIGResourceLabeler_ns:
  "NewMIGResourceLabeler D name config d cnt = Ret l \<Longrightarrow> in_namespace name \<Longrightarrow> labeler_in_ns l"
  by (auto simp: NewMIGResourceLabeler_def newMigAttributeLabels_def rl_labels_ns rl_baseLabeler_ns
      Let_def split: if_splits)

lemma mapM_go_list_all:
  "mapM_go f xs = Ret ys \<Longrightarrow> (\<And>x y. x \<in> set xs \<Longrightarrow> f x = Ret y \<Longrightarrow> P y) \<Longrightarrow> list_all P ys"
  by (simp add: mapM_go_Ret_iff list_all2_conv_all_nth list_all_length) (metis nth_mem)

lemma newGPULabelers_ns:
  fixes D :: "'d device_ops"
  assumes "newGPULabelers D M s os config = Ret l"
  shows "labeler_in_ns l"
proof -
  from assms obtain g h and xs ys :: "(string \<times> 'd) list" and ls1 ls2 m where
    ls: "mapM_go (\<lambda>(n, d). wrap ''failed to construct labeler: '' (NewGPUResourceLabeler D None d (g n))) xs = Ret ls1"
      "mapM_go (\<lambda>(n, d). wrap ''failed to construct labeler: '' (NewGPUResourceLabeler D (Some config) d (h n))) ys = Ret ls2"
      "list_Labels (ls1 @ ls2) [] = Ret m" "l = LLabels m"
    by (auto simp: newGPULabelers_def NewGPUResourceLabelerWithoutSharing_def split: if_splits prod.splits)
  have "list_all labeler_in_ns ls1"
    by (rule mapM_go_list_all [OF ls(1)]) (auto dest: NewGPUResourceLabeler_ns)
  moreover have "list_all labeler_in_ns ls2"
    by (rule mapM_go_list_all [OF ls(2)]) (auto dest: NewGPUResourceLabeler_ns)
  ultimately have "labels_in_ns m" using Labels_of_ns(2) [OF _ _ ls(3)] by simp
  with ls(4) show ?thesis by simp
qed

lemma count_mig_ns:
  assumes "foldM_go (count_mig D f) migs rs = Ret rs'" and "\<And>p. in_namespace (f p)"
    and "\<forall>r \<in> ran (gget rs). in_namespace (mr_name r)"
  shows "\<forall>r \<in> ran (gget rs'). in_namespace (mr_name r)"
  using assms(1,3)
proof (induction migs arbitrary: rs)
  case (Cons d migs)
  then obtain rs1 where 1: "count_mig D f d rs = Ret rs1" "foldM_go (count_mig D f) migs rs1 = Ret rs'"
    by auto
  then obtain n r where "rs1 = gset n r rs" "in_namespace (mr_name r)"
    using Cons.prems(2) assms(2) by (auto simp: count_mig_def Let_def ran_def split: option.splits) force
  with Cons.prems(2) have "\<forall>r \<in> ran (gget rs1). in_namespace (mr_name r)"
    by (auto simp: gget_gset ran_def split: if_splits)
  with Cons.IH [OF 1(2)] show ?case by blast
qed simp

lemma newMIGDeviceLabelers_ns:
  assumes "newMIGDeviceLabelers D os rs config = Ret l" and "gmap_ok rs"
    and "\<forall>r \<in> ran (gget rs). in_namespace (mr_name r)"
  shows "labeler_in_ns l"
proof -
  obtain ls where ls: "mapM_go (\<lambda>(_, r). wrap ''failed to construct labeler: ''
        (NewMIGResourceLabeler D (mr_name r) (Some config) (mr_device r) (mr_count r)))
      (range_perm (ord_profiles os) rs) = Ret ls" "l = LList ls"
    using assms(1) by (auto simp: newMIGDeviceLabelers_def)
  have "list_all labeler_in_ns ls"
  proof (rule mapM_go_list_all [OF ls(1)])
    fix x y
    assume x: "x \<in> set (range_perm (ord_profiles os) rs)"
      and y: "(case x of (_, r) \<Rightarrow> wrap ''failed to construct labeler: ''
        (NewMIGResourceLabeler D (mr_name r) (Some config) (mr_device r) (mr_count r))) = Ret y"
    obtain p r where "x = (p, r)" by (cases x)
    with x assms(2) have "gget rs p = Some r" by (simp add: gmap_ok_def)
    then have "in_namespace (mr_name r)" using assms(3) by (auto intro: ranI)
    with y \<open>x = (p, r)\<close> show "labeler_in_ns y" using NewMIGResourceLabeler_ns by auto
  qed
  with ls(2) show ?thesis by simp
qed

lemma count_mig_ok: "foldM_go (count_mig D f) migs rs = Ret rs' \<Longrightarrow> gmap_ok rs \<Longrightarrow> gmap_ok rs'"
  by (induction migs arbitrary: rs) (auto simp: count_mig_def Let_def)

lemma counted_ns:
  assumes "foldM_go (count_mig D f) migs [] = Ret rs" and "newMIGDeviceLabelers D os rs config = Ret l"
    and "\<And>p. in_namespace (f p)"
  shows "labeler_in_ns l"
  using newMIGDeviceLabelers_ns [OF assms(2) count_mig_ok [OF assms(1)] count_mig_ns [OF assms(1,3)]]
  by (simp add: ran_def)

lemma newInvalid_ns: "newInvalidMigStrategyLabeler D d r = Ret l \<Longrightarrow> labeler_in_ns l"
  by (auto simp: newInvalidMigStrategyLabeler_def Let_def fullGPUResourceName_def [symmetric]
      intro!: rl_updateLabel_ns rl_productLabel_ns)

lemma newMigStrategySingle_ns:
  "newMigStrategySingleLabeler D M s os config = Ret l \<Longrightarrow> labeler_in_ns l"
  unfolding newMigStrategySingleLabeler_def
  by (auto simp: prod_eq_iff [symmetric] sbind_def swrap_def split: prod.splits go.splits if_splits
      dest: newInvalid_ns counted_ns)

lemma in_namespace_mig: "in_namespace (''nvidia.com/mig-'' @ p)"
  by (simp add: in_namespace_def has_prefix_def)

lemma newMigStrategyMixed_ns:
  "newMigStrategyMixedLabeler D M s os config = Ret l \<Longrightarrow> labeler_in_ns l"
  unfolding newMigStrategyMixedLabeler_def
  by (auto simp: sbind_def swrap_def split: prod.splits go.splits
      dest: counted_ns [where f = "(@) ''nvidia.com/mig-''", OF _ _ in_namespace_mig])

lemma migStrategyLabeler_ns [simp]: "labeler_in_ns (migStrategyLabeler s)"
  by (simp add: migStrategyLabeler_def in_namespace_def has_prefix_def)

lemma newMigLabeler_ns: "newMigLabeler D M s os config = Ret l \<Longrightarrow> labeler_in_ns l"
  by (auto simp: newMigLabeler_def split: if_splits
      dest: newMigStrategySingle_ns newMigStrategyMixed_ns)

lemma NewResourceLabeler_ns: "NewResourceLabeler D M s os config = Ret l \<Longrightarrow> labeler_in_ns l"
  by (auto simp: NewResourceLabeler_def split: if_splits dest: newMigLabeler_ns newGPULabelers_ns)

lemma newVersionLabeler_ns: "newVersionLabeler M s = Ret l \<Longrightarrow> labeler_in_ns l"
  by (auto simp: newVersionLabeler_def Let_def in_namespace_def has_prefix_def split: if_splits)

lemma newMigCapabilityLabeler_ns: "newMigCapabilityLabeler D M s = Ret l \<Longrightarrow> labeler_in_ns l"
  by (auto simp: newMigCapabilityLabeler_def in_namespace_def has_prefix_def split: if_splits)

lemma newMachineTypeLabeler_ns: "newMachineTypeLabeler readFile path = Ret l \<Longrightarrow> labeler_in_ns l"
  by (auto simp: newMachineTypeLabeler_def in_namespace_def has_prefix_def split: go.splits)

lemma nvml_labeler_body_ns: "nvml_labeler_body readFile D M os config s = Ret l \<Longrightarrow> labeler_in_ns l"
  by (auto simp: nvml_labeler_body_def split: if_splits
      dest: newMachineTypeLabeler_ns newVersionLabeler_ns newMigCapabilityLabeler_ns
        NewResourceLabeler_ns)

lemma NewLabelers_ns:
  "NewLabelers readFile D M os vgpu config s = (s', Ret l) \<Longrightarrow> labeler_in_ns l"
  by (auto simp: NewLabelers_def NewNVMLLabeler_def sbind_Ret_iff swrap_Ret_iff NewVGPULabeler_def
      dest!: defer_shutdown_Ret nvml_labeler_body_ns)

section \<open>The labels of a node under each strategy\<close>

lemma gpu_key: "rl_key (gpu_rl c) t = ''nvidia.com/gpu.'' @ t"
  by (simp add: rl_key_def gpu_rl_def fullGPUResourceName_def)

lemma implements_gpu_iff:
  "implements_labels (gpu_rl c) l f \<Longrightarrow>
   \<exists>m. labeler_ok l \<and> Labels_of l = Ret m \<and> gmap_ok m \<and>
     (\<forall>t. gget m (''nvidia.com/gpu.'' @ t) = f t) \<and>
     (\<forall>k. gget m k \<noteq> None \<longrightarrow> (\<exists>t. k = ''nvidia.com/gpu.'' @ t))"
  unfolding implements_labels_def owned_iff gpu_key by blast

text \<open>The resource labels of a node whose devices have known modes and one model.\<close>

definition resource_node ::
  "'d device_ops \<Rightarrow> ('s, 'd) manager_ops \<Rightarrow> 's \<Rightarrow> 'd list \<Rightarrow> string \<Rightarrow> ('d \<Rightarrow> 64 word) \<Rightarrow>
   ('d \<Rightarrow> int \<times> int) \<Rightarrow> bool" where
  "resource_node D M s ds model mem cc \<longleftrightarrow>
     mgr_GetDevices M s = Ret ds \<and> ds \<noteq> [] \<and> modes_known D ds \<and>
     (\<forall>d \<in> set ds. gpu_answers D d model (mem d) (cc d))"

lemma resource_node_gpu:
  assumes "resource_node D M s ds model mem cc"
  shows "\<exists>m. newGPULabelers D M s os config = Ret (LLabels m) \<and>
    implements_labels (gpu_rl None) (LLabels m)
      (one_model_value config (with_mode D True ds) (with_mode D False ds) model mem cc)"
  using newGPULabelers_one_model [of M s ds D "\<lambda>_. model" mem cc model os config] assms
  by (simp add: resource_node_def gpu_node_def)

lemma resource_labels_none:
  assumes node: "resource_node D M s ds model mem cc"
    and "fl_MigStrategy (cfg_Flags config) = Some ''none''"
  shows "\<exists>m. gbind (NewResourceLabeler D M s os config) Labels_of = Ret m \<and>
    (\<forall>t. gget m (''nvidia.com/gpu.'' @ t) =
       one_model_value config (with_mode D True ds) (with_mode D False ds) model mem cc t) \<and>
    (\<forall>k. gget m k \<noteq> None \<longrightarrow> (\<exists>t. k = ''nvidia.com/gpu.'' @ t))"
proof -
  obtain m where m: "newGPULabelers D M s os config = Ret (LLabels m)"
    "implements_labels (gpu_rl None) (LLabels m)
      (one_model_value config (with_mode D True ds) (with_mode D False ds) model mem cc)"
    using resource_node_gpu [OF node] by blast
  then have "gbind (NewResourceLabeler D M s os config) Labels_of = Ret m"
    using node assms(2) by (auto simp: NewResourceLabeler_def resource_node_def)
  moreover obtain m' where "Labels_of (LLabels m) = Ret m'"
    "\<forall>t. gget m' (''nvidia.com/gpu.'' @ t) =
       one_model_value config (with_mode D True ds) (with_mode D False ds) model mem cc t"
    "\<forall>k. gget m' k \<noteq> None \<longrightarrow> (\<exists>t. k = ''nvidia.com/gpu.'' @ t)"
    using implements_gpu_iff [OF m(2)] by blast
  moreover from this(1) have "m' = m" by simp
  ultimately show ?thesis by blast
qed

text \<open>Under the other strategies the labels of the MIG labeler come last, so they win.\<close>

lemma resource_labels_mig:
  assumes node: "resource_node D M s ds model mem cc"
    and strategy: "fl_MigStrategy (cfg_Flags config) = Some strategy" "strategy \<noteq> ''none''"
    and mig: "newMigLabeler D M s os config = Ret (Merge [migStrategyLabeler strategy, l])"
      "labeler_ok l" "Labels_of l = Ret lm"
  shows "\<exists>m. gbind (NewResourceLabeler D M s os config) Labels_of = Ret m \<and>
    (\<forall>t. gget m (''nvidia.com/gpu.'' @ t) =
       (one_model_value config (with_mode D True ds) (with_mode D False ds) model mem cc ++
        (\<lambda>t. gget lm (''nvidia.com/gpu.'' @ t))) t) \<and>
    (\<forall>k. (\<forall>t. k \<noteq> ''nvidia.com/gpu.'' @ t) \<longrightarrow>
       gget m k = (case gget lm k of
           None \<Rightarrow> if k = ''nvidia.com/mig.strategy'' then Some strategy else None
         | v \<Rightarrow> v))"
proof -
  obtain gm where gm: "newGPULabelers D M s os config = Ret (LLabels gm)"
    "implements_labels (gpu_rl None) (LLabels gm)
      (one_model_value config (with_mode D True ds) (with_mode D False ds) model mem cc)"
    using resource_node_gpu [OF node] by blast
  have ok: "labeler_ok (LLabels gm)" and
    gv: "\<And>t. gget gm (''nvidia.com/gpu.'' @ t) =
      one_model_value config (with_mode D True ds) (with_mode D False ds) model mem cc t"
      "\<And>k. gget gm k \<noteq> None \<Longrightarrow> \<exists>t. k = ''nvidia.com/gpu.'' @ t"
    using implements_gpu_iff [OF gm(2)] by auto
  let ?st = "[(''nvidia.com/mig.strategy'', strategy)]"
  have st: "migStrategyLabeler strategy = LLabels ?st"
    using strategy(2) by (simp add: migStrategyLabeler_def)
  obtain mm where mm: "Labels_of (Merge [migStrategyLabeler strategy, l]) = Ret mm" "gmap_ok mm"
    "gget mm = gget ?st ++ gget lm"
    using Labels_Merge [of "[migStrategyLabeler strategy, l]" "[?st, lm]"] mig(2,3) st by auto
  obtain m where m: "Labels_of (Merge [LLabels gm, Merge [migStrategyLabeler strategy, l]]) = Ret m"
    "gget m = gget gm ++ (gget ?st ++ gget lm)"
    using Labels_Merge [of "[LLabels gm, Merge [migStrategyLabeler strategy, l]]" "[gm, mm]"]
      mm ok mig(2) st by (auto simp: Merge_def)
  have "gbind (NewResourceLabeler D M s os config) Labels_of = Ret m"
    using node strategy gm(1) mig(1) m(1) by (auto simp: NewResourceLabeler_def resource_node_def)
  moreover have "gget m (''nvidia.com/gpu.'' @ t) =
       (one_model_value config (with_mode D True ds) (with_mode D False ds) model mem cc ++
        (\<lambda>t. gget lm (''nvidia.com/gpu.'' @ t))) t" for t
    unfolding m(2) map_add_def gv(1) by (simp split: option.splits)
  moreover have "gget m k = (case gget lm k of
           None \<Rightarrow> if k = ''nvidia.com/mig.strategy'' then Some strategy else None
         | v \<Rightarrow> v)" if "\<forall>t. k \<noteq> ''nvidia.com/gpu.'' @ t" for k
  proof -
    have "gget gm k = None" using gv(2) [of k] that by blast
    then show ?thesis unfolding m(2) by (simp add: map_add_def split: option.splits)
  qed
  ultimately show ?thesis by blast
qed

section \<open>The labels of the node are fixed\<close>

text \<open>
  Once the manager is shut down the labelers it gave need no device any more: they are static,
  so only the vGPU labeler can still fail when the labels are asked for.
\<close>

lemma NewMIGResourceLabeler_static: "NewMIGResourceLabeler D name config d cnt = Ret l \<Longrightarrow> static l"
  by (auto simp: NewMIGResourceLabeler_def rl_baseLabeler_def Let_def split: if_splits)

lemma newMIGDeviceLabelers_static: "newMIGDeviceLabelers D os rs config = Ret l \<Longrightarrow> static l"
  by (auto simp: newMIGDeviceLabelers_def elim!: mapM_go_list_all)
    (rule NewMIGResourceLabeler_static, assumption)

lemma newInvalid_static: "newInvalidMigStrategyLabeler D d r = Ret l \<Longrightarrow> static l"
  by (auto simp: newInvalidMigStrategyLabeler_def Let_def)

lemma newMigStrategySingle_static: "newMigStrategySingleLabeler D M s os config = Ret l \<Longrightarrow> static l"
  unfolding newMigStrategySingleLabeler_def
  by (auto simp: sbind_def swrap_def split: prod.splits go.splits if_splits
      dest: newInvalid_static newMIGDeviceLabelers_static)

lemma newMigStrategyMixed_static: "newMigStrategyMixedLabeler D M s os config = Ret l \<Longrightarrow> static l"
  unfolding newMigStrategyMixedLabeler_def
  by (auto simp: sbind_def swrap_def split: prod.splits go.splits dest: newMIGDeviceLabelers_static)

lemma newGPULabelers_static: "newGPULabelers D M s os config = Ret l \<Longrightarrow> static l"
  by (auto simp: newGPULabelers_def split: if_splits)

lemma NewResourceLabeler_static: "NewResourceLabeler D M s os config = Ret l \<Longrightarrow> static l"
  by (auto simp: NewResourceLabeler_def newMigLabeler_def split: if_splits
      dest: newGPULabelers_static newMigStrategySingle_static newMigStrategyMixed_static)

lemma nvml_labeler_body_static: "nvml_labeler_body readFile D M os config s = Ret l \<Longrightarrow> static l"
  by (auto simp: nvml_labeler_body_def newMachineTypeLabeler_def newVersionLabeler_def
      newMigCapabilityLabeler_def Let_def split: if_splits go.splits dest: NewResourceLabeler_static)

lemma NewLabelers_Ret:
  "NewLabelers readFile D M os vgpu config s = (s', Ret l) \<Longrightarrow>
   \<exists>nl. static nl \<and> l = Merge [nl, LVGPU vgpu]"
  by (auto simp: NewLabelers_def NewNVMLLabeler_def sbind_Ret_iff swrap_Ret_iff NewVGPULabeler_def
      dest!: defer_shutdown_Ret nvml_labeler_body_static)

end
