(* ===== verification/Paths.thy ===== *)
theory Paths
  imports Go_Strings
begin

text \<open>
  The part of Go's \<^verbatim>\<open>path/filepath\<close> (on Unix) that the program uses to place its files:
  \<^verbatim>\<open>Clean\<close>, \<^verbatim>\<open>IsAbs\<close>, \<^verbatim>\<open>Join\<close>, \<^verbatim>\<open>Dir\<close>, \<^verbatim>\<open>Abs\<close>, and what a path means to the kernel: the list
  of its components from the root.  There are no symbolic links in this model, so \<^verbatim>\<open>..\<close> is
  resolved lexically everywhere.
\<close>

section \<open>Lexical operations\<close>

definition clean_push :: "bool \<Rightarrow> string \<Rightarrow> string list \<Rightarrow> string list" where
  "clean_push rooted c st =
     (if c = [] \<or> c = ''.'' then st
      else if c = ''..''
      then (if st \<noteq> [] \<and> last st \<noteq> ''..'' then butlast st
            else if rooted then st else st @ [''..''])
      else st @ [c])"

definition filepath_IsAbs :: "string \<Rightarrow> bool" where
  "filepath_IsAbs p = has_prefix ''/'' p"

definition filepath_Clean :: "string \<Rightarrow> string" where
  "filepath_Clean p =
     (let rooted = filepath_IsAbs p;
          cs = fold (clean_push rooted) (go_split CHR ''/'' p) []
      in if rooted then ''/'' @ go_join ''/'' cs
         else if cs = [] then ''.''
         else go_join ''/'' cs)"

definition filepath_Join :: "string list \<Rightarrow> string" where
  "filepath_Join elems =
     (let es = filter (\<lambda>e. e \<noteq> []) elems in
      if es = [] then [] else filepath_Clean (go_join ''/'' es))"

text \<open>The path up to its last slash, cleaned.\<close>

definition filepath_Dir :: "string \<Rightarrow> string" where
  "filepath_Dir p = filepath_Clean (rev (dropWhile (\<lambda>c. c \<noteq> CHR ''/'') (rev p)))"

section \<open>Components\<close>

text \<open>A name of a directory entry.\<close>

definition entry_name :: "string \<Rightarrow> bool" where
  "entry_name c \<longleftrightarrow> c \<noteq> [] \<and> c \<noteq> ''.'' \<and> c \<noteq> ''..'' \<and> CHR ''/'' \<notin> set c"

definition abs_path :: "string list \<Rightarrow> string" where
  "abs_path cs = ''/'' @ go_join ''/'' cs"

text \<open>The components a path stands for, in the working directory \<open>cwd\<close>.\<close>

definition resolve_path :: "string list \<Rightarrow> string \<Rightarrow> string list" where
  "resolve_path cwd p =
     fold (clean_push True) (go_split CHR ''/'' p) (if filepath_IsAbs p then [] else cwd)"

lemma clean_push_entry [simp]: "entry_name c \<Longrightarrow> clean_push b c st = st @ [c]"
  by (simp add: clean_push_def entry_name_def)

lemma clean_push_Nil [simp]: "clean_push b [] st = st"
  by (simp add: clean_push_def)

lemma fold_clean_entries: "\<forall>c \<in> set cs. entry_name c \<Longrightarrow> fold (clean_push b) cs st = st @ cs"
  by (induction cs arbitrary: st) auto

lemma split_abs_path:
  assumes "\<forall>c \<in> set cs. entry_name c"
  shows "filter (\<lambda>c. c \<noteq> []) (go_split CHR ''/'' (abs_path cs)) = cs"
    and "\<exists>bs. go_split CHR ''/'' (abs_path cs) = [] # bs"
proof -
  have eq: "go_split CHR ''/'' (abs_path cs) = [] # (if cs = [] then [[]] else cs)"
  proof (cases "cs = []")
    case True
    then show ?thesis by (simp add: abs_path_def)
  next
    case False
    then have "go_split CHR ''/'' (go_join ''/'' cs) = cs"
      using assms by (intro split_join) (auto simp: entry_name_def)
    with False show ?thesis by (simp add: abs_path_def)
  qed
  have "filter (\<lambda>c. c \<noteq> []) cs = cs" using assms by (auto simp: filter_id_conv entry_name_def)
  then show "filter (\<lambda>c. c \<noteq> []) (go_split CHR ''/'' (abs_path cs)) = cs" by (simp add: eq)
  show "\<exists>bs. go_split CHR ''/'' (abs_path cs) = [] # bs" by (simp add: eq)
qed

lemma fold_clean_filter: "fold (clean_push b) cs st = fold (clean_push b) (filter (\<lambda>c. c \<noteq> []) cs) st"
  by (induction cs arbitrary: st) auto

lemma IsAbs_abs_path [simp]: "filepath_IsAbs (abs_path cs)"
  by (simp add: filepath_IsAbs_def abs_path_def has_prefix_def)

lemma resolve_abs_path [simp]:
  assumes "\<forall>c \<in> set cs. entry_name c"
  shows "resolve_path cwd (abs_path cs) = cs"
proof -
  have "resolve_path cwd (abs_path cs) = fold (clean_push True) cs []"
    using fold_clean_filter [of True "go_split CHR ''/'' (abs_path cs)" "[]"] split_abs_path(1) [OF assms]
    by (simp add: resolve_path_def)
  then show ?thesis using fold_clean_entries [OF assms] by simp
qed

lemma set_clean_push:
  "set (clean_push True c st) \<subseteq> set st \<union> (if c \<in> {[], ''.'', ''..''} then {} else {c})"
proof -
  have "set (butlast st) \<subseteq> set st" by (auto dest: in_set_butlastD)
  then show ?thesis by (cases "c = []"; cases "c = ''.''"; cases "c = ''..''"; simp add: clean_push_def)
qed

lemma entries_clean_push:
  assumes "\<forall>c \<in> set st. entry_name c" and "CHR ''/'' \<notin> set c"
  shows "\<forall>d \<in> set (clean_push True c st). entry_name d"
proof
  fix d assume "d \<in> set (clean_push True c st)"
  then have "d \<in> set st \<or> c \<notin> {[], ''.'', ''..''} \<and> d = c"
    using set_clean_push [of c st] by (auto split: if_splits)
  then show "entry_name d" using assms by (auto simp: entry_name_def)
qed

lemma entries_fold_clean:
  "\<forall>c \<in> set st. entry_name c \<Longrightarrow> \<forall>c \<in> set cs. CHR ''/'' \<notin> set c \<Longrightarrow>
   \<forall>d \<in> set (fold (clean_push True) cs st). entry_name d"
proof (induction cs arbitrary: st)
  case (Cons c cs)
  have "\<forall>d \<in> set (clean_push True c st). entry_name d"
    by (rule entries_clean_push) (use Cons.prems in simp_all)
  moreover have "\<forall>c \<in> set cs. CHR ''/'' \<notin> set c" using Cons.prems by simp
  ultimately have "\<forall>d \<in> set (fold (clean_push True) cs (clean_push True c st)). entry_name d"
    by (rule Cons.IH)
  then show ?case by (simp only: fold.simps comp_apply)
qed simp

lemma resolve_entries: "\<forall>c \<in> set cwd. entry_name c \<Longrightarrow> \<forall>c \<in> set (resolve_path cwd p). entry_name c"
  unfolding resolve_path_def by (rule entries_fold_clean) (auto dest: split_no_sep)

lemma Clean_rooted: "filepath_IsAbs p \<Longrightarrow> filepath_Clean p = abs_path (resolve_path cwd p)"
  by (simp add: filepath_Clean_def abs_path_def resolve_path_def Let_def)

lemma Clean_abs_path:
  "\<forall>c \<in> set cs. entry_name c \<Longrightarrow> filepath_Clean (abs_path cs) = abs_path cs"
  using Clean_rooted [of "abs_path cs"] by simp

lemma split_append_sep: "go_split c (s @ c # t) = go_split c s @ go_split c t"
proof (induction s)
  case (Cons x s)
  obtain y ys where "go_split c s = y # ys" by (cases "go_split c s") auto
  with Cons show ?case by simp
qed simp

lemma IsAbs_append: "filepath_IsAbs p \<Longrightarrow> filepath_IsAbs (p @ q)"
  by (auto simp: filepath_IsAbs_def has_prefix_iff)

lemma resolve_append:
  "filepath_IsAbs p \<Longrightarrow> resolve_path cwd (p @ ''/'' @ q) =
    fold (clean_push True) (go_split CHR ''/'' q) (resolve_path cwd p)"
  by (simp add: resolve_path_def IsAbs_append [simplified] split_append_sep)

section \<open>The places of the output file and its temporary directory\<close>

text \<open>\<^verbatim>\<open>filepath.Abs\<close> with the working directory \<open>cwd\<close>.\<close>

definition abs_of :: "string list \<Rightarrow> string \<Rightarrow> string" where
  "abs_of cwd p = (if filepath_IsAbs p then filepath_Clean p else filepath_Join [abs_path cwd, p])"

lemma abs_of_eq:
  assumes "\<forall>c \<in> set cwd. entry_name c"
  shows "abs_of cwd p = abs_path (resolve_path cwd p)"
proof (cases "filepath_IsAbs p")
  case True
  then show ?thesis by (simp add: abs_of_def Clean_rooted)
next
  case False
  have ne: "abs_path cwd \<noteq> []" by (simp add: abs_path_def)
  show ?thesis
  proof (cases "p = []")
    case True
    have "resolve_path cwd p = cwd" using False True by (simp add: resolve_path_def)
    then show ?thesis
      using False True ne assms by (simp add: abs_of_def filepath_Join_def Clean_abs_path)
  next
    case pn: False
    have "abs_of cwd p = filepath_Clean (abs_path cwd @ ''/'' @ p)"
      using False pn ne by (simp add: abs_of_def filepath_Join_def)
    also have "\<dots> = abs_path (resolve_path cwd (abs_path cwd @ ''/'' @ p))"
      by (rule Clean_rooted) (simp only: IsAbs_append IsAbs_abs_path)
    also have "resolve_path cwd (abs_path cwd @ ''/'' @ p) = resolve_path cwd p"
    proof -
      have "resolve_path cwd (abs_path cwd @ ''/'' @ p) =
          fold (clean_push True) (go_split CHR ''/'' p) (resolve_path cwd (abs_path cwd))"
        by (rule resolve_append) (rule IsAbs_abs_path)
      also have "resolve_path cwd (abs_path cwd) = cwd" using assms by simp
      finally show ?thesis using False by (simp add: resolve_path_def)
    qed
    finally show ?thesis .
  qed
qed

lemma drop_to_slash:
  assumes "CHR ''/'' \<notin> set c"
  shows "rev (dropWhile (\<lambda>c. c \<noteq> CHR ''/'') (rev (p @ ''/'' @ c))) = p @ ''/''"
proof -
  have "dropWhile (\<lambda>c. c \<noteq> CHR ''/'') (rev c @ CHR ''/'' # rev p) = CHR ''/'' # rev p"
    using assms by (subst dropWhile_append2) auto
  then show ?thesis by simp
qed

lemma abs_path_snoc: "cs \<noteq> [] \<Longrightarrow> abs_path (cs @ [c]) = abs_path cs @ ''/'' @ c"
proof -
  have "cs \<noteq> [] \<Longrightarrow> go_join ''/'' (cs @ [c]) = go_join ''/'' cs @ ''/'' @ c"
    by (induction "''/''" cs rule: go_join.induct) auto
  then show "cs \<noteq> [] \<Longrightarrow> abs_path (cs @ [c]) = abs_path cs @ ''/'' @ c"
    by (simp add: abs_path_def)
qed

lemma Dir_abs_path:
  assumes "\<forall>c \<in> set cs. entry_name c"
  shows "filepath_Dir (abs_path cs) = abs_path (butlast cs)"
proof (cases cs rule: rev_cases)
  case Nil
  then show ?thesis by (simp add: filepath_Dir_def abs_path_def filepath_Clean_def filepath_IsAbs_def
        has_prefix_def clean_push_def)
next
  case (snoc ds c)
  then have c: "CHR ''/'' \<notin> set c" and ds: "\<forall>c \<in> set ds. entry_name c"
    using assms by (auto simp: entry_name_def)
  have "filepath_Dir (abs_path cs) = filepath_Clean (if ds = [] then ''/'' else abs_path ds @ ''/'')"
  proof (cases "ds = []")
    case True
    then show ?thesis using drop_to_slash [OF c, of "[]"] snoc by (simp add: filepath_Dir_def abs_path_def)
  next
    case False
    then show ?thesis
      using drop_to_slash [OF c, of "abs_path ds"] unfolding snoc filepath_Dir_def abs_path_snoc [OF False]
      by simp
  qed
  also have "\<dots> = abs_path ds"
  proof (cases "ds = []")
    case True
    then show ?thesis by (simp add: abs_path_def filepath_Clean_def filepath_IsAbs_def
          has_prefix_def clean_push_def)
  next
    case False
    have "filepath_Clean (abs_path ds @ ''/'') = abs_path (resolve_path [] (abs_path ds @ ''/''))"
      by (rule Clean_rooted) (simp only: IsAbs_append IsAbs_abs_path)
    also have "resolve_path [] (abs_path ds @ ''/'') = ds"
      using resolve_append [OF IsAbs_abs_path, of "[]" ds "[]"] ds by simp
    finally show ?thesis using False by simp
  qed
  finally show ?thesis using snoc by simp
qed

lemma Join_abs_path:
  assumes "\<forall>c \<in> set cs. entry_name c" and "entry_name c"
  shows "filepath_Join [abs_path cs, c] = abs_path (cs @ [c])"
proof -
  have "abs_path cs \<noteq> []" "c \<noteq> []" "CHR ''/'' \<notin> set c"
    using assms(2) by (simp_all add: abs_path_def entry_name_def)
  then have "filepath_Join [abs_path cs, c] = filepath_Clean (abs_path cs @ ''/'' @ c)"
    by (simp add: filepath_Join_def)
  also have "\<dots> = abs_path (resolve_path [] (abs_path cs @ ''/'' @ c))"
    by (rule Clean_rooted) (simp only: IsAbs_append IsAbs_abs_path)
  also have "resolve_path [] (abs_path cs @ ''/'' @ c) = cs @ [c]"
    using resolve_append [OF IsAbs_abs_path, of "[]" cs c] assms \<open>CHR ''/'' \<notin> set c\<close>
    by (simp add: split_free)
  finally show ?thesis .
qed

end
