(* ===== verification/Os_World.thy ===== *)
theory Os_World
  imports Paths
begin

text \<open>
  The part of Go's \<^verbatim>\<open>os\<close> package the program uses, on an explicit file system.  A call is a
  precondition, which gives its error when it does not hold, and the sequence of atomic changes
  it makes; \<open>faults\<close> may cut the \<open>n\<close>-th call of the run short after some of its changes and
  make it return an error.  The world remembers every state of the file system that another
  process could have seen (\<open>w_seen\<close>), the bytes on standard output and the number of open
  descriptors.
\<close>

section \<open>The world\<close>

type_synonym fpath = "string list"

text \<open>An error: does \<^verbatim>\<open>os.IsExist\<close> hold of it, and its text.\<close>

type_synonym os_err = "bool \<times> string"

record fs =
  fs_cwd :: fpath
  fs_files :: "(fpath, string \<times> nat) gomap"
  fs_dirs :: "fpath list"

record world =
  w_fs :: fs
  w_seen :: "fs list"
  w_stdout :: string
  w_open :: nat
  w_calls :: nat

type_synonym faults = "nat \<Rightarrow> (nat \<times> os_err) option"

definition is_file :: "fs \<Rightarrow> fpath \<Rightarrow> bool" where
  "is_file f p \<longleftrightarrow> gget (fs_files f) p \<noteq> None"

definition is_dir :: "fs \<Rightarrow> fpath \<Rightarrow> bool" where
  "is_dir f p \<longleftrightarrow> p = [] \<or> p \<in> set (fs_dirs f)"

definition under :: "fpath \<Rightarrow> fpath \<Rightarrow> bool" where
  "under d p \<longleftrightarrow> take (length d) p = d"

definition resolve_in :: "fs \<Rightarrow> string \<Rightarrow> fpath" where
  "resolve_in f p = resolve_path (fs_cwd f) p"

definition ENOENT :: os_err where "ENOENT = (False, ''no such file or directory'')"
definition EEXIST :: os_err where "EEXIST = (True, ''file exists'')"
definition ENOTDIR :: os_err where "ENOTDIR = (False, ''not a directory'')"
definition EISDIR :: os_err where "EISDIR = (False, ''is a directory'')"
definition ENOTEMPTY :: os_err where "ENOTEMPTY = (False, ''directory not empty'')"

definition visit :: "fs list \<Rightarrow> world \<Rightarrow> world" where
  "visit ss w = w\<lparr>w_fs := last (w_fs w # ss), w_seen := w_seen w @ ss, w_calls := Suc (w_calls w)\<rparr>"

definition os_call ::
  "faults \<Rightarrow> (fs \<Rightarrow> os_err option) \<Rightarrow> (fs \<Rightarrow> fs list) \<Rightarrow> world \<Rightarrow> world \<times> os_err option" where
  "os_call F pre steps w =
     (case pre (w_fs w) of
        Some e \<Rightarrow> (visit [] w, Some e)
      | None \<Rightarrow>
          (case F (w_calls w) of
             None \<Rightarrow> (visit (steps (w_fs w)) w, None)
           | Some (k, e) \<Rightarrow> (visit (take k (steps (w_fs w))) w, Some e)))"

text \<open>A call as it appears in the error returns of the program.\<close>

definition os_ret :: "(world \<Rightarrow> world \<times> os_err option) \<Rightarrow> (world, unit) sgo" where
  "os_ret call = (\<lambda>w. case call w of (w', None) \<Rightarrow> (w', Ret ()) | (w', Some e) \<Rightarrow> (w', Err (snd e)))"

section \<open>The calls\<close>

definition mkdir_steps :: "fpath \<Rightarrow> fs \<Rightarrow> fs list" where
  "mkdir_steps p f =
     (let missing = filter (\<lambda>d. \<not> is_dir f d) (map (\<lambda>n. take n p) [1..<Suc (length p)])
      in map (\<lambda>n. f\<lparr>fs_dirs := fs_dirs f @ take (Suc n) missing\<rparr>) [0..<length missing])"

definition os_MkdirAll :: "faults \<Rightarrow> string \<Rightarrow> world \<Rightarrow> world \<times> os_err option" where
  "os_MkdirAll F path = (\<lambda>w. let p = resolve_in (w_fs w) path in
     os_call F
       (\<lambda>f. if \<exists>n \<in> {1..length p}. is_file f (take n p) then Some ENOTDIR else None)
       (mkdir_steps p) w)"

text \<open>
  \<^verbatim>\<open>os.CreateTemp(dir, prefix)\<close>: \<open>rnd\<close> is the random part of the name finally tried.  The file
  is created empty, with mode 0600, and stays open.
\<close>

definition os_CreateTemp :: "faults \<Rightarrow> string \<Rightarrow> string \<Rightarrow> string \<Rightarrow> (world, string) sgo" where
  "os_CreateTemp F rnd dir prefix = (\<lambda>w.
     let name = dir @ ''/'' @ prefix @ rnd; p = resolve_in (w_fs w) name in
     case os_call F
         (\<lambda>f. if \<not> is_dir f (butlast p) then Some ENOENT
               else if is_file f p \<or> is_dir f p then Some EEXIST else None)
         (\<lambda>f. [f\<lparr>fs_files := gset p ([], 384) (fs_files f)\<rparr>]) w of
       (w', None) \<Rightarrow> (w'\<lparr>w_open := Suc (w_open w')\<rparr>, Ret name)
     | (w', Some e) \<Rightarrow> (w', Err (snd e)))"

definition os_Close :: "world \<Rightarrow> world" where
  "os_Close w = w\<lparr>w_open := w_open w - 1\<rparr>"

text \<open>
  \<^verbatim>\<open>os.WriteFile\<close> truncates the file, then writes; it keeps the mode of a file that exists.
  (A new file's mode would be \<open>perm\<close> less the umask; the program only writes existing ones.)
\<close>

definition write_steps :: "fpath \<Rightarrow> string \<Rightarrow> nat \<Rightarrow> fs \<Rightarrow> fs list" where
  "write_steps p contents perm f =
     (let mode = (case gget (fs_files f) p of None \<Rightarrow> perm | Some (_, m) \<Rightarrow> m)
      in map (\<lambda>n. f\<lparr>fs_files := gset p (take n contents, mode) (fs_files f)\<rparr>)
           [0..<Suc (length contents)])"

definition os_WriteFile :: "faults \<Rightarrow> string \<Rightarrow> string \<Rightarrow> nat \<Rightarrow> world \<Rightarrow> world \<times> os_err option" where
  "os_WriteFile F path contents perm = (\<lambda>w. let p = resolve_in (w_fs w) path in
     os_call F
       (\<lambda>f. if \<not> is_dir f (butlast p) then Some ENOENT
             else if is_dir f p then Some EISDIR else None)
       (write_steps p contents perm) w)"

definition rename_steps :: "fpath \<Rightarrow> fpath \<Rightarrow> fs \<Rightarrow> fs list" where
  "rename_steps old new f =
     (case gget (fs_files f) old of
        None \<Rightarrow> []
      | Some file \<Rightarrow> [f\<lparr>fs_files := gset new file (AList.delete old (fs_files f))\<rparr>])"

definition os_Rename :: "faults \<Rightarrow> string \<Rightarrow> string \<Rightarrow> world \<Rightarrow> world \<times> os_err option" where
  "os_Rename F old new = (\<lambda>w. let p = resolve_in (w_fs w) old; q = resolve_in (w_fs w) new in
     os_call F
       (\<lambda>f. if \<not> is_file f p then Some ENOENT
             else if is_dir f q then Some EEXIST
             else if \<not> is_dir f (butlast q) then Some ENOENT else None)
       (rename_steps p q) w)"

text \<open>The modes of directories are not part of the model.\<close>

definition chmod_steps :: "fpath \<Rightarrow> nat \<Rightarrow> fs \<Rightarrow> fs list" where
  "chmod_steps p perm f =
     (case gget (fs_files f) p of
        None \<Rightarrow> []
      | Some (contents, _) \<Rightarrow> [f\<lparr>fs_files := gset p (contents, perm) (fs_files f)\<rparr>])"

definition os_Chmod :: "faults \<Rightarrow> string \<Rightarrow> nat \<Rightarrow> world \<Rightarrow> world \<times> os_err option" where
  "os_Chmod F path perm = (\<lambda>w. let p = resolve_in (w_fs w) path in
     os_call F (\<lambda>f. if is_file f p \<or> is_dir f p then None else Some ENOENT) (chmod_steps p perm) w)"

definition remove_steps :: "fpath \<Rightarrow> fs \<Rightarrow> fs list" where
  "remove_steps p f =
     [f\<lparr>fs_files := AList.delete p (fs_files f), fs_dirs := filter (\<lambda>d. d \<noteq> p) (fs_dirs f)\<rparr>]"

definition os_Remove :: "faults \<Rightarrow> string \<Rightarrow> world \<Rightarrow> world \<times> os_err option" where
  "os_Remove F path = (\<lambda>w. let p = resolve_in (w_fs w) path in
     os_call F
       (\<lambda>f. if is_file f p then None
             else if is_dir f p
             then (if \<exists>q \<in> set (map fst (fs_files f) @ fs_dirs f). q \<noteq> p \<and> under p q
                   then Some ENOTEMPTY else None)
             else Some ENOENT)
       (remove_steps p) w)"

text \<open>Files go one by one, the emptied directories last.  A path that is not there is no error.\<close>

definition remove_all_steps :: "fpath \<Rightarrow> fs \<Rightarrow> fs list" where
  "remove_all_steps p f =
     (let files = filter (under p) (map fst (fs_files f)) in
      map (\<lambda>n. f\<lparr>fs_files := filter (\<lambda>(q, _). q \<notin> set (take (Suc n) files)) (fs_files f)\<rparr>)
        [0..<length files] @
      [f\<lparr>fs_files := filter (\<lambda>(q, _). \<not> under p q) (fs_files f),
         fs_dirs := filter (\<lambda>d. \<not> under p d) (fs_dirs f)\<rparr>])"

definition os_RemoveAll :: "faults \<Rightarrow> string \<Rightarrow> world \<Rightarrow> world \<times> os_err option" where
  "os_RemoveAll F path = (\<lambda>w. let p = resolve_in (w_fs w) path in
     os_call F (\<lambda>f. None) (remove_all_steps p) w)"

text \<open>\<^verbatim>\<open>filepath.Abs\<close>; \<^verbatim>\<open>os.Getwd\<close> can fail.\<close>

definition filepath_Abs :: "faults \<Rightarrow> string \<Rightarrow> (world, string) sgo" where
  "filepath_Abs F path = (\<lambda>w.
     if filepath_IsAbs path then (w, Ret (abs_of (fs_cwd (w_fs w)) path))
     else sbind (os_ret (os_call F (\<lambda>f. None) (\<lambda>f. [])))
            (\<lambda>_. sret (abs_of (fs_cwd (w_fs w)) path)) w)"

text \<open>A write to standard output, which may fail after some bytes.\<close>

definition stdout_write :: "faults \<Rightarrow> world \<Rightarrow> string \<Rightarrow> world \<times> nat \<times> string option" where
  "stdout_write F w s =
     (let w' = w\<lparr>w_calls := Suc (w_calls w)\<rparr> in
      case F (w_calls w) of
        None \<Rightarrow> (w'\<lparr>w_stdout := w_stdout w @ s\<rparr>, length s, None)
      | Some (k, e) \<Rightarrow> (w'\<lparr>w_stdout := w_stdout w @ take k s\<rparr>, min k (length s), Some (snd e)))"

section \<open>What the calls do to one file\<close>

text \<open>
  \<open>observed P w\<close>: the file system has \<open>P\<close> now and had it whenever it could be looked at.
\<close>

definition observed :: "(fs \<Rightarrow> bool) \<Rightarrow> world \<Rightarrow> bool" where
  "observed P w \<longleftrightarrow> P (w_fs w) \<and> (\<forall>f \<in> set (w_seen w). P f)"

lemma w_fs_visit: "w_fs (visit ss w) = last (w_fs w # ss)"
  by (simp add: visit_def)

lemma observed_visit: "observed P w \<Longrightarrow> \<forall>f \<in> set ss. P f \<Longrightarrow> observed P (visit ss w)"
  by (cases ss rule: rev_cases) (auto simp: observed_def visit_def)

lemma os_call_observed:
  assumes "observed P w" and "\<And>f. P f \<Longrightarrow> \<forall>g \<in> set (steps f). P g"
  shows "observed P (fst (os_call F pre steps w))"
proof -
  have "\<forall>g \<in> set (take k (steps (w_fs w))). P g" for k
    using assms by (auto simp: observed_def dest: in_set_takeD)
  then show ?thesis
    using assms by (auto simp: os_call_def intro!: observed_visit split: option.splits
        simp: observed_def [of P w])
qed

text \<open>The part of a file system an observer of one path sees.\<close>

definition view :: "fpath \<Rightarrow> fs \<Rightarrow> fpath \<times> (string \<times> nat) option" where
  "view p f = (fs_cwd f, gget (fs_files f) p)"

definition keeps :: "fpath \<Rightarrow> (fs \<Rightarrow> fs list) \<Rightarrow> bool" where
  "keeps p steps \<longleftrightarrow> (\<forall>f. \<forall>g \<in> set (steps f). view p g = view p f)"

lemma keeps_mkdir [simp]: "keeps p (mkdir_steps q)"
  by (auto simp: keeps_def mkdir_steps_def view_def Let_def)

lemma keeps_create [simp]: "q \<noteq> p \<Longrightarrow> keeps p (\<lambda>f. [f\<lparr>fs_files := gset q x (fs_files f)\<rparr>])"
  by (auto simp: keeps_def view_def gget_gset)

lemma keeps_write [simp]: "q \<noteq> p \<Longrightarrow> keeps p (write_steps q c m)"
  by (auto simp: keeps_def write_steps_def view_def gget_gset Let_def)

lemma keeps_remove [simp]: "q \<noteq> p \<Longrightarrow> keeps p (remove_steps q)"
  by (auto simp: keeps_def remove_steps_def view_def delete_conv')

lemma gget_filter_key: "Q p \<Longrightarrow> gget (filter (\<lambda>(q, _). Q q) m) p = gget m p"
  by (induction m) auto

lemma keeps_remove_all [simp]: "\<not> under q p \<Longrightarrow> keeps p (remove_all_steps q)"
  by (auto simp: keeps_def remove_all_steps_def view_def Let_def
      intro!: gget_filter_key dest: in_set_takeD)

lemma keeps_none [simp]: "keeps p (\<lambda>f. [])"
  by (simp add: keeps_def)

lemma os_call_keeps:
  assumes "keeps p steps" and "observed (\<lambda>f. R (view p f)) w"
  shows "observed (\<lambda>f. R (view p f)) (fst (os_call F pre steps w))"
  using assms(2) by (rule os_call_observed) (use assms(1) in \<open>simp add: keeps_def\<close>)

lemma os_call_keeps_view:
  assumes "keeps p steps"
  shows "view p (w_fs (fst (os_call F pre steps w))) = view p (w_fs w)"
proof -
  have "view p g = view p (w_fs w)" if "g \<in> set (steps (w_fs w))" for g
    using assms that by (auto simp: keeps_def)
  moreover have "last (f # ss) = f \<or> last (f # ss) \<in> set ss" for f :: fs and ss by simp
  ultimately have "view p (last (w_fs w # ss)) = view p (w_fs w)" if "set ss \<subseteq> set (steps (w_fs w))" for ss
    using that by (metis subsetD)
  then have vis: "view p (w_fs (visit (take k (steps (w_fs w))) w)) = view p (w_fs w)" for k
    unfolding w_fs_visit by (meson set_take_subset)
  show ?thesis
    using vis [of 0] vis [of "length (steps (w_fs w))"] vis
    by (auto simp: os_call_def split: option.splits)
qed

end
