(* ===== verification/Output.thy ===== *)
theory Output
  imports Labels Os_World
begin

text \<open>
  Publishing labels: the rest of \<^verbatim>\<open>internal/lm/labels.go\<close> (the output file, written through a
  temporary file, or the NodeFeature object of the cluster), \<^verbatim>\<open>internal/kubernetes/k8s-client.go\<close>
  and \<^verbatim>\<open>removeOutputFile\<close> of \<^verbatim>\<open>cmd/gpu-feature-discovery/main.go\<close>.  The API server and its
  client library are parameters.
\<close>

section \<open>The output file\<close>

definition squote :: "string \<Rightarrow> string" where
  "squote s = [CHR 0x27] @ s @ [CHR 0x27]"

text \<open>\<^verbatim>\<open>if err != nil && !os.IsExist(err)\<close>.\<close>

definition unless_exists :: "(world \<Rightarrow> world \<times> os_err option) \<Rightarrow> (world, unit) sgo" where
  "unless_exists call = (\<lambda>w. case call w of
       (w', Some e) \<Rightarrow> if \<not> fst e then (w', Err (snd e)) else (w', Ret ())
     | (w', None) \<Rightarrow> (w', Ret ()))"

text \<open>
  The function is split at its two deferred functions, which run, the later one first, when it
  returns an error; the first one is registered after the check of \<^verbatim>\<open>MkdirAll\<close>.
\<close>

definition move_into_place :: "faults \<Rightarrow> string \<Rightarrow> string \<Rightarrow> string \<Rightarrow> nat \<Rightarrow> (world, unit) sgo" where
  "move_into_place F tmpName path contents perm =
     sbind (swrap (''error writing temporary file '' @ squote tmpName @ '': '')
              (os_ret (os_WriteFile F tmpName contents perm))) (\<lambda>_.
     sbind (swrap (''error moving temporary file to '' @ squote path @ '': '')
              (os_ret (os_Rename F tmpName path))) (\<lambda>_.
     swrap (''error setting permissions on '' @ squote path @ '': '')
       (os_ret (os_Chmod F path perm))))"

definition write_through ::
  "faults \<Rightarrow> string \<Rightarrow> string \<Rightarrow> string \<Rightarrow> string \<Rightarrow> nat \<Rightarrow> (world, unit) sgo" where
  "write_through F rnd tmpDir path contents perm =
     on_error (\<lambda>w. fst (os_RemoveAll F tmpDir w)) (
     sbind (swrap ''fail to create temporary output file: '' (os_CreateTemp F rnd tmpDir ''gfd-''))
       (\<lambda>tmpName.
     on_error (\<lambda>w. fst (os_Remove F tmpName (os_Close w)))
       (move_into_place F tmpName path contents perm)))"

definition writeFileAtomically ::
  "faults \<Rightarrow> string \<Rightarrow> string \<Rightarrow> string \<Rightarrow> nat \<Rightarrow> (world, unit) sgo" where
  "writeFileAtomically F rnd path contents perm =
     sbind (swrap ''failed to retrieve absolute path of output file: '' (filepath_Abs F path))
       (\<lambda>absPath.
     let absDir = filepath_Dir absPath;
         tmpDir = filepath_Join [absDir, ''gfd-tmp''] in
     sbind (swrap ''failed to create temporary directory: '' (unless_exists (os_MkdirAll F tmpDir)))
       (\<lambda>_. write_through F rnd tmpDir path contents perm))"

definition UpdateFile :: "faults \<Rightarrow> string \<Rightarrow> nat list \<Rightarrow> string \<Rightarrow> labels \<Rightarrow> (world, unit) sgo" where
  "UpdateFile F rnd cs path labels =
     (if path = []
      then (\<lambda>w. case WriteTo cs labels (stdout_write F) w of
               (w', _, None) \<Rightarrow> (w', Ret ())
             | (w', _, Some e) \<Rightarrow> (w', Err e))
      else
      case WriteTo cs labels buffer_write [] of
        (_, _, Some e) \<Rightarrow> slift (Err (''error writing labels to buffer: '' @ e))
      | (output, _, None) \<Rightarrow>
          swrap (''error atomically writing file '' @ squote path @ '': '')
            (writeFileAtomically F rnd path output 420))"

definition removeOutputFile :: "faults \<Rightarrow> string \<Rightarrow> (world, unit) sgo" where
  "removeOutputFile F path =
     sbind (swrap ''failed to retrieve absolute path of output file: '' (filepath_Abs F path))
       (\<lambda>absPath.
     let absDir = filepath_Dir absPath;
         tmpDir = filepath_Join [absDir, ''gfd-tmp''] in
     sbind (swrap ''failed to remove temporary output directory: '' (os_ret (os_RemoveAll F tmpDir)))
       (\<lambda>_. swrap ''failed to remove output file: '' (os_ret (os_Remove F absPath))))"

section \<open>The NodeFeature object\<close>

text \<open>
  \<^verbatim>\<open>nfdv1alpha1.NodeFeature\<close>: its name, its labels, the two fields of its spec, and the rest of
  its metadata, which the program copies.  \<open>'f\<close> is the type \<^verbatim>\<open>Features\<close>.
\<close>

record 'f node_feature =
  nf_Name :: string
  nf_ObjectLabels :: "(string, string) gomap"
  nf_Features :: 'f
  nf_SpecLabels :: labels
  nf_Metadata :: string

datatype 'f get_result = NfFound "'f node_feature" | NfNotFound | NfError string

text \<open>The client of the API server, whose state is \<open>'s\<close>.\<close>

record ('f, 's) nfd_client =
  nfd_Get :: "string \<Rightarrow> string \<Rightarrow> 's \<Rightarrow> 'f get_result"
  nfd_Create :: "string \<Rightarrow> 'f node_feature \<Rightarrow> ('s, unit) sgo"
  nfd_Update :: "string \<Rightarrow> 'f node_feature \<Rightarrow> ('s, unit) sgo"

text \<open>What the code reads from its surroundings.\<close>

record ('f, 's) k8s_env =
  env_getenv :: "string \<Rightarrow> string"
  env_Stat :: "string \<Rightarrow> unit go"
  env_ReadFile :: "string \<Rightarrow> string go"
  env_InClusterConfig :: "unit go"
  env_NewForConfig :: "('f, 's) nfd_client go"
  env_NewFeatures :: 'f

definition NodeName :: "('f, 's) k8s_env \<Rightarrow> string" where
  "NodeName E = env_getenv E ''NODE_NAME''"

definition GetKubernetesNamespace :: "('f, 's) k8s_env \<Rightarrow> string" where
  "GetKubernetesNamespace E =
     (let kubernetesNamespaceFilePath = ''/var/run/secrets/kubernetes.io/serviceaccount/namespace''
      in case env_Stat E kubernetesNamespaceFilePath of
           Ret _ \<Rightarrow>
             (case env_ReadFile E kubernetesNamespaceFilePath of
                Ret data \<Rightarrow> trim_space data
              | _ \<Rightarrow> env_getenv E ''KUBERNETES_NAMESPACE'')
         | _ \<Rightarrow> env_getenv E ''KUBERNETES_NAMESPACE'')"

definition GetKubernetesClient :: "('f, 's) k8s_env \<Rightarrow> ('f, 's) nfd_client go" where
  "GetKubernetesClient E =
     gbind (env_InClusterConfig E) (\<lambda>config.
     gbind (env_NewForConfig E) (\<lambda>client. Ret client))"

definition nodeFeatureVendorPrefix :: string where
  "nodeFeatureVendorPrefix = ''nvidia-features-for''"

definition NodeFeatureObjNodeNameLabel :: string where
  "NodeFeatureObjNodeNameLabel = ''nfd.node.kubernetes.io/node-name''"

text \<open>Equality of Go maps, and \<^verbatim>\<open>apiequality.Semantic.DeepEqual\<close> on the objects.\<close>

definition gmap_eq :: "('k, 'v) gomap \<Rightarrow> ('k, 'v) gomap \<Rightarrow> bool" where
  "gmap_eq a b \<longleftrightarrow> (\<forall>k \<in> set (map fst a @ map fst b). gget a k = gget b k)"

definition nf_equal :: "'f node_feature \<Rightarrow> 'f node_feature \<Rightarrow> bool" where
  "nf_equal a b \<longleftrightarrow>
     nf_Name a = nf_Name b \<and> gmap_eq (nf_ObjectLabels a) (nf_ObjectLabels b) \<and>
     nf_Features a = nf_Features b \<and> gmap_eq (nf_SpecLabels a) (nf_SpecLabels b) \<and>
     nf_Metadata a = nf_Metadata b"

definition UpdateNodeFeatureObject :: "('f, 's) k8s_env \<Rightarrow> labels \<Rightarrow> ('s, unit) sgo" where
  "UpdateNodeFeatureObject E labels =
     sbind (slift (wrap ''failed to get Kubernetes client: '' (GetKubernetesClient E))) (\<lambda>cli.
     let nodename = NodeName E;
         namespace = GetKubernetesNamespace E;
         nodeFeatureName = go_join ''-'' [nodeFeatureVendorPrefix, nodename] in
     (\<lambda>s. case nfd_Get cli namespace nodeFeatureName s of
        NfNotFound \<Rightarrow>
          let nfr = \<lparr>nf_Name = nodeFeatureName,
                nf_ObjectLabels = [(NodeFeatureObjNodeNameLabel, nodename)],
                nf_Features = env_NewFeatures E, nf_SpecLabels = labels, nf_Metadata = []\<rparr>
          in swrap (''failed to create NodeFeature object '' @ [CHR 0x22] @ nodeFeatureName @
                    [CHR 0x22] @ '': '') (nfd_Create cli namespace nfr) s
      | NfError e \<Rightarrow> (s, Err (''failed to get NodeFeature object: '' @ e))
      | NfFound nfr \<Rightarrow>
          let nfrUpdated = nfr\<lparr>nf_ObjectLabels := [(NodeFeatureObjNodeNameLabel, nodename)],
                nf_Features := env_NewFeatures E, nf_SpecLabels := labels\<rparr>
          in if \<not> nf_equal nfr nfrUpdated
             then swrap (''failed to update NodeFeature object '' @ [CHR 0x22] @ nf_Name nfr @
                         [CHR 0x22] @ '': '') (nfd_Update cli namespace nfrUpdated) s
             else (s, Ret ())))"

definition Output ::
  "faults \<Rightarrow> string \<Rightarrow> nat list \<Rightarrow> ('f, 's) k8s_env \<Rightarrow> string \<Rightarrow> bool \<Rightarrow> labels \<Rightarrow>
   (world \<times> 's, unit) sgo" where
  "Output F rnd cs E path nodeFeatureAPI labels = (\<lambda>(w, s).
     if nodeFeatureAPI
     then (case UpdateNodeFeatureObject E labels s of (s', r) \<Rightarrow> ((w, s'), r))
     else (case UpdateFile F rnd cs path labels w of (w', r) \<Rightarrow> ((w', s), r)))"

section \<open>The write is atomic\<close>

text \<open>
  The place of the output file: it is not the root, its name is not that of the temporary
  directory, and the random part of the temporary name is a file name.
\<close>

definition place_ok :: "fpath \<Rightarrow> string \<Rightarrow> string \<Rightarrow> bool" where
  "place_ok cwd path rnd \<longleftrightarrow>
     (\<forall>c \<in> set cwd. entry_name c) \<and> resolve_path cwd path \<noteq> [] \<and>
     last (resolve_path cwd path) \<noteq> ''gfd-tmp'' \<and> CHR ''/'' \<notin> set rnd"

definition target :: "fpath \<Rightarrow> string \<Rightarrow> fpath" where
  "target cwd path = resolve_path cwd path"

definition tmp_dir :: "fpath \<Rightarrow> string \<Rightarrow> fpath" where
  "tmp_dir cwd path = butlast (target cwd path) @ [''gfd-tmp'']"

definition tmp_name :: "fpath \<Rightarrow> string \<Rightarrow> string \<Rightarrow> fpath" where
  "tmp_name cwd path rnd = tmp_dir cwd path @ [''gfd-'' @ rnd]"

lemma tmp_dir_path:
  assumes "place_ok cwd path rnd"
  shows "filepath_Join [filepath_Dir (abs_of cwd path), ''gfd-tmp''] = abs_path (tmp_dir cwd path)"
    and "\<forall>c \<in> set (tmp_dir cwd path). entry_name c"
proof -
  have entries: "\<forall>c \<in> set (target cwd path). entry_name c"
    unfolding target_def by (rule resolve_entries) (use assms in \<open>simp add: place_ok_def\<close>)
  then have bl: "\<forall>c \<in> set (butlast (target cwd path)). entry_name c" by (meson in_set_butlastD)
  have gfd: "entry_name ''gfd-tmp''" by (simp add: entry_name_def)
  have "abs_of cwd path = abs_path (target cwd path)"
    using assms abs_of_eq by (simp add: place_ok_def target_def)
  then show "filepath_Join [filepath_Dir (abs_of cwd path), ''gfd-tmp''] = abs_path (tmp_dir cwd path)"
    using Dir_abs_path [OF entries] Join_abs_path [OF bl gfd] by (simp add: tmp_dir_def)
  show "\<forall>c \<in> set (tmp_dir cwd path). entry_name c" using bl gfd by (auto simp: tmp_dir_def)
qed

lemma tmp_name_path:
  assumes "place_ok cwd path rnd"
  shows "resolve_path cwd' (abs_path (tmp_dir cwd path) @ ''/'' @ ''gfd-'' @ rnd) = tmp_name cwd path rnd"
proof -
  have "resolve_path cwd' (abs_path (tmp_dir cwd path) @ ''/'' @ ''gfd-'' @ rnd) =
      fold (clean_push True) (go_split CHR ''/'' (''gfd-'' @ rnd))
        (resolve_path cwd' (abs_path (tmp_dir cwd path)))"
    by (rule resolve_append) (rule IsAbs_abs_path)
  also have "CHR ''/'' \<notin> set (''gfd-'' @ rnd)" using assms by (simp add: place_ok_def)
  then have "go_split CHR ''/'' (''gfd-'' @ rnd) = [''gfd-'' @ rnd]" by (rule split_free)
  moreover have "entry_name (''gfd-'' @ rnd)" using assms by (simp add: entry_name_def place_ok_def)
  moreover have "resolve_path cwd' (abs_path (tmp_dir cwd path)) = tmp_dir cwd path"
    using tmp_dir_path(2) [OF assms] by simp
  ultimately show ?thesis by (simp add: tmp_name_def)
qed

lemma places_differ:
  assumes "place_ok cwd path rnd"
  shows "tmp_name cwd path rnd \<noteq> target cwd path" and "\<not> under (tmp_dir cwd path) (target cwd path)"
proof -
  have ne: "target cwd path \<noteq> []" "last (target cwd path) \<noteq> ''gfd-tmp''"
    using assms by (simp_all add: place_ok_def target_def)
  then have len: "length (tmp_dir cwd path) = length (target cwd path)" by (simp add: tmp_dir_def)
  then show "tmp_name cwd path rnd \<noteq> target cwd path"
    by (metis length_append_singleton n_not_Suc_n tmp_name_def)
  have "tmp_dir cwd path \<noteq> target cwd path"
    using ne by (metis last_snoc tmp_dir_def)
  then show "\<not> under (tmp_dir cwd path) (target cwd path)" using len by (simp add: under_def)
qed

text \<open>
  What an observer of the output file may see: it is as it was (\<open>old\<close>), or it has the whole of
  the new contents.
\<close>

definition old_or_new :: "(string \<times> nat) option \<Rightarrow> string \<Rightarrow> (string \<times> nat) option \<Rightarrow> bool" where
  "old_or_new old contents x \<longleftrightarrow> x = old \<or> (\<exists>m. x = Some (contents, m))"

lemma old_or_new_simps [simp]: "old_or_new old c old" "old_or_new old c (Some (c, m))"
  by (simp_all add: old_or_new_def)

text \<open>More generally, what may be seen is given by a predicate \<open>Q\<close>.\<close>

type_synonym seen_pred = "(string \<times> nat) option \<Rightarrow> bool"

definition safe_view :: "fpath \<Rightarrow> seen_pred \<Rightarrow> fpath \<times> (string \<times> nat) option \<Rightarrow> bool" where
  "safe_view cwd Q v \<longleftrightarrow> fst v = cwd \<and> Q (snd v)"

definition before_rename ::
  "fpath \<Rightarrow> fpath \<Rightarrow> (string \<times> nat) option \<Rightarrow> seen_pred \<Rightarrow> world \<Rightarrow> bool" where
  "before_rename p cwd old Q w \<longleftrightarrow>
     observed (\<lambda>f. safe_view cwd Q (view p f)) w \<and> view p (w_fs w) = (cwd, old)"

definition tmp_written ::
  "fpath \<Rightarrow> fpath \<Rightarrow> fpath \<Rightarrow> (string \<times> nat) option \<Rightarrow> seen_pred \<Rightarrow> string \<Rightarrow> world \<Rightarrow> bool" where
  "tmp_written q p cwd old Q contents w \<longleftrightarrow>
     before_rename p cwd old Q w \<and> (\<exists>m. gget (fs_files (w_fs w)) q = Some (contents, m))"

definition after_rename :: "fpath \<Rightarrow> fpath \<Rightarrow> seen_pred \<Rightarrow> string \<Rightarrow> world \<Rightarrow> bool" where
  "after_rename p cwd Q contents w \<longleftrightarrow>
     observed (\<lambda>f. safe_view cwd Q (view p f)) w \<and>
     (\<exists>m. view p (w_fs w) = (cwd, Some (contents, m)))"

definition always_safe :: "fpath \<Rightarrow> fpath \<Rightarrow> seen_pred \<Rightarrow> world \<Rightarrow> bool" where
  "always_safe p cwd Q w \<longleftrightarrow> observed (\<lambda>f. safe_view cwd Q (view p f)) w"

lemmas write_states = before_rename_def tmp_written_def after_rename_def always_safe_def

lemma observed_now: "observed P w \<Longrightarrow> P (w_fs w)"
  by (simp add: observed_def)

lemma observed_same [simp]:
  "observed P (w\<lparr>w_open := n\<rparr>) = observed P w" "observed P (os_Close w) = observed P w"
  by (simp_all add: observed_def os_Close_def)

lemma w_fs_same [simp]: "w_fs (os_Close w) = w_fs w"
  by (simp add: os_Close_def)

lemma hoare_os_ret:
  "(\<And>w. P w \<Longrightarrow> case call w of (w', None) \<Rightarrow> Q w' | (w', Some e) \<Rightarrow> E w') \<Longrightarrow>
   hoare P (os_ret call) (\<lambda>_. Q) E"
  by (rule hoareI) (fastforce simp: os_ret_def split: prod.splits option.splits)

text \<open>A call that leaves the output file alone.\<close>

lemma call_before:
  assumes "before_rename p cwd old Q w" and "keeps p steps" and "os_call F pre steps w = (w', r)"
  shows "before_rename p cwd old Q w'"
  using os_call_keeps [of p steps "safe_view cwd Q" w F pre] os_call_keeps_view [OF assms(2), of F pre w]
    assms by (simp add: before_rename_def)

lemma call_safe:
  assumes "always_safe p cwd Q w" and "keeps p steps"
  shows "always_safe p cwd Q (fst (os_call F pre steps w))"
  using os_call_keeps [of p steps "safe_view cwd Q" w F pre] assms by (simp add: always_safe_def)

lemma before_safe: "before_rename p cwd old Q w \<Longrightarrow> always_safe p cwd Q w"
  by (simp add: write_states)

lemma hoare_Abs:
  "hoare (before_rename p cwd old Q) (filepath_Abs F path)
     (\<lambda>x w. x = abs_of cwd path \<and> before_rename p cwd old Q w) (always_safe p cwd Q)"
proof (rule hoareI)
  fix w assume B: "before_rename p cwd old Q w"
  then have cwd: "fs_cwd (w_fs w) = cwd" by (simp add: before_rename_def view_def)
  obtain w' r where call: "os_call F (\<lambda>f. None) (\<lambda>f. []) w = (w', r)"
    by (cases "os_call F (\<lambda>f. None) (\<lambda>f. []) w")
  have B': "before_rename p cwd old Q w'" by (rule call_before [OF B _ call]) simp
  then show "(\<exists>w' x. filepath_Abs F path w = (w', Ret x) \<and> x = abs_of cwd path \<and> before_rename p cwd old Q w')
      \<or> (\<exists>w' e. filepath_Abs F path w = (w', Err e) \<and> always_safe p cwd Q w')"
    using B cwd call before_safe [OF B']
    by (cases r) (auto simp: filepath_Abs_def os_ret_def sbind_def)
qed

lemma hoare_MkdirAll:
  "hoare (before_rename p cwd old Q) (unless_exists (os_MkdirAll F d))
     (\<lambda>_. before_rename p cwd old Q) (always_safe p cwd Q)"
proof (rule hoareI)
  fix w assume B: "before_rename p cwd old Q w"
  obtain w' r where call: "os_MkdirAll F d w = (w', r)" by (cases "os_MkdirAll F d w")
  then have B': "before_rename p cwd old Q w'"
    unfolding os_MkdirAll_def Let_def by (rule call_before [OF B keeps_mkdir])
  with call before_safe [OF B'] show
    "(\<exists>w' x. unless_exists (os_MkdirAll F d) w = (w', Ret x) \<and> before_rename p cwd old Q w') \<or>
     (\<exists>w' e. unless_exists (os_MkdirAll F d) w = (w', Err e) \<and> always_safe p cwd Q w')"
    by (cases r) (auto simp: unless_exists_def)
qed

lemma resolve_before: "before_rename p cwd old Q w \<Longrightarrow> resolve_in (w_fs w) x = resolve_path cwd x"
  by (simp add: before_rename_def view_def resolve_in_def)

lemma hoare_CreateTemp:
  assumes "resolve_path cwd (d @ ''/'' @ prefix @ rnd) = q" and "q \<noteq> p"
  shows "hoare (before_rename p cwd old Q) (os_CreateTemp F rnd d prefix)
     (\<lambda>x w. x = d @ ''/'' @ prefix @ rnd \<and> before_rename p cwd old Q w) (always_safe p cwd Q)"
proof (rule hoareI)
  fix w assume B: "before_rename p cwd old Q w"
  let ?pre = "\<lambda>f. if \<not> is_dir f (butlast q) then Some ENOENT
               else if is_file f q \<or> is_dir f q then Some EEXIST else None"
  let ?steps = "\<lambda>f. [f\<lparr>fs_files := gset q ([], 384) (fs_files f)\<rparr>]"
  obtain w' r where call: "os_call F ?pre ?steps w = (w', r)" by (cases "os_call F ?pre ?steps w")
  have B': "before_rename p cwd old Q w'" by (rule call_before [OF B _ call]) (simp add: assms(2))
  moreover have "before_rename p cwd old Q (w'\<lparr>w_open := n\<rparr>) = before_rename p cwd old Q w'" for n
    by (simp add: before_rename_def)
  ultimately show "(\<exists>w' x. os_CreateTemp F rnd d prefix w = (w', Ret x) \<and> x = d @ ''/'' @ prefix @ rnd \<and>
        before_rename p cwd old Q w') \<or>
      (\<exists>w' e. os_CreateTemp F rnd d prefix w = (w', Err e) \<and> always_safe p cwd Q w')"
    using before_safe [OF B'] call
    unfolding os_CreateTemp_def Let_def resolve_before [OF B] assms(1) by (cases r) simp_all
qed

lemma hoare_WriteFile:
  assumes "resolve_path cwd x = q" and "q \<noteq> p"
  shows "hoare (before_rename p cwd old Q) (os_ret (os_WriteFile F x c m))
     (\<lambda>_. tmp_written q p cwd old Q c) (always_safe p cwd Q)"
proof (rule hoare_os_ret)
  fix w assume B: "before_rename p cwd old Q w"
  let ?pre = "\<lambda>f. if \<not> is_dir f (butlast q) then Some ENOENT
             else if is_dir f q then Some EISDIR else None"
  have eq: "os_WriteFile F x c m w = os_call F ?pre (write_steps q c m) w"
    unfolding os_WriteFile_def Let_def resolve_before [OF B] assms(1) ..
  obtain w' r where call: "os_call F ?pre (write_steps q c m) w = (w', r)"
    by (cases "os_call F ?pre (write_steps q c m) w")
  have B': "before_rename p cwd old Q w'" by (rule call_before [OF B _ call]) (simp add: assms(2))
  have "\<exists>m'. gget (fs_files (w_fs w')) q = Some (c, m')" if "r = None"
  proof -
    from that call have "w' = visit (write_steps q c m (w_fs w)) w"
      by (auto simp: os_call_def split: option.splits prod.splits if_splits)
    then show ?thesis by (simp add: w_fs_visit write_steps_def Let_def gget_gset)
  qed
  with B' before_safe [OF B'] show "case os_WriteFile F x c m w of (w', None) \<Rightarrow> tmp_written q p cwd old Q c w'
      | (w', Some e) \<Rightarrow> always_safe p cwd Q w'"
    by (cases r) (simp_all add: eq call tmp_written_def)
qed

lemma hoare_Rename:
  assumes "resolve_path cwd x = q" and "resolve_path cwd y = p" and "q \<noteq> p" and new: "\<And>m. Q (Some (c, m))"
  shows "hoare (tmp_written q p cwd old Q c) (os_ret (os_Rename F x y))
     (\<lambda>_. after_rename p cwd Q c) (always_safe p cwd Q)"
proof (rule hoare_os_ret)
  fix w assume T: "tmp_written q p cwd old Q c w"
  then have B: "before_rename p cwd old Q w" by (simp add: tmp_written_def)
  let ?pre = "\<lambda>f. if \<not> is_file f q then Some ENOENT
             else if is_dir f p then Some EEXIST
             else if \<not> is_dir f (butlast p) then Some ENOENT else None"
  have eq: "os_Rename F x y w = os_call F ?pre (rename_steps q p) w"
    unfolding os_Rename_def Let_def resolve_before [OF B] assms(1,2) ..
  obtain m where m: "gget (fs_files (w_fs w)) q = Some (c, m)" using T by (auto simp: tmp_written_def)
  let ?g = "(w_fs w)\<lparr>fs_files := gset p (c, m) (AList.delete q (fs_files (w_fs w)))\<rparr>"
  have steps: "rename_steps q p (w_fs w) = [?g]" by (simp add: rename_steps_def m)
  have g: "view p ?g = (cwd, Some (c, m))"
    using B by (simp add: before_rename_def view_def gget_gset)
  have obs: "observed (\<lambda>f. safe_view cwd Q (view p f)) w" using B by (simp add: before_rename_def)
  have safe_g: "safe_view cwd Q (view p ?g)" by (simp add: g safe_view_def new)
  obtain w' r where call: "os_call F ?pre (rename_steps q p) w = (w', r)"
    by (cases "os_call F ?pre (rename_steps q p) w")
  then have "\<exists>k. w' = visit (take k [?g]) w \<and> (r = None \<longrightarrow> k = 1)"
    by (auto simp: os_call_def steps split: option.splits prod.splits if_splits
        intro: exI [of _ 0] exI [of _ 1])
  then obtain k where k: "w' = visit (take k [?g]) w" "r = None \<longrightarrow> k = 1" by blast
  have "observed (\<lambda>f. safe_view cwd Q (view p f)) w'"
    unfolding k(1) by (rule observed_visit [OF obs]) (use safe_g in \<open>auto dest: in_set_takeD\<close>)
  moreover have "r = None \<longrightarrow> view p (w_fs w') = (cwd, Some (c, m))" using k g by (simp add: w_fs_visit)
  ultimately show "case os_Rename F x y w of (w', None) \<Rightarrow> after_rename p cwd Q c w'
      | (w', Some e) \<Rightarrow> always_safe p cwd Q w'"
    by (cases r) (auto simp: eq call after_rename_def always_safe_def)
qed

definition published ::
  "fpath \<Rightarrow> fpath \<Rightarrow> seen_pred \<Rightarrow> string \<Rightarrow> nat \<Rightarrow> world \<Rightarrow> bool" where
  "published p cwd Q c m w \<longleftrightarrow>
     always_safe p cwd Q w \<and> gget (fs_files (w_fs w)) p = Some (c, m)"

lemma hoare_Chmod:
  assumes "resolve_path cwd y = p" and new: "\<And>m. Q (Some (c, m))"
  shows "hoare (after_rename p cwd Q c) (os_ret (os_Chmod F y perm))
     (\<lambda>_. published p cwd Q c perm) (always_safe p cwd Q)"
proof (rule hoare_os_ret)
  fix w assume A: "after_rename p cwd Q c w"
  then obtain m where m: "view p (w_fs w) = (cwd, Some (c, m))"
    and obs: "observed (\<lambda>f. safe_view cwd Q (view p f)) w"
    by (auto simp: after_rename_def)
  let ?pre = "\<lambda>f. if is_file f p \<or> is_dir f p then None else Some ENOENT"
  have "resolve_in (w_fs w) y = p" using m assms(1) by (simp add: view_def resolve_in_def)
  then have eq: "os_Chmod F y perm w = os_call F ?pre (chmod_steps p perm) w"
    unfolding os_Chmod_def Let_def by (simp only:)
  let ?g = "(w_fs w)\<lparr>fs_files := gset p (c, perm) (fs_files (w_fs w))\<rparr>"
  have steps: "chmod_steps p perm (w_fs w) = [?g]" using m by (simp add: chmod_steps_def view_def)
  have g: "view p ?g = (cwd, Some (c, perm))" using m by (simp add: view_def gget_gset)
  have safe_g: "safe_view cwd Q (view p ?g)" by (simp add: g safe_view_def new)
  obtain w' r where call: "os_call F ?pre (chmod_steps p perm) w = (w', r)"
    by (cases "os_call F ?pre (chmod_steps p perm) w")
  then have "\<exists>k. w' = visit (take k [?g]) w \<and> (r = None \<longrightarrow> k = 1)"
    by (auto simp: os_call_def steps split: option.splits prod.splits if_splits
        intro: exI [of _ 0] exI [of _ 1])
  then obtain k where k: "w' = visit (take k [?g]) w" "r = None \<longrightarrow> k = 1" by blast
  have "always_safe p cwd Q w'"
    unfolding k(1) always_safe_def
    by (rule observed_visit [OF obs]) (use safe_g in \<open>auto dest: in_set_takeD\<close>)
  moreover have "r = None \<longrightarrow> gget (fs_files (w_fs w')) p = Some (c, perm)"
    using k g by (simp add: w_fs_visit view_def)
  ultimately show "case os_Chmod F y perm w of (w', None) \<Rightarrow> published p cwd Q c perm w'
      | (w', Some e) \<Rightarrow> always_safe p cwd Q w'"
    by (cases r) (auto simp: eq call published_def)
qed

text \<open>The deferred functions do not touch the output file.\<close>

lemma safe_cwd: "always_safe p cwd Q w \<Longrightarrow> resolve_in (w_fs w) x = resolve_path cwd x"
  by (auto simp: always_safe_def safe_view_def view_def resolve_in_def dest!: observed_now)

lemma safe_Close: "always_safe p cwd Q w \<Longrightarrow> always_safe p cwd Q (os_Close w)"
  by (simp add: always_safe_def)

lemma safe_Remove:
  assumes S: "always_safe p cwd Q w" and "resolve_path cwd x = q" and "q \<noteq> p"
  shows "always_safe p cwd Q (fst (os_Remove F x w))"
  unfolding os_Remove_def Let_def safe_cwd [OF S] assms(2)
  by (rule call_safe [OF S]) (simp add: assms(3))

lemma safe_RemoveAll:
  assumes S: "always_safe p cwd Q w" and "resolve_path cwd x = q" and "\<not> under q p"
  shows "always_safe p cwd Q (fst (os_RemoveAll F x w))"
  unfolding os_RemoveAll_def Let_def safe_cwd [OF S] assms(2)
  by (rule call_safe [OF S]) (simp add: assms(3))

lemma hoare_move_into_place:
  assumes "resolve_path cwd x = q" and "resolve_path cwd y = p" and "q \<noteq> p" and "\<And>m. Q (Some (c, m))"
  shows "hoare (before_rename p cwd old Q) (move_into_place F x y c perm)
     (\<lambda>_. published p cwd Q c perm) (always_safe p cwd Q)"
  unfolding move_into_place_def
  by (rule hoare_sbind [OF hoare_swrap [OF hoare_WriteFile [OF assms(1,3)]]
        hoare_sbind [OF hoare_swrap [OF hoare_Rename [where Q = Q and c = c, OF assms]]
          hoare_swrap [OF hoare_Chmod [where Q = Q and c = c, OF assms(2,4)]]]])

lemma hoare_write_through:
  assumes place: "place_ok cwd path rnd" and p: "p = target cwd path" and new: "\<And>m. Q (Some (c, m))"
  shows "hoare (before_rename p cwd old Q)
     (write_through F rnd (abs_path (tmp_dir cwd path)) path c perm)
     (\<lambda>_. published p cwd Q c perm) (always_safe p cwd Q)"
proof -
  let ?q = "tmp_name cwd path rnd" and ?d = "abs_path (tmp_dir cwd path)"
  let ?n = "?d @ ''/'' @ ''gfd-'' @ rnd"
  have q: "resolve_path cwd ?n = ?q" by (rule tmp_name_path [OF place])
  have d: "resolve_path cwd ?d = tmp_dir cwd path" using tmp_dir_path(2) [OF place] by simp
  have y: "resolve_path cwd path = p" by (simp add: p target_def)
  have qp: "?q \<noteq> p" and dp: "\<not> under (tmp_dir cwd path) p" using places_differ [OF place] p by simp_all
  have guarded: "hoare (before_rename p cwd old Q)
      (on_error (\<lambda>w. fst (os_Remove F ?n (os_Close w))) (move_into_place F ?n path c perm))
      (\<lambda>_. published p cwd Q c perm) (always_safe p cwd Q)"
    by (rule hoare_on_error [OF hoare_move_into_place [where Q = Q and c = c, OF q y qp new]])
      (rule safe_Remove [OF safe_Close q qp])
  have "hoare (before_rename p cwd old Q)
      (sbind (swrap msg (os_CreateTemp F rnd ?d ''gfd-'')) (\<lambda>tmpName.
       on_error (\<lambda>w. fst (os_Remove F tmpName (os_Close w))) (move_into_place F tmpName path c perm)))
      (\<lambda>_. published p cwd Q c perm) (always_safe p cwd Q)" for msg
    by (rule hoare_sbind [OF hoare_swrap [OF hoare_CreateTemp [OF q qp]]])
      (auto intro!: hoareI dest!: hoareD [OF guarded])
  then show ?thesis
    unfolding write_through_def by (rule hoare_on_error) (rule safe_RemoveAll [OF _ d dp])
qed

text \<open>
  The correctness of \<^verbatim>\<open>writeFileAtomically\<close>, for every fault plan: at no moment is there anything
  at the path but the old file or the complete new one, and when no error is returned it is the
  new one, with the wanted mode.
\<close>

lemma hoare_writeFileAtomically:
  assumes place: "place_ok cwd path rnd" and p: "p = target cwd path" and new: "\<And>m. Q (Some (c, m))"
  shows "hoare (before_rename p cwd old Q) (writeFileAtomically F rnd path c perm)
     (\<lambda>_. published p cwd Q c perm) (always_safe p cwd Q)"
proof -
  have "hoare (\<lambda>w. absPath = abs_of cwd path \<and> before_rename p cwd old Q w)
      (let absDir = filepath_Dir absPath; tmpDir = filepath_Join [absDir, ''gfd-tmp''] in
       sbind (swrap msg (unless_exists (os_MkdirAll F tmpDir))) (\<lambda>_. write_through F rnd tmpDir path c perm))
      (\<lambda>_. published p cwd Q c perm) (always_safe p cwd Q)" for absPath msg
  proof (cases "absPath = abs_of cwd path")
    case True
    then show ?thesis
      unfolding Let_def True tmp_dir_path(1) [OF place]
      by (intro hoare_weaken [OF hoare_sbind [OF hoare_swrap [OF hoare_MkdirAll]
            hoare_write_through [where Q = Q and c = c, OF assms]]]) simp_all
  qed (auto intro: hoareI)
  then show ?thesis
    unfolding writeFileAtomically_def by (rule hoare_sbind [OF hoare_swrap [OF hoare_Abs]])
qed

lemma WriteTo_buffer: "WriteTo cs labels buffer_write [] = (render cs labels, length (render cs labels), None)"
  by (simp add: render_def WriteTo_def write_buffer)

lemma hoare_UpdateFile:
  assumes "path \<noteq> []" and "place_ok cwd path rnd" and "p = target cwd path"
    and "\<And>m. Q (Some (render cs labels, m))"
  shows "hoare (before_rename p cwd old Q) (UpdateFile F rnd cs path labels)
    (\<lambda>_. published p cwd Q (render cs labels) 420) (always_safe p cwd Q)"
  using hoare_swrap [OF hoare_writeFileAtomically [where Q = Q and c = "render cs labels", OF assms(2-4)]] assms(1)
  by (simp add: UpdateFile_def WriteTo_buffer)

section \<open>Removing the output file\<close>

lemma RemoveAll_Ret:
  assumes "os_RemoveAll F x w = (w', None)"
  shows "w_fs w' = (w_fs w)\<lparr>
     fs_files := filter (\<lambda>(q, _). \<not> under (resolve_in (w_fs w) x) q) (fs_files (w_fs w)),
     fs_dirs := filter (\<lambda>d. \<not> under (resolve_in (w_fs w) x) d) (fs_dirs (w_fs w))\<rparr>"
  using assms
  by (auto simp: os_RemoveAll_def os_call_def Let_def w_fs_visit remove_all_steps_def
      split: option.splits)

lemma Remove_Ret:
  assumes "os_Remove F x w = (w', None)"
  shows "w_fs w' = (w_fs w)\<lparr>fs_files := AList.delete (resolve_in (w_fs w) x) (fs_files (w_fs w)),
     fs_dirs := filter (\<lambda>d. d \<noteq> resolve_in (w_fs w) x) (fs_dirs (w_fs w))\<rparr>"
  using assms
  by (auto simp: os_Remove_def os_call_def Let_def w_fs_visit remove_steps_def
      split: option.splits if_splits)

lemma os_ret_Ret: "os_ret call w = (w', Ret x) \<longleftrightarrow> call w = (w', None)"
  by (auto simp: os_ret_def split: prod.splits option.splits)

lemma Abs_Ret: "filepath_Abs F path w = (w', Ret x) \<Longrightarrow> w_fs w' = w_fs w \<and> x = abs_of (fs_cwd (w_fs w)) path"
  by (auto simp: filepath_Abs_def sbind_Ret_iff os_ret_Ret os_call_def w_fs_visit
      split: if_splits option.splits)

lemma gget_filter_under: "gget (filter (\<lambda>(q, _). \<not> under d q) m) p = (if under d p then None else gget m p)"
  by (induction m) auto

lemma removeOutputFile_Ret:
  assumes place: "place_ok (fs_cwd (w_fs w)) path []"
    and run: "removeOutputFile F path w = (w', Ret ())"
  shows "\<not> is_file (w_fs w') (target (fs_cwd (w_fs w)) path)"
    and "under (tmp_dir (fs_cwd (w_fs w)) path) q \<Longrightarrow> \<not> is_file (w_fs w') q"
    and "q \<noteq> target (fs_cwd (w_fs w)) path \<Longrightarrow> \<not> under (tmp_dir (fs_cwd (w_fs w)) path) q \<Longrightarrow>
      gget (fs_files (w_fs w')) q = gget (fs_files (w_fs w)) q"
proof -
  let ?cwd = "fs_cwd (w_fs w)" and ?p = "target (fs_cwd (w_fs w)) path"
  let ?d = "tmp_dir ?cwd path"
  have cwd: "\<forall>c \<in> set ?cwd. entry_name c" using place by (simp add: place_ok_def)
  obtain w1 x where 1: "filepath_Abs F path w = (w1, Ret x)"
    and rest: "sbind (swrap ''failed to remove temporary output directory: ''
        (os_ret (os_RemoveAll F (filepath_Join [filepath_Dir x, ''gfd-tmp'']))))
       (\<lambda>_. swrap ''failed to remove output file: '' (os_ret (os_Remove F x))) w1 = (w', Ret ())"
    using run by (auto simp: removeOutputFile_def sbind_Ret_iff swrap_Ret_iff Let_def)
  have w1: "w_fs w1 = w_fs w" and x: "x = abs_path ?p"
    using Abs_Ret [OF 1] abs_of_eq [OF cwd] by (simp_all add: target_def)
  have d: "filepath_Join [filepath_Dir x, ''gfd-tmp''] = abs_path ?d"
    using tmp_dir_path(1) [OF place] Abs_Ret [OF 1] by simp
  obtain w2 where 2: "os_RemoveAll F (abs_path ?d) w1 = (w2, None)" "os_Remove F x w2 = (w', None)"
    using rest by (auto simp: sbind_Ret_iff swrap_Ret_iff os_ret_Ret d)
  have rd: "resolve_in f (abs_path ?d) = ?d" for f
    using tmp_dir_path(2) [OF place] by (simp add: resolve_in_def)
  have entries: "\<forall>c \<in> set ?p. entry_name c" unfolding target_def by (rule resolve_entries [OF cwd])
  have rx: "resolve_in f x = ?p" for f using entries by (simp add: x resolve_in_def)
  have files: "fs_files (w_fs w') =
      AList.delete ?p (filter (\<lambda>(q, _). \<not> under ?d q) (fs_files (w_fs w)))"
    using RemoveAll_Ret [OF 2(1)] Remove_Ret [OF 2(2)] by (simp add: rd rx w1)
  show "\<not> is_file (w_fs w') ?p" by (simp add: is_file_def files delete_conv')
  show "under ?d q \<Longrightarrow> \<not> is_file (w_fs w') q"
    by (simp add: is_file_def files delete_conv' gget_filter_under)
  show "q \<noteq> ?p \<Longrightarrow> \<not> under ?d q \<Longrightarrow> gget (fs_files (w_fs w')) q = gget (fs_files (w_fs w)) q"
    by (simp add: files delete_conv' gget_filter_under)
qed

section \<open>The NodeFeature object\<close>

text \<open>
  What the program relies on: the API server keeps what it accepts (it may fill in metadata).
\<close>

definition stores_objects :: "('f, 's) nfd_client \<Rightarrow> bool" where
  "stores_objects cli \<longleftrightarrow>
     (\<forall>ns obj s s'. nfd_Create cli ns obj s = (s', Ret ()) \<or> nfd_Update cli ns obj s = (s', Ret ()) \<longrightarrow>
        (\<exists>md. nfd_Get cli ns (nf_Name obj) s' = NfFound (obj\<lparr>nf_Metadata := md\<rparr>)))"

text \<open>The server answers a request for an object with an object of that name.\<close>

definition answers_by_name :: "('f, 's) nfd_client \<Rightarrow> bool" where
  "answers_by_name cli \<longleftrightarrow>
     (\<forall>ns n s nfr. nfd_Get cli ns n s = NfFound nfr \<longrightarrow> nf_Name nfr = n)"

definition object_of :: "('f, 's) k8s_env \<Rightarrow> ('f, 's) nfd_client \<Rightarrow> 's \<Rightarrow> 'f get_result" where
  "object_of E cli s = nfd_Get cli (GetKubernetesNamespace E)
     (go_join ''-'' [nodeFeatureVendorPrefix, NodeName E]) s"

definition carries :: "('f, 's) k8s_env \<Rightarrow> labels \<Rightarrow> 'f node_feature \<Rightarrow> bool" where
  "carries E labels nfr \<longleftrightarrow>
     gmap_eq (nf_ObjectLabels nfr) [(NodeFeatureObjNodeNameLabel, NodeName E)] \<and>
     nf_Features nfr = env_NewFeatures E \<and> gmap_eq (nf_SpecLabels nfr) labels"

lemma gmap_eq_refl [simp]: "gmap_eq m m"
  by (simp add: gmap_eq_def)

lemma gmap_eq_gget: "gmap_eq a b \<longleftrightarrow> gget a = gget b"
proof
  assume eq: "gmap_eq a b"
  have "gget a k = gget b k" for k
  proof (cases "k \<in> set (map fst a @ map fst b)")
    case True
    with eq show ?thesis by (simp only: gmap_eq_def)
  next
    case False
    then show ?thesis by (simp add: gget_None_iff [THEN iffD2])
  qed
  then show "gget a = gget b" ..
qed (simp add: gmap_eq_def)

lemma carries_equal:
  "carries E labels nfr \<longleftrightarrow> nf_equal nfr (nfr\<lparr>nf_ObjectLabels := [(NodeFeatureObjNodeNameLabel, NodeName E)],
      nf_Features := env_NewFeatures E, nf_SpecLabels := labels\<rparr>)"
  by (auto simp: carries_def nf_equal_def)

text \<open>An object that carries the labels already is not written again.\<close>

lemma UpdateNodeFeatureObject_unchanged:
  assumes "GetKubernetesClient E = Ret cli" and "object_of E cli s = NfFound nfr" and "carries E labels nfr"
  shows "UpdateNodeFeatureObject E labels s = (s, Ret ())"
  using assms by (simp add: UpdateNodeFeatureObject_def object_of_def carries_equal sbind_def Let_def)

lemma UpdateNodeFeatureObject_stored:
  assumes cli: "GetKubernetesClient E = Ret cli" and "stores_objects cli" and "answers_by_name cli"
    and run: "UpdateNodeFeatureObject E labels s = (s', Ret ())"
  shows "\<exists>nfr. object_of E cli s' = NfFound nfr \<and> carries E labels nfr"
proof -
  let ?ns = "GetKubernetesNamespace E" and ?n = "go_join ''-'' [nodeFeatureVendorPrefix, NodeName E]"
  let ?ol = "[(NodeFeatureObjNodeNameLabel, NodeName E)]"
  show ?thesis
  proof (cases "nfd_Get cli ?ns ?n s")
    case (NfFound nfr)
    let ?new = "nfr\<lparr>nf_ObjectLabels := ?ol, nf_Features := env_NewFeatures E, nf_SpecLabels := labels\<rparr>"
    have name: "nf_Name ?new = ?n" using assms(3) NfFound by (simp add: answers_by_name_def)
    show ?thesis
    proof (cases "nf_equal nfr ?new")
      case True
      with run cli NfFound have "s' = s" by (simp add: UpdateNodeFeatureObject_def sbind_def Let_def)
      with NfFound True show ?thesis by (simp add: object_of_def carries_equal)
    next
      case False
      with run cli NfFound have "nfd_Update cli ?ns ?new s = (s', Ret ())"
        by (simp add: UpdateNodeFeatureObject_def sbind_def swrap_Ret_iff Let_def)
      then obtain md where "nfd_Get cli ?ns (nf_Name ?new) s' = NfFound (?new\<lparr>nf_Metadata := md\<rparr>)"
        using assms(2) unfolding stores_objects_def by blast
      then show ?thesis unfolding name object_of_def carries_def by simp
    qed
  next
    case NfNotFound
    let ?new = "\<lparr>nf_Name = ?n, nf_ObjectLabels = ?ol, nf_Features = env_NewFeatures E,
        nf_SpecLabels = labels, nf_Metadata = []\<rparr>"
    from run cli NfNotFound have "nfd_Create cli ?ns ?new s = (s', Ret ())"
      by (simp add: UpdateNodeFeatureObject_def sbind_def swrap_Ret_iff Let_def)
    then obtain md where "nfd_Get cli ?ns (nf_Name ?new) s' = NfFound (?new\<lparr>nf_Metadata := md\<rparr>)"
      using assms(2) unfolding stores_objects_def by blast
    then show ?thesis unfolding object_of_def carries_def by simp
  next
    case (NfError e)
    with run cli show ?thesis by (simp add: UpdateNodeFeatureObject_def sbind_def Let_def)
  qed
qed

section \<open>No crash\<close>

lemma os_ret_no_crash [simp]: "no_crash (snd (os_ret call w))"
  by (auto simp: os_ret_def split: prod.splits option.splits)

lemma filepath_Abs_no_crash [simp]: "no_crash (snd (filepath_Abs F path w))"
  by (auto simp: filepath_Abs_def intro!: no_crash_sbind)

lemma unless_exists_no_crash [simp]: "no_crash (snd (unless_exists call w))"
  by (auto simp: unless_exists_def split: prod.splits option.splits)

lemma os_CreateTemp_no_crash [simp]: "no_crash (snd (os_CreateTemp F rnd d p w))"
  by (auto simp: os_CreateTemp_def Let_def split: prod.splits option.splits)

lemma on_error_no_crash [simp]: "no_crash (snd (on_error c m w)) = no_crash (snd (m w))"
  by (auto simp: on_error_def split: prod.splits go.splits)

lemma writeFileAtomically_no_crash: "no_crash (snd (writeFileAtomically F rnd path c perm w))"
  unfolding writeFileAtomically_def write_through_def move_into_place_def Let_def
  by (auto intro!: no_crash_sbind)

lemma UpdateFile_no_crash: "no_crash (snd (UpdateFile F rnd cs path labels w))"
  by (auto simp: UpdateFile_def WriteTo_buffer writeFileAtomically_no_crash
      split: prod.splits option.splits)

lemma removeOutputFile_no_crash: "no_crash (snd (removeOutputFile F path w))"
  unfolding removeOutputFile_def Let_def by (auto intro!: no_crash_sbind)

definition client_ok :: "('f, 's) k8s_env \<Rightarrow> bool" where
  "client_ok E \<longleftrightarrow> no_crash (env_InClusterConfig E) \<and> no_crash (env_NewForConfig E) \<and>
     (\<forall>cli. env_NewForConfig E = Ret cli \<longrightarrow>
        (\<forall>ns obj s. no_crash (snd (nfd_Create cli ns obj s)) \<and> no_crash (snd (nfd_Update cli ns obj s))))"

lemma UpdateNodeFeatureObject_no_crash:
  assumes "client_ok E"
  shows "no_crash (snd (UpdateNodeFeatureObject E labels s))"
proof -
  have cli: "no_crash (GetKubernetesClient E)"
    using assms by (auto simp: GetKubernetesClient_def client_ok_def intro!: no_crash_gbind)
  have "GetKubernetesClient E = Ret cli \<Longrightarrow> env_NewForConfig E = Ret cli" for cli
    by (auto simp: GetKubernetesClient_def)
  with cli assms show ?thesis
    unfolding UpdateNodeFeatureObject_def
    by (intro no_crash_sbind) (auto simp: Let_def client_ok_def split: get_result.splits)
qed

lemma Output_no_crash:
  "client_ok E \<Longrightarrow> no_crash (snd (Output F rnd cs E path api labels d))"
  using UpdateNodeFeatureObject_no_crash [of E labels "snd d"] UpdateFile_no_crash [of F rnd cs path labels "fst d"]
  by (auto simp: Output_def split: prod.splits)

section \<open>The output file through a run\<close>

lemma always_safe_before: "always_safe p cwd Q w \<longleftrightarrow> (\<exists>old. before_rename p cwd old Q w)"
proof
  assume S: "always_safe p cwd Q w"
  then have "safe_view cwd Q (view p (w_fs w))" unfolding always_safe_def by (rule observed_now)
  then have "view p (w_fs w) = (cwd, gget (fs_files (w_fs w)) p)" by (simp add: safe_view_def view_def)
  with S show "\<exists>old. before_rename p cwd old Q w" by (auto simp: before_rename_def always_safe_def)
qed (auto simp: before_safe)

lemma stdout_write_fs:
  "w_fs (fst (stdout_write F w s)) = w_fs w \<and> w_seen (fst (stdout_write F w s)) = w_seen w"
  by (simp add: stdout_write_def Let_def split: option.splits)

lemma write_loop_fs:
  "w_fs (fst (write_loop (stdout_write F) kvs w n)) = w_fs w \<and>
   w_seen (fst (write_loop (stdout_write F) kvs w n)) = w_seen w"
proof (induction kvs arbitrary: w n)
  case (Cons kv kvs)
  obtain w' k err where s: "stdout_write F w (label_line kv) = (w', k, err)"
    by (cases "stdout_write F w (label_line kv)")
  with stdout_write_fs [of F w "label_line kv"] Cons.IH [of w' "n + k"] show ?case
    by (cases err) (simp_all add: Let_def)
qed simp

lemma safe_same_fs:
  "always_safe p cwd Q w \<Longrightarrow> w_fs w' = w_fs w \<Longrightarrow> w_seen w' = w_seen w \<Longrightarrow> always_safe p cwd Q w'"
  by (simp add: always_safe_def observed_def)

text \<open>Whatever becomes of an update, the file stays one that \<open>Q\<close> allows.\<close>

lemma UpdateFile_safe:
  assumes S: "always_safe p cwd Q w" and "path \<noteq> [] \<Longrightarrow> place_ok cwd path rnd \<and> p = target cwd path"
    and "\<And>m. Q (Some (render cs labels, m))"
  shows "always_safe p cwd Q (fst (UpdateFile F rnd cs path labels w))"
proof (cases "path = []")
  case True
  obtain w' n err where loop: "WriteTo cs labels (stdout_write F) w = (w', n, err)"
    by (cases "WriteTo cs labels (stdout_write F) w")
  then have "w_fs w' = w_fs w \<and> w_seen w' = w_seen w"
    using write_loop_fs [of F "range_perm cs labels" w 0] by (simp add: WriteTo_def)
  with S have "always_safe p cwd Q w'" using safe_same_fs by blast
  then show ?thesis using True loop by (cases err) (simp_all add: UpdateFile_def)
next
  case False
  with assms(2) have place: "place_ok cwd path rnd" "p = target cwd path" by auto
  from S obtain old where "before_rename p cwd old Q w" by (auto simp: always_safe_before)
  with hoare_UpdateFile [where Q = Q, OF False place assms(3)] show ?thesis
    by (rule hoare_fst) (auto simp: published_def)
qed

lemma filepath_Abs_safe:
  assumes "always_safe p cwd Q w"
  shows "always_safe p cwd Q (fst (filepath_Abs F path w))"
proof -
  from assms obtain old where "before_rename p cwd old Q w" by (auto simp: always_safe_before)
  with hoare_Abs show ?thesis by (rule hoare_fst) (auto intro: before_safe)
qed

lemma safe_os_ret: "fst (os_ret call w) = fst (call w)"
  by (auto simp: os_ret_def split: prod.splits option.splits)

text \<open>Removing the target itself: allowed when \<open>Q\<close> allows the file to be absent.\<close>

lemma safe_Remove_target:
  assumes S: "always_safe p cwd Q w" and "Q None"
  shows "always_safe p cwd Q (fst (os_Remove F x w))"
  unfolding os_Remove_def Let_def always_safe_def
proof (rule os_call_observed)
  show "observed (\<lambda>f. safe_view cwd Q (view p f)) w" using S by (simp add: always_safe_def)
next
  fix f assume "safe_view cwd Q (view p f)"
  then show "\<forall>g \<in> set (remove_steps (resolve_in (w_fs w) x) f). safe_view cwd Q (view p g)"
    using assms(2) by (simp add: remove_steps_def safe_view_def view_def delete_conv')
qed

lemma fst_sbind_safe:
  assumes "P (fst (m w))" and "\<And>w' x. m w = (w', Ret x) \<Longrightarrow> P w' \<Longrightarrow> P (fst (f x w'))"
  shows "P (fst (sbind m f w))"
  using assms by (cases "m w"; cases "snd (m w)") (auto simp: sbind_def)

lemma fst_swrap [simp]: "fst (swrap msg m w) = fst (m w)"
  by (cases "m w") simp

lemma removeOutputFile_safe:
  assumes S: "always_safe p cwd Q w" and place: "place_ok cwd path rnd" and p: "p = target cwd path"
    and "Q None"
  shows "always_safe p cwd Q (fst (removeOutputFile F path w))"
  unfolding removeOutputFile_def
proof (rule fst_sbind_safe)
  show "always_safe p cwd Q (fst (swrap ''failed to retrieve absolute path of output file: ''
      (filepath_Abs F path) w))"
    using filepath_Abs_safe [OF S] by simp
next
  fix w1 x
  assume "swrap ''failed to retrieve absolute path of output file: '' (filepath_Abs F path) w = (w1, Ret x)"
    and S1: "always_safe p cwd Q w1"
  then have "x = abs_of (fs_cwd (w_fs w)) path" using Abs_Ret by (auto simp: swrap_Ret_iff)
  moreover have "fs_cwd (w_fs w) = cwd"
    using S by (auto simp: always_safe_before before_rename_def view_def)
  ultimately have d: "filepath_Join [filepath_Dir x, ''gfd-tmp''] = abs_path (tmp_dir cwd path)"
    using tmp_dir_path(1) [OF place] by simp
  have rd: "resolve_path cwd (abs_path (tmp_dir cwd path)) = tmp_dir cwd path"
    using tmp_dir_path(2) [OF place] by simp
  have nu: "\<not> under (tmp_dir cwd path) p" using places_differ(2) [OF place] p by simp
  show "always_safe p cwd Q (fst ((let absDir = filepath_Dir x; tmpDir = filepath_Join [absDir, ''gfd-tmp'']
      in sbind (swrap ''failed to remove temporary output directory: '' (os_ret (os_RemoveAll F tmpDir)))
        (\<lambda>_. swrap ''failed to remove output file: '' (os_ret (os_Remove F x)))) w1))"
    unfolding Let_def d
    by (rule fst_sbind_safe) (simp_all add: safe_os_ret safe_RemoveAll [OF S1 rd nu]
        safe_Remove_target assms(4))
qed

text \<open>No call fails.\<close>

definition no_faults :: faults where
  "no_faults = (\<lambda>_. None)"

text \<open>
  When no call fails from now on, the file is gone in the end, also when it was not there to begin
  with, and so is everything below the temporary directory; every other file is as it was.
\<close>

lemma w_calls_visit [simp]: "w_calls (visit ss w) = Suc (w_calls w)"
  by (simp add: visit_def)

lemma removeOutputFile_files:
  assumes place: "place_ok (fs_cwd (w_fs w)) path rnd" and F: "\<forall>i \<ge> w_calls w. F i = None"
  shows "gget (fs_files (w_fs (fst (removeOutputFile F path w)))) q =
    (if q = target (fs_cwd (w_fs w)) path \<or> under (tmp_dir (fs_cwd (w_fs w)) path) q then None
     else gget (fs_files (w_fs w)) q)"
proof -
  let ?cwd = "fs_cwd (w_fs w)" and ?p = "target (fs_cwd (w_fs w)) path"
  let ?t = "tmp_dir ?cwd path"
  have cwd: "\<forall>c \<in> set ?cwd. entry_name c" using place by (simp add: place_ok_def)
  have "filepath_Abs F path w = (if filepath_IsAbs path then w else visit [] w, Ret (abs_of ?cwd path))"
    using F by (simp add: filepath_Abs_def os_ret_def os_call_def sbind_def)
  then obtain w1 where 1: "filepath_Abs F path w = (w1, Ret (abs_of ?cwd path))" and c1: "w_calls w \<le> w_calls w1"
    by (cases "filepath_IsAbs path") simp_all
  then have w1: "w_fs w1 = w_fs w" using Abs_Ret by blast
  have d: "filepath_Join [filepath_Dir (abs_of ?cwd path), ''gfd-tmp''] = abs_path ?t"
    by (rule tmp_dir_path(1) [OF place])
  have rd: "resolve_in f (abs_path ?t) = ?t" for f
    using tmp_dir_path(2) [OF place] by (simp add: resolve_in_def)
  obtain w2 where 2: "os_RemoveAll F (abs_path ?t) w1 = (w2, None)" and c2: "w_calls w \<le> w_calls w2"
    using F c1 by (auto simp: os_RemoveAll_def os_call_def Let_def)
  have f2: "fs_files (w_fs w2) = filter (\<lambda>(q, _). \<not> under ?t q) (fs_files (w_fs w))"
    using RemoveAll_Ret [OF 2] by (simp add: rd w1)
  have x: "abs_of ?cwd path = abs_path ?p" using abs_of_eq [OF cwd] by (simp add: target_def)
  have entries: "\<forall>c \<in> set ?p. entry_name c" unfolding target_def by (rule resolve_entries [OF cwd])
  have rx: "resolve_in f (abs_of ?cwd path) = ?p" for f using entries by (simp add: x resolve_in_def)
  obtain w3 r where 3: "os_Remove F (abs_of ?cwd path) w2 = (w3, r)"
    by (cases "os_Remove F (abs_of ?cwd path) w2")
  have "gget (fs_files (w_fs w3)) q = (if q = ?p then None else gget (fs_files (w_fs w2)) q)"
  proof (cases r)
    case None
    with Remove_Ret [of F "abs_of ?cwd path" w2 w3] 3 show ?thesis
      by (simp add: rx delete_conv')
  next
    case (Some e)
    with 3 F c2 have "\<not> is_file (w_fs w2) ?p \<and> w_fs w3 = w_fs w2"
      by (auto simp: os_Remove_def os_call_def Let_def rx w_fs_visit split: option.splits if_splits)
    then show ?thesis by (simp add: is_file_def del: not_None_eq)
  qed
  moreover have "fst (removeOutputFile F path w) = w3"
    using 1 2 3 by (cases r) (simp_all add: removeOutputFile_def d os_ret_def)
  ultimately show ?thesis by (simp add: f2 gget_filter_under)
qed

end
