(* ===== verification/Signals.thy ===== *)
theory Signals
  imports Go_Prelude "HOL-Library.Sublist"
begin

text \<open>
  Signals: \<^verbatim>\<open>newOSWatcher\<close> of \<^verbatim>\<open>cmd/gpu-feature-discovery/watchers.go\<close> and the \<^verbatim>\<open>select\<close> of \<^verbatim>\<open>run\<close> that
  reads its channel.  \<^verbatim>\<open>signal.Notify\<close> sends without waiting, so a signal that finds the buffer of
  the channel full is dropped.  The channel lives as long as \<^verbatim>\<open>start\<close>; what the loop sees of it is
  the list of events \<open>consumed\<close>.
\<close>

section \<open>The channel\<close>

text \<open>The signals \<^verbatim>\<open>start\<close> subscribes to, and the two cases of the \<^verbatim>\<open>select\<close>.\<close>

datatype os_signal = SIGHUP | SIGINT | SIGTERM | SIGQUIT

datatype event = Timeout | Signal os_signal

record sig_chan =
  ch_cap :: nat
  ch_buf :: "os_signal list"
  ch_sigs :: "os_signal list"

definition newOSWatcher :: "os_signal list \<Rightarrow> sig_chan" where
  "newOSWatcher sigs = \<lparr>ch_cap = 1, ch_buf = [], ch_sigs = sigs\<rparr>"

definition start_signals :: "os_signal list" where
  "start_signals = [SIGHUP, SIGINT, SIGTERM, SIGQUIT]"

text \<open>The send of \<^verbatim>\<open>signal.Notify\<close>, and the receive of the \<^verbatim>\<open>select\<close>, which waits on an empty channel.\<close>

definition notify :: "os_signal \<Rightarrow> sig_chan \<Rightarrow> sig_chan" where
  "notify s c =
     (if s \<in> set (ch_sigs c) \<and> length (ch_buf c) < ch_cap c then c\<lparr>ch_buf := ch_buf c @ [s]\<rparr> else c)"

definition receive :: "sig_chan \<Rightarrow> (os_signal \<times> sig_chan) option" where
  "receive c = (case ch_buf c of [] \<Rightarrow> None | s # ss \<Rightarrow> Some (s, c\<lparr>ch_buf := ss\<rparr>))"

section \<open>Interleavings\<close>

text \<open>
  A signal arrives at any time; the \<^verbatim>\<open>select\<close> takes a signal that is there or the expiry of the
  sleep, and chooses freely when both are ready.
\<close>

datatype action = Arrive os_signal | Expire | Take os_signal

inductive chan_step :: "sig_chan \<Rightarrow> action \<Rightarrow> sig_chan \<Rightarrow> bool" where
  arrive: "chan_step c (Arrive s) (notify s c)"
| expire: "chan_step c Expire c"
| take_signal: "receive c = Some (s, c') \<Longrightarrow> chan_step c (Take s) c'"

inductive chan_exec :: "sig_chan \<Rightarrow> action list \<Rightarrow> sig_chan \<Rightarrow> bool" where
  chan_done: "chan_exec c [] c"
| chan_more: "chan_exec c as c' \<Longrightarrow> chan_step c' a c'' \<Longrightarrow> chan_exec c (as @ [a]) c''"

code_pred chan_step .

fun consumed :: "action list \<Rightarrow> event list" where
  "consumed [] = []"
| "consumed (Arrive s # as) = consumed as"
| "consumed (Expire # as) = Timeout # consumed as"
| "consumed (Take s # as) = Signal s # consumed as"

definition arrivals :: "action list \<Rightarrow> os_signal list" where
  "arrivals as = List.map_filter (\<lambda>a. case a of Arrive s \<Rightarrow> Some s | _ \<Rightarrow> None) as"

definition taken :: "action list \<Rightarrow> os_signal list" where
  "taken as = List.map_filter (\<lambda>a. case a of Take s \<Rightarrow> Some s | _ \<Rightarrow> None) as"

lemma arrivals_simps [simp]:
  "arrivals [] = []" "arrivals (as @ [Arrive s]) = arrivals as @ [s]"
  "arrivals (as @ [Expire]) = arrivals as" "arrivals (as @ [Take s]) = arrivals as"
  by (simp_all add: arrivals_def map_filter_def)

lemma taken_simps [simp]:
  "taken [] = []" "taken (as @ [Arrive s]) = taken as"
  "taken (as @ [Expire]) = taken as" "taken (as @ [Take s]) = taken as @ [s]"
  by (simp_all add: taken_def map_filter_def)

text \<open>The signals among the consumed events are those taken.\<close>

lemma consumed_taken: "taken as = List.map_filter (\<lambda>e. case e of Signal s \<Rightarrow> Some s | Timeout \<Rightarrow> None) (consumed as)"
  by (induction as rule: consumed.induct) (simp_all add: taken_def map_filter_def)

text \<open>The expiries of the sleep before the first signal is read.\<close>

definition expiries_before :: "action list \<Rightarrow> nat" where
  "expiries_before as = length (takeWhile (\<lambda>e. e = Timeout) (consumed as))"

lemma consumed_first_signal:
  "taken as \<noteq> [] \<Longrightarrow>
   \<exists>rest. consumed as = replicate (expiries_before as) Timeout @ Signal (hd (taken as)) # rest"
  by (induction as rule: consumed.induct) (auto simp: taken_def map_filter_def expiries_before_def)

section \<open>The invariant of the channel\<close>

text \<open>
  What was taken, with what is still in the buffer, is a subsequence of what arrived; the first
  signal to arrive is never lost, and while none is lost the two agree.
\<close>

definition chan_inv :: "action list \<Rightarrow> sig_chan \<Rightarrow> bool" where
  "chan_inv as c \<longleftrightarrow>
     ch_cap c = 1 \<and> ch_sigs c = start_signals \<and> length (ch_buf c) \<le> 1 \<and>
     subseq (taken as @ ch_buf c) (arrivals as) \<and>
     (arrivals as \<noteq> [] \<longrightarrow> taken as @ ch_buf c \<noteq> [] \<and> hd (taken as @ ch_buf c) = hd (arrivals as))"

lemma all_subscribed: "s \<in> set start_signals"
  by (cases s) (simp_all add: start_signals_def)

lemma chan_inv_notify:
  assumes "chan_inv as c"
  shows "chan_inv (as @ [Arrive s]) (notify s c)"
proof (cases "ch_buf c")
  case Nil
  then have "notify s c = c\<lparr>ch_buf := [s]\<rparr>"
    using assms by (simp add: notify_def chan_inv_def all_subscribed)
  with Nil show ?thesis
    using assms by (auto simp: chan_inv_def hd_append)
next
  case (Cons t ts)
  then have "notify s c = c" and "ts = []"
    using assms by (auto simp: notify_def chan_inv_def)
  moreover have "subseq (taken as @ [t]) (arrivals as @ [s])"
    using assms Cons by (intro list_emb_prefix) (auto simp: chan_inv_def)
  moreover have "arrivals as \<noteq> []"
    using assms Cons by (auto simp: chan_inv_def)
  ultimately show ?thesis
    using assms Cons unfolding chan_inv_def arrivals_simps taken_simps by (simp add: hd_append split: if_splits)
qed

lemma chan_inv_step:
  assumes "chan_inv as c" and "chan_step c a c'"
  shows "chan_inv (as @ [a]) c'"
  using assms(2)
proof (cases rule: chan_step.cases)
  case (arrive s)
  then show ?thesis using chan_inv_notify [OF assms(1)] by simp
next
  case expire
  then show ?thesis using assms(1) by (simp add: chan_inv_def)
next
  case (take_signal s)
  then show ?thesis
    using assms(1) by (auto simp: chan_inv_def receive_def split: list.splits)
qed

lemma chan_inv_exec: "chan_exec c as c' \<Longrightarrow> c = newOSWatcher start_signals \<Longrightarrow> chan_inv as c'"
proof (induction rule: chan_exec.induct)
  case (chan_done c)
  then show ?case by (simp add: chan_inv_def newOSWatcher_def)
next
  case (chan_more c as c' a c'')
  then show ?case by (blast intro: chan_inv_step)
qed

lemma chan_inv_sub:
  assumes "chan_inv as c"
  shows "subseq (taken as) (arrivals as)"
    and "taken as \<noteq> [] \<Longrightarrow> hd (taken as) = hd (arrivals as)"
proof -
  show sub: "subseq (taken as) (arrivals as)"
    using assms unfolding chan_inv_def
    by (meson list_emb_append2 subseq_order.order_trans list_emb_prefix subseq_order.order_refl)
  assume ne: "taken as \<noteq> []"
  then have "arrivals as \<noteq> []" using sub by auto
  with assms ne show "hd (taken as) = hd (arrivals as)" by (auto simp: chan_inv_def hd_append)
qed

section \<open>What is lost\<close>

text \<open>The step relation is a partial function of the action, so the actions determine the channel.\<close>

lemma chan_step_iff:
  "chan_step c a c' \<longleftrightarrow>
    (case a of Arrive s \<Rightarrow> c' = notify s c | Expire \<Rightarrow> c' = c | Take s \<Rightarrow> receive c = Some (s, c'))"
  by (simp add: chan_step.simps split: action.split)

lemma chan_exec_Nil: "chan_exec c [] c' \<longleftrightarrow> c' = c"
  by (subst chan_exec.simps) auto

lemma chan_exec_snoc: "chan_exec c (as @ [a]) c'' \<longleftrightarrow> (\<exists>c'. chan_exec c as c' \<and> chan_step c' a c'')"
  by (subst chan_exec.simps) auto

lemma chan_exec_deterministic: "chan_exec c as c' \<Longrightarrow> chan_exec c as c'' \<Longrightarrow> c'' = c'"
proof (induction as arbitrary: c' c'' rule: rev_induct)
  case (snoc a as)
  then obtain d d' where "chan_exec c as d" "chan_step d a c'" "chan_exec c as d'" "chan_step d' a c''"
    unfolding chan_exec_snoc by blast
  with snoc.IH have "chan_step d a c'" "chan_step d a c''" by blast+
  then show ?case by (cases a) (simp_all add: chan_step_iff)
qed (simp add: chan_exec_Nil)

text \<open>While a signal waits, the next one changes nothing.\<close>

lemma notify_full: "chan_inv as c \<Longrightarrow> ch_buf c \<noteq> [] \<Longrightarrow> notify s c = c"
  by (cases "ch_buf c") (auto simp: chan_inv_def notify_def)

text \<open>Of the signals that arrive before the first is read, that is the one left to read.\<close>

lemma chan_waiting:
  assumes "chan_exec (newOSWatcher start_signals) as c" and "taken as = []" and "arrivals as = sig # sigs"
  shows "chan_exec (newOSWatcher start_signals) (as @ [Take s]) c' \<longleftrightarrow>
    s = sig \<and> c' = newOSWatcher start_signals"
proof -
  let ?new = "newOSWatcher start_signals"
  have "chan_inv as c" by (rule chan_inv_exec [OF assms(1) refl])
  with assms(2,3) have c: "c = ?new\<lparr>ch_buf := [sig]\<rparr>"
    by (cases "ch_buf c") (auto simp: chan_inv_def newOSWatcher_def)
  then have "receive c = Some (sig, ?new)" by (simp add: receive_def newOSWatcher_def)
  then have "chan_step c (Take s) c' \<longleftrightarrow> s = sig \<and> c' = ?new"
    by (auto simp: chan_step_iff)
  moreover have "chan_exec ?new as c1 \<longleftrightarrow> c1 = c" for c1
    using assms(1) chan_exec_deterministic by blast
  ultimately show ?thesis by (simp add: chan_exec_snoc)
qed

lemma consumed_append: "consumed (as @ bs) = consumed as @ consumed bs"
  by (induction as rule: consumed.induct) auto

lemma consumed_none_taken: "taken as = [] \<Longrightarrow> consumed as = replicate (expiries_before as) Timeout"
  by (induction as rule: consumed.induct) (auto simp: taken_def map_filter_def expiries_before_def)

section \<open>Property\<close>

lemma two_signals_run:
  "chan_exec (newOSWatcher start_signals) [Arrive SIGHUP, Arrive SIGTERM, Take SIGHUP] (newOSWatcher start_signals)"
proof -
  let ?c = "newOSWatcher start_signals"
  let ?c1 = "?c\<lparr>ch_buf := [SIGHUP]\<rparr>"
  have "notify SIGHUP ?c = ?c1" and "notify SIGTERM ?c1 = ?c1" and "receive ?c1 = Some (SIGHUP, ?c)"
    by (simp_all add: notify_def receive_def newOSWatcher_def all_subscribed)
  then have steps: "chan_step ?c (Arrive SIGHUP) ?c1" "chan_step ?c1 (Arrive SIGTERM) ?c1"
      "chan_step ?c1 (Take SIGHUP) ?c"
    by (metis chan_step.intros)+
  have "chan_exec ?c ([] @ [Arrive SIGHUP]) ?c1"
    by (rule chan_more [OF chan_done steps(1)])
  from chan_more [OF this steps(2)] have "chan_exec ?c (([] @ [Arrive SIGHUP]) @ [Arrive SIGTERM]) ?c1" .
  from chan_more [OF this steps(3)] show ?thesis by simp
qed

text \<open>C9: However signals, expiries of the sleep and the loop interleave, the channel holds at most one
  signal, the loop sees the signals in the order of their arrival, and the first signal to arrive
  is the first one it sees; later ones may be dropped.\<close>

theorem watcher_signals:
  assumes "chan_exec (newOSWatcher start_signals) as c"
  shows "length (ch_buf c) \<le> 1 \<and> subseq (taken as) (arrivals as) \<and>
    (taken as \<noteq> [] \<longrightarrow> hd (taken as) = hd (arrivals as)) \<and>
    (arrivals as \<noteq> [] \<longrightarrow> taken as \<noteq> [] \<or> ch_buf c = [hd (arrivals as)])"
proof -
  have inv: "chan_inv as c" by (rule chan_inv_exec [OF assms refl])
  note sub = chan_inv_sub [OF inv]
  have "arrivals as \<noteq> []" if "taken as \<noteq> []" using sub(1) that by auto
  with sub show ?thesis using inv by (cases "ch_buf c") (auto simp: chan_inv_def hd_append)
qed

theorem watcher_signals_witness:
  "hd (taken [Arrive SIGHUP, Arrive SIGTERM, Take SIGHUP]) = SIGHUP \<and>
   subseq (taken [Arrive SIGHUP, Arrive SIGTERM, Take SIGHUP]) [SIGHUP, SIGTERM]"
  using watcher_signals [OF two_signals_run] by (simp add: taken_def arrivals_def map_filter_def)

end
