(* ===== verification/Daemon.thy ===== *)
theory Daemon
  imports Nvml_Labels Output Signals
begin

text \<open>
  \<^verbatim>\<open>cmd/gpu-feature-discovery/main.go\<close>: the loop that labels, sleeps and labels again until a
  signal arrives (\<open>run\<close>), the loop around it that reloads the configuration on SIGHUP
  (\<open>start\<close>), the process around both (\<open>main_program\<close>), and \<^verbatim>\<open>internal/info/version.go\<close>.  The signals
  read from the channel of \<open>Signals\<close> and the expiry of the sleep are events; a run consumes a list of them, in the order in which \<^verbatim>\<open>select\<close> takes
  them, and is \<open>Waiting\<close> when the list is used up.
\<close>

section \<open>Version\<close>

text \<open>\<open>version\<close> and \<open>gitCommit\<close> are set by the linker.\<close>

definition GetVersionParts :: "string \<Rightarrow> string \<Rightarrow> string list" where
  "GetVersionParts version gitCommit =
     (let v = [version] in if gitCommit \<noteq> [] then v @ [''commit: '' @ gitCommit] else v)"

definition GetVersionString :: "string \<Rightarrow> string \<Rightarrow> string list \<Rightarrow> string" where
  "GetVersionString version gitCommit extra =
     go_join [CHR 0x0A] (GetVersionParts version gitCommit @ extra)"

section \<open>State\<close>

text \<open>
  What one pass of the loop meets: the state of the hardware and its libraries, the PCI
  devices, the files it reads, the iteration orders of its maps and the random part of the
  temporary file name.
\<close>

record 'h pass_env =
  pe_sys :: "'h sys"
  pe_sysfs :: sysfs
  pe_ReadFile :: "string \<Rightarrow> string go"
  pe_orders :: orders
  pe_write_order :: "nat list"
  pe_random :: string

text \<open>The vGPU library \<^verbatim>\<open>start\<close> hands to \<^verbatim>\<open>run\<close>; it reads the PCI devices anew in every pass.\<close>

definition pe_vgpu :: "'h pass_env \<Rightarrow> vgpu_lib" where
  "pe_vgpu env = NewVGPULib (NewNvidiaPCILib (pe_sysfs env))"

text \<open>The manager with the global variable \<^verbatim>\<open>cuda\<close>, the world and the API server.\<close>

type_synonym 's dstate = "mgr_state \<times> world \<times> 's"

datatype run_result = Returned "bool go" | Waiting

text \<open>The parts of the program's surroundings that do not change.\<close>

record ('f, 's) daemon =
  dm_faults :: faults
  dm_k8s :: "('f, 's) k8s_env"
  dm_nodeFeatureAPI :: bool

section \<open>One pass\<close>

definition with_manager :: "(mgr_state, 'a) sgo \<Rightarrow> ('s dstate, 'a) sgo" where
  "with_manager m = (\<lambda>(ms, ws). case m ms of (ms', r) \<Rightarrow> ((ms', ws), r))"

definition with_output :: "(world \<times> 's, 'a) sgo \<Rightarrow> ('s dstate, 'a) sgo" where
  "with_output m = (\<lambda>(ms, ws). case m ws of (ws', r) \<Rightarrow> ((ms, ws'), r))"

text \<open>The labels of one pass.\<close>

definition pass_labels :: "config \<Rightarrow> labeler \<Rightarrow> 'h pass_env \<Rightarrow> (mgr_state, labels) sgo" where
  "pass_labels config timestampLabeler env =
     sbind (NewLabelers (pe_ReadFile env) (sys_devices (pe_sys env)) (sys_managers (pe_sys env))
              (pe_orders env) (pe_vgpu env) config) (\<lambda>loopLabelers.
     slift (wrap ''error generating labels: '' (Labels_of (Merge [timestampLabeler, loopLabelers]))))"

text \<open>From the label \<^verbatim>\<open>rerun\<close> to the end of \<^verbatim>\<open>Output\<close>.\<close>

definition run_pass ::
  "('f, 's) daemon \<Rightarrow> config \<Rightarrow> labeler \<Rightarrow> 'h pass_env \<Rightarrow> ('s dstate, unit) sgo" where
  "run_pass G config timestampLabeler env =
     sbind (with_manager (pass_labels config timestampLabeler env)) (\<lambda>labels.
     sbind (slift (gfd_flag config gf_OutputFile)) (\<lambda>outputFile.
     with_output (Output (dm_faults G) (pe_random env) (pe_write_order env) (dm_k8s G) outputFile
                    (dm_nodeFeatureAPI G) labels)))"

section \<open>The loop\<close>

text \<open>
  The passes are numbered; the result comes with the events that are left and the number of
  the next pass.
\<close>

fun run_loop ::
  "('f, 's) daemon \<Rightarrow> config \<Rightarrow> labeler \<Rightarrow> (nat \<Rightarrow> 'h pass_env) \<Rightarrow> nat \<Rightarrow> event list \<Rightarrow> 's dstate \<Rightarrow>
   's dstate \<times> run_result \<times> event list \<times> nat" where
  "run_loop G config ts envs n events d =
     (case run_pass G config ts (envs n) d of
        (d', Err e) \<Rightarrow> (d', Returned (Err e), events, Suc n)
      | (d', Panic p) \<Rightarrow> (d', Returned (Panic p), events, Suc n)
      | (d', Diverge) \<Rightarrow> (d', Returned Diverge, events, Suc n)
      | (d', Ret _) \<Rightarrow>
          (case gfd_flag config gf_Oneshot of
             Ret True \<Rightarrow> (d', Returned (Ret False), events, Suc n)
           | Ret False \<Rightarrow>
               (case gfd_flag config gf_SleepInterval of
                  Ret _ \<Rightarrow>
                    (case events of
                       [] \<Rightarrow> (d', Waiting, [], Suc n)
                     | Timeout # es \<Rightarrow> run_loop G config ts envs (Suc n) es d'
                     | Signal s # es \<Rightarrow> (d', Returned (Ret (s = SIGHUP)), es, Suc n))
                | _ \<Rightarrow> (d', Returned (Panic ''nil pointer dereference''), events, Suc n))
           | _ \<Rightarrow> (d', Returned (Panic ''nil pointer dereference''), events, Suc n)))"

declare run_loop.simps [simp del]

text \<open>
  The deferred function of \<^verbatim>\<open>run\<close>; an error of \<^verbatim>\<open>removeOutputFile\<close> is only logged.
\<close>

definition run_cleanup :: "('f, 's) daemon \<Rightarrow> config \<Rightarrow> ('s dstate, unit) sgo" where
  "run_cleanup G config =
     (if dm_nodeFeatureAPI G then sret ()
      else
      sbind (slift (gfd_flag config gf_Oneshot)) (\<lambda>oneshot.
      if oneshot then sret ()
      else
      sbind (slift (gfd_flag config gf_OutputFile)) (\<lambda>outputFile.
      if outputFile = [] then sret ()
      else (\<lambda>(ms, w, s). case removeOutputFile (dm_faults G) outputFile w of
              (w', Panic p) \<Rightarrow> ((ms, w', s), Panic p)
            | (w', Diverge) \<Rightarrow> ((ms, w', s), Diverge)
            | (w', _) \<Rightarrow> ((ms, w', s), Ret ())))))"

definition run ::
  "('f, 's) daemon \<Rightarrow> int \<Rightarrow> config \<Rightarrow> (nat \<Rightarrow> 'h pass_env) \<Rightarrow> nat \<Rightarrow> event list \<Rightarrow> 's dstate \<Rightarrow>
   's dstate \<times> run_result \<times> event list \<times> nat" where
  "run G now config envs n events d =
     (let (d', res, rest, n') =
        (case NewTimestampLabeler now config of
           Ret timestampLabeler \<Rightarrow> run_loop G config timestampLabeler envs n events d
         | Err e \<Rightarrow> (d, Returned (Err e), events, n)
         | Panic p \<Rightarrow> (d, Returned (Panic p), events, n)
         | Diverge \<Rightarrow> (d, Returned Diverge, events, n))
      in case res of
           Waiting \<Rightarrow> (d', res, rest, n')
         | Returned Diverge \<Rightarrow> (d', res, rest, n')
         | Returned r \<Rightarrow>
             (case run_cleanup G config d' of
                (d'', Panic p) \<Rightarrow> (d'', Returned (Panic p), rest, n')
              | (d'', Diverge) \<Rightarrow> (d'', Returned Diverge, rest, n')
              | (d'', _) \<Rightarrow> (d'', res, rest, n')))"

text \<open>
  A run that asks for a restart, or goes on waiting, has consumed what it says: what is left is
  a suffix of the events, a proper one when it was stopped by a signal.
\<close>

lemma run_loop_rest:
  "run_loop G config ts envs n events d = (d', res, rest, n') \<Longrightarrow>
   (\<exists>pre. events = pre @ rest) \<and> (res = Returned (Ret True) \<longrightarrow> length rest < length events)"
proof (induction events arbitrary: n d)
  case Nil
  then show ?case
    by (subst (asm) run_loop.simps) (auto split: prod.splits go.splits bool.splits)
next
  case (Cons ev events)
  show ?case
  proof (cases "ev = Timeout \<and> (\<exists>d1. run_pass G config ts (envs n) d = (d1, Ret ())) \<and>
      gfd_flag config gf_Oneshot = Ret False \<and> (\<exists>x. gfd_flag config gf_SleepInterval = Ret x)")
    case True
    then obtain d1 where "run_loop G config ts envs (Suc n) events d1 = (d', res, rest, n')"
      using Cons.prems by (subst (asm) run_loop.simps) auto
    from Cons.IH [OF this] show ?thesis by (auto intro: exI [of _ "ev # _"])
  next
    case False
    then show ?thesis
      using Cons.prems
      by (subst (asm) run_loop.simps)
        (auto split: prod.splits go.splits bool.splits event.splits)
  qed
qed

lemma run_rest:
  assumes "run G now config envs n events d = (d', Returned (Ret True), rest, n')"
  shows "length rest < length events"
proof (cases "NewTimestampLabeler now config")
  case (Ret ts)
  obtain d1 res1 rest1 n1 where loop: "run_loop G config ts envs n events d = (d1, res1, rest1, n1)"
    by (cases "run_loop G config ts envs n events d")
  with assms Ret have "res1 = Returned (Ret True) \<and> rest1 = rest"
    by (auto simp: run_def Let_def split: run_result.splits go.splits prod.splits)
  with run_loop_rest [OF loop] show ?thesis by simp
qed (use assms in \<open>auto simp: run_def Let_def split: prod.splits go.splits\<close>)

section \<open>Starting and restarting\<close>

text \<open>
  The beginning of a round of \<^verbatim>\<open>start\<close>: the configuration is loaded (from the config file as it
  is now, \<open>F\<close>), printed (\<open>marshal\<close> is \<^verbatim>\<open>json.MarshalIndent\<close>) and the manager chosen.
\<close>

definition start_round ::
  "config_source \<Rightarrow> (config \<Rightarrow> string go) \<Rightarrow> cli_context \<Rightarrow> string list list \<Rightarrow> 'h sys \<Rightarrow>
   (config \<times> manager) go" where
  "start_round F marshal c fs S =
     gbind (wrap ''unable to load config: '' (loadConfig F c fs)) (\<lambda>config0.
     let config = disableResourceRenamingInConfig config0 in
     gbind (wrap ''failed to marshal config to JSON: '' (marshal config)) (\<lambda>configJSON.
     gbind (NewManager S config) (\<lambda>manager. Ret (config, manager))))"

text \<open>The answers of the surroundings to the \<open>k\<close>-th round.\<close>

record rounds =
  rnd_source :: "nat \<Rightarrow> config_source"
  rnd_marshal :: "config \<Rightarrow> string go"
  rnd_context :: cli_context
  rnd_now :: "nat \<Rightarrow> int"

function start ::
  "('f, 's) daemon \<Rightarrow> rounds \<Rightarrow> (nat \<Rightarrow> 'h pass_env) \<Rightarrow> nat \<Rightarrow> nat \<Rightarrow> event list \<Rightarrow> 's dstate \<Rightarrow>
   's dstate \<times> run_result" where
  "start G R envs k n events d =
     (case start_round (rnd_source R k) (rnd_marshal R) (rnd_context R) gfd_flag_names (pe_sys (envs n)) of
        Err e \<Rightarrow> (d, Returned (Err e))
      | Panic p \<Rightarrow> (d, Returned (Panic p))
      | Diverge \<Rightarrow> (d, Returned Diverge)
      | Ret cm \<Rightarrow>
          (case run G (rnd_now R k) (fst cm) envs n events ((snd cm, snd (fst d)), snd d) of
             (d', res, rest, n') \<Rightarrow>
               (case res of
                  Returned r \<Rightarrow>
                    (case r of
                       Ret restart \<Rightarrow>
                         (case restart of
                            True \<Rightarrow> start G R envs (Suc k) n' rest d'
                          | False \<Rightarrow> (d', Returned (Ret False)))
                     | _ \<Rightarrow> (d', Returned r))
                | Waiting \<Rightarrow> (d', Waiting))))"
  by pat_completeness auto

termination
  by (relation "measure (\<lambda>(G, R, envs, k, n, events, d). length events)") (auto dest!: run_rest [OF sym])

declare start.simps [simp del]

text \<open>One round of \<^verbatim>\<open>start\<close>: a run that asks for a restart is followed by the next round.\<close>

lemma start_unfold:
  assumes "start_round (rnd_source R k) (rnd_marshal R) (rnd_context R) gfd_flag_names (pe_sys (envs n)) =
      Ret (config, m)"
    and "run G (rnd_now R k) config envs n events ((m, snd (fst d)), snd d) = (d1, res1, rest1, n1)"
  shows "start G R envs k n events d =
    (if res1 = Returned (Ret True) then start G R envs (Suc k) n1 rest1 d1 else (d1, res1))"
  using assms by (subst start.simps) (auto split: run_result.splits go.splits bool.splits)

section \<open>Main\<close>

text \<open>
  The process: a panic ends it with status 2, an error that \<^verbatim>\<open>main\<close> sees with status 1.  The library
  runs the action, \<^verbatim>\<open>start\<close>, once the command line is parsed; the destination of one flag is the
  variable \<^verbatim>\<open>nodeFeatureAPI\<close>.
\<close>

datatype process = Exit int | Running | Hangs

fun exit_status :: "bool go \<Rightarrow> process" where
  "exit_status (Ret _) = Exit 0"
| "exit_status (Err e) = Exit 1"
| "exit_status (Panic p) = Exit 2"
| "exit_status Diverge = Hangs"

definition main_program ::
  "(string \<Rightarrow> int go) \<Rightarrow> (string \<Rightarrow> string option) \<Rightarrow> (string \<times> string) list \<Rightarrow> ('f, 's) daemon \<Rightarrow> rounds \<Rightarrow>
   (nat \<Rightarrow> 'h pass_env) \<Rightarrow> event list \<Rightarrow> 's dstate \<Rightarrow> 's dstate \<times> process" where
  "main_program PD getenv args G R envs events d =
     (case cli_parse PD getenv main_flags args of
        Ret c \<Rightarrow>
          (case start (G\<lparr>dm_nodeFeatureAPI := cli_Bool c ''use-node-feature-api''\<rparr>) (R\<lparr>rnd_context := c\<rparr>)
                  envs 0 0 events d of
             (d', Returned r) \<Rightarrow> (d', exit_status r)
           | (d', Waiting) \<Rightarrow> (d', Running))
      | Err e \<Rightarrow> (d, exit_status (Err e))
      | Panic p \<Rightarrow> (d, exit_status (Panic p))
      | Diverge \<Rightarrow> (d, exit_status Diverge))"

section \<open>What a run does\<close>

text \<open>The flags the loop reads, once the configuration is ready.\<close>

definition oneshot_of :: "config \<Rightarrow> bool" where
  "oneshot_of config = (gfd_flag config gf_Oneshot = Ret True)"

definition output_of :: "config \<Rightarrow> string" where
  "output_of config = (case gfd_flag config gf_OutputFile of Ret p \<Rightarrow> p | _ \<Rightarrow> [])"

lemma ready_flags:
  assumes "config_ready config"
  shows "gfd_flag config gf_Oneshot = Ret (oneshot_of config)"
    and "gfd_flag config gf_OutputFile = Ret (output_of config)"
    and "\<exists>x. gfd_flag config gf_SleepInterval = Ret x"
    and "\<exists>ts. NewTimestampLabeler now config = Ret ts"
proof -
  obtain g where g: "fl_GFD (cfg_Flags config) = Some g" "gfd_ready g"
    using assms by (auto simp: config_ready_def split: option.splits)
  then obtain ons nts si f where "gf_Oneshot g = Some ons" "gf_NoTimestamp g = Some nts"
    "gf_SleepInterval g = Some si" "gf_OutputFile g = Some f"
    by (auto simp: gfd_ready_def)
  then show "gfd_flag config gf_Oneshot = Ret (oneshot_of config)"
    "gfd_flag config gf_OutputFile = Ret (output_of config)"
    "\<exists>x. gfd_flag config gf_SleepInterval = Ret x"
    "\<exists>ts. NewTimestampLabeler now config = Ret ts"
    by (simp_all add: gfd_flag_def g(1) oneshot_of_def output_of_def NewTimestampLabeler_def)
qed

text \<open>\<open>m\<close> passes succeed one after the other.\<close>

fun passes ::
  "('f, 's) daemon \<Rightarrow> config \<Rightarrow> labeler \<Rightarrow> (nat \<Rightarrow> 'h pass_env) \<Rightarrow> nat \<Rightarrow> nat \<Rightarrow> 's dstate \<Rightarrow> 's dstate option" where
  "passes G config ts envs n 0 d = Some d"
| "passes G config ts envs n (Suc m) d =
     (case run_pass G config ts (envs n) d of
        (d', Ret _) \<Rightarrow> passes G config ts envs (Suc n) m d'
      | _ \<Rightarrow> None)"

text \<open>With the one-shot flag there is one pass, and no event is waited for.\<close>

lemma run_loop_oneshot:
  assumes "config_ready config" and "oneshot_of config" and "run_pass G config ts (envs n) d = (d', r)"
  shows "run_loop G config ts envs n events d =
    (d', Returned (gbind r (\<lambda>_. Ret False)), events, Suc n)"
  using assms ready_flags(1) [OF assms(1)]
  by (cases r) (simp_all add: run_loop.simps)

text \<open>Otherwise every expiry of the sleep gives one more pass, until a signal comes.\<close>

lemma run_loop_signal:
  assumes ready: "config_ready config" and "\<not> oneshot_of config"
    and "passes G config ts envs n (Suc m) d = Some d'"
  shows "run_loop G config ts envs n (replicate m Timeout @ Signal s # rest) d =
    (d', Returned (Ret (s = SIGHUP)), rest, n + Suc m)"
  using assms(3)
proof (induction m arbitrary: n d)
  case 0
  then show ?case
    using ready_flags [OF ready] assms(2)
    by (subst run_loop.simps) (auto split: prod.splits go.splits)
next
  case (Suc m)
  then obtain d1 where d1: "run_pass G config ts (envs n) d = (d1, Ret ())"
    "passes G config ts envs (Suc n) (Suc m) d1 = Some d'"
    by (subst (asm) passes.simps) (auto split: prod.splits go.splits)
  obtain x where "gfd_flag config gf_SleepInterval = Ret x" using ready_flags(3) [OF ready] by blast
  then have "run_loop G config ts envs n (replicate (Suc m) Timeout @ Signal s # rest) d =
      run_loop G config ts envs (Suc n) (replicate m Timeout @ Signal s # rest) d1"
    using d1(1) ready_flags(1) [OF ready] assms(2) by (subst run_loop.simps) simp
  with Suc.IH [OF d1(2)] show ?case by simp
qed

section \<open>A run does not crash\<close>

text \<open>The labelers that cannot crash: every vGPU labeler in them decodes its devices.\<close>

fun calm :: "labeler \<Rightarrow> bool" where
  "calm (LVGPU v) = no_crash (vgpu_Labels v)"
| "calm (LList ls) = list_all calm ls"
| "calm l = True"

lemma calm_no_crash:
  "calm l \<Longrightarrow> no_crash (Labels_of l)"
  "list_all calm ls \<Longrightarrow> no_crash (list_Labels ls acc)"
  by (induction l and ls acc rule: Labels_of_list_Labels.induct) (auto intro!: no_crash_gbind)

lemma static_calm: "static l \<Longrightarrow> calm l"
  by (induction l rule: static.induct) (auto simp: list_all_iff)

definition env_ok :: "'h pass_env \<Rightarrow> bool" where
  "env_ok env \<longleftrightarrow> reads_files (pe_ReadFile env) \<and> no_crash (vgpu_Labels (pe_vgpu env))"

lemma pass_labels_no_crash:
  assumes "config_ready config" and "env_ok env" and "static ts"
  shows "no_crash (snd (pass_labels config ts env ms))"
  unfolding pass_labels_def
proof (rule no_crash_sbind)
  show "no_crash (snd (NewLabelers (pe_ReadFile env) (sys_devices (pe_sys env))
      (sys_managers (pe_sys env)) (pe_orders env) (pe_vgpu env) config ms))"
    using sysmgr.NewLabelers_no_crash [of config "pe_ReadFile env"] assms by (simp add: env_ok_def)
next
  fix ms' l
  assume "NewLabelers (pe_ReadFile env) (sys_devices (pe_sys env)) (sys_managers (pe_sys env))
      (pe_orders env) (pe_vgpu env) config ms = (ms', Ret l)"
  from NewLabelers_Ret [OF this] obtain nl where "static nl" "l = Merge [nl, LVGPU (pe_vgpu env)]"
    by blast
  with assms have "calm (Merge [ts, l])" by (simp add: Merge_def static_calm env_ok_def)
  then show "no_crash (snd (slift (wrap ''error generating labels: ''
      (Labels_of (Merge [ts, l]))) ms'))"
    using calm_no_crash(1) by simp
qed

lemma with_manager_no_crash [simp]: "no_crash (snd (with_manager m d)) = no_crash (snd (m (fst d)))"
  by (auto simp: with_manager_def split: prod.splits)

lemma with_output_no_crash [simp]: "no_crash (snd (with_output m d)) = no_crash (snd (m (snd d)))"
  by (auto simp: with_output_def split: prod.splits)

lemma run_pass_no_crash:
  assumes "config_ready config" and "env_ok env" and "static ts" and "client_ok (dm_k8s G)"
  shows "no_crash (snd (run_pass G config ts env d))"
  unfolding run_pass_def
  using ready_flags(2) [OF assms(1)] pass_labels_no_crash [OF assms(1-3)] Output_no_crash [OF assms(4)]
  by (intro no_crash_sbind) simp_all

definition result_ok :: "run_result \<Rightarrow> bool" where
  "result_ok res = (case res of Waiting \<Rightarrow> True | Returned r \<Rightarrow> no_crash r)"

lemma result_ok_simps [simp]: "result_ok Waiting" "result_ok (Returned r) = no_crash r"
  by (simp_all add: result_ok_def)

lemma run_loop_no_crash:
  assumes "config_ready config" and "\<And>n. env_ok (envs n)" and "static ts" and "client_ok (dm_k8s G)"
  shows "run_loop G config ts envs n events d = (d', res, rest, n') \<Longrightarrow> result_ok res"
proof (induction events arbitrary: n d)
  case Nil
  obtain d1 r where p: "run_pass G config ts (envs n) d = (d1, r)" by (cases "run_pass G config ts (envs n) d")
  with run_pass_no_crash [OF assms(1) assms(2) assms(3,4), of n d] have "no_crash r" by simp
  with Nil p ready_flags [OF assms(1)] show ?case
    by (subst (asm) run_loop.simps) (cases r; auto split: bool.splits)
next
  case (Cons ev events)
  obtain d1 r where p: "run_pass G config ts (envs n) d = (d1, r)" by (cases "run_pass G config ts (envs n) d")
  with run_pass_no_crash [OF assms(1) assms(2) assms(3,4), of n d] have r: "no_crash r" by simp
  obtain x where "gfd_flag config gf_SleepInterval = Ret x" using ready_flags(3) [OF assms(1)] by blast
  with Cons.prems p r ready_flags(1) [OF assms(1)] Cons.IH [of "Suc n" d1] show ?case
    by (subst (asm) run_loop.simps) (cases r; auto split: bool.splits event.splits)
qed

lemma run_cleanup_no_crash: "config_ready config \<Longrightarrow> no_crash (snd (run_cleanup G config d))"
  using removeOutputFile_no_crash [of "dm_faults G" "output_of config" "fst (snd d)"]
  by (auto simp: run_cleanup_def ready_flags split: prod.splits go.splits)

lemma run_no_crash:
  assumes "config_ready config" and "\<And>n. env_ok (envs n)" and "client_ok (dm_k8s G)"
    and run: "run G now config envs n events d = (d', res, rest, n')"
  shows "result_ok res"
proof -
  obtain ts where ts: "NewTimestampLabeler now config = Ret ts" using ready_flags(4) [OF assms(1)] by blast
  then have st: "static ts" by (auto simp: NewTimestampLabeler_def split: if_splits)
  obtain d1 res1 rest1 n1 where loop: "run_loop G config ts envs n events d = (d1, res1, rest1, n1)"
    by (cases "run_loop G config ts envs n events d")
  have ok: "result_ok res1" using run_loop_no_crash [OF assms(1,2) st assms(3) loop] .
  show ?thesis
    using run ok run_cleanup_no_crash [OF assms(1), of G d1]
    by (auto simp: run_def ts loop split: run_result.splits go.splits prod.splits)
qed

section \<open>The configuration of a round\<close>

lemma loadConfig_ready:
  "loadConfig F c gfd_flag_names = Ret config \<Longrightarrow> config_ready config"
  by (auto dest!: loadConfig_Ret simp: config_ready_def UpdateFromCLIFlags_gfd gfd_ready_def)

lemma config_ready_disable: "config_ready (disableResourceRenamingInConfig c) = config_ready c"
  by (simp add: config_ready_def)

lemma start_round_ready:
  "start_round F marshal c gfd_flag_names S = Ret (config, m) \<Longrightarrow> config_ready config"
  by (auto simp: start_round_def Let_def config_ready_disable dest: loadConfig_ready)

definition source_ok :: "config_source \<Rightarrow> bool" where
  "source_ok F \<longleftrightarrow>
     (\<forall>path. no_crash (cs_Open F path) \<and> (\<forall>r. cs_Open F path = Ret r \<longrightarrow> no_crash r)) \<and>
     (\<forall>t. no_crash (cs_Unmarshal F t))"

definition parser_ok :: "rounds \<Rightarrow> bool" where
  "parser_ok R \<longleftrightarrow> (\<forall>k. source_ok (rnd_source R k)) \<and> (\<forall>c. no_crash (rnd_marshal R c))"

lemma start_round_no_crash:
  assumes "parser_ok R"
  shows "no_crash (start_round (rnd_source R k) (rnd_marshal R) c gfd_flag_names S)"
proof -
  have load: "no_crash (loadConfig (rnd_source R k) c gfd_flag_names)"
    using assms by (auto simp: parser_ok_def source_ok_def loadConfig_def NewConfig_def validateFlags_def Let_def
        intro!: no_crash_gbind parseConfig_no_crash)
  have "no_crash (NewManager S (disableResourceRenamingInConfig config))" if "config_ready config" for config
    using that by (auto simp: NewManager_def WithConfig_def config_ready_def intro!: no_crash_gbind)
  then show ?thesis
    unfolding start_round_def Let_def using load assms loadConfig_ready
    by (auto simp: parser_ok_def intro!: no_crash_gbind)
qed

lemma start_no_crash:
  assumes "parser_ok R" and "\<And>n. env_ok (envs n)" and "client_ok (dm_k8s G)"
  shows "start G R envs k n events d = (d', res) \<Longrightarrow> result_ok res"
proof (induction "length events" arbitrary: k n events d rule: less_induct)
  case less
  show ?case
  proof (cases "start_round (rnd_source R k) (rnd_marshal R) (rnd_context R) gfd_flag_names (pe_sys (envs n))")
    case (Ret cm)
    obtain config m where cm: "cm = (config, m)" by (cases cm)
    obtain d1 res1 rest1 n1 where run:
      "run G (rnd_now R k) config envs n events ((m, snd (fst d)), snd d) = (d1, res1, rest1, n1)"
      by (cases "run G (rnd_now R k) config envs n events ((m, snd (fst d)), snd d)")
    have ready: "config_ready config" using Ret start_round_ready by (simp add: cm)
    have ok: "result_ok res1" using run_no_crash [OF ready assms(2,3) run] .
    show ?thesis
    proof (cases "res1 = Returned (Ret True)")
      case True
      with run have len: "length rest1 < length events" using run_rest by blast
      have "start G R envs (Suc k) n1 rest1 d1 = (d', res)"
        using less.prems start_unfold [OF Ret [unfolded cm] run] True by simp
      with less.hyps [OF len] show ?thesis by blast
    next
      case False
      with less.prems start_unfold [OF Ret [unfolded cm] run] ok show ?thesis by simp
    qed
  next
    case (Err e)
    with less.prems show ?thesis by (subst (asm) start.simps) auto
  qed (use start_round_no_crash [OF assms(1), of k "rnd_context R" "pe_sys (envs n)"] in auto)
qed

section \<open>The output file during a run\<close>

text \<open>The label sets that are published have distinct keys, all of them in the namespace.\<close>

definition label_set :: "labels \<Rightarrow> bool" where
  "label_set m \<longleftrightarrow> gmap_ok m \<and> labels_in_ns m"

lemma list_Labels_gmap_ok: "list_Labels ls acc = Ret m \<Longrightarrow> gmap_ok acc \<Longrightarrow> gmap_ok m"
  by (induction ls arbitrary: acc) auto

lemma timestamp_labeler:
  "NewTimestampLabeler now config = Ret ts \<Longrightarrow> static ts \<and> labeler_in_ns ts"
  by (auto simp: NewTimestampLabeler_def in_namespace_def has_prefix_def split: if_splits)

lemma pass_labels_set:
  assumes "pass_labels config ts env ms = (ms', Ret m)" and "labeler_in_ns ts"
  shows "label_set m"
proof -
  obtain ms1 l where l: "NewLabelers (pe_ReadFile env) (sys_devices (pe_sys env)) (sys_managers (pe_sys env))
      (pe_orders env) (pe_vgpu env) config ms = (ms1, Ret l)"
    and m: "Labels_of (Merge [ts, l]) = Ret m"
    using assms(1) by (auto simp: pass_labels_def sbind_Ret_iff)
  have "labeler_in_ns (Merge [ts, l])" using NewLabelers_ns [OF l] assms(2) by simp
  then have "labels_in_ns m" using m by (rule Labels_of_ns(1))
  moreover have "list_Labels [ts, l] [] = Ret m" using m by (simp add: Merge_def del: list_Labels.simps)
  then have "gmap_ok m" by (rule list_Labels_gmap_ok) simp
  ultimately show ?thesis by (simp add: label_set_def)
qed

text \<open>
  \<open>pass_output C envs\<close>: the text that a completed pass over one of the surroundings \<open>envs\<close> publishes,
  with a configuration and a start time that \<open>C\<close> allows.  The state the resource manager was in
  at the start of the pass is left open.
\<close>

definition pass_output ::
  "(int \<Rightarrow> config \<Rightarrow> bool) \<Rightarrow> (nat \<Rightarrow> 'h pass_env) \<Rightarrow> string \<Rightarrow> labels \<Rightarrow> bool" where
  "pass_output C envs contents m \<longleftrightarrow>
     (\<exists>now config ts n ms ms'. C now config \<and> NewTimestampLabeler now config = Ret ts \<and>
        pass_labels config ts (envs n) ms = (ms', Ret m) \<and>
        contents = render (pe_write_order (envs n)) m)"

lemma pass_output_label_set: "pass_output C envs contents m \<Longrightarrow> label_set m"
  by (auto simp: pass_output_def dest!: timestamp_labeler intro: pass_labels_set)

text \<open>
  What may be at the place of the output file: what was there before, nothing, or the complete
  text of the label set of one pass.
\<close>

definition complete_file ::
  "(int \<Rightarrow> config \<Rightarrow> bool) \<Rightarrow> (nat \<Rightarrow> 'h pass_env) \<Rightarrow> (string \<times> nat) option \<Rightarrow> seen_pred" where
  "complete_file C envs old x \<longleftrightarrow>
     x = old \<or> x = None \<or> (\<exists>contents m perm. x = Some (contents, perm) \<and> pass_output C envs contents m)"

text \<open>The place of the output file is sound for every pass.\<close>

definition output_place :: "config \<Rightarrow> fpath \<Rightarrow> (nat \<Rightarrow> 'h pass_env) \<Rightarrow> bool" where
  "output_place config cwd envs \<longleftrightarrow>
     output_of config \<noteq> [] \<and> (\<forall>n. place_ok cwd (output_of config) (pe_random (envs n)))"

definition file_safe ::
  "(int \<Rightarrow> config \<Rightarrow> bool) \<Rightarrow> (nat \<Rightarrow> 'h pass_env) \<Rightarrow> config \<Rightarrow> fpath \<Rightarrow> (string \<times> nat) option \<Rightarrow>
   's dstate \<Rightarrow> bool" where
  "file_safe C envs config cwd old d \<longleftrightarrow>
     always_safe (target cwd (output_of config)) cwd (complete_file C envs old) (fst (snd d))"

lemma run_pass_file_safe:
  assumes ready: "config_ready config" and ts: "NewTimestampLabeler now config = Ret ts" and C: "C now config"
    and place: "output_place config cwd envs" and S: "file_safe C envs config cwd old d"
  shows "file_safe C envs config cwd old (fst (run_pass G config ts (envs n) d))"
proof -
  let ?S = "file_safe C envs config cwd old"
  obtain ms w s where d: "d = (ms, w, s)" by (cases d)
  have S1: "?S (fst (with_manager (pass_labels config ts (envs n)) d))"
    using S by (simp add: file_safe_def with_manager_def d split: prod.splits)
  show ?thesis
    unfolding run_pass_def
  proof (rule fst_sbind_safe [where P = ?S], rule S1)
    fix d1 m
    assume l: "with_manager (pass_labels config ts (envs n)) d = (d1, Ret m)" and "?S d1"
    obtain ms1 where "pass_labels config ts (envs n) ms = (ms1, Ret m)" and d1: "d1 = (ms1, w, s)"
      using l by (auto simp: with_manager_def d split: prod.splits)
    with ts C have "pass_output C envs (render (pe_write_order (envs n)) m) m"
      unfolding pass_output_def by blast
    then have m: "complete_file C envs old (Some (render (pe_write_order (envs n)) m, perm))" for perm
      by (auto simp: complete_file_def)
    have "always_safe (target cwd (output_of config)) cwd (complete_file C envs old)
        (fst (UpdateFile (dm_faults G) (pe_random (envs n)) (pe_write_order (envs n)) (output_of config) m w))"
      by (rule UpdateFile_safe)
        (use S place m in \<open>auto simp: file_safe_def d output_place_def\<close>)
    then have "?S (fst (with_output (Output (dm_faults G) (pe_random (envs n)) (pe_write_order (envs n))
        (dm_k8s G) (output_of config) (dm_nodeFeatureAPI G) m) d1))"
      using S
      by (cases "UpdateFile (dm_faults G) (pe_random (envs n)) (pe_write_order (envs n)) (output_of config) m w")
        (simp add: file_safe_def with_output_def Output_def d d1 split: prod.splits)
    then show "?S (fst (sbind (slift (gfd_flag config gf_OutputFile)) (\<lambda>outputFile.
        with_output (Output (dm_faults G) (pe_random (envs n)) (pe_write_order (envs n))
          (dm_k8s G) outputFile (dm_nodeFeatureAPI G) m)) d1))"
      by (simp add: ready_flags(2) [OF ready])
  qed
qed

lemma run_loop_file_safe:
  assumes ready: "config_ready config" and ts: "NewTimestampLabeler now config = Ret ts" and C: "C now config"
    and place: "output_place config cwd envs"
  shows "run_loop G config ts envs n events d = (d', res, rest, n') \<Longrightarrow> file_safe C envs config cwd old d \<Longrightarrow>
    file_safe C envs config cwd old d'"
proof (induction events arbitrary: n d)
  case Nil
  obtain d1 r where p: "run_pass G config ts (envs n) d = (d1, r)" by (cases "run_pass G config ts (envs n) d")
  with run_pass_file_safe [OF ready ts C place Nil.prems(2), of G n] have "file_safe C envs config cwd old d1" by simp
  with Nil.prems(1) p ready_flags [OF ready] show ?case
    by (subst (asm) run_loop.simps) (cases r; auto split: bool.splits)
next
  case (Cons ev events)
  obtain d1 r where p: "run_pass G config ts (envs n) d = (d1, r)" by (cases "run_pass G config ts (envs n) d")
  with run_pass_file_safe [OF ready ts C place Cons.prems(2), of G n] have S: "file_safe C envs config cwd old d1" by simp
  obtain x where "gfd_flag config gf_SleepInterval = Ret x" using ready_flags(3) [OF ready] by blast
  with Cons.prems(1) p S ready_flags(1) [OF ready] Cons.IH [of "Suc n" d1] show ?case
    by (subst (asm) run_loop.simps) (cases r; auto split: bool.splits event.splits)
qed

lemma passes_file_safe:
  assumes "config_ready config" and "NewTimestampLabeler now config = Ret ts" and "C now config"
    and "output_place config cwd envs"
  shows "passes G config ts envs n m d = Some d' \<Longrightarrow> file_safe C envs config cwd old d \<Longrightarrow>
    file_safe C envs config cwd old d'"
proof (induction m arbitrary: n d)
  case (Suc m)
  then obtain d1 where d1: "run_pass G config ts (envs n) d = (d1, Ret ())"
    "passes G config ts envs (Suc n) m d1 = Some d'"
    by (auto split: prod.splits go.splits)
  with run_pass_file_safe [OF assms Suc.prems(2), of G n] have "file_safe C envs config cwd old d1" by simp
  with Suc.IH d1(2) show ?case by blast
qed simp

lemma file_safe_start:
  "w_seen w = [] \<Longrightarrow> file_safe C envs config (fs_cwd (w_fs w))
     (gget (fs_files (w_fs w)) (target (fs_cwd (w_fs w)) (output_of config))) (ms, w, s)"
  by (simp add: file_safe_def always_safe_def observed_def safe_view_def view_def complete_file_def)

lemma file_safe_cwd: "file_safe C envs config cwd old (ms, w, s) \<Longrightarrow> fs_cwd (w_fs w) = cwd"
  by (auto simp: file_safe_def always_safe_before before_rename_def view_def)

lemma run_cleanup_run:
  assumes "config_ready config"
  shows "run_cleanup G config (ms, w, s) =
    ((ms, if dm_nodeFeatureAPI G \<or> oneshot_of config \<or> output_of config = [] then w
          else fst (removeOutputFile (dm_faults G) (output_of config) w), s), Ret ())"
  using removeOutputFile_no_crash [of "dm_faults G" "output_of config" w]
  by (cases "removeOutputFile (dm_faults G) (output_of config) w"; cases "snd (removeOutputFile (dm_faults G) (output_of config) w)")
    (auto simp: run_cleanup_def ready_flags [OF assms])

lemma run_cleanup_file_safe:
  assumes "config_ready config" and place: "output_place config cwd envs" and S: "file_safe C envs config cwd old d"
  shows "file_safe C envs config cwd old (fst (run_cleanup G config d))"
proof -
  obtain ms w s where d: "d = (ms, w, s)" by (cases d)
  have "place_ok cwd (output_of config) (pe_random (envs 0))" using place by (simp add: output_place_def)
  then have "always_safe (target cwd (output_of config)) cwd (complete_file C envs old)
      (fst (removeOutputFile (dm_faults G) (output_of config) w))"
    by (rule removeOutputFile_safe [rotated]) (use S in \<open>simp_all add: file_safe_def d complete_file_def\<close>)
  with S show ?thesis by (simp add: d run_cleanup_run [OF assms(1)] file_safe_def)
qed

lemma run_Ret:
  assumes "config_ready config" and "NewTimestampLabeler now config = Ret ts"
    and "run_loop G config ts envs n events d = (d1, res, rest, n')" and "result_ok res"
  shows "run G now config envs n events d =
    (case res of Waiting \<Rightarrow> (d1, res, rest, n')
     | Returned r \<Rightarrow> (fst (run_cleanup G config d1), res, rest, n'))"
proof -
  obtain ms w s where "d1 = (ms, w, s)" by (cases d1)
  with assms show ?thesis
    by (auto simp: run_def run_cleanup_run result_ok_def split: run_result.splits go.splits)
qed

text \<open>
  At every moment of a run there is nothing half-written at the place of the output file, with
  any faults of the file system, any events and any hardware, and also when the run panics.
\<close>

lemma run_file_safe:
  assumes ready: "config_ready config" and place: "output_place config cwd envs" and C: "C now config"
    and S: "file_safe C envs config cwd old d"
    and run: "run G now config envs n events d = (d', res, rest, n')"
  shows "file_safe C envs config cwd old d'"
proof -
  obtain ts where ts: "NewTimestampLabeler now config = Ret ts" using ready_flags(4) [OF ready] by blast
  obtain d1 res1 rest1 n1 where loop: "run_loop G config ts envs n events d = (d1, res1, rest1, n1)"
    by (cases "run_loop G config ts envs n events d")
  have S1: "file_safe C envs config cwd old d1" by (rule run_loop_file_safe [OF ready ts C place loop S])
  have "d' = d1 \<or> d' = fst (run_cleanup G config d1)"
    using run by (auto simp: run_def ts loop split: run_result.splits go.splits prod.splits)
  then show ?thesis using S1 run_cleanup_file_safe [OF ready place S1, of G] by blast
qed

section \<open>The loop as a state machine\<close>

text \<open>
  The loop of \<^verbatim>\<open>run\<close> is labelling, sleeping or stopped.  A step takes an event or none; \<open>loop_exec\<close>
  takes the events of a list in order.
\<close>

datatype phase = Labelling nat | Sleeping nat | Stopped "bool go"

inductive loop_step ::
  "('f, 's) daemon \<Rightarrow> config \<Rightarrow> labeler \<Rightarrow> (nat \<Rightarrow> 'h pass_env) \<Rightarrow>
   's dstate \<times> phase \<Rightarrow> event option \<Rightarrow> 's dstate \<times> phase \<Rightarrow> bool"
  for G config ts envs where
  label_sleep: "run_pass G config ts (envs n) d = (d', Ret ()) \<Longrightarrow> \<not> oneshot_of config \<Longrightarrow>
    loop_step G config ts envs (d, Labelling n) None (d', Sleeping (Suc n))"
| label_oneshot: "run_pass G config ts (envs n) d = (d', Ret ()) \<Longrightarrow> oneshot_of config \<Longrightarrow>
    loop_step G config ts envs (d, Labelling n) None (d', Stopped (Ret False))"
| label_error: "run_pass G config ts (envs n) d = (d', Err e) \<Longrightarrow>
    loop_step G config ts envs (d, Labelling n) None (d', Stopped (Err e))"
| wake: "loop_step G config ts envs (d, Sleeping n) (Some Timeout) (d, Labelling n)"
| signal: "loop_step G config ts envs (d, Sleeping n) (Some (Signal s)) (d, Stopped (Ret (s = SIGHUP)))"

inductive_cases loop_step_LabellingE: "loop_step G config ts envs (d, Labelling n) ev c"
inductive_cases loop_step_SleepingE: "loop_step G config ts envs (d, Sleeping n) ev c"
inductive_cases loop_step_StoppedE: "loop_step G config ts envs (d, Stopped r) ev c"

inductive loop_exec ::
  "('f, 's) daemon \<Rightarrow> config \<Rightarrow> labeler \<Rightarrow> (nat \<Rightarrow> 'h pass_env) \<Rightarrow>
   's dstate \<times> phase \<Rightarrow> event list \<Rightarrow> 's dstate \<times> phase \<Rightarrow> bool"
  for G config ts envs where
  exec_here: "loop_exec G config ts envs c [] c"
| exec_silent: "loop_step G config ts envs c None c' \<Longrightarrow> loop_exec G config ts envs c' es c'' \<Longrightarrow>
    loop_exec G config ts envs c es c''"
| exec_event: "loop_step G config ts envs c (Some ev) c' \<Longrightarrow> loop_exec G config ts envs c' es c'' \<Longrightarrow>
    loop_exec G config ts envs c (ev # es) c''"

text \<open>What the state machine says the loop does next, from each phase.\<close>

fun continue_from ::
  "('f, 's) daemon \<Rightarrow> config \<Rightarrow> labeler \<Rightarrow> (nat \<Rightarrow> 'h pass_env) \<Rightarrow> 's dstate \<times> phase \<Rightarrow> event list \<Rightarrow>
   's dstate \<times> run_result \<times> event list" where
  "continue_from G config ts envs (d, Labelling n) es =
     (case run_loop G config ts envs n es d of (d', res, rest, _) \<Rightarrow> (d', res, rest))"
| "continue_from G config ts envs (d, Sleeping n) [] = (d, Waiting, [])"
| "continue_from G config ts envs (d, Sleeping n) (Timeout # es) =
     (case run_loop G config ts envs n es d of (d', res, rest, _) \<Rightarrow> (d', res, rest))"
| "continue_from G config ts envs (d, Sleeping n) (Signal s # es) = (d, Returned (Ret (s = SIGHUP)), es)"
| "continue_from G config ts envs (d, Stopped r) es = (d, Returned r, es)"

lemma run_loop_step:
  assumes "config_ready config" and "run_pass G config ts (envs n) d = (d', r)" and "no_crash r"
  shows "continue_from G config ts envs (d, Labelling n) es =
    (case r of
       Ret _ \<Rightarrow> if oneshot_of config then (d', Returned (Ret False), es)
                else continue_from G config ts envs (d', Sleeping (Suc n)) es
     | Err e \<Rightarrow> (d', Returned (Err e), es)
     | _ \<Rightarrow> (d', Returned (Ret False), es))"
proof -
  obtain x where "gfd_flag config gf_SleepInterval = Ret x" using ready_flags(3) [OF assms(1)] by blast
  with assms(2,3) ready_flags(1) [OF assms(1)] show ?thesis
    by (cases r; cases es; cases "hd es") (simp_all add: run_loop.simps [of G config ts envs n])
qed

lemma continue_exec:
  assumes ready: "config_ready config"
  shows "loop_exec G config ts envs c es c' \<Longrightarrow>
    continue_from G config ts envs c (es @ rest) = continue_from G config ts envs c' rest"
proof (induction rule: loop_exec.induct)
  case (exec_silent c c' es c'')
  from exec_silent.hyps(1) have "continue_from G config ts envs c (es @ rest) =
      continue_from G config ts envs c' (es @ rest)"
    by (cases rule: loop_step.cases) (simp_all add: run_loop_step [OF ready] del: continue_from.simps(1))
  with exec_silent.IH show ?case by simp
next
  case (exec_event c ev c' es c'')
  from exec_event.hyps(1) have "continue_from G config ts envs c ((ev # es) @ rest) =
      continue_from G config ts envs c' (es @ rest)"
    by (cases rule: loop_step.cases) simp_all
  with exec_event.IH show ?case by simp
qed simp

lemma exec_run_loop:
  assumes ready: "config_ready config"
    and ok: "\<And>n d. no_crash (snd (run_pass G config ts (envs n) d))"
  shows "run_loop G config ts envs n events d = (d', Returned r, rest, n') \<Longrightarrow>
    \<exists>es. events = es @ rest \<and> loop_exec G config ts envs (d, Labelling n) es (d', Stopped r)"
proof (induction events arbitrary: n d n')
  case Nil
  obtain d1 r1 where p: "run_pass G config ts (envs n) d = (d1, r1)" by (cases "run_pass G config ts (envs n) d")
  with ok [of n d] have r1: "no_crash r1" by simp
  from Nil have "continue_from G config ts envs (d, Labelling n) [] = (d', Returned r, rest)" by simp
  with p r1 show ?case
    by (auto simp: run_loop_step [where envs = envs and n = n, OF ready p r1] simp del: continue_from.simps(1)
        split: go.splits if_splits
        intro!: exec_silent [OF label_oneshot exec_here] exec_silent [OF label_error exec_here])
next
  case (Cons ev events)
  obtain d1 r1 where p: "run_pass G config ts (envs n) d = (d1, r1)" by (cases "run_pass G config ts (envs n) d")
  with ok [of n d] have r1: "no_crash r1" by simp
  from Cons.prems have c: "continue_from G config ts envs (d, Labelling n) (ev # events) = (d', Returned r, rest)"
    by simp
  show ?case
  proof (cases "r1 = Ret () \<and> \<not> oneshot_of config")
    case True
    with p have to_sleep: "loop_step G config ts envs (d, Labelling n) None (d1, Sleeping (Suc n))"
      by (auto intro: label_sleep)
    show ?thesis
    proof (cases ev)
      case Timeout
      have "continue_from G config ts envs (d, Labelling n) (ev # events) =
          (case run_loop G config ts envs (Suc n) events d1 of (d', res, rest, _) \<Rightarrow> (d', res, rest))"
        using True by (simp add: run_loop_step [where envs = envs and n = n, OF ready p r1] Timeout del: continue_from.simps(1))
      with c obtain n1 where "run_loop G config ts envs (Suc n) events d1 = (d', Returned r, rest, n1)"
        by (auto split: prod.splits)
      from Cons.IH [OF this] obtain es where "events = es @ rest"
        "loop_exec G config ts envs (d1, Labelling (Suc n)) es (d', Stopped r)" by blast
      then show ?thesis
        using exec_silent [OF to_sleep exec_event [OF wake]] by (auto simp: Timeout intro: exI [of _ "Timeout # es"])
    next
      case (Signal s)
      then have "d' = d1" "rest = events" "r = Ret (s = SIGHUP)"
        using c True by (simp_all add: run_loop_step [where envs = envs and n = n, OF ready p r1] del: continue_from.simps(1))
      then show ?thesis
        using exec_silent [OF to_sleep exec_event [OF signal exec_here]] Signal by auto
    qed
  next
    case False
    with c p r1 show ?thesis
      by (auto simp: run_loop_step [where envs = envs and n = n, OF ready p r1] simp del: continue_from.simps(1)
          split: go.splits if_splits
          intro!: exec_silent [OF label_oneshot exec_here] exec_silent [OF label_error exec_here])
  qed
qed

end
