(* ===== verification/Node_Properties.thy ===== *)
theory Node_Properties
  imports Nvml_Labels
begin

text \<open>
  The labels a node gets under the three MIG strategies, from the devices its manager lists down
  to the text of each label: \<open>NewResourceLabeler\<close> composed with the labelers it builds on.
  Nodes are described by what their devices answer; the nodes of the repository's tests are the
  examples.
\<close>

section \<open>Shared facts\<close>

text \<open>
  Sharing does not apply to the GPUs in MIG mode, so it counts for the labels of the full GPUs
  when there is one that is not in MIG mode.
\<close>

definition sharing_of :: "config \<Rightarrow> 'd list \<Rightarrow> config option" where
  "sharing_of config full = (if full = [] then None else Some config)"

lemma one_model_base:
  assumes "migEnabled \<noteq> [] \<or> full \<noteq> []" and "model \<noteq> []"
  shows "one_model_value config migEnabled full model mem cc ''count'' =
      Some (show_int (int (length migEnabled + length full)))"
    and "one_model_value config migEnabled full model mem cc ''replicas'' =
      Some (show_int (replica_count (sharing_of config full) ''nvidia.com/gpu''))"
    and "one_model_value config migEnabled full model mem cc ''product'' =
      Some (replace_all CHR '' '' CHR ''-'' model @ shared_suffix (sharing_of config full) ''nvidia.com/gpu'')"
  using assms
  by (auto simp: one_model_value_def Let_def sharing_of_def gpu_value_def base_value_def replicas_count
      product_shared fullGPUResourceName_def)

lemma mode_split:
  "resource_node D M s ds model mem cc \<Longrightarrow>
   length (with_mode D True ds) + length (with_mode D False ds) = length ds \<and>
   (with_mode D True ds \<noteq> [] \<or> with_mode D False ds \<noteq> [])"
  by (auto simp: resource_node_def length_modes dest: with_mode_empty_iff)

text \<open>The labels of one MIG profile.\<close>

lemma mig_value_base:
  assumes "fst ` set attrs \<subseteq> set mig_attribute_names" and "model \<noteq> []" and "profile \<noteq> []"
  shows "mig_value name (Some config) cnt model profile attrs ''count'' = Some (show_int cnt)"
    and "mig_value name (Some config) cnt model profile attrs ''replicas'' =
      Some (show_int (replica_count (Some config) name))"
    and "mig_value name (Some config) cnt model profile attrs ''product'' =
      Some (replace_all CHR '' '' CHR ''-'' model @ ''-MIG-'' @ replace_all CHR '' '' CHR ''-'' profile @
        shared_suffix (Some config) name)"
proof -
  have none: "gget attrs t = None" if "t \<notin> set mig_attribute_names" for t
    using assms(1) that unfolding map_of_eq_None_iff by blast
  have "replace_all CHR '' '' CHR ''-'' ''MIG'' = ''MIG''" by code_simp
  then show "mig_value name (Some config) cnt model profile attrs ''product'' =
      Some (replace_all CHR '' '' CHR ''-'' model @ ''-MIG-'' @ replace_all CHR '' '' CHR ''-'' profile @
        shared_suffix (Some config) name)"
    using assms(2,3) none [of "''product''"]
    by (simp add: mig_value_def base_value_def product_shared mig_attribute_names_def)
  show "mig_value name (Some config) cnt model profile attrs ''count'' = Some (show_int cnt)"
    using none [of "''count''"] by (simp add: mig_value_def base_value_def mig_attribute_names_def)
  show "mig_value name (Some config) cnt model profile attrs ''replicas'' =
      Some (show_int (replica_count (Some config) name))"
    using none [of "''replicas''"]
    by (simp add: mig_value_def base_value_def replicas_count mig_attribute_names_def)
qed

lemma mig_value_attr: "gget attrs t = Some v \<Longrightarrow> mig_value name c cnt model p attrs t = Some (show_val v)"
  by (simp add: mig_value_def)

lemma strategy_key: "''nvidia.com/mig.strategy'' \<noteq> ''nvidia.com/gpu.'' @ t"
  by simp

text \<open>A MIG labeler whose labels belong to the resource of full GPUs.\<close>

lemma resource_labels_gpu_rl:
  assumes node: "resource_node D M s ds model mem cc"
    and strategy: "fl_MigStrategy (cfg_Flags config) = Some strategy" "strategy \<noteq> ''none''"
    and mig: "newMigLabeler D M s os config = Ret (Merge [migStrategyLabeler strategy, l])"
    and l: "implements_labels (gpu_rl c) l f"
  shows "\<exists>m. gbind (NewResourceLabeler D M s os config) Labels_of = Ret m \<and>
    (\<forall>t. gget m (''nvidia.com/gpu.'' @ t) =
      (one_model_value config (with_mode D True ds) (with_mode D False ds) model mem cc ++ f) t) \<and>
    gget m ''nvidia.com/mig.strategy'' = Some strategy"
proof -
  obtain lm where lm: "labeler_ok l" "Labels_of l = Ret lm"
    and f: "\<And>t. gget lm (''nvidia.com/gpu.'' @ t) = f t"
    and own: "\<And>k. gget lm k \<noteq> None \<Longrightarrow> \<exists>t. k = ''nvidia.com/gpu.'' @ t"
    using implements_gpu_iff [OF l] by blast
  have "gget lm ''nvidia.com/mig.strategy'' = None" using own strategy_key by blast
  note none = this
  let ?one = "one_model_value config (with_mode D True ds) (with_mode D False ds) model mem cc"
  obtain m where m: "gbind (NewResourceLabeler D M s os config) Labels_of = Ret m"
    and gpu: "\<forall>t. gget m (''nvidia.com/gpu.'' @ t) =
      (?one ++ (\<lambda>t. gget lm (''nvidia.com/gpu.'' @ t))) t"
    and rest: "\<forall>k. (\<forall>t. k \<noteq> ''nvidia.com/gpu.'' @ t) \<longrightarrow>
      gget m k = (case gget lm k of
          None \<Rightarrow> if k = ''nvidia.com/mig.strategy'' then Some strategy else None | v \<Rightarrow> v)"
    using resource_labels_mig [OF node strategy mig lm] by blast
  have "(\<lambda>t. gget lm (''nvidia.com/gpu.'' @ t)) = f" by (rule ext) (rule f)
  note gpu = gpu [unfolded this]
  have "gget m ''nvidia.com/mig.strategy'' = Some strategy"
    using rest [rule_format, of "''nvidia.com/mig.strategy''"] strategy_key none by simp
  with m gpu show ?thesis by (intro exI [of _ m] conjI)
qed

section \<open>The nodes of the examples\<close>

definition ret_or :: "'a \<Rightarrow> 'a go \<Rightarrow> 'a" where
  "ret_or x r = (case r of Ret y \<Rightarrow> y | _ \<Rightarrow> x)"

lemma ret_or_Ret [simp]: "ret_or x (Ret y) = y"
  by (simp add: ret_or_def)

definition mock_name :: "mock_device \<Rightarrow> string" where
  "mock_name d = ret_or [] (mock_GetName d)"

definition mock_attrs :: "mock_device \<Rightarrow> (string, attr_val) gomap" where
  "mock_attrs d = ret_or [] (mock_GetAttributes d)"

definition mock_migs :: "mock_device \<Rightarrow> mock_device list" where
  "mock_migs d = ret_or [] (mock_GetMigDevices d)"

definition mock_cc :: "mock_device \<Rightarrow> int \<times> int" where
  "mock_cc d = ret_or (0, 0) (mock_GetCudaComputeCapability d)"

lemmas mock_answers = mock_name_def mock_attrs_def mock_migs_def mock_cc_def

text \<open>Two GPUs in MIG mode with MIG devices of one profile; the same with an empty one.\<close>

definition one_g :: mock_mig where
  "one_g = NewMigDevice 1 1 5 []"

definition single_node :: "mock_device list" where
  "single_node = [NewMigEnabledDevice [one_g, one_g], NewMigEnabledDevice [one_g]]"

definition empty_node :: "mock_device list" where
  "empty_node = [NewMigEnabledDevice [one_g], NewMigEnabledDevice []]"

definition mixed_node :: "mock_device list" where
  "mixed_node = [NewFullGPU, NewMigEnabledDevice [one_g, NewMigDevice 2 2 10 [], one_g]]"

lemmas node_defs = single_node_def empty_node_def mixed_node_def

lemma mock_resource_node:
  assumes "ds \<noteq> []" and "\<forall>d \<in> set ds. \<exists>b migs. d = MockGPU b migs"
  shows "resource_node mock_devices (NewManagerMockWithDevices ds) () ds ''MOCKMODEL'' (\<lambda>d. 300) mock_cc"
  using assms by (auto simp: resource_node_def modes_known_def gpu_answers_def mock_simps mock_cc_def)

lemma mock_mig_node:
  assumes "\<forall>d \<in> set ds. \<exists>b migs. d = MockGPU b migs"
  shows "mig_node mock_devices (NewManagerMockWithDevices ds) () ds mock_migs"
  using assms by (auto simp: mig_node_def modes_known_def with_mode_def mock_simps mock_migs_def)

lemma mock_gpus: "d \<in> set single_node \<union> set empty_node \<union> set mixed_node \<Longrightarrow> \<exists>b migs. d = MockGPU b migs"
  by (auto simp: node_defs mock_simps)

lemma mock_modes [simp]:
  "with_mode mock_devices True single_node = single_node"
  "with_mode mock_devices False single_node = []"
  "with_mode mock_devices True empty_node = empty_node"
  "with_mode mock_devices True mixed_node = [NewMigEnabledDevice [one_g, NewMigDevice 2 2 10 [], one_g]]"
  "with_mode mock_devices False mixed_node = [NewFullGPU]"
  by (simp_all add: with_mode_def node_defs mock_simps)

lemma gset_all_Nil_ok: "gmap_ok (mm_attributes (NewMigDevice gi ci gb []))"
  by (simp add: NewMigDevice_def gmap_ok_def)

lemma mock_profiles:
  "mock_GetName (MockMig one_g p) = Ret ''1g.5gb''"
  "mock_GetName (MockMig (NewMigDevice 2 2 10 []) p) = Ret ''2g.10gb''"
  by (simp_all add: one_g_def NewMigDevice_def) code_simp+

lemma mock_names [simp]:
  "mock_name (MockMig one_g p) = ''1g.5gb''" "mock_name (MockMig (NewMigDevice 2 2 10 []) p) = ''2g.10gb''"
  unfolding mock_name_def mock_profiles by simp_all

lemma mock_attr_names:
  "fst ` set (mm_attributes (NewMigDevice gi ci gb [])) \<subseteq> set mig_attribute_names"
  by (simp add: NewMigDevice_def mig_attribute_names_def)

lemma mock_mig_devices:
  assumes "\<forall>d \<in> set all. \<exists>m ms. d = MockMig m (Some ms) \<and> m \<in> {one_g, NewMigDevice 2 2 10 []}"
  shows "mig_devices_node mock_devices all (\<lambda>d. ''MOCKMODEL'') mock_name mock_attrs"
    and "\<forall>d \<in> set all. fst ` set (mock_attrs d) \<subseteq> set mig_attribute_names"
proof -
  have "mig_answers mock_devices d ''MOCKMODEL'' (mock_name d) (mock_attrs d) \<and>
      fst ` set (mock_attrs d) \<subseteq> set mig_attribute_names"
    if "d = MockMig m (Some ms)" "m \<in> {one_g, NewMigDevice 2 2 10 []}" for d m ms
    using that
    by (elim insertE emptyE) (simp_all add: mig_answers_def mock_devices_def mock_name_def mock_attrs_def
        mock_profiles one_g_def gset_all_Nil_ok mock_attr_names)
  with assms show "mig_devices_node mock_devices all (\<lambda>d. ''MOCKMODEL'') mock_name mock_attrs"
    and "\<forall>d \<in> set all. fst ` set (mock_attrs d) \<subseteq> set mig_attribute_names"
    unfolding mig_devices_node_def by blast+
qed

section \<open>Properties\<close>

lemma gpu_only_labels:
  assumes node: "resource_node D M s ds model mem cc"
    and strategy: "fl_MigStrategy (cfg_Flags config) = Some strategy"
    and full: "strategy = ''none'' \<or> strategy = ''single'' \<and> with_mode D True ds = []"
  shows "\<exists>l m. NewResourceLabeler D M s os config = Ret l \<and> labeler_ok l \<and> Labels_of l = Ret m \<and>
    (\<forall>t. gget m (''nvidia.com/gpu.'' @ t) =
      one_model_value config (with_mode D True ds) (with_mode D False ds) model mem cc t) \<and>
    (\<forall>k. (\<forall>t. k \<noteq> ''nvidia.com/gpu.'' @ t) \<longrightarrow>
      gget m k = (if k = ''nvidia.com/mig.strategy'' \<and> strategy \<noteq> ''none'' then Some strategy else None))"
proof -
  have ds: "mgr_GetDevices M s = Ret ds" "ds \<noteq> []" using node by (simp_all add: resource_node_def)
  obtain gm where gm: "newGPULabelers D M s os config = Ret (LLabels gm)"
    and impl: "implements_labels (gpu_rl None) (LLabels gm)
      (one_model_value config (with_mode D True ds) (with_mode D False ds) model mem cc)"
    using resource_node_gpu [OF node] by blast
  have ok: "gmap_ok gm"
    and gv: "\<And>t. gget gm (''nvidia.com/gpu.'' @ t) =
      one_model_value config (with_mode D True ds) (with_mode D False ds) model mem cc t"
    and own: "\<And>k. \<forall>t. k \<noteq> ''nvidia.com/gpu.'' @ t \<Longrightarrow> gget gm k = None"
    using implements_gpu_iff [OF impl] by auto
  show ?thesis
  proof (cases "strategy = ''none''")
    case True
    then have "NewResourceLabeler D M s os config = Ret (LLabels gm)"
      using strategy ds gm by (simp add: NewResourceLabeler_def)
    with ok gv own True show ?thesis by (intro exI [of _ "LLabels gm"] exI [of _ gm]) simp
  next
    case False
    with full have none: "with_mode D True ds = []" and single: "strategy = ''single''" by simp_all
    let ?st = "[(''nvidia.com/mig.strategy'', strategy)]"
    let ?l = "Merge [LLabels gm, Merge [LLabels ?st, LEmpty]]"
    have "mig_node D M s ds (\<lambda>d. [])" using node none by (simp add: mig_node_def resource_node_def)
    from single_no_mig [OF this none] have "NewResourceLabeler D M s os config = Ret ?l"
      using strategy single ds gm
      by (simp add: NewResourceLabeler_def newMigLabeler_def migStrategyLabeler_def)
    moreover have "labeler_ok ?l" using ok by (simp add: Merge_def gmap_ok_def)
    moreover have "labeler_ok (Merge [LLabels ?st, LEmpty])" by (simp add: Merge_def gmap_ok_def)
    moreover obtain m where "Labels_of ?l = Ret m" "gget m = gget gm ++ gget ?st"
      using Labels_Merge [of "[LLabels gm, Merge [LLabels ?st, LEmpty]]" "[gm, ?st]"] ok
      by (auto simp: Merge_def gmap_ok_def gset_all_def)
    ultimately show ?thesis
      using gv own False
      by (intro exI [of _ ?l] exI [of _ m]) (auto simp: map_add_def split: option.splits)
  qed
qed

text \<open>C27: Without a MIG strategy, or under the single one when no GPU is in MIG mode, a node with one
  model of GPU is labelled with the number of its GPUs, the model and the replicas of the sharing
  configuration, which does not apply when every GPU is in MIG mode; the strategy is a label unless
  it is none.\<close>

theorem gpu_only_strategy_labels:
  assumes "resource_node D M s ds model mem cc" and "model \<noteq> []"
    and "fl_MigStrategy (cfg_Flags config) = Some strategy"
    and "strategy = ''none'' \<or> strategy = ''single'' \<and> with_mode D True ds = []"
  shows "\<exists>m. gbind (NewResourceLabeler D M s os config) Labels_of = Ret m \<and>
    gget m ''nvidia.com/gpu.count'' = Some (show_int (int (length ds))) \<and>
    gget m ''nvidia.com/gpu.product'' = Some (replace_all CHR '' '' CHR ''-'' model @
      shared_suffix (sharing_of config (with_mode D False ds)) ''nvidia.com/gpu'') \<and>
    gget m ''nvidia.com/gpu.replicas'' =
      Some (show_int (replica_count (sharing_of config (with_mode D False ds)) ''nvidia.com/gpu'')) \<and>
    gget m ''nvidia.com/mig.strategy'' = (if strategy = ''none'' then None else Some strategy)"
proof -
  note split = mode_split [OF assms(1)]
  obtain l m where "NewResourceLabeler D M s os config = Ret l" "Labels_of l = Ret m"
    and val: "\<forall>t. gget m (''nvidia.com/gpu.'' @ t) =
      one_model_value config (with_mode D True ds) (with_mode D False ds) model mem cc t"
    and rest: "\<forall>k. (\<forall>t. k \<noteq> ''nvidia.com/gpu.'' @ t) \<longrightarrow>
      gget m k = (if k = ''nvidia.com/mig.strategy'' \<and> strategy \<noteq> ''none'' then Some strategy else None)"
    using gpu_only_labels [OF assms(1,3,4)] by blast
  then have m: "gbind (NewResourceLabeler D M s os config) Labels_of = Ret m" by simp
  have str: "gget m ''nvidia.com/mig.strategy'' = (if strategy = ''none'' then None else Some strategy)"
    using rest strategy_key by simp
  show ?thesis
    using m str val [rule_format, of "''count''"] val [rule_format, of "''product''"]
      val [rule_format, of "''replicas''"]
      one_model_base [OF conjunct2 [OF split] assms(2), of config mem cc] split
    by (intro exI [of _ m]) simp
qed

theorem gpu_only_strategy_labels_witness:
  "\<exists>m. gbind (NewResourceLabeler mock_devices (NewManagerMockWithDevices mixed_node) ()
       \<lparr>ord_mig = [], ord_full = [], ord_profiles = []\<rparr> (sample_config ''none'')) Labels_of = Ret m \<and>
     gget m ''nvidia.com/gpu.count'' = Some ''2''"
proof -
  have node: "resource_node mock_devices (NewManagerMockWithDevices mixed_node) () mixed_node
      ''MOCKMODEL'' (\<lambda>d. 300) mock_cc"
    by (rule mock_resource_node) (use mock_gpus in \<open>auto simp: mixed_node_def\<close>)
  have "fl_MigStrategy (cfg_Flags (sample_config ''none'')) = Some ''none''"
    by (simp add: sample_config_def)
  from gpu_only_strategy_labels [OF node _ this, of "\<lparr>ord_mig = [], ord_full = [], ord_profiles = []\<rparr>"]
  obtain m where m: "gbind (NewResourceLabeler mock_devices (NewManagerMockWithDevices mixed_node) ()
       \<lparr>ord_mig = [], ord_full = [], ord_profiles = []\<rparr> (sample_config ''none'')) Labels_of = Ret m"
    and c: "gget m ''nvidia.com/gpu.count'' = Some (show_int (int (length mixed_node)))"
    by blast
  have "show_int (int (length mixed_node)) = ''2''" by code_simp
  with m c show ?thesis by (intro exI [of _ m]) (simp only: simp_thms)
qed

text \<open>C11: Under the single strategy, on a node whose GPUs are all in MIG mode, none of them empty,
  with MIG devices of one profile, the labels of the GPU resource describe the MIG devices: their
  number, the model with the profile, and the attributes of the first.\<close>

theorem single_strategy_labels:
  assumes node: "resource_node D M s ds gpu mem cc"
    and strategy: "fl_MigStrategy (cfg_Flags config) = Some ''single''"
    and N: "mig_node D M s ds migs" and all: "all = concat (map migs (with_mode D True ds))"
    and devs: "mig_devices_node D all model profile attrs"
    and nvml: "\<forall>d \<in> set all. fst ` set (attrs d) \<subseteq> set mig_attribute_names"
    and valid: "single_valid (with_mode D True ds) (with_mode D False ds) migs profile p"
    and names: "model (hd all) \<noteq> []" "p \<noteq> []"
  shows "\<exists>m. gbind (NewResourceLabeler D M s os config) Labels_of = Ret m \<and>
    gget m ''nvidia.com/mig.strategy'' = Some ''single'' \<and>
    gget m ''nvidia.com/gpu.count'' = Some (show_int (int (length all))) \<and>
    gget m ''nvidia.com/gpu.replicas'' = Some (show_int (replica_count (Some config) ''nvidia.com/gpu'')) \<and>
    gget m ''nvidia.com/gpu.product'' = Some (replace_all CHR '' '' CHR ''-'' (model (hd all)) @ ''-MIG-'' @
      replace_all CHR '' '' CHR ''-'' p @ shared_suffix (Some config) ''nvidia.com/gpu'') \<and>
    (\<forall>t v. gget (attrs (hd all)) t = Some v \<longrightarrow> gget m (''nvidia.com/gpu.'' @ t) = Some (show_val v))"
proof -
  obtain l where l: "newMigStrategySingleLabeler D M s os config = Ret l"
    and impl: "implements_labels (gpu_rl (Some config)) l
      (profile_value config fullGPUResourceName all model profile attrs p)"
    using single_labels_valid [OF N devs [unfolded all] valid] unfolding all by blast
  have "newMigLabeler D M s os config = Ret (Merge [migStrategyLabeler ''single'', l])"
    using strategy l by (simp add: newMigLabeler_def)
  from resource_labels_gpu_rl [OF node strategy _ this impl] obtain m where
    m: "gbind (NewResourceLabeler D M s os config) Labels_of = Ret m"
      "gget m ''nvidia.com/mig.strategy'' = Some ''single''"
    and val: "\<And>t. gget m (''nvidia.com/gpu.'' @ t) =
      (one_model_value config (with_mode D True ds) (with_mode D False ds) gpu mem cc ++
        profile_value config fullGPUResourceName all model profile attrs p) t"
    by auto
  have "all \<noteq> []" using valid unfolding all single_valid_def by auto
  then have hd: "hd all \<in> set all" by simp
  have "\<forall>d \<in> set all. profile d = p" using valid unfolding all single_valid_def by auto
  then have one: "named profile p all = all" by (rule named_all)
  have pv: "profile_value config fullGPUResourceName all model profile attrs p t =
      mig_value ''nvidia.com/gpu'' (Some config) (int (length all)) (model (hd all)) p (attrs (hd all)) t" for t
    by (simp add: profile_value_def one Let_def fullGPUResourceName_def)
  have found: "gget m (''nvidia.com/gpu.'' @ t) = Some v"
    if "mig_value ''nvidia.com/gpu'' (Some config) (int (length all)) (model (hd all)) p (attrs (hd all)) t =
      Some v" for t v
    using that by (simp only: val map_add_def pv option.case)
  note base = mig_value_base [OF bspec [OF nvml hd] names]
  show ?thesis
    using m found [OF base(1)] found [OF base(2)] found [OF base(3)] found [OF mig_value_attr]
    by (intro exI [of _ m]) simp
qed

definition no_orders :: orders where
  "no_orders = \<lparr>ord_mig = [], ord_full = [], ord_profiles = []\<rparr>"

lemma sample_strategy [simp]: "fl_MigStrategy (cfg_Flags (sample_config s)) = Some s"
  by (simp add: sample_config_def)

theorem single_strategy_labels_witness:
  "\<exists>m. gbind (NewResourceLabeler mock_devices (NewManagerMockWithDevices single_node) () no_orders
       (sample_config ''single'')) Labels_of = Ret m \<and>
     gget m ''nvidia.com/mig.strategy'' = Some ''single'' \<and>
     gget m ''nvidia.com/gpu.count'' = Some ''3'' \<and>
     gget m ''nvidia.com/gpu.product'' = Some ''MOCKMODEL-MIG-1g.5gb''"
proof -
  let ?all = "concat (map mock_migs single_node)"
  have all: "?all = [MockMig one_g (Some (True, [one_g, one_g])), MockMig one_g (Some (True, [one_g, one_g])),
      MockMig one_g (Some (True, [one_g]))]"
    by (simp add: single_node_def mock_simps mock_migs_def)
  have gpus: "\<forall>d \<in> set single_node. \<exists>b migs. d = MockGPU b migs" using mock_gpus by blast
  have "single_node \<noteq> []" by (simp add: single_node_def)
  note node = mock_resource_node [OF this gpus] and N = mock_mig_node [OF gpus]
  have "\<forall>d \<in> set ?all. \<exists>m ms. d = MockMig m (Some ms) \<and> m \<in> {one_g, NewMigDevice 2 2 10 []}"
    unfolding all by auto
  note devs = mock_mig_devices [OF this]
  have "single_valid single_node [] mock_migs mock_name ''1g.5gb''"
    by (simp add: single_valid_def single_node_def mock_simps mock_migs_def)
  then have valid: "single_valid (with_mode mock_devices True single_node)
      (with_mode mock_devices False single_node) mock_migs mock_name ''1g.5gb''" by simp
  have texts: "show_int 3 = ''3''" "replace_all CHR '' '' CHR ''-'' ''MOCKMODEL'' = ''MOCKMODEL''"
    "replace_all CHR '' '' CHR ''-'' ''1g.5gb'' = ''1g.5gb''"
    "shared_suffix (Some (sample_config ''single'')) ''nvidia.com/gpu'' = []" by code_simp+
  from single_strategy_labels [OF node sample_strategy N _ devs valid, of no_orders] show ?thesis
    by (auto simp: all texts)
qed

text \<open>C12: Under the single strategy any other node with a GPU in MIG mode (a GPU that is not, an
  empty one, or several profiles) is labelled as invalid: the product says so, and count, replicas
  and memory are zero.\<close>

theorem single_strategy_invalid:
  assumes node: "resource_node D M s ds gpu mem cc" and "gpu \<noteq> []"
    and strategy: "fl_MigStrategy (cfg_Flags config) = Some ''single''"
    and N: "mig_node D M s ds migs"
    and names: "names_known D profile (concat (map migs (with_mode D True ds)))"
    and en: "with_mode D True ds \<noteq> []"
    and invalid: "\<nexists>p. single_valid (with_mode D True ds) (with_mode D False ds) migs profile p"
  shows "\<exists>m. gbind (NewResourceLabeler D M s os config) Labels_of = Ret m \<and>
    gget m ''nvidia.com/mig.strategy'' = Some ''single'' \<and>
    gget m ''nvidia.com/gpu.product'' = Some (replace_all CHR '' '' CHR ''-'' gpu @ ''-MIG-INVALID'') \<and>
    gget m ''nvidia.com/gpu.count'' = Some ''0'' \<and>
    gget m ''nvidia.com/gpu.replicas'' = Some ''0'' \<and>
    gget m ''nvidia.com/gpu.memory'' = Some ''0''"
proof -
  have "hd (with_mode D True ds) \<in> set ds"
    using hd_in_set [OF en] by (simp add: with_mode_def)
  then have "dev_GetName D (hd (with_mode D True ds)) = Ret gpu"
    using node by (simp add: resource_node_def gpu_answers_def)
  from single_labels_invalid [OF N names en this invalid] obtain l where
    l: "newMigStrategySingleLabeler D M s os config = Ret l"
    and impl: "implements_labels (gpu_rl None) l (invalid_value gpu)" by blast
  have "newMigLabeler D M s os config = Ret (Merge [migStrategyLabeler ''single'', l])"
    using strategy l by (simp add: newMigLabeler_def)
  from resource_labels_gpu_rl [OF node strategy _ this impl] obtain m where
    m: "gbind (NewResourceLabeler D M s os config) Labels_of = Ret m"
      "gget m ''nvidia.com/mig.strategy'' = Some ''single''"
    and val: "\<And>t. gget m (''nvidia.com/gpu.'' @ t) =
      (one_model_value config (with_mode D True ds) (with_mode D False ds) gpu mem cc ++
        invalid_value gpu) t"
    by auto
  have found: "gget m (''nvidia.com/gpu.'' @ t) = Some v" if "invalid_value gpu t = Some v" for t v
    using that by (simp only: val map_add_def option.case)
  have "map (replace_all CHR '' '' CHR ''-'') [''MIG'', ''INVALID''] = [''MIG'', ''INVALID'']" by code_simp
  then have "invalid_value gpu ''product'' = Some (replace_all CHR '' '' CHR ''-'' gpu @ ''-MIG-INVALID'')"
    using assms(2) by (simp add: invalid_value_def)
  moreover have "invalid_value gpu t = Some ''0''" if "t \<in> {''count'', ''replicas'', ''memory''}" for t
    using that by (simp add: invalid_value_def)
  ultimately show ?thesis
    using m found [of "''product''"] found [of "''count''" "''0''"] found [of "''replicas''" "''0''"]
      found [of "''memory''" "''0''"]
    by (intro exI [of _ m]) simp
qed

theorem single_strategy_invalid_witness:
  "\<exists>m. gbind (NewResourceLabeler mock_devices (NewManagerMockWithDevices empty_node) () no_orders
       (sample_config ''single'')) Labels_of = Ret m \<and>
     gget m ''nvidia.com/gpu.product'' = Some ''MOCKMODEL-MIG-INVALID'' \<and>
     gget m ''nvidia.com/gpu.count'' = Some ''0''"
proof -
  have gpus: "\<forall>d \<in> set empty_node. \<exists>b migs. d = MockGPU b migs" using mock_gpus by blast
  have "empty_node \<noteq> []" by (simp add: empty_node_def)
  note node = mock_resource_node [OF this gpus] and N = mock_mig_node [OF gpus]
  have names: "names_known mock_devices mock_name (concat (map mock_migs (with_mode mock_devices True empty_node)))"
    unfolding mock_modes
    by (simp add: names_known_def empty_node_def mock_simps mock_migs_def mock_profiles
        del: mock_methods(1,2))
  have en: "with_mode mock_devices True empty_node \<noteq> []"
    and invalid: "\<nexists>p. single_valid (with_mode mock_devices True empty_node)
      (with_mode mock_devices False empty_node) mock_migs mock_name p"
    unfolding mock_modes by (simp_all add: single_valid_def empty_node_def mock_simps mock_migs_def)
  have "replace_all CHR '' '' CHR ''-'' ''MOCKMODEL'' = ''MOCKMODEL''" by code_simp
  with single_strategy_invalid [OF node _ sample_strategy N names en invalid, of no_orders] show ?thesis
    by auto
qed

lemma mig_key_not_gpu: "''nvidia.com/mig-'' @ p \<noteq> ''nvidia.com/gpu.'' @ t"
  and mig_key_not_strategy: "''nvidia.com/mig-'' @ p \<noteq> ''nvidia.com/mig.strategy''"
  by simp_all

lemma mixed_resource_labels:
  assumes node: "resource_node D M s ds gpu mem cc"
    and strategy: "fl_MigStrategy (cfg_Flags config) = Some ''mixed''"
    and N: "mig_node D M s ds migs" and all: "all = concat (map migs (with_mode D True ds))"
    and devs: "mig_devices_node D all model profile attrs"
    and nvml: "\<forall>d \<in> set all. fst ` set (attrs d) \<subseteq> set mig_attribute_names"
  shows "\<exists>m. gbind (NewResourceLabeler D M s os config) Labels_of = Ret m \<and>
    gget m ''nvidia.com/mig.strategy'' = Some ''mixed'' \<and>
    (\<forall>t. gget m (''nvidia.com/gpu.'' @ t) =
      one_model_value config (with_mode D True ds) (with_mode D False ds) gpu mem cc t) \<and>
    (\<forall>p \<in> profile ` set all. \<forall>t \<in> set mig_suffixes.
       gget m (''nvidia.com/mig-'' @ p @ ''.'' @ t) =
       profile_value config (profile_resource p) all model profile attrs p t)"
proof -
  obtain l lm where l: "newMigStrategyMixedLabeler D M s os config = Ret l" "labeler_ok l" "Labels_of l = Ret lm"
    and own: "\<forall>k \<in> fst ` set lm. \<exists>p \<in> profile ` set all. \<exists>t. k = ''nvidia.com/mig-'' @ p @ ''.'' @ t"
    and val: "\<forall>p \<in> profile ` set all. \<forall>t \<in> set mig_suffixes.
       gget lm (''nvidia.com/mig-'' @ p @ ''.'' @ t) =
       profile_value config (profile_resource p) all model profile attrs p t"
    using mixed_labels [OF N all devs nvml] by blast
  have mig: "newMigLabeler D M s os config = Ret (Merge [migStrategyLabeler ''mixed'', l])"
    using strategy l(1) by (simp add: newMigLabeler_def)
  have none: "gget lm k = None" if "\<And>p. k \<noteq> ''nvidia.com/mig-'' @ p" for k
    using own that unfolding map_of_eq_None_iff by blast
  then have lm_gpu: "gget lm (''nvidia.com/gpu.'' @ t) = None" for t
    using mig_key_not_gpu by metis
  obtain m where m: "gbind (NewResourceLabeler D M s os config) Labels_of = Ret m"
    and gpu: "\<forall>t. gget m (''nvidia.com/gpu.'' @ t) =
      (one_model_value config (with_mode D True ds) (with_mode D False ds) gpu mem cc ++
        (\<lambda>t. gget lm (''nvidia.com/gpu.'' @ t))) t"
    and rest: "\<forall>k. (\<forall>t. k \<noteq> ''nvidia.com/gpu.'' @ t) \<longrightarrow>
      gget m k = (case gget lm k of
          None \<Rightarrow> if k = ''nvidia.com/mig.strategy'' then Some ''mixed'' else None | v \<Rightarrow> v)"
    using resource_labels_mig [OF node strategy _ mig l(2,3)] by auto
  have "gget m ''nvidia.com/mig.strategy'' = Some ''mixed''"
    using rest [rule_format, of "''nvidia.com/mig.strategy''"] strategy_key none mig_key_not_strategy by simp
  moreover have "\<forall>t. gget m (''nvidia.com/gpu.'' @ t) =
      one_model_value config (with_mode D True ds) (with_mode D False ds) gpu mem cc t"
    using gpu unfolding map_add_def lm_gpu by simp
  moreover have "gget m (''nvidia.com/mig-'' @ q) = gget lm (''nvidia.com/mig-'' @ q)" for q
    using rest [rule_format, of "''nvidia.com/mig-'' @ q", OF mig_key_not_gpu] mig_key_not_strategy
    by (simp split: option.splits)
  ultimately show ?thesis
    using m val by (intro exI [of _ m]) (simp only: simp_thms)
qed

lemma gpu_value_sharing:
  assumes "cfg_TimeSlicing c' = cfg_TimeSlicing c"
  shows "gpu_value (Some c') = gpu_value (Some c)"
proof -
  let ?r' = "\<lparr>rl_resourceName = fullGPUResourceName, rl_config = Some c'\<rparr>"
  let ?r = "\<lparr>rl_resourceName = fullGPUResourceName, rl_config = Some c\<rparr>"
  have "rl_replicationInfo ?r' = rl_replicationInfo ?r" by (simp add: rl_replicationInfo_def assms)
  then have "rl_isShared ?r' = rl_isShared ?r" "rl_isRenamed ?r' = rl_isRenamed ?r" "rl_replicas ?r' = rl_replicas ?r"
    by (simp_all add: rl_isShared_def rl_isRenamed_def rl_replicas_def rl_sharingDisabled_def)
  then have "base_value ?r' = base_value ?r" by (intro ext) (simp only: base_value_def product_value_def)
  then show ?thesis by (intro ext) (simp only: gpu_value_def Let_def)
qed

text \<open>C13: Under the mixed strategy every MIG profile of the node is a resource with labels of its own:
  the number of its devices, the model with the profile, the replicas of that resource and the
  attributes of its first device; every label of the GPUs is what it is on the same node without a
  strategy, their number among them, and the strategy is a label.\<close>

theorem mixed_strategy_labels:
  assumes node: "resource_node D M s ds gpu mem cc" and "gpu \<noteq> []"
    and strategy: "fl_MigStrategy (cfg_Flags config) = Some ''mixed''"
    and N: "mig_node D M s ds migs" and all: "all = concat (map migs (with_mode D True ds))"
    and devs: "mig_devices_node D all model profile attrs"
    and nvml: "\<forall>d \<in> set all. fst ` set (attrs d) \<subseteq> set mig_attribute_names"
    and names: "\<forall>d \<in> set all. model d \<noteq> [] \<and> profile d \<noteq> []"
  shows "\<exists>m m0. gbind (NewResourceLabeler D M s os config) Labels_of = Ret m \<and>
    gbind (NewResourceLabeler D M s os
      (config\<lparr>cfg_Flags := (cfg_Flags config)\<lparr>fl_MigStrategy := Some ''none''\<rparr>\<rparr>)) Labels_of = Ret m0 \<and>
    (\<forall>t. gget m (''nvidia.com/gpu.'' @ t) = gget m0 (''nvidia.com/gpu.'' @ t)) \<and>
    gget m ''nvidia.com/mig.strategy'' = Some ''mixed'' \<and>
    gget m ''nvidia.com/gpu.count'' = Some (show_int (int (length ds))) \<and>
    (\<forall>d \<in> set all. let p = profile d; same = filter (\<lambda>d. profile d = p) all; key = ''nvidia.com/mig-'' @ p in
       gget m (key @ ''.count'') = Some (show_int (int (length same))) \<and>
       gget m (key @ ''.replicas'') = Some (show_int (replica_count (Some config) key)) \<and>
       gget m (key @ ''.product'') = Some (replace_all CHR '' '' CHR ''-'' (model (hd same)) @ ''-MIG-'' @
         replace_all CHR '' '' CHR ''-'' p @ shared_suffix (Some config) key) \<and>
       (\<forall>t v. gget (attrs (hd same)) t = Some v \<longrightarrow> gget m (key @ ''.'' @ t) = Some (show_val v)))"
proof -
  let ?none = "config\<lparr>cfg_Flags := (cfg_Flags config)\<lparr>fl_MigStrategy := Some ''none''\<rparr>\<rparr>"
  obtain m where m: "gbind (NewResourceLabeler D M s os config) Labels_of = Ret m"
      "gget m ''nvidia.com/mig.strategy'' = Some ''mixed''"
    and gpu: "\<forall>t. gget m (''nvidia.com/gpu.'' @ t) =
      one_model_value config (with_mode D True ds) (with_mode D False ds) gpu mem cc t"
    and val: "\<forall>p \<in> profile ` set all. \<forall>t \<in> set mig_suffixes.
       gget m (''nvidia.com/mig-'' @ p @ ''.'' @ t) =
       profile_value config (profile_resource p) all model profile attrs p t"
    using mixed_resource_labels [OF node strategy N all devs nvml] by blast
  obtain l0 m0 where m0: "NewResourceLabeler D M s os ?none = Ret l0" "Labels_of l0 = Ret m0"
    "\<forall>t. gget m0 (''nvidia.com/gpu.'' @ t) =
      one_model_value ?none (with_mode D True ds) (with_mode D False ds) gpu mem cc t"
    using gpu_only_labels [OF node, of ?none "''none''" os] by auto
  have "one_model_value ?none (with_mode D True ds) = one_model_value config (with_mode D True ds)"
    by (intro ext) (simp only: one_model_value_def Let_def gpu_value_sharing [of ?none config, simplified])
  with m0(3) gpu have same: "\<forall>t. gget m (''nvidia.com/gpu.'' @ t) = gget m0 (''nvidia.com/gpu.'' @ t)" by simp
  have "gbind (NewResourceLabeler D M s os ?none) Labels_of = Ret m0" using m0(1,2) by simp
  note plain = this
  have "gget m ''nvidia.com/gpu.count'' = Some (show_int (int (length ds)))"
    using gpu [rule_format, of "''count''"] mode_split [OF node]
      one_model_base(1) [OF conjunct2 [OF mode_split [OF node]] assms(2), of config mem cc] by simp
  moreover have "let p = profile d; same = filter (\<lambda>d. profile d = p) all; key = ''nvidia.com/mig-'' @ p in
       gget m (key @ ''.count'') = Some (show_int (int (length same))) \<and>
       gget m (key @ ''.replicas'') = Some (show_int (replica_count (Some config) key)) \<and>
       gget m (key @ ''.product'') = Some (replace_all CHR '' '' CHR ''-'' (model (hd same)) @ ''-MIG-'' @
         replace_all CHR '' '' CHR ''-'' p @ shared_suffix (Some config) key) \<and>
       (\<forall>t v. gget (attrs (hd same)) t = Some v \<longrightarrow> gget m (key @ ''.'' @ t) = Some (show_val v))"
    if d: "d \<in> set all" for d
  proof -
    let ?p = "profile d"
    let ?same = "filter (\<lambda>d. profile d = ?p) all"
    let ?key = "''nvidia.com/mig-'' @ ?p"
    have "?same \<noteq> []" using d by (auto simp: filter_empty_conv)
    from hd_in_set [OF this] have hd: "hd ?same \<in> set all" by simp
    have found: "gget m (?key @ ''.'' @ t) = Some v"
      if "t \<in> set mig_suffixes" "mig_value ?key (Some config) (int (length ?same)) (model (hd ?same)) ?p
        (attrs (hd ?same)) t = Some v" for t v
      using val [rule_format, OF imageI [OF d] that(1)] that(2)
      by (simp add: profile_value_def Let_def named_def profile_resource_def)
    have suffix: "t \<in> set mig_suffixes" if "gget (attrs (hd ?same)) t = Some v" for t v
      using map_of_SomeD [OF that] bspec [OF nvml hd] by (force simp: mig_suffixes_def)
    note base = mig_value_base [OF bspec [OF nvml hd], of "model (hd ?same)" ?p]
    have "model (hd ?same) \<noteq> []" "?p \<noteq> []" using names hd d by simp_all
    note base = base [OF this]
    show ?thesis
      using found [OF _ base(1)] found [OF _ base(2)] found [OF _ base(3)]
        found [OF suffix mig_value_attr]
      by (simp add: Let_def mig_suffixes_def)
  qed
  ultimately show ?thesis using m same plain by blast
qed

theorem mixed_strategy_labels_witness:
  "\<exists>m. gbind (NewResourceLabeler mock_devices (NewManagerMockWithDevices mixed_node) () no_orders
       (sample_config ''mixed'')) Labels_of = Ret m \<and>
     gget m ''nvidia.com/gpu.count'' = Some ''2'' \<and>
     gget m (''nvidia.com/mig-'' @ ''1g.5gb'' @ ''.count'') = Some ''2'' \<and>
     gget m (''nvidia.com/mig-'' @ ''2g.10gb'' @ ''.product'') = Some ''MOCKMODEL-MIG-2g.10gb''"
proof -
  let ?migs = "[one_g, NewMigDevice 2 2 10 [], one_g]"
  let ?all = "concat (map mock_migs (with_mode mock_devices True mixed_node))"
  have all: "?all = map (\<lambda>m. MockMig m (Some (True, ?migs))) ?migs"
    unfolding mock_modes by (simp add: mock_simps mock_migs_def)
  have gpus: "\<forall>d \<in> set mixed_node. \<exists>b migs. d = MockGPU b migs" using mock_gpus by blast
  have "mixed_node \<noteq> []" by (simp add: mixed_node_def)
  note node = mock_resource_node [OF this gpus] and N = mock_mig_node [OF gpus]
  have "\<forall>d \<in> set ?all. \<exists>m ms. d = MockMig m (Some ms) \<and> m \<in> {one_g, NewMigDevice 2 2 10 []}"
    unfolding all by auto
  note devs = mock_mig_devices [OF this]
  have names: "\<forall>d \<in> set ?all. ''MOCKMODEL'' \<noteq> [] \<and> mock_name d \<noteq> []" unfolding all by simp
  have texts: "show_int 2 = ''2''" "length mixed_node = 2"
    "replace_all CHR '' '' CHR ''-'' ''MOCKMODEL'' = ''MOCKMODEL''"
    "replace_all CHR '' '' CHR ''-'' ''2g.10gb'' = ''2g.10gb''"
    "shared_suffix (Some (sample_config ''mixed'')) ''nvidia.com/mig-2g.10gb'' = []"
    by (simp_all add: mixed_node_def) code_simp+
  from mixed_strategy_labels [OF node _ sample_strategy N refl devs names, of no_orders] show ?thesis
    unfolding all by (simp add: texts Let_def) blast
qed

definition two_models :: "nat device_ops" where
  "two_models =
     \<lparr>dev_IsMigEnabled = (\<lambda>d. Ret False), dev_IsMigCapable = (\<lambda>d. Ret False),
      dev_GetMigDevices = (\<lambda>d. Ret []), dev_GetAttributes = (\<lambda>d. Ret []),
      dev_GetName = (\<lambda>d. Ret (if d = 0 then ''A100'' else ''T4'')),
      dev_GetTotalMemoryMB = (\<lambda>d. Ret 0),
      dev_GetDeviceHandleFromMigDeviceHandle = (\<lambda>d. Err ''not a MIG device''),
      dev_GetCudaComputeCapability = (\<lambda>d. Ret (0, 0))\<rparr>"

definition two_models_manager :: "(unit, nat) manager_ops" where
  "two_models_manager =
     \<lparr>mgr_Init = (\<lambda>s. (s, Ret ())), mgr_Shutdown = (\<lambda>s. (s, Ret ())), mgr_GetDevices = (\<lambda>s. Ret [0, 1, 2]),
      mgr_GetDriverVersion = (\<lambda>s. Ret ''400.300''), mgr_GetCudaDriverVersion = (\<lambda>s. Ret (8, 0))\<rparr>"

definition product_and_count :: "labels \<Rightarrow> string option \<times> string option" where
  "product_and_count m = (gget m ''nvidia.com/gpu.product'', gget m ''nvidia.com/gpu.count'')"

text \<open>C28: On a node with at least one GPU that is not in MIG mode, whose GPUs may be of several models,
  and without a strategy, product and count are those of one model of the GPUs not in MIG mode,
  whatever order the runtime visits its maps in, and the count leaves out the GPUs of the other
  models; the order alone decides which model it is, and for each of these models there is an order
  that gives its labels.\<close>

theorem several_models_labels:
  assumes devices: "mgr_GetDevices M s = Ret ds" "modes_known D ds" "gpu_node D ds model mem cc"
    and names: "\<forall>d \<in> set ds. model d \<noteq> []" and full: "full = with_mode D False ds" "full \<noteq> []"
    and strategy: "fl_MigStrategy (cfg_Flags config) = Some ''none''"
  shows "let labels_of_model = (\<lambda>n.
        (Some (replace_all CHR '' '' CHR ''-'' n @ shared_suffix (Some config) ''nvidia.com/gpu''),
         Some (show_int (int (length (filter (\<lambda>d. model d = n) ds))))))
    in (\<forall>os. \<exists>m. gbind (NewResourceLabeler D M s os config) Labels_of = Ret m \<and>
          product_and_count m \<in> labels_of_model ` model ` set full) \<and>
       (\<forall>n \<in> model ` set full. \<exists>os m. gbind (NewResourceLabeler D M s os config) Labels_of = Ret m \<and>
          product_and_count m = labels_of_model n)"
proof -
  let ?L = "\<lambda>n. (Some (replace_all CHR '' '' CHR ''-'' n @ shared_suffix (Some config) ''nvidia.com/gpu''),
    Some (show_int (int (length (filter (\<lambda>d. model d = n) ds)))))"
  let ?cnt = "\<lambda>n. int (length (named model n ds))"
  have ds: "ds \<noteq> []" and sub: "set full \<subseteq> set ds" using full by (auto simp: with_mode_def)
  obtain A B where B: "models model full B"
    and ord: "\<And>os. \<exists>m. newGPULabelers D M s os config = Ret (LLabels m) \<and>
      implements_labels (gpu_rl None) (LLabels m)
        (overlay_all (gpu_values None ?cnt mem cc (range_perm (ord_mig os) A) @
          gpu_values (Some config) ?cnt mem cc (range_perm (ord_full os) B)))"
    using newGPULabelers_orders [OF devices(1) ds devices(2,3), of config] unfolding full(1) by blast
  have keys: "fst ` set B = model ` set full" using B by (simp add: models_def)
  then have "B \<noteq> []" using full(2) by auto
  have labels: "\<exists>m. gbind (NewResourceLabeler D M s os config) Labels_of = Ret m \<and>
      product_and_count m = ?L (fst (last (range_perm (ord_full os) B)))" for os
  proof -
    let ?xs = "range_perm (ord_full os) B"
    obtain n d where last: "last ?xs = (n, d)" by fastforce
    have ne: "?xs \<noteq> []" using \<open>B \<noteq> []\<close> by simp
    have "(n, d) \<in> set B" using last_in_set [OF ne] by (simp add: last)
    then have "n \<in> model ` set full" using imageI [of "(n, d)" "set B" fst] keys by simp
    then have n: "n \<noteq> []" using names sub by auto
    obtain m where m: "newGPULabelers D M s os config = Ret (LLabels m)"
      and impl: "implements_labels (gpu_rl None) (LLabels m)
        (overlay_all (gpu_values None ?cnt mem cc (range_perm (ord_mig os) A) @
          gpu_values (Some config) ?cnt mem cc ?xs))"
      using ord by blast
    have val: "gget m (''nvidia.com/gpu.'' @ t) =
        overlay_all (gpu_values None ?cnt mem cc (range_perm (ord_mig os) A) @
          gpu_values (Some config) ?cnt mem cc ?xs) t" for t
      using implements_gpu_iff [OF impl] by auto
    have found: "gget m (''nvidia.com/gpu.'' @ t) = Some v"
      if "gpu_value (Some config) (?cnt n) n (mem d) (cc d) t = Some v" for t v
      unfolding val by (rule overlay_all_last) (use ne last that in \<open>simp_all add: gpu_values_def last_map\<close>)
    have "product_and_count m = ?L n"
      using found [OF gpu_value_base(1) [OF n]] found [OF gpu_value_base(2) [OF n]]
      by (simp add: product_and_count_def named_def)
    moreover have "NewResourceLabeler D M s os config = Ret (LLabels m)"
      using strategy devices(1) ds m by (simp add: NewResourceLabeler_def)
    ultimately show ?thesis by (simp add: last)
  qed
  have every: "\<exists>m. gbind (NewResourceLabeler D M s os config) Labels_of = Ret m \<and>
      product_and_count m \<in> ?L ` model ` set full" for os
  proof -
    have "last (range_perm (ord_full os) B) \<in> set B"
      using last_in_set [of "range_perm (ord_full os) B"] \<open>B \<noteq> []\<close> by simp
    then have n: "fst (last (range_perm (ord_full os) B)) \<in> model ` set full"
      unfolding keys [symmetric] by (rule imageI)
    obtain m where "gbind (NewResourceLabeler D M s os config) Labels_of = Ret m"
      and "product_and_count m = ?L (fst (last (range_perm (ord_full os) B)))"
      using labels by blast
    then show ?thesis using imageI [OF n, of ?L] by (intro exI [of _ m]) simp
  qed
  have each: "\<exists>os m. gbind (NewResourceLabeler D M s os config) Labels_of = Ret m \<and> product_and_count m = ?L n"
    if "n \<in> model ` set full" for n
  proof -
    have "n \<in> fst ` set B" using that keys by simp
    then obtain d where nd: "(n, d) \<in> set B" by (elim imageE) (metis prod.collapse)
    then have "mset (remove1 (n, d) B @ [(n, d)]) = mset B" by simp
    from range_perm_complete [OF this] obtain cs where cs: "range_perm cs B = remove1 (n, d) B @ [(n, d)]" by blast
    show ?thesis using labels [of "no_orders\<lparr>ord_full := cs\<rparr>"] by (auto simp: cs)
  qed
  show ?thesis unfolding Let_def by (intro conjI allI ballI) (rule every, rule each)
qed

lemma two_models_node:
  "mgr_GetDevices two_models_manager () = Ret [0, 1, 2]" "modes_known two_models [0, 1, 2]"
  "gpu_node two_models [0, 1, 2] (\<lambda>d. if d = 0 then ''A100'' else ''T4'') (\<lambda>d. 0) (\<lambda>d. (0, 0))"
  "with_mode two_models False [0, 1, 2] = [0, 1, 2]"
  by (simp_all add: two_models_manager_def two_models_def modes_known_def gpu_node_def gpu_answers_def
      with_mode_def)

theorem several_models_labels_witness:
  "(\<exists>os m. gbind (NewResourceLabeler two_models two_models_manager () os (sample_config ''none'')) Labels_of = Ret m \<and>
     product_and_count m = (Some ''A100'', Some ''1'')) \<and>
   (\<exists>os m. gbind (NewResourceLabeler two_models two_models_manager () os (sample_config ''none'')) Labels_of = Ret m \<and>
     product_and_count m = (Some ''T4'', Some ''2''))"
proof -
  have texts: "replace_all CHR '' '' CHR ''-'' ''A100'' = ''A100''" "replace_all CHR '' '' CHR ''-'' ''T4'' = ''T4''"
    "shared_suffix (Some (sample_config ''none'')) ''nvidia.com/gpu'' = []" "show_int 1 = ''1''" "show_int 2 = ''2''"
    by code_simp+
  show ?thesis
    using several_models_labels [OF two_models_node(1-3) _ two_models_node(4) [symmetric] _ sample_strategy]
    by (simp add: texts)
qed

section \<open>Versions and machine type\<close>

lemma split_parts:
  assumes "length (go_split c v) = n"
  shows "v = go_join [c] (go_split c v) \<and> (\<forall>p \<in> set (go_split c v). c \<notin> set p) \<and>
    length (filter (\<lambda>x. x = c) v) = n - 1"
  using assms join_split [of c v] split_no_sep [of _ c v] length_split [of c v] by auto

text \<open>C32: A driver version of two or three parts gives a label for each part, and the CUDA version
  one for each of its numbers; a version of any other shape is an error.\<close>

theorem version_labels:
  assumes "mgr_GetDriverVersion M s = Ret v" and "mgr_GetCudaDriverVersion M s = Ret (cmaj, cmin)"
  shows "case newVersionLabeler M s of
      Ret l \<Rightarrow> \<exists>m major minor rev. Labels_of l = Ret m \<and>
        gget m ''nvidia.com/cuda.driver.major'' = Some major \<and>
        gget m ''nvidia.com/cuda.driver.minor'' = Some minor \<and>
        gget m ''nvidia.com/cuda.driver.rev'' = Some rev \<and>
        gget m ''nvidia.com/cuda.runtime.major'' = Some (show_nat (unat cmaj)) \<and>
        gget m ''nvidia.com/cuda.runtime.minor'' = Some (show_nat (unat cmin)) \<and>
        CHR ''.'' \<notin> set major \<union> set minor \<union> set rev \<and>
        (v = major @ ''.'' @ minor \<and> rev = [] \<or> v = major @ ''.'' @ minor @ ''.'' @ rev)
    | Err e \<Rightarrow> length (filter (\<lambda>c. c = CHR ''.'') v) \<notin> {1, 2}
    | _ \<Rightarrow> False"
proof -
  let ?ps = "go_split CHR ''.'' v"
  note parts = split_parts [where c = "CHR ''.''" and v = v, OF refl]
  consider (two) a b where "?ps = [a, b]" | (three) a b c where "?ps = [a, b, c]"
    | (bad) "length ?ps < 2 \<or> 3 < length ?ps"
  proof (cases "length ?ps < 2 \<or> 3 < length ?ps")
    case False
    then have "length ?ps = 2 \<or> length ?ps = 3" by linarith
    then show thesis using two three by (auto simp: numeral_2_eq_2 numeral_3_eq_3 length_Suc_conv)
  qed (rule bad)
  then show ?thesis
  proof cases
    case two
    then show ?thesis using assms parts by (simp add: newVersionLabeler_def Let_def)
  next
    case three
    then show ?thesis using assms parts by (simp add: newVersionLabeler_def Let_def)
  next
    case bad
    then have "length (filter (\<lambda>c. c = CHR ''.'') v) \<notin> {1, 2}" using length_split [of "CHR ''.''" v] by auto
    then show ?thesis using bad assms by (auto simp: newVersionLabeler_def Let_def)
  qed
qed

theorem version_labels_witness:
  "\<exists>m. gbind (newVersionLabeler two_models_manager ()) Labels_of = Ret m \<and>
     gget m ''nvidia.com/cuda.runtime.major'' = Some (show_nat 8)"
proof -
  have "\<exists>l. newVersionLabeler two_models_manager () = Ret l"
    by (simp add: newVersionLabeler_def two_models_manager_def Let_def)
  then obtain l where l: "newVersionLabeler two_models_manager () = Ret l" by blast
  have "mgr_GetDriverVersion two_models_manager () = Ret ''400.300''"
    and "mgr_GetCudaDriverVersion two_models_manager () = Ret (8, 0)"
    by (simp_all add: two_models_manager_def)
  from version_labels [OF this] show ?thesis by (auto simp: l)
qed

text \<open>The machine type label is always made and has no blank in it; it is \<open>unknown\<close> when no
  file is named or the file cannot be read, and otherwise the text of the file without the white
  space around it, with dashes for the blanks.\<close>

theorem machine_type_label:
  assumes "reads_files readFile"
  shows "\<exists>mt. newMachineTypeLabeler readFile path = Ret (LLabels [(''nvidia.com/gpu.machine'', mt)]) \<and>
    CHR '' '' \<notin> set mt \<and>
    mt = (if path = [] then ''unknown''
          else case readFile path of
              Ret data \<Rightarrow> replace_all CHR '' '' CHR ''-'' (trim_space data)
            | _ \<Rightarrow> ''unknown'')"
proof -
  have u: "replace_all CHR '' '' CHR ''-'' ''unknown'' = ''unknown''" by code_simp
  have "no_crash (readFile path)" using assms by (simp add: reads_files_def)
  then show ?thesis
    by (cases "readFile path")
      (auto simp: newMachineTypeLabeler_def getMachineType_def machineTypeUnknown_def u)
qed

theorem machine_type_label_witness:
  "newMachineTypeLabeler (\<lambda>p. Err ''no such file or directory'') ''/machine'' =
   Ret (LLabels [(''nvidia.com/gpu.machine'', ''unknown'')])"
  using machine_type_label [of "\<lambda>p. Err ''no such file or directory''" "''/machine''"]
  by (simp add: reads_files_def)

section \<open>Init and Shutdown\<close>

text \<open>A manager with a counter of the calls of \<open>Init\<close> and one of the calls of \<open>Shutdown\<close>.\<close>

definition counting :: "('s, 'd) manager_ops \<Rightarrow> ('s \<times> nat \<times> nat, 'd) manager_ops" where
  "counting M =
     \<lparr>mgr_Init = (\<lambda>(s, i, j). case mgr_Init M s of (s', r) \<Rightarrow> ((s', Suc i, j), r)),
      mgr_Shutdown = (\<lambda>(s, i, j). case mgr_Shutdown M s of (s', r) \<Rightarrow> ((s', i, Suc j), r)),
      mgr_GetDevices = (\<lambda>(s, _). mgr_GetDevices M s),
      mgr_GetDriverVersion = (\<lambda>(s, _). mgr_GetDriverVersion M s),
      mgr_GetCudaDriverVersion = (\<lambda>(s, _). mgr_GetCudaDriverVersion M s)\<rparr>"

interpretation counted: manager_contract "sys_devices S" "counting (sys_managers S)" "\<lambda>_. True"
  for S :: "'h sys"
  by unfold_locales (auto simp: counting_def sys_managers_def m_GetDevices_no_crash
      m_GetDriverVersion_no_crash m_GetCudaDriverVersion_no_crash split: prod.splits
      dest: m_Init_result m_Shutdown_result)

text \<open>C23: Making the labels of a node initialises the manager exactly once and shuts it down exactly
  once when that succeeded and not at all otherwise, whatever happens in between.\<close>

theorem init_shutdown_paired:
  assumes "config_ready config" and "reads_files readFile"
    and "NewNVMLLabeler readFile (sys_devices S) (counting (sys_managers S)) os config ((m, g), i, j) =
      ((st, i', j'), r)"
  shows "i' = Suc i \<and> j' = (if returns (snd (m_Init S m g)) then Suc j else j)"
proof -
  let ?M = "counting (sys_managers S)"
  obtain s1 q where init: "m_Init S m g = (s1, q)" by fastforce
  then have cinit: "mgr_Init ?M ((m, g), i, j) = ((s1, Suc i, j), q)"
    by (simp add: counting_def sys_managers_def)
  have "no_crash q" using m_Init_no_crash [of S m g] init by simp
  show ?thesis
  proof (cases q)
    case (Ret u)
    let ?body = "nvml_labeler_body readFile (sys_devices S) ?M os config (s1, Suc i, j)"
    have "?body \<noteq> Diverge"
      using counted.nvml_labeler_body_no_crash [OF TrueI assms(1,2), of S os "(s1, Suc i, j)"] by auto
    moreover have "no_crash (snd (mgr_Shutdown ?M (s1, Suc i, j)))" by (rule counted.Shutdown_no_crash [OF TrueI])
    moreover have "mgr_Init ?M ((m, g), i, j) = ((s1, Suc i, j), Ret ())" using cinit Ret by simp
    ultimately have "NewNVMLLabeler readFile (sys_devices S) ?M os config ((m, g), i, j) =
        (fst (mgr_Shutdown ?M (s1, Suc i, j)), ?body)"
      by (intro NewNVMLLabeler_shutdown) simp_all
    then show ?thesis
      using assms(3) init Ret by (auto simp: counting_def split: prod.splits)
  next
    case (Err e)
    then show ?thesis using assms(3) NewNVMLLabeler_init_error cinit init by fastforce
  qed (use \<open>no_crash q\<close> in simp_all)
qed

theorem init_shutdown_paired_witness:
  "fst (snd (fst (NewNVMLLabeler (\<lambda>p. Err []) (sys_devices sample_sys)
      (counting (sys_managers sample_sys)) no_orders (sample_config ''single'') ((NvmlManager, False), 0, 0)))) = 1 \<and>
   snd (snd (fst (NewNVMLLabeler (\<lambda>p. Err []) (sys_devices sample_sys)
      (counting (sys_managers sample_sys)) no_orders (sample_config ''single'') ((NvmlManager, False), 0, 0)))) = 1"
proof -
  let ?run = "NewNVMLLabeler (\<lambda>p. Err []) (sys_devices sample_sys) (counting (sys_managers sample_sys))
    no_orders (sample_config ''single'') ((NvmlManager, False), 0, 0)"
  obtain st i' j' r where run: "?run = ((st, i', j'), r)"
    by (metis prod.exhaust)
  have "config_ready (sample_config ''single'')"
    by (simp add: config_ready_def gfd_ready_def sample_config_def)
  moreover have "reads_files (\<lambda>p. Err [])" by (simp add: reads_files_def)
  ultimately have "i' = Suc 0 \<and> j' = (if returns (snd (m_Init sample_sys NvmlManager False)) then Suc 0 else 0)"
    using run by (rule init_shutdown_paired)
  moreover have "returns (snd (m_Init sample_sys NvmlManager False))" by (simp add: sample_defs nv_ret_def)
  ultimately show ?thesis unfolding run by simp
qed

section \<open>Nodes without usable GPUs\<close>

lemma null_labels:
  "NewLabelers readFile (sys_devices S) (sys_managers S) os vgpu config (NullManager, g) =
   ((NullManager, g), Ret (Merge [LEmpty, NewVGPULabeler vgpu]))"
  "NewLabelers readFile (sys_devices S) (sys_managers S) os vgpu config (WithFallBack NullManager f, g) =
   ((WithFallBack NullManager f, g), Ret (Merge [LEmpty, NewVGPULabeler vgpu]))"
  by (simp_all add: NewLabelers_def NewNVMLLabeler_def sbind_def sys_managers_def nvml_labeler_body_def
      defer_shutdown_def swrap_def)

text \<open>C24: On a node without an NVIDIA driver, or whose driver cannot be initialised when failing is
  not asked for, making the labels does not fail and gives none but those of the vGPUs.\<close>

theorem no_gpu_labels:
  assumes "NewManager S config = Ret m" and "fl_FailOnInitError (cfg_Flags config) = Some False"
    and "getManager S = NullManager \<or> (\<exists>st e. m_Init S' (getManager S) g = (st, Err e))"
  shows "\<exists>st. NewLabelers readFile (sys_devices S') (sys_managers S') os vgpu config (m, g) =
    (st, Ret (Merge [LEmpty, NewVGPULabeler vgpu]))"
proof -
  have m: "m = WithFallBack (getManager S) NullManager"
    using assms(1,2)
    by (simp add: NewManager_def WithConfig_def NewFallbackToNullOnInitError_def NewNullManager_def)
  show ?thesis
  proof (cases "getManager S = NullManager")
    case True
    have "NewLabelers readFile (sys_devices S') (sys_managers S') os vgpu config (m, g) =
        ((WithFallBack NullManager NullManager, g), Ret (Merge [LEmpty, NewVGPULabeler vgpu]))"
      unfolding m True by (rule null_labels(2))
    then show ?thesis by blast
  next
    case False
    then obtain w g' e where "m_Init S' (getManager S) g = ((w, g'), Err e)" using assms(3) by force
    then show ?thesis
      by (simp add: m NewLabelers_def NewNVMLLabeler_def sbind_def sys_managers_def nvml_labeler_body_def
          defer_shutdown_def swrap_def)
  qed
qed

theorem no_gpu_labels_witness:
  "\<exists>st. NewLabelers (\<lambda>p. Err []) (sys_devices (sample_sys\<lparr>sys_nvml := sample_nvml\<lparr>nv_Init := 9\<rparr>\<rparr>))
     (sys_managers (sample_sys\<lparr>sys_nvml := sample_nvml\<lparr>nv_Init := 9\<rparr>\<rparr>)) no_orders NewMockVGPU
     (sample_config ''none'') (WithFallBack NvmlManager NullManager, False) =
   (st, Ret (Merge [LEmpty, NewVGPULabeler NewMockVGPU]))"
proof (rule no_gpu_labels [of sample_sys "sample_config ''none''"])
  show "NewManager sample_sys (sample_config ''none'') = Ret (WithFallBack NvmlManager NullManager)"
    by (simp add: sample_config_def NewManager_def WithConfig_def getManager_def Let_def sample_defs
        NewNVMLManager_def NewFallbackToNullOnInitError_def NewNullManager_def)
  show "fl_FailOnInitError (cfg_Flags (sample_config ''none'')) = Some False"
    by (simp add: sample_config_def)
  show "getManager sample_sys = NullManager \<or>
      (\<exists>st e. m_Init (sample_sys\<lparr>sys_nvml := sample_nvml\<lparr>nv_Init := 9\<rparr>\<rparr>) (getManager sample_sys) False = (st, Err e))"
    by (simp add: getManager_def NewNVMLManager_def sample_defs nv_ret_def) blast
qed

text \<open>The capability label tells whether a device of the node can be in MIG mode, and a node
  without devices has no such label.\<close>

theorem mig_capable_label:
  assumes "mgr_GetDevices M s = Ret ds" and "\<forall>d \<in> set ds. dev_IsMigCapable D d = Ret (cap d)"
  shows "newMigCapabilityLabeler D M s = Ret (if ds = [] then LEmpty
    else LLabels [(''nvidia.com/mig.capable'', if \<exists>d \<in> set ds. cap d then ''true'' else ''false'')])"
  using assms any_capable_spec [of ds D cap] by (simp add: newMigCapabilityLabeler_def show_bool_def)

theorem mig_capable_label_witness:
  "newMigCapabilityLabeler mock_devices (NewManagerMockWithDevices mixed_node) () =
   Ret (LLabels [(''nvidia.com/mig.capable'', ''true'')])"
proof -
  have "mgr_GetDevices (NewManagerMockWithDevices mixed_node) () = Ret mixed_node"
    by (simp add: mock_simps)
  moreover have "\<forall>d \<in> set mixed_node. dev_IsMigCapable mock_devices d = Ret (d \<noteq> NewFullGPU)"
    by (simp add: mixed_node_def mock_simps)
  ultimately show ?thesis
    using mig_capable_label by (fastforce simp: mixed_node_def mock_simps)
qed

end
