(* ===== verification/Output_Properties.thy ===== *)
theory Output_Properties
  imports Output
begin

text \<open>
  The properties of \<open>Output\<close>: an update of the output file is atomic under any faults and succeeds
  without faults, removing the file leaves everything else alone, and the NodeFeature object of
  the cluster ends up with the labels.
\<close>

section \<open>Without faults an update succeeds\<close>

text \<open>
  What the file system must be like: the directory of the output file is there, the file itself
  is no directory, and nothing is in the way of the temporary directory and file.
\<close>

definition writable :: "fpath \<Rightarrow> string \<Rightarrow> string \<Rightarrow> fs \<Rightarrow> bool" where
  "writable cwd path rnd f \<longleftrightarrow>
     fs_cwd f = cwd \<and> is_dir f (butlast (target cwd path)) \<and> \<not> is_dir f (target cwd path) \<and>
     (\<forall>n \<in> {1..length (tmp_dir cwd path)}. \<not> is_file f (take n (tmp_dir cwd path))) \<and>
     \<not> is_file f (tmp_name cwd path rnd) \<and> \<not> is_dir f (tmp_name cwd path rnd)"

text \<open>The directories once the temporary one is made; they stay as they are from then on.\<close>

definition tmp_made :: "fpath \<Rightarrow> fpath \<Rightarrow> fpath \<Rightarrow> fs \<Rightarrow> bool" where
  "tmp_made cwd p q f \<longleftrightarrow>
     fs_cwd f = cwd \<and> is_dir f (butlast p) \<and> is_dir f (butlast q) \<and> \<not> is_dir f p \<and> \<not> is_dir f q"

lemma is_dir_files [simp]: "is_dir (f\<lparr>fs_files := m\<rparr>) = is_dir f"
  by (simp add: is_dir_def fun_eq_iff)

lemma tmp_made_files [simp]: "tmp_made cwd p q (f\<lparr>fs_files := m\<rparr>) = tmp_made cwd p q f"
  by (simp add: tmp_made_def)

lemma os_call_no_faults:
  "pre (w_fs w) = None \<Longrightarrow> os_call no_faults pre steps w = (visit (steps (w_fs w)) w, None)"
  by (simp add: os_call_def no_faults_def)

lemma mkdir_result:
  "fs_files (last (f # mkdir_steps d f)) = fs_files f \<and> fs_cwd (last (f # mkdir_steps d f)) = fs_cwd f \<and>
   (\<forall>x. is_dir (last (f # mkdir_steps d f)) x \<longleftrightarrow> is_dir f x \<or> (\<exists>n \<in> {1..length d}. x = take n d))"
proof -
  let ?missing = "filter (\<lambda>x. \<not> is_dir f x) (map (\<lambda>n. take n d) [1..<Suc (length d)])"
  have "last (f # mkdir_steps d f) = f\<lparr>fs_dirs := fs_dirs f @ ?missing\<rparr>"
  proof (cases ?missing rule: rev_cases)
    case Nil
    then show ?thesis by (simp add: mkdir_steps_def Let_def)
  next
    case (snoc ys y)
    then have "[0..<length ?missing] = [0..<length ys] @ [length ys]" by simp
    with snoc show ?thesis by (simp add: mkdir_steps_def Let_def)
  qed
  then show ?thesis by (auto simp: is_dir_def)
qed

lemma tmp_dir_not_target:
  assumes "place_ok cwd path rnd"
  shows "target cwd path \<noteq> take n (tmp_dir cwd path)"
    and "tmp_name cwd path rnd \<noteq> take n (tmp_dir cwd path)"
proof -
  let ?p = "target cwd path"
  have p: "?p \<noteq> []" "last ?p \<noteq> ''gfd-tmp''" using assms by (simp_all add: place_ok_def target_def)
  then have len: "length (tmp_dir cwd path) = length ?p" by (simp add: tmp_dir_def)
  show "?p \<noteq> take n (tmp_dir cwd path)"
  proof
    assume eq: "?p = take n (tmp_dir cwd path)"
    have "min (length ?p) n = length ?p" using arg_cong [OF eq, of length] len by simp
    then have "take n (tmp_dir cwd path) = tmp_dir cwd path" using len by (intro take_all) linarith
    with eq have "?p = tmp_dir cwd path" by (rule trans)
    then have "last ?p = last (tmp_dir cwd path)" by (rule arg_cong)
    with p(2) show False by (simp add: tmp_dir_def)
  qed
  show "tmp_name cwd path rnd \<noteq> take n (tmp_dir cwd path)"
  proof
    assume "tmp_name cwd path rnd = take n (tmp_dir cwd path)"
    then have "length (tmp_name cwd path rnd) = length (take n (tmp_dir cwd path))" by simp
    then show False by (simp add: tmp_name_def)
  qed
qed

lemma succ_Abs:
  "hoare (\<lambda>w. writable cwd path rnd (w_fs w)) (filepath_Abs no_faults path)
     (\<lambda>x w. x = abs_of cwd path \<and> writable cwd path rnd (w_fs w)) (\<lambda>_. False)"
  by (rule hoareI)
    (auto simp: filepath_Abs_def os_ret_def os_call_no_faults w_fs_visit writable_def sbind_def)

lemma succ_MkdirAll:
  assumes place: "place_ok cwd path rnd"
  shows "hoare (\<lambda>w. writable cwd path rnd (w_fs w))
     (unless_exists (os_MkdirAll no_faults (abs_path (tmp_dir cwd path))))
     (\<lambda>_ w. tmp_made cwd (target cwd path) (tmp_name cwd path rnd) (w_fs w) \<and>
        \<not> is_file (w_fs w) (tmp_name cwd path rnd)) (\<lambda>_. False)"
proof (rule hoareI)
  fix w :: world assume W: "writable cwd path rnd (w_fs w)"
  let ?d = "tmp_dir cwd path"
  have d: "resolve_in (w_fs w) (abs_path ?d) = ?d"
    using tmp_dir_path(2) [OF place] by (simp add: resolve_in_def)
  let ?w = "visit (mkdir_steps ?d (w_fs w)) w"
  have call: "os_MkdirAll no_faults (abs_path ?d) w = (?w, None)"
    using W unfolding os_MkdirAll_def Let_def d by (intro os_call_no_faults) (auto simp: writable_def)
  have "?d \<noteq> []" by (simp add: tmp_dir_def)
  then have "\<exists>n \<in> {1..length ?d}. ?d = take n ?d"
    by (intro bexI [of _ "length ?d"]) (auto simp: Suc_le_eq)
  then have "tmp_made cwd (target cwd path) (tmp_name cwd path rnd) (w_fs ?w)"
    using W mkdir_result [of "w_fs w" ?d] tmp_dir_not_target [OF place]
    unfolding w_fs_visit tmp_made_def writable_def by (auto simp: tmp_name_def)
  moreover have "\<not> is_file (w_fs ?w) (tmp_name cwd path rnd)"
    using W mkdir_result [of "w_fs w" ?d] unfolding w_fs_visit is_file_def writable_def by simp
  ultimately show "(\<exists>w' x. unless_exists (os_MkdirAll no_faults (abs_path ?d)) w = (w', Ret x) \<and>
      tmp_made cwd (target cwd path) (tmp_name cwd path rnd) (w_fs w') \<and>
      \<not> is_file (w_fs w') (tmp_name cwd path rnd)) \<or>
    (\<exists>w' e. unless_exists (os_MkdirAll no_faults (abs_path ?d)) w = (w', Err e) \<and> False)"
    by (simp add: unless_exists_def call)
qed

lemma succ_CreateTemp:
  assumes "resolve_path cwd (d @ ''/'' @ prefix @ rnd) = q"
  shows "hoare (\<lambda>w. tmp_made cwd p q (w_fs w) \<and> \<not> is_file (w_fs w) q)
     (os_CreateTemp no_faults rnd d prefix)
     (\<lambda>x w. x = d @ ''/'' @ prefix @ rnd \<and> tmp_made cwd p q (w_fs w)) (\<lambda>_. False)"
  using assms
  by (intro hoareI) (auto simp: os_CreateTemp_def Let_def resolve_in_def tmp_made_def
      os_call_no_faults w_fs_visit)

lemma succ_move_into_place:
  assumes x: "resolve_path cwd x = q" and y: "resolve_path cwd y = p"
  shows "hoare (\<lambda>w. tmp_made cwd p q (w_fs w)) (move_into_place no_faults x y c perm)
     (\<lambda>_ w. gget (fs_files (w_fs w)) p = Some (c, perm)) (\<lambda>_. False)"
proof -
  have wr: "hoare (\<lambda>w. tmp_made cwd p q (w_fs w)) (os_ret (os_WriteFile no_faults x c perm))
      (\<lambda>_ w. tmp_made cwd p q (w_fs w) \<and> (\<exists>m. gget (fs_files (w_fs w)) q = Some (c, m))) (\<lambda>_. False)"
    using x by (intro hoare_os_ret) (auto simp: os_WriteFile_def Let_def resolve_in_def tmp_made_def
        os_call_no_faults w_fs_visit write_steps_def Let_def gget_gset)
  have rename: "hoare (\<lambda>w. tmp_made cwd p q (w_fs w) \<and> (\<exists>m. gget (fs_files (w_fs w)) q = Some (c, m)))
      (os_ret (os_Rename no_faults x y)) (\<lambda>_ w. fs_cwd (w_fs w) = cwd \<and> (\<exists>m. gget (fs_files (w_fs w)) p = Some (c, m))) (\<lambda>_. False)"
    using x y by (intro hoare_os_ret) (auto simp: os_Rename_def Let_def resolve_in_def tmp_made_def
        os_call_no_faults w_fs_visit rename_steps_def is_file_def gget_gset)
  have chmod: "hoare (\<lambda>w. fs_cwd (w_fs w) = cwd \<and> (\<exists>m. gget (fs_files (w_fs w)) p = Some (c, m))) (os_ret (os_Chmod no_faults y perm))
      (\<lambda>_ w. gget (fs_files (w_fs w)) p = Some (c, perm)) (\<lambda>_. False)"
    using y by (intro hoare_os_ret) (auto simp: os_Chmod_def Let_def resolve_in_def os_call_no_faults
        w_fs_visit chmod_steps_def is_file_def gget_gset)
  show ?thesis
    unfolding move_into_place_def
    by (rule hoare_sbind [OF hoare_swrap [OF wr] hoare_sbind [OF hoare_swrap [OF rename]
          hoare_swrap [OF chmod]]])
qed

lemma succ_write_through:
  assumes place: "place_ok cwd path rnd"
  shows "hoare (\<lambda>w. tmp_made cwd (target cwd path) (tmp_name cwd path rnd) (w_fs w) \<and>
        \<not> is_file (w_fs w) (tmp_name cwd path rnd))
     (write_through no_faults rnd (abs_path (tmp_dir cwd path)) path c perm) (\<lambda>_ w. gget (fs_files (w_fs w)) (target cwd path) = Some (c, perm)) (\<lambda>_. False)"
proof -
  let ?d = "abs_path (tmp_dir cwd path)" and ?p = "target cwd path" and ?q = "tmp_name cwd path rnd"
  let ?n = "?d @ ''/'' @ ''gfd-'' @ rnd"
  have q: "resolve_path cwd ?n = ?q" by (rule tmp_name_path [OF place])
  have y: "resolve_path cwd path = ?p" by (simp add: target_def)
  have guarded: "hoare (\<lambda>w. tmp_made cwd ?p ?q (w_fs w))
      (on_error (\<lambda>w. fst (os_Remove no_faults ?n (os_Close w))) (move_into_place no_faults ?n path c perm))
      (\<lambda>_ w. gget (fs_files (w_fs w)) (target cwd path) = Some (c, perm)) (\<lambda>_. False)"
    by (rule hoare_on_error [OF succ_move_into_place [OF q y]])
  have "hoare (\<lambda>w. tmp_made cwd ?p ?q (w_fs w) \<and> \<not> is_file (w_fs w) ?q)
      (sbind (swrap msg (os_CreateTemp no_faults rnd ?d ''gfd-'')) (\<lambda>tmpName.
       on_error (\<lambda>w. fst (os_Remove no_faults tmpName (os_Close w)))
         (move_into_place no_faults tmpName path c perm)))
      (\<lambda>_ w. gget (fs_files (w_fs w)) (target cwd path) = Some (c, perm)) (\<lambda>_. False)" for msg
    by (rule hoare_sbind [OF hoare_swrap [OF succ_CreateTemp [OF q]]])
      (auto intro!: hoareI dest!: hoareD [OF guarded])
  then show ?thesis unfolding write_through_def by (rule hoare_on_error)
qed

lemma succ_writeFileAtomically:
  assumes place: "place_ok cwd path rnd"
  shows "hoare (\<lambda>w. writable cwd path rnd (w_fs w)) (writeFileAtomically no_faults rnd path c perm)
     (\<lambda>_ w. gget (fs_files (w_fs w)) (target cwd path) = Some (c, perm)) (\<lambda>_. False)"
proof -
  have "hoare (\<lambda>w. absPath = abs_of cwd path \<and> writable cwd path rnd (w_fs w))
      (let absDir = filepath_Dir absPath; tmpDir = filepath_Join [absDir, ''gfd-tmp''] in
       sbind (swrap msg (unless_exists (os_MkdirAll no_faults tmpDir)))
         (\<lambda>_. write_through no_faults rnd tmpDir path c perm))
      (\<lambda>_ w. gget (fs_files (w_fs w)) (target cwd path) = Some (c, perm)) (\<lambda>_. False)" for absPath msg
  proof (cases "absPath = abs_of cwd path")
    case True
    then show ?thesis
      unfolding Let_def True tmp_dir_path(1) [OF place]
      by (intro hoare_weaken [OF hoare_sbind [OF hoare_swrap [OF succ_MkdirAll [OF place]]
            succ_write_through [OF place]]]) simp_all
  qed (auto intro: hoareI)
  then show ?thesis
    unfolding writeFileAtomically_def by (rule hoare_sbind [OF hoare_swrap [OF succ_Abs]])
qed
section \<open>Properties of the output file\<close>

text \<open>The world of the examples: an output file that is there, in a directory \<open>/out\<close>.\<close>

definition sample_world :: world where
  "sample_world = \<lparr>w_fs = \<lparr>fs_cwd = [''app''], fs_files = [([''out'', ''gfd''], (''old'', 420))],
       fs_dirs = [[''app''], [''out'']]\<rparr>,
     w_seen = [], w_stdout = [], w_open = 0, w_calls = 0\<rparr>"

lemma sample_place: "place_ok (fs_cwd (w_fs sample_world)) ''/out/gfd'' ''1''"
  by code_simp

lemma sample_target: "resolve_path [''app''] ''/out/gfd'' = [''out'', ''gfd'']"
  by code_simp

lemma sample_writable: "writable [''app''] ''/out/gfd'' ''1'' (w_fs sample_world)"
proof -
  have tmp: "tmp_dir [''app''] ''/out/gfd'' = [''out'', ''gfd-tmp'']"
    by (simp add: tmp_dir_def target_def sample_target)
  show ?thesis
    by (auto simp: writable_def tmp_name_def tmp target_def sample_target sample_world_def is_dir_def
        is_file_def take_Cons')
qed

text \<open>C2: Whatever calls of the operating system fail during an update, anyone who looks at the
  output file at any moment finds the old file or the complete new text, never a part of it; when
  the update reports success the new text is there, with mode 0644.\<close>

theorem UpdateFile_atomic:
  assumes "path \<noteq> []" and "place_ok (fs_cwd (w_fs w)) path rnd" and "w_seen w = []"
    and "UpdateFile F rnd cs path labels w = (w', r)"
  shows "(\<forall>f \<in> insert (w_fs w') (set (w_seen w')).
        gget (fs_files f) (resolve_path (fs_cwd (w_fs w)) path) =
          gget (fs_files (w_fs w)) (resolve_path (fs_cwd (w_fs w)) path) \<or>
        (\<exists>m. gget (fs_files f) (resolve_path (fs_cwd (w_fs w)) path) = Some (render cs labels, m))) \<and>
    (r = Ret () \<longrightarrow>
      gget (fs_files (w_fs w')) (resolve_path (fs_cwd (w_fs w)) path) = Some (render cs labels, 420)) \<and>
    no_crash r"
proof -
  let ?cwd = "fs_cwd (w_fs w)" and ?p = "target (fs_cwd (w_fs w)) path"
  let ?old = "gget (fs_files (w_fs w)) (target (fs_cwd (w_fs w)) path)"
  let ?Q = "old_or_new ?old (render cs labels)"
  have "before_rename ?p ?cwd ?old ?Q w"
    using assms(3) by (simp add: before_rename_def observed_def safe_view_def view_def)
  from hoareD [OF hoare_UpdateFile [where F = F and Q = ?Q and cs = cs and labels = labels, OF assms(1,2) refl] this]
  have "always_safe ?p ?cwd ?Q w'" and
    "r = Ret () \<longrightarrow> gget (fs_files (w_fs w')) ?p = Some (render cs labels, 420)" and "no_crash r"
    using assms(4) by (auto simp: published_def)
  then show ?thesis
    by (auto simp: always_safe_def observed_def safe_view_def view_def old_or_new_def target_def)
qed

theorem UpdateFile_atomic_witness:
  "list_all (\<lambda>f. gget (fs_files f) [''out'', ''gfd''] = Some (''old'', 420) \<or>
       (\<exists>m. gget (fs_files f) [''out'', ''gfd''] = Some (render [] [(''a'', ''b'')], m)))
     (w_seen (fst (UpdateFile (\<lambda>n. if n = 2 then Some (1, (False, ''no space left'')) else None)
       ''1'' [] ''/out/gfd'' [(''a'', ''b'')] sample_world)))"
proof -
  let ?F = "\<lambda>n. if n = 2 then Some (1, (False, ''no space left'')) else None"
  obtain w' r where run: "UpdateFile ?F ''1'' [] ''/out/gfd'' [(''a'', ''b'')] sample_world = (w', r)"
    by fastforce
  have "w_seen sample_world = []" by (simp add: sample_world_def)
  from UpdateFile_atomic [OF _ sample_place this run] show ?thesis
    unfolding run list_all_iff by (simp add: sample_world_def sample_target)
qed

lemma UpdateFile_writes:
  assumes "path \<noteq> []" and "place_ok cwd path rnd" and "writable cwd path rnd (w_fs w)"
  shows "\<exists>w'. UpdateFile no_faults rnd cs path labels w = (w', Ret ()) \<and>
    gget (fs_files (w_fs w')) (resolve_path cwd path) = Some (render cs labels, 420)"
proof -
  have "hoare (\<lambda>w. writable cwd path rnd (w_fs w)) (UpdateFile no_faults rnd cs path labels)
      (\<lambda>_ w. gget (fs_files (w_fs w)) (target cwd path) = Some (render cs labels, 420)) (\<lambda>_. False)"
    using hoare_swrap [OF succ_writeFileAtomically [OF assms(2), of "render cs labels" 420]] assms(1)
    by (simp add: UpdateFile_def WriteTo_buffer)
  from hoareD [OF this assms(3)] show ?thesis by (auto simp: target_def)
qed

text \<open>Without faults, and with nothing in the way of the temporary file, an update of the
  output file returns normally and the file has exactly the text of the labels.\<close>

theorem UpdateFile_succeeds:
  assumes "path \<noteq> []" and "place_ok cwd path rnd" and "writable cwd path rnd (w_fs w)"
  shows "\<exists>w'. UpdateFile no_faults rnd cs path labels w = (w', Ret ()) \<and>
    gget (fs_files (w_fs w')) (resolve_path cwd path) = Some (render cs labels, 420)"
  by (rule UpdateFile_writes [OF assms])

theorem UpdateFile_succeeds_witness:
  "\<exists>w'. UpdateFile no_faults ''1'' [] ''/out/gfd'' [(''a'', ''b'')] sample_world = (w', Ret ()) \<and>
     gget (fs_files (w_fs w')) [''out'', ''gfd''] = Some (render [] [(''a'', ''b'')], 420)"
proof -
  from UpdateFile_succeeds [OF _ _ sample_writable, of "[]" "[(''a'', ''b'')]"] sample_place show ?thesis
    by (simp add: sample_target sample_world_def)
qed

lemma no_file: "\<not> is_file f p \<longleftrightarrow> gget (fs_files f) p = None"
  unfolding is_file_def by blast

text \<open>When \<open>removeOutputFile\<close> reports success, the output file and everything below the
  temporary directory is gone, and every other file is as it was.\<close>

theorem removeOutputFile_removes:
  assumes "place_ok (fs_cwd (w_fs w)) path []" and "removeOutputFile F path w = (w', Ret ())"
  shows "gget (fs_files (w_fs w')) q =
    (if q = resolve_path (fs_cwd (w_fs w)) path \<or> under (tmp_dir (fs_cwd (w_fs w)) path) q then None
     else gget (fs_files (w_fs w)) q)"
  using removeOutputFile_Ret [OF assms, unfolded no_file target_def] by auto

theorem removeOutputFile_removes_witness:
  "gget (fs_files (w_fs (fst (removeOutputFile no_faults ''/out/gfd'' sample_world)))) [''out'', ''gfd''] = None"
proof -
  have "snd (removeOutputFile no_faults ''/out/gfd'' sample_world) = Ret ()" by code_simp
  then obtain w' where run: "removeOutputFile no_faults ''/out/gfd'' sample_world = (w', Ret ())"
    by (cases "removeOutputFile no_faults ''/out/gfd'' sample_world") simp
  have "place_ok (fs_cwd (w_fs sample_world)) ''/out/gfd'' []" by code_simp
  from removeOutputFile_removes [OF this run, of "[''out'', ''gfd'']"] show ?thesis
    unfolding run by (simp add: sample_world_def sample_target)
qed

section \<open>Properties of the NodeFeature object\<close>

text \<open>C31: When updating the NodeFeature object reports success, the object of the node holds exactly
  the labels, and updating it again with the same labels sends nothing to the server.\<close>

theorem UpdateNodeFeatureObject_idempotent:
  assumes "GetKubernetesClient E = Ret cli" and "stores_objects cli" and "answers_by_name cli"
    and "UpdateNodeFeatureObject E labels s = (s', Ret ())"
  shows "(\<exists>nfr. nfd_Get cli (GetKubernetesNamespace E)
        (''nvidia-features-for-'' @ env_getenv E ''NODE_NAME'') s' = NfFound nfr \<and>
      gget (nf_SpecLabels nfr) = gget labels \<and>
      gget (nf_ObjectLabels nfr) ''nfd.node.kubernetes.io/node-name'' = Some (env_getenv E ''NODE_NAME'')) \<and>
    UpdateNodeFeatureObject E labels s' = (s', Ret ())"
proof -
  obtain nfr where nfr: "object_of E cli s' = NfFound nfr" "carries E labels nfr"
    using UpdateNodeFeatureObject_stored [OF assms] by blast
  then have "gget (nf_SpecLabels nfr) = gget labels"
    "gget (nf_ObjectLabels nfr) ''nfd.node.kubernetes.io/node-name'' = Some (env_getenv E ''NODE_NAME'')"
    by (auto simp: carries_def gmap_eq_gget NodeFeatureObjNodeNameLabel_def NodeName_def)
  then show ?thesis
    using nfr UpdateNodeFeatureObject_unchanged [OF assms(1) nfr]
    by (auto simp: object_of_def NodeName_def nodeFeatureVendorPrefix_def)
qed

text \<open>A server that keeps one object.\<close>

definition sample_client :: "(unit, unit node_feature option) nfd_client" where
  "sample_client =
     \<lparr>nfd_Get = (\<lambda>ns n s. case s of None \<Rightarrow> NfNotFound
        | Some obj \<Rightarrow> if nf_Name obj = n then NfFound obj else NfNotFound),
      nfd_Create = (\<lambda>ns obj s. (Some obj, Ret ())), nfd_Update = (\<lambda>ns obj s. (Some obj, Ret ()))\<rparr>"

definition sample_env :: "(unit, unit node_feature option) k8s_env" where
  "sample_env =
     \<lparr>env_getenv = (\<lambda>v. if v = ''NODE_NAME'' then ''node1'' else ''default''),
      env_Stat = (\<lambda>p. Err ''no such file or directory''),
      env_ReadFile = (\<lambda>p. Err ''no such file or directory''), env_InClusterConfig = Ret (),
      env_NewForConfig = Ret sample_client, env_NewFeatures = ()\<rparr>"

lemma sample_client_laws:
  "GetKubernetesClient sample_env = Ret sample_client" "stores_objects sample_client"
  "answers_by_name sample_client"
proof -
  show "GetKubernetesClient sample_env = Ret sample_client"
    by (simp add: GetKubernetesClient_def sample_env_def)
  show "stores_objects sample_client"
  proof (unfold stores_objects_def, intro allI impI)
    fix ns and obj :: "unit node_feature" and s s'
    assume "nfd_Create sample_client ns obj s = (s', Ret ()) \<or> nfd_Update sample_client ns obj s = (s', Ret ())"
    then show "\<exists>md. nfd_Get sample_client ns (nf_Name obj) s' = NfFound (obj\<lparr>nf_Metadata := md\<rparr>)"
      by (intro exI [of _ "nf_Metadata obj"]) (auto simp: sample_client_def)
  qed
  show "answers_by_name sample_client"
    by (auto simp: answers_by_name_def sample_client_def split: option.splits if_splits)
qed

theorem UpdateNodeFeatureObject_idempotent_witness:
  "UpdateNodeFeatureObject sample_env [(''a'', ''b'')]
     (fst (UpdateNodeFeatureObject sample_env [(''a'', ''b'')] None)) =
   (fst (UpdateNodeFeatureObject sample_env [(''a'', ''b'')] None), Ret ())"
proof -
  have "snd (UpdateNodeFeatureObject sample_env [(''a'', ''b'')] None) = Ret ()" by code_simp
  then obtain s' where run: "UpdateNodeFeatureObject sample_env [(''a'', ''b'')] None = (s', Ret ())"
    by (cases "UpdateNodeFeatureObject sample_env [(''a'', ''b'')] None") simp
  show ?thesis
    using UpdateNodeFeatureObject_idempotent [OF sample_client_laws run] by (simp add: run)
qed

end
