(* ===== verification/Daemon_Properties.thy ===== *)
theory Daemon_Properties
  imports Daemon Node_Properties Output_Properties
begin

text \<open>
  The properties of the whole daemon: it does not crash, the loop is the state machine it is meant
  to be, signals and the expiry of the sleep have their effects, and what others can see of the
  output file, from the start of the process to its end and across reloads of the configuration.
\<close>

section \<open>The daemon of the examples\<close>

text \<open>A node without a driver, an output file, no config file and the flags of \<open>sample_context\<close>.\<close>

definition sample_context :: cli_context where
  "sample_context =
     \<lparr>cli_IsSet = (\<lambda>n. n = ''output-file''),
      cli_String = (\<lambda>n. if n = ''output-file'' then ''/out/gfd''
        else if n = ''mig-strategy'' then ''none'' else []),
      cli_Bool = (\<lambda>n. False), cli_Duration = (\<lambda>n. 60000000000), cli_StringSlice = (\<lambda>n. [])\<rparr>"

definition sample_rounds :: rounds where
  "sample_rounds =
     \<lparr>rnd_source = (\<lambda>k. sample_source), rnd_marshal = (\<lambda>c. Ret ''{}''),
      rnd_context = sample_context, rnd_now = (\<lambda>k. 7)\<rparr>"

definition no_driver :: "nat sys" where
  "no_driver = sample_sys\<lparr>sys_HasNvml := False\<rparr>"

definition no_pci :: sysfs where
  "no_pci = \<lparr>sysfs_ReadDir = (\<lambda>path. Ret []), sysfs_ReadFile = (\<lambda>path. Err ''no such file'')\<rparr>"

lemma no_vgpus: "pe_sysfs env = no_pci \<Longrightarrow> vgpu_Labels (pe_vgpu env) = Ret []"
  by (simp add: pe_vgpu_def NewNvidiaPCILib_def NvidiaPCILib_Devices_def no_pci_def NewVGPULib_def
      vgpu_Labels_def vgpu_Devices_def map_filter_def)

definition sample_pass :: "nat \<Rightarrow> nat pass_env" where
  "sample_pass = (\<lambda>n. \<lparr>pe_sys = no_driver, pe_sysfs = no_pci, pe_ReadFile = (\<lambda>p. Err ''no such file''),
     pe_orders = no_orders, pe_write_order = [], pe_random = ''1''\<rparr>)"

definition sample_daemon :: "(unit, unit node_feature option) daemon" where
  "sample_daemon = \<lparr>dm_faults = no_faults, dm_k8s = sample_env, dm_nodeFeatureAPI = False\<rparr>"

definition sample_state :: "unit node_feature option dstate" where
  "sample_state = ((NullManager, False), sample_world, None)"

lemma sample_surroundings:
  "parser_ok sample_rounds" "env_ok (sample_pass n)" "client_ok (dm_k8s sample_daemon)"
  by (auto simp: parser_ok_def source_ok_def sample_source_def sample_rounds_def env_ok_def sample_pass_def reads_files_def
      no_vgpus client_ok_def sample_daemon_def sample_env_def sample_client_def)

section \<open>No crash\<close>

text \<open>From start to end, through any events, reloads and failures of the hardware, the operating
  system and the API server, the daemon returns, waits or reports an error; it never panics or
  hangs, provided the vGPU capabilities can be decoded.\<close>

theorem daemon_no_crash:
  assumes "parser_ok R" and "\<forall>n. env_ok (envs n)" and "client_ok (dm_k8s G)"
    and "start G R envs k n events d = (d', res)"
  shows "case res of Waiting \<Rightarrow> True | Returned r \<Rightarrow> (\<exists>b. r = Ret b) \<or> (\<exists>e. r = Err e)"
  using start_no_crash [OF assms(1) _ assms(3,4)] assms(2)
  by (auto simp: result_ok_def no_crash_def split: run_result.splits go.splits)

theorem daemon_no_crash_witness:
  "case snd (start sample_daemon sample_rounds sample_pass 0 0 [Timeout, Signal SIGHUP] sample_state) of
     Waiting \<Rightarrow> True | Returned r \<Rightarrow> (\<exists>b. r = Ret b) \<or> (\<exists>e. r = Err e)"
proof -
  obtain d' res where run:
    "start sample_daemon sample_rounds sample_pass 0 0 [Timeout, Signal SIGHUP] sample_state = (d', res)"
    by fastforce
  have "\<forall>n. env_ok (sample_pass n)" using sample_surroundings by blast
  from daemon_no_crash [OF sample_surroundings(1) this sample_surroundings(3) run] show ?thesis
    unfolding run by simp
qed

text \<open>C6: Whatever command line, environment, events, reloads and failures of the hardware, the
  operating system and the API server it meets, the program exits with status 0 or 1 or goes on
  running: it never panics and never hangs, provided the vGPU capabilities can be decoded and the
  libraries it calls do not crash themselves.\<close>

theorem main_exit_status:
  assumes "\<forall>t. no_crash (PD t)" and "parser_ok R" and "\<forall>n. env_ok (envs n)" and "client_ok (dm_k8s G)"
  shows "snd (main_program PD getenv args G R envs events d) \<in> {Exit 0, Exit 1, Running}"
proof (cases "cli_parse PD getenv main_flags args")
  case (Ret c)
  let ?G = "G\<lparr>dm_nodeFeatureAPI := cli_Bool c ''use-node-feature-api''\<rparr>"
  obtain d' res where run: "start ?G (R\<lparr>rnd_context := c\<rparr>) envs 0 0 events d = (d', res)"
    by fastforce
  have "result_ok res"
    by (rule start_no_crash [OF _ _ _ run]) (use assms in \<open>auto simp: parser_ok_def\<close>)
  then show ?thesis
    using Ret run by (auto simp: main_program_def result_ok_def no_crash_def split: run_result.splits go.splits)
qed (use cli_parse_no_crash [of PD getenv main_flags args] assms(1) in
      \<open>auto simp: main_program_def no_crash_def\<close>)

theorem main_exit_status_witness:
  "snd (main_program sample_PD sample_env_var sample_args sample_daemon sample_rounds sample_pass
      [Timeout, Signal SIGHUP] sample_state) \<in> {Exit 0, Exit 1, Running}"
  by (rule main_exit_status)
    (use sample_surroundings in \<open>auto simp: sample_PD_def\<close>)

section \<open>The loop\<close>

text \<open>C4: \<open>run_loop\<close> computes exactly the runs of the state machine of labelling, sleeping and
  stopping: it returns with a result, having consumed some events, if and only if the machine can
  reach the stopped phase with that result on those events.\<close>

theorem run_loop_is_state_machine:
  assumes "config_ready config" and "\<forall>n d. no_crash (snd (run_pass G config ts (envs n) d))"
  shows "(\<exists>n'. run_loop G config ts envs n events d = (d', Returned r, rest, n')) \<longleftrightarrow>
    (\<exists>es. events = es @ rest \<and> loop_exec G config ts envs (d, Labelling n) es (d', Stopped r))"
proof
  assume "\<exists>n'. run_loop G config ts envs n events d = (d', Returned r, rest, n')"
  then show "\<exists>es. events = es @ rest \<and> loop_exec G config ts envs (d, Labelling n) es (d', Stopped r)"
    using exec_run_loop [OF assms(1)] assms(2) by blast
next
  assume "\<exists>es. events = es @ rest \<and> loop_exec G config ts envs (d, Labelling n) es (d', Stopped r)"
  then obtain es where "events = es @ rest"
    and "loop_exec G config ts envs (d, Labelling n) es (d', Stopped r)" by blast
  with continue_exec [OF assms(1) this(2), of rest]
  show "\<exists>n'. run_loop G config ts envs n events d = (d', Returned r, rest, n')"
    by (auto split: prod.splits)
qed

definition sample_run_config :: config where
  "sample_run_config = sample_config ''none''"

lemma sample_run_ready: "config_ready sample_run_config"
  by (simp add: sample_run_config_def config_ready_def gfd_ready_def sample_config_def)

lemma sample_output [simp]:
  "output_of sample_run_config = ''/out/gfd''" "\<not> oneshot_of sample_run_config"
  "NewTimestampLabeler now sample_run_config = Ret LEmpty"
  by (simp_all add: sample_run_config_def sample_config_def output_of_def oneshot_of_def gfd_flag_def
      NewTimestampLabeler_def)

section \<open>Signals\<close>

lemma run_signal:
  assumes ready: "config_ready config" and "\<not> oneshot_of config"
    and ts: "NewTimestampLabeler now config = Ret ts"
    and "passes G config ts envs n (Suc m) d = Some d'"
  shows "run G now config envs n (replicate m Timeout @ Signal sig # rest) d =
    (fst (run_cleanup G config d'), Returned (Ret (sig = SIGHUP)), rest, n + Suc m)"
  using run_Ret [OF ready ts run_loop_signal [OF assms(1,2,4)]] by simp

text \<open>C14: As long as its passes succeed, a daemon that writes a file labels the node once at the
  start and once for every expiry of the sleep.  A signal then ends the run: unless a call of the file system fails
  from then on, the output file and what is below the temporary directory are gone and every other
  file is as the last pass left it; with SIGHUP the daemon starts over from there with the
  configuration loaded anew, and with any other signal the process ends.\<close>

theorem signal_ends_run:
  assumes "start_round (rnd_source R k) (rnd_marshal R) (rnd_context R) gfd_flag_names (pe_sys (envs n)) =
      Ret (config, mgr)"
    and "\<not> oneshot_of config" and "NewTimestampLabeler (rnd_now R k) config = Ret ts"
    and "passes G config ts envs n (Suc m) ((mgr, snd ms), ws) = Some (ms', w', s')"
    and "\<not> dm_nodeFeatureAPI G" and "output_of config \<noteq> []"
    and "place_ok (fs_cwd (w_fs w')) (output_of config) []" and "\<forall>i \<ge> w_calls w'. dm_faults G i = None"
  shows "\<exists>w''.
    start G R envs k n (replicate m Timeout @ Signal sig # rest) (ms, ws) =
      (if sig = SIGHUP then start G R envs (Suc k) (n + Suc m) rest (ms', w'', s')
       else ((ms', w'', s'), Returned (Ret False))) \<and>
    (\<forall>q. gget (fs_files (w_fs w'')) q =
      (if q = resolve_path (fs_cwd (w_fs w')) (output_of config) \<or>
          under (tmp_dir (fs_cwd (w_fs w')) (output_of config)) q then None
       else gget (fs_files (w_fs w')) q))"
proof -
  let ?w = "fst (removeOutputFile (dm_faults G) (output_of config) w')"
  have ready: "config_ready config" by (rule start_round_ready [OF assms(1)])
  have cleanup: "fst (run_cleanup G config (ms', w', s')) = (ms', ?w, s')"
    using assms(2,5,6) by (simp add: run_cleanup_run [OF ready])
  have "start G R envs k n (replicate m Timeout @ Signal sig # rest) (ms, ws) =
      (if sig = SIGHUP then start G R envs (Suc k) (n + Suc m) rest (ms', ?w, s')
       else ((ms', ?w, s'), Returned (Ret False)))"
    using run_signal [OF ready assms(2-4), of sig rest] assms(1) by (subst start.simps) (simp add: cleanup)
  then show ?thesis
    using removeOutputFile_files [OF assms(7,8)] by (intro exI [of _ ?w]) (simp add: target_def)
qed

definition sample_loaded :: config where
  "sample_loaded = disableResourceRenamingInConfig (resolved_config sample_context default_config)"

lemma sample_round:
  "start_round (rnd_source sample_rounds k) (rnd_marshal sample_rounds) (rnd_context sample_rounds)
     gfd_flag_names (pe_sys (sample_pass n)) = Ret (sample_loaded, WithFallBack NullManager NullManager)"
  by (simp add: start_round_def loadConfig_resolved sample_rounds_def sample_context_def sample_pass_def
      no_driver_def sample_sys_def sample_loaded_def Let_def NewManager_def WithConfig_def getManager_def
      NewFallbackToNullOnInitError_def NewNullManager_def resolved_config_def resolve_def default_config_def
      empty_flags_def)

text \<open>What the flags of the daemon are in the loaded configuration.\<close>

lemma sample_loaded_gfd:
  "fl_GFD (cfg_Flags sample_loaded) = Some
    \<lparr>gf_Oneshot = Some False, gf_NoTimestamp = Some False, gf_SleepInterval = Some 60000000000,
     gf_OutputFile = Some ''/out/gfd'', gf_MachineTypeFile = Some []\<rparr>"
  by (simp add: sample_loaded_def resolved_config_def Let_def resolve_def default_config_def
      empty_flags_def file_gfd_def empty_gfd_flags_def sample_context_def)

lemma sample_loaded_flags [simp]:
  "\<not> oneshot_of sample_loaded" "output_of sample_loaded = ''/out/gfd''"
  "NewTimestampLabeler now sample_loaded = Ret (LLabels [(''nvidia.com/gfd.timestamp'', show_int now)])"
  by (simp_all add: oneshot_of_def output_of_def gfd_flag_def sample_loaded_gfd NewTimestampLabeler_def)

section \<open>What a pass publishes\<close>

lemma run_pass_publishes:
  assumes ready: "config_ready config" and G: "\<not> dm_nodeFeatureAPI G" "dm_faults G = no_faults"
    and labels: "pass_labels config ts env ms = (ms', Ret m)"
    and path: "output_of config \<noteq> []" "place_ok cwd (output_of config) (pe_random env)"
    and w: "writable cwd (output_of config) (pe_random env) (w_fs w)"
  shows "\<exists>w'. run_pass G config ts env (ms, w, s) = ((ms', w', s), Ret ()) \<and>
    gget (fs_files (w_fs w')) (resolve_path cwd (output_of config)) = Some (render (pe_write_order env) m, 420)"
proof -
  obtain w' where "UpdateFile no_faults (pe_random env) (pe_write_order env) (output_of config) m w = (w', Ret ())"
    and "gget (fs_files (w_fs w')) (resolve_path cwd (output_of config)) = Some (render (pe_write_order env) m, 420)"
    using UpdateFile_writes [OF path w] by blast
  then show ?thesis
    using G labels ready_flags(2) [OF ready]
    by (simp add: run_pass_def with_manager_def with_output_def Output_def)
qed

text \<open>A pass on the sample node, where there is nothing but the timestamp.\<close>

lemma sample_pass_labels:
  "static ts \<Longrightarrow> Labels_of ts = Ret tm \<Longrightarrow>
   pass_labels config ts (sample_pass n) (WithFallBack NullManager NullManager, g) =
     ((WithFallBack NullManager NullManager, g), Ret (gset_all tm []))"
  by (simp add: pass_labels_def sample_pass_def null_labels(2) Merge_def NewVGPULabeler_def no_vgpus
      sbind_def gset_all_def)

lemma sample_pass_publishes:
  assumes "config_ready config" and "output_of config = ''/out/gfd''" and "static ts" and "Labels_of ts = Ret tm"
  shows "\<exists>w'. run_pass sample_daemon config ts (sample_pass n)
      ((WithFallBack NullManager NullManager, g), sample_world, s) =
    (((WithFallBack NullManager NullManager, g), w', s), Ret ())"
proof -
  have "place_ok [''app''] ''/out/gfd'' (pe_random (sample_pass n))"
    and "writable [''app''] ''/out/gfd'' (pe_random (sample_pass n)) (w_fs sample_world)"
    using sample_place sample_writable by (simp_all add: sample_pass_def sample_world_def)
  then show ?thesis
    using run_pass_publishes [OF assms(1) _ _ sample_pass_labels [OF assms(3,4)], of sample_daemon] assms(2)
    by (simp add: sample_daemon_def) blast
qed

theorem run_loop_is_state_machine_witness:
  "\<exists>d'. loop_exec sample_daemon sample_run_config LEmpty sample_pass
      (((WithFallBack NullManager NullManager, False), sample_world, None), Labelling 0) [Signal SIGTERM]
      (d', Stopped (Ret False))"
proof -
  let ?d = "((WithFallBack NullManager NullManager, False), sample_world, None)"
  have calm: "\<forall>n d. no_crash (snd (run_pass sample_daemon sample_run_config LEmpty (sample_pass n) d))"
    using run_pass_no_crash [OF sample_run_ready sample_surroundings(2) _ sample_surroundings(3)] by simp
  obtain w1 where "run_pass sample_daemon sample_run_config LEmpty (sample_pass 0) ?d =
      (((WithFallBack NullManager NullManager, False), w1, None), Ret ())"
    using sample_pass_publishes [OF sample_run_ready sample_output(1), of LEmpty "[]" 0 False None] by auto
  then have "passes sample_daemon sample_run_config LEmpty sample_pass 0 (Suc 0) ?d =
      Some ((WithFallBack NullManager NullManager, False), w1, None)" by simp
  from run_loop_signal [OF sample_run_ready sample_output(2) this, of SIGTERM "[]"]
  have "\<exists>n'. run_loop sample_daemon sample_run_config LEmpty sample_pass 0 [Signal SIGTERM] ?d =
      (((WithFallBack NullManager NullManager, False), w1, None), Returned (Ret False), [], n')" by simp
  then show ?thesis
    unfolding run_loop_is_state_machine [OF sample_run_ready calm] by auto
qed

lemma sample_passes:
  "\<exists>w'. passes sample_daemon sample_loaded (LLabels [(''nvidia.com/gfd.timestamp'', show_int 7)]) sample_pass 0 (Suc 0)
      ((WithFallBack NullManager NullManager, snd (fst sample_state)), snd sample_state) =
    Some ((WithFallBack NullManager NullManager, False), w', None)"
proof -
  have "config_ready sample_loaded" by (rule start_round_ready [OF sample_round])
  from sample_pass_publishes [OF this sample_loaded_flags(2),
      of "LLabels [(''nvidia.com/gfd.timestamp'', show_int 7)]" "[(''nvidia.com/gfd.timestamp'', show_int 7)]" 0 False None]
  show ?thesis by (auto simp: sample_state_def)
qed

lemma sample_passes_cwd:
  assumes "passes sample_daemon sample_loaded (LLabels [(''nvidia.com/gfd.timestamp'', show_int 7)]) sample_pass 0 m
      (mgr, sample_world, None) = Some (mgr', w', s')"
  shows "fs_cwd (w_fs w') = [''app'']"
proof -
  have cwd: "fs_cwd (w_fs sample_world) = [''app'']" "w_seen sample_world = []" by (simp_all add: sample_world_def)
  have "output_place sample_loaded [''app''] sample_pass"
    using sample_place by (simp add: output_place_def sample_pass_def cwd)
  note safe = passes_file_safe [where C = "\<lambda>_ _. True", OF start_round_ready [OF sample_round] sample_loaded_flags(3)
      TrueI this assms]
  show ?thesis by (rule file_safe_cwd [OF safe [OF file_safe_start [OF cwd(2), unfolded cwd(1)]]])
qed

theorem signal_ends_run_witness:
  "\<exists>ms' w' s'. start sample_daemon sample_rounds sample_pass 0 0 [Signal SIGTERM] sample_state =
      ((ms', w', s'), Returned (Ret False)) \<and>
    gget (fs_files (w_fs w')) [''out'', ''gfd''] = None"
proof -
  obtain w1 where passes: "passes sample_daemon sample_loaded (LLabels [(''nvidia.com/gfd.timestamp'', show_int 7)])
      sample_pass 0 (Suc 0) ((WithFallBack NullManager NullManager, snd (fst sample_state)), snd sample_state) =
      Some ((WithFallBack NullManager NullManager, False), w1, None)"
    using sample_passes by blast
  then have cwd: "fs_cwd (w_fs w1) = [''app'']"
    unfolding sample_state_def fst_conv snd_conv by (rule sample_passes_cwd)
  have place: "place_ok (fs_cwd (w_fs w1)) (output_of sample_loaded) []" unfolding cwd sample_loaded_flags(2) by code_simp
  have G: "\<not> dm_nodeFeatureAPI sample_daemon" "\<forall>i \<ge> w_calls w1. dm_faults sample_daemon i = None"
    by (simp_all add: sample_daemon_def no_faults_def)
  have ts: "NewTimestampLabeler (rnd_now sample_rounds 0) sample_loaded =
      Ret (LLabels [(''nvidia.com/gfd.timestamp'', show_int 7)])"
    by (simp add: sample_rounds_def)
  have out: "output_of sample_loaded \<noteq> []" by simp
  from signal_ends_run [where sig = SIGTERM and rest = "[]", OF sample_round sample_loaded_flags(1) ts passes G(1) out place G(2)]
  obtain w'' where run: "start sample_daemon sample_rounds sample_pass 0 0 (replicate 0 Timeout @ [Signal SIGTERM])
      (fst sample_state, snd sample_state) =
      (if SIGTERM = SIGHUP
       then start sample_daemon sample_rounds sample_pass (Suc 0) (0 + Suc 0) []
         ((WithFallBack NullManager NullManager, False), w'', None)
       else (((WithFallBack NullManager NullManager, False), w'', None), Returned (Ret False)))"
    and gone: "gget (fs_files (w_fs w'')) (resolve_path (fs_cwd (w_fs w1)) (output_of sample_loaded)) = None"
    by auto
  show ?thesis
    using run gone by (intro exI [of _ "(WithFallBack NullManager NullManager, False)"] exI [of _ w''] exI [of _ None])
      (simp add: cwd sample_target)
qed

text \<open>C8: The first signal to arrive decides: as long as the passes succeed the daemon labels the node
  once at the start and once for every expiry of the sleep before it reads the signal; whatever
  arrives after it, SIGHUP then makes it start over, and every other signal ends the process.\<close>

theorem first_signal_decides:
  assumes "start_round (rnd_source R k) (rnd_marshal R) (rnd_context R) gfd_flag_names (pe_sys (envs n)) =
      Ret (config, mgr)"
    and "\<not> oneshot_of config" and "NewTimestampLabeler (rnd_now R k) config = Ret ts"
    and "chan_exec (newOSWatcher start_signals) as c" and "taken as \<noteq> []"
    and "passes G config ts envs n (Suc (expiries_before as)) ((mgr, snd ms), ws) = Some d'"
  shows "if hd (arrivals as) = SIGHUP
    then \<exists>rest. start G R envs k n (consumed as) (ms, ws) =
      start G R envs (Suc k) (n + Suc (expiries_before as)) rest (fst (run_cleanup G config d'))
    else start G R envs k n (consumed as) (ms, ws) = (fst (run_cleanup G config d'), Returned (Ret False))"
proof -
  obtain rest where as: "consumed as = replicate (expiries_before as) Timeout @ Signal (hd (taken as)) # rest"
    using consumed_first_signal [OF assms(5)] by blast
  have hd: "hd (taken as) = hd (arrivals as)"
    by (rule chan_inv_sub(2) [OF chan_inv_exec [OF assms(4) refl] assms(5)])
  have ready: "config_ready config" by (rule start_round_ready [OF assms(1)])
  have "run G (rnd_now R k) config envs n (consumed as) ((mgr, snd (fst (ms, ws))), snd (ms, ws)) =
      (fst (run_cleanup G config d'), Returned (Ret (hd (arrivals as) = SIGHUP)), rest,
       n + Suc (expiries_before as))"
    using run_signal [OF ready assms(2,3,6), of "hd (arrivals as)" rest] by (simp add: as hd)
  from start_unfold [OF assms(1) this] show ?thesis by auto
qed

theorem first_signal_decides_witness:
  "snd (start sample_daemon sample_rounds sample_pass 0 0
      (consumed [Arrive SIGTERM, Arrive SIGHUP, Take SIGTERM, Arrive SIGHUP]) sample_state) = Returned (Ret False)"
proof -
  let ?c = "newOSWatcher start_signals"
  let ?t = "?c\<lparr>ch_buf := [SIGTERM]\<rparr>" and ?h = "?c\<lparr>ch_buf := [SIGHUP]\<rparr>"
  have "notify SIGTERM ?c = ?t" "notify SIGHUP ?t = ?t" "receive ?t = Some (SIGTERM, ?c)" "notify SIGHUP ?c = ?h"
    by (simp_all add: notify_def receive_def newOSWatcher_def all_subscribed)
  then have steps: "chan_step ?c (Arrive SIGTERM) ?t" "chan_step ?t (Arrive SIGHUP) ?t"
      "chan_step ?t (Take SIGTERM) ?c" "chan_step ?c (Arrive SIGHUP) ?h"
    by (metis chan_step.intros)+
  have "chan_exec ?c (((([] @ [Arrive SIGTERM]) @ [Arrive SIGHUP]) @ [Take SIGTERM]) @ [Arrive SIGHUP]) ?h"
    by (rule chan_more [OF chan_more [OF chan_more [OF chan_more [OF chan_done steps(1)] steps(2)] steps(3)] steps(4)])
  then have exec: "chan_exec ?c [Arrive SIGTERM, Arrive SIGHUP, Take SIGTERM, Arrive SIGHUP] ?h" by simp
  obtain d' where "passes sample_daemon sample_loaded (LLabels [(''nvidia.com/gfd.timestamp'', show_int 7)]) sample_pass 0
      (Suc (expiries_before [Arrive SIGTERM, Arrive SIGHUP, Take SIGTERM, Arrive SIGHUP]))
      ((WithFallBack NullManager NullManager, snd (fst sample_state)), snd sample_state) = Some d'"
    using sample_passes by (auto simp: expiries_before_def)
  from first_signal_decides [OF sample_round sample_loaded_flags(1) _ exec _ this] show ?thesis
    by (simp add: sample_rounds_def taken_def arrivals_def map_filter_def)
qed

section \<open>What ends the process\<close>

lemma run_loop_end:
  assumes "gfd_flag config gf_Oneshot = Ret False"
  shows "run_loop G config ts envs n events d = (d', res, rest, n') \<Longrightarrow>
    set rest \<subseteq> set events \<and> (res = Returned (Ret False) \<longrightarrow> (\<exists>s. s \<noteq> SIGHUP \<and> Signal s \<in> set events))"
proof (induction events arbitrary: n d)
  case Nil
  with assms show ?case
    by (subst (asm) run_loop.simps) (auto split: prod.splits go.splits)
next
  case (Cons ev events)
  obtain d1 r where p: "run_pass G config ts (envs n) d = (d1, r)" by (cases "run_pass G config ts (envs n) d")
  from Cons.prems p assms Cons.IH [of "Suc n" d1] show ?case
    by (subst (asm) run_loop.simps) (cases r; auto split: go.splits event.splits)
qed

lemma run_end:
  assumes ready: "config_ready config" and "\<not> oneshot_of config"
    and run: "run G now config envs n events d = (d', res, rest, n')"
  shows "set rest \<subseteq> set events \<and> (res = Returned (Ret False) \<longrightarrow> (\<exists>s. s \<noteq> SIGHUP \<and> Signal s \<in> set events))"
proof -
  obtain ts where ts: "NewTimestampLabeler now config = Ret ts" using ready_flags(4) [OF ready] by blast
  obtain d1 res1 rest1 n1 where loop: "run_loop G config ts envs n events d = (d1, res1, rest1, n1)"
    by (cases "run_loop G config ts envs n events d")
  have "gfd_flag config gf_Oneshot = Ret False" using ready_flags(1) [OF ready] assms(2) by simp
  from run_loop_end [OF this loop] run show ?thesis
    by (auto simp: run_def ts loop split: run_result.splits go.splits prod.splits)
qed

lemma ends_by_signal:
  assumes "\<And>j i config m. start_round (rnd_source R j) (rnd_marshal R) (rnd_context R) gfd_flag_names
      (pe_sys (envs i)) = Ret (config, m) \<Longrightarrow> \<not> oneshot_of config"
    and "start G R envs k n events d = (d', Returned (Ret False))"
  shows "\<exists>s. s \<noteq> SIGHUP \<and> Signal s \<in> set events"
  using assms(2)
proof (induction "length events" arbitrary: k n events d rule: less_induct)
  case less
  obtain config m where round: "start_round (rnd_source R k) (rnd_marshal R) (rnd_context R) gfd_flag_names
      (pe_sys (envs n)) = Ret (config, m)"
    using less.prems by (subst (asm) start.simps) (auto split: go.splits)
  obtain d1 res1 rest1 n1 where run:
    "run G (rnd_now R k) config envs n events ((m, snd (fst d)), snd d) = (d1, res1, rest1, n1)"
    by (cases "run G (rnd_now R k) config envs n events ((m, snd (fst d)), snd d)")
  note ends = run_end [OF start_round_ready [OF round] assms(1) [OF round] run]
  show ?case
  proof (cases "res1 = Returned (Ret True)")
    case True
    with run have "length rest1 < length events" using run_rest by blast
    from less.hyps [OF this, of "Suc k" n1 d1] ends less.prems True show ?thesis
      by (auto simp: start_unfold [OF round run])
  next
    case False
    with ends less.prems show ?thesis by (simp add: start_unfold [OF round run])
  qed
qed

text \<open>C7: Without the one-shot mode the process ends normally only when it has received a signal other
  than SIGHUP.\<close>

theorem normal_end_needs_signal:
  assumes "\<And>j i config m. start_round (rnd_source R j) (rnd_marshal R) (rnd_context R) gfd_flag_names
      (pe_sys (envs i)) = Ret (config, m) \<Longrightarrow> \<not> oneshot_of config"
    and "start G R envs k n events d = (d', Returned (Ret False))"
  shows "\<exists>s. s \<noteq> SIGHUP \<and> Signal s \<in> set events"
  by (rule ends_by_signal [OF assms])

lemma sample_not_oneshot:
  "start_round (rnd_source sample_rounds j) (rnd_marshal sample_rounds) (rnd_context sample_rounds) gfd_flag_names
     (pe_sys (sample_pass i)) = Ret (config, m) \<Longrightarrow> \<not> oneshot_of config"
  using sample_round by auto

lemma sample_ends:
  "\<exists>d'. start sample_daemon sample_rounds sample_pass 0 0 [Signal SIGTERM] sample_state = (d', Returned (Ret False))"
proof -
  obtain d' where d': "passes sample_daemon sample_loaded (LLabels [(''nvidia.com/gfd.timestamp'', show_int 7)]) sample_pass 0 (Suc 0)
      ((WithFallBack NullManager NullManager, snd (fst sample_state)), snd sample_state) = Some d'"
    using sample_passes by blast
  have "run sample_daemon 7 sample_loaded sample_pass 0 [Signal SIGTERM]
      ((WithFallBack NullManager NullManager, snd (fst sample_state)), snd sample_state) =
    (fst (run_cleanup sample_daemon sample_loaded d'), Returned (Ret False), [], 1)"
    using run_signal [OF start_round_ready [OF sample_round] sample_loaded_flags(1,3) d', of SIGTERM "[]"] by simp
  then show ?thesis
    using start_unfold [where R = sample_rounds and envs = sample_pass and k = 0 and n = 0
        and G = sample_daemon and events = "[Signal SIGTERM]" and d = sample_state, OF sample_round]
    by (cases "fst (run_cleanup sample_daemon sample_loaded d')") (simp add: sample_rounds_def)
qed

theorem normal_end_needs_signal_witness:
  "(\<exists>d'. start sample_daemon sample_rounds sample_pass 0 0 [Signal SIGTERM] sample_state =
      (d', Returned (Ret False))) \<and>
   (\<exists>s. s \<noteq> SIGHUP \<and> Signal s \<in> set [Signal SIGTERM])"
proof -
  obtain d' where ends: "start sample_daemon sample_rounds sample_pass 0 0 [Signal SIGTERM] sample_state =
      (d', Returned (Ret False))"
    using sample_ends by blast
  have "\<exists>s. s \<noteq> SIGHUP \<and> Signal s \<in> set [Signal SIGTERM]"
    by (rule normal_end_needs_signal [of sample_rounds sample_pass, OF _ ends]) (rule sample_not_oneshot)
  with ends show ?thesis by blast
qed

text \<open>A pass that succeeds when no event is left puts the loop to sleep.\<close>

lemma run_asleep:
  assumes ready: "config_ready config" and "\<not> oneshot_of config" and ts: "NewTimestampLabeler now config = Ret ts"
    and "run_pass G config ts (envs n) d = (d', Ret ())"
  shows "run G now config envs n [] d = (d', Waiting, [], Suc n)"
proof -
  obtain x where "gfd_flag config gf_SleepInterval = Ret x" using ready_flags(3) [OF ready] by blast
  then have "run_loop G config ts envs n [] d = (d', Waiting, [], Suc n)"
    using assms(2,4) ready_flags(1) [OF ready] by (subst run_loop.simps) simp
  from run_Ret [OF ready ts this] show ?thesis by simp
qed

text \<open>C10: Signals that arrive while one waits to be read are lost.  When a SIGHUP and then any others, a
  SIGTERM for example, arrive before the loop reads the channel for the first time, SIGHUP is all
  there is to read and the channel is empty afterwards; the daemon loads its configuration anew,
  labels the node again and goes back to sleep, if its passes succeed.\<close>

theorem second_signal_dropped:
  assumes first: "start_round (rnd_source R k) (rnd_marshal R) (rnd_context R) gfd_flag_names (pe_sys (envs n)) =
      Ret (config, mgr)" "\<not> oneshot_of config" "NewTimestampLabeler (rnd_now R k) config = Ret ts"
    and chan: "chan_exec (newOSWatcher start_signals) as c" "taken as = []" "arrivals as = SIGHUP # others"
    and e: "e = expiries_before as"
    and passes: "passes G config ts envs n (Suc e) ((mgr, snd ms), ws) = Some d"
    and second: "start_round (rnd_source R (Suc k)) (rnd_marshal R) (rnd_context R) gfd_flag_names
      (pe_sys (envs (n + Suc e))) = Ret (config', mgr')" "\<not> oneshot_of config'"
      "NewTimestampLabeler (rnd_now R (Suc k)) config' = Ret ts'"
    and again: "fst (run_cleanup G config d) = (ms1, ws1)"
      "run_pass G config' ts' (envs (n + Suc e)) ((mgr', snd ms1), ws1) = (d', Ret ())"
  shows "(\<forall>s c'. chan_exec (newOSWatcher start_signals) (as @ [Take s]) c' \<longleftrightarrow>
      s = SIGHUP \<and> c' = newOSWatcher start_signals) \<and>
    start G R envs k n (consumed (as @ [Take SIGHUP])) (ms, ws) = (d', Waiting)"
proof -
  have "consumed (as @ [Take SIGHUP]) = replicate e Timeout @ [Signal SIGHUP]"
    by (simp add: consumed_append consumed_none_taken [OF chan(2)] e)
  moreover have run: "run G (rnd_now R k) config envs n (replicate e Timeout @ [Signal SIGHUP]) ((mgr, snd ms), ws) =
      ((ms1, ws1), Returned (Ret True), [], n + Suc e)"
    using run_signal [OF start_round_ready [OF first(1)] first(2,3) passes, of SIGHUP "[]"] by (simp add: again(1))
  then have "start G R envs k n (replicate e Timeout @ [Signal SIGHUP]) (ms, ws) =
      start G R envs (Suc k) (n + Suc e) [] (ms1, ws1)"
    using start_unfold [where d = "(ms, ws)" and envs = envs and n = n, OF first(1), unfolded fst_conv snd_conv, OF run]
    by simp
  moreover have "run G (rnd_now R (Suc k)) config' envs (n + Suc e) [] ((mgr', snd ms1), ws1) =
      (d', Waiting, [], Suc (n + Suc e))"
    by (rule run_asleep [where envs = envs and n = "n + Suc e", OF start_round_ready [OF second(1)] second(2,3) again(2)])
  from start_unfold [where d = "(ms1, ws1)" and envs = envs and n = "n + Suc e", OF second(1),
      unfolded fst_conv snd_conv, OF this]
  have "start G R envs (Suc k) (n + Suc e) [] (ms1, ws1) = (d', Waiting)" by simp
  ultimately show ?thesis using chan_waiting [OF chan] by simp
qed

text \<open>A daemon that publishes through the API server: the second pass finds the object it made.\<close>

definition api_daemon :: "(unit, unit node_feature option) daemon" where
  "api_daemon = sample_daemon\<lparr>dm_nodeFeatureAPI := True\<rparr>"

lemma api_daemon_simps:
  "dm_nodeFeatureAPI api_daemon" "dm_k8s api_daemon = sample_env"
  by (simp_all add: api_daemon_def sample_daemon_def)

lemma api_daemon_pass:
  assumes "UpdateNodeFeatureObject sample_env (gset_all [(''nvidia.com/gfd.timestamp'', show_int 7)] []) s = (s', Ret ())"
  shows "run_pass api_daemon sample_loaded (LLabels [(''nvidia.com/gfd.timestamp'', show_int 7)]) (sample_pass n)
      ((WithFallBack NullManager NullManager, g), w, s) = (((WithFallBack NullManager NullManager, g), w, s'), Ret ())"
proof -
  have "pass_labels sample_loaded (LLabels [(''nvidia.com/gfd.timestamp'', show_int 7)]) (sample_pass n)
      (WithFallBack NullManager NullManager, g) =
    ((WithFallBack NullManager NullManager, g), Ret (gset_all [(''nvidia.com/gfd.timestamp'', show_int 7)] []))"
    by (rule sample_pass_labels) simp_all
  then show ?thesis
    using assms ready_flags(2) [OF start_round_ready [OF sample_round]]
    by (simp add: run_pass_def with_manager_def with_output_def Output_def api_daemon_simps del: gset_all_def)
qed

lemma api_daemon_object:
  obtains s where
    "UpdateNodeFeatureObject sample_env (gset_all [(''nvidia.com/gfd.timestamp'', show_int 7)] []) None = (s, Ret ())"
    "UpdateNodeFeatureObject sample_env (gset_all [(''nvidia.com/gfd.timestamp'', show_int 7)] []) s = (s, Ret ())"
proof -
  let ?m = "gset_all [(''nvidia.com/gfd.timestamp'', show_int 7)] []"
  obtain s where s: "UpdateNodeFeatureObject sample_env ?m None = (s, Ret ())"
    by (simp add: UpdateNodeFeatureObject_def sample_client_laws Let_def) (simp add: sample_client_def)
  obtain nfr where "object_of sample_env sample_client s = NfFound nfr" "carries sample_env ?m nfr"
    using UpdateNodeFeatureObject_stored [OF sample_client_laws s] by blast
  from UpdateNodeFeatureObject_unchanged [OF sample_client_laws(1) this] show thesis by (rule that [OF s])
qed

theorem second_signal_dropped_witness:
  "(\<forall>s c'. chan_exec (newOSWatcher start_signals) [Arrive SIGHUP, Arrive SIGTERM, Take s] c' \<longleftrightarrow>
      s = SIGHUP \<and> c' = newOSWatcher start_signals) \<and>
   (\<exists>d'. start api_daemon sample_rounds sample_pass 0 0 (consumed [Arrive SIGHUP, Arrive SIGTERM, Take SIGHUP])
      sample_state = (d', Waiting))"
proof -
  let ?ts = "LLabels [(''nvidia.com/gfd.timestamp'', show_int 7)]"
  let ?M = "WithFallBack NullManager NullManager"
  let ?as = "[Arrive SIGHUP, Arrive SIGTERM]"
  let ?c = "(newOSWatcher start_signals)\<lparr>ch_buf := [SIGHUP]\<rparr>"
  have "notify SIGHUP (newOSWatcher start_signals) = ?c" "notify SIGTERM ?c = ?c"
    by (simp_all add: notify_def newOSWatcher_def all_subscribed)
  then have steps: "chan_step (newOSWatcher start_signals) (Arrive SIGHUP) ?c" "chan_step ?c (Arrive SIGTERM) ?c"
    by (metis arrive)+
  have "chan_exec (newOSWatcher start_signals) (([] @ [Arrive SIGHUP]) @ [Arrive SIGTERM]) ?c"
    by (rule chan_more [OF chan_more [OF chan_done steps(1)] steps(2)])
  then have chan: "chan_exec (newOSWatcher start_signals) ?as ?c" by simp
  have sigs: "taken ?as = []" "arrivals ?as = SIGHUP # [SIGTERM]" "0 = expiries_before ?as"
    by (simp_all add: taken_def arrivals_def map_filter_def expiries_before_def)
  obtain s where s: "UpdateNodeFeatureObject sample_env (gset_all [(''nvidia.com/gfd.timestamp'', show_int 7)] []) None =
      (s, Ret ())"
    "UpdateNodeFeatureObject sample_env (gset_all [(''nvidia.com/gfd.timestamp'', show_int 7)] []) s = (s, Ret ())"
    by (rule api_daemon_object)
  have ts: "NewTimestampLabeler (rnd_now sample_rounds k) sample_loaded = Ret ?ts" for k
    by (simp add: sample_rounds_def)
  have one: "passes api_daemon sample_loaded ?ts sample_pass 0 (Suc 0) ((?M, snd (NullManager, False)), sample_world, None) =
      Some ((?M, False), sample_world, s)"
    by (simp add: api_daemon_pass [OF s(1)])
  have cleanup: "fst (run_cleanup api_daemon sample_loaded ((?M, False), sample_world, s)) = ((?M, False), sample_world, s)"
    by (simp add: run_cleanup_def api_daemon_simps)
  have two: "run_pass api_daemon sample_loaded ?ts (sample_pass (0 + Suc 0)) ((?M, snd (?M, False)), sample_world, s) =
      (((?M, False), sample_world, s), Ret ())"
    by (simp add: api_daemon_pass [OF s(2)])
  from second_signal_dropped [OF sample_round sample_loaded_flags(1) ts chan sigs one sample_round
      sample_loaded_flags(1) ts cleanup two]
  show ?thesis by (auto simp: sample_state_def)
qed

section \<open>What is published\<close>

text \<open>A one-shot run on a machine without faults labels the node once, takes no event, ends
  normally and leaves the file with exactly the labels of the pass behind.\<close>

theorem oneshot_publishes:
  assumes "config_ready config" and "oneshot_of config" and "\<not> dm_nodeFeatureAPI G"
    and "dm_faults G = no_faults" and "NewTimestampLabeler now config = Ret ts"
    and "pass_labels config ts (envs n) ms = (ms', Ret m)"
    and "output_of config \<noteq> []" and "place_ok cwd (output_of config) (pe_random (envs n))"
    and "writable cwd (output_of config) (pe_random (envs n)) (w_fs w)"
  shows "\<exists>w'. run G now config envs n events (ms, w, s) =
      ((ms', w', s), Returned (Ret False), events, Suc n) \<and>
    gget (fs_files (w_fs w')) (resolve_path cwd (output_of config)) =
      Some (render (pe_write_order (envs n)) m, 420)"
proof -
  obtain w' where "run_pass G config ts (envs n) (ms, w, s) = ((ms', w', s), Ret ())"
    and pub: "gget (fs_files (w_fs w')) (resolve_path cwd (output_of config)) =
      Some (render (pe_write_order (envs n)) m, 420)"
    using run_pass_publishes [OF assms(1,3,4,6-9)] by blast
  then have "run_loop G config ts envs n events (ms, w, s) =
      ((ms', w', s), Returned (Ret False), events, Suc n)"
    using run_loop_oneshot [OF assms(1,2)] by fastforce
  from run_Ret [OF assms(1,5) this] have "run G now config envs n events (ms, w, s) =
      ((ms', w', s), Returned (Ret False), events, Suc n)"
    using assms(1,2) by (simp add: run_cleanup_run)
  with pub show ?thesis by blast
qed

definition oneshot_config :: config where
  "oneshot_config = (sample_config ''none'')\<lparr>cfg_Flags := empty_flags\<lparr>fl_MigStrategy := Some ''none'',
     fl_FailOnInitError := Some False,
     fl_GFD := Some \<lparr>gf_Oneshot = Some True, gf_NoTimestamp = Some False, gf_SleepInterval = Some 60,
       gf_OutputFile = Some ''/out/gfd'', gf_MachineTypeFile = Some []\<rparr>\<rparr>\<rparr>"

theorem oneshot_publishes_witness:
  "\<exists>w'. run sample_daemon 7 oneshot_config sample_pass 0 [Timeout]
      ((WithFallBack NullManager NullManager, False), sample_world, None) =
     (((WithFallBack NullManager NullManager, False), w', None), Returned (Ret False), [Timeout], Suc 0) \<and>
   gget (fs_files (w_fs w')) [''out'', ''gfd''] =
     Some (render [] [(''nvidia.com/gfd.timestamp'', show_int 7)], 420)"
proof -
  let ?ts = "LLabels [(''nvidia.com/gfd.timestamp'', show_int 7)]"
  have ready: "config_ready oneshot_config" and oneshot: "oneshot_of oneshot_config"
    and out: "output_of oneshot_config = ''/out/gfd''"
    and ts: "NewTimestampLabeler 7 oneshot_config = Ret ?ts"
    by (simp_all add: config_ready_def gfd_ready_def oneshot_config_def sample_config_def oneshot_of_def
        output_of_def gfd_flag_def NewTimestampLabeler_def)
  have "pass_labels oneshot_config ?ts (sample_pass 0) (WithFallBack NullManager NullManager, False) =
      ((WithFallBack NullManager NullManager, False), Ret [(''nvidia.com/gfd.timestamp'', show_int 7)])"
    using sample_pass_labels [of ?ts "[(''nvidia.com/gfd.timestamp'', show_int 7)]"] by (simp add: gset_all_def)
  from oneshot_publishes [where envs = sample_pass and n = 0 and G = sample_daemon and w = sample_world
      and events = "[Timeout]" and s = None and cwd = "[''app'']", OF ready oneshot _ _ ts this]
  show ?thesis
    using sample_place sample_writable
    by (simp add: out sample_daemon_def sample_pass_def sample_world_def sample_target)
qed

text \<open>C29: The labels of a pass have distinct names, every one of them in the namespace
  \<^verbatim>\<open>nvidia.com/\<close>.\<close>

theorem pass_labels_in_namespace:
  assumes "NewTimestampLabeler now config = Ret ts" and "pass_labels config ts env ms = (ms', Ret m)"
  shows "distinct (map fst m) \<and> (\<forall>k \<in> set (map fst m). \<exists>name. k = ''nvidia.com/'' @ name)"
  using pass_labels_set [OF assms(2)] timestamp_labeler [OF assms(1)]
  by (auto simp: label_set_def gmap_ok_def labels_in_ns_def in_namespace_def has_prefix_iff)

theorem pass_labels_in_namespace_witness:
  "list_all (\<lambda>k. \<exists>name. k = ''nvidia.com/'' @ name)
    (map fst (gset_all [(''nvidia.com/gfd.timestamp'', show_int 7)] []))"
proof -
  have "pass_labels sample_loaded (LLabels [(''nvidia.com/gfd.timestamp'', show_int 7)]) (sample_pass 0)
      (WithFallBack NullManager NullManager, False) =
    ((WithFallBack NullManager NullManager, False),
     Ret (gset_all [(''nvidia.com/gfd.timestamp'', show_int 7)] []))"
    by (rule sample_pass_labels) simp_all
  from pass_labels_in_namespace [OF sample_loaded_flags(3) this] show ?thesis
    unfolding list_all_iff by blast
qed

section \<open>The output file from start to end\<close>

lemma output_from_cli:
  assumes "start_round F marshal c gfd_flag_names S = Ret (config, m)"
    and "cli_IsSet c ''output-file''"
  shows "output_of config = cli_String c ''output-file''"
proof -
  obtain config0 where "loadConfig F c gfd_flag_names = Ret config0"
    and config: "config = disableResourceRenamingInConfig config0"
    using assms(1) by (auto simp: start_round_def Let_def)
  then obtain config1 where "config0 = resolved_config c config1"
    by (auto simp: loadConfig_resolved split: if_splits go.splits)
  then show ?thesis
    using assms(2)
    by (simp add: config output_of_def gfd_flag_def resolved_config_def Let_def resolve_def split: option.split)
qed

text \<open>The configurations and start times of the rounds of the process.\<close>

definition round_config :: "rounds \<Rightarrow> (nat \<Rightarrow> 'h pass_env) \<Rightarrow> int \<Rightarrow> config \<Rightarrow> bool" where
  "round_config R envs now config \<longleftrightarrow>
     (\<exists>k n m. now = rnd_now R k \<and>
        start_round (rnd_source R k) (rnd_marshal R) (rnd_context R) gfd_flag_names (pe_sys (envs n)) =
          Ret (config, m))"

lemma start_file_safe:
  assumes set: "cli_IsSet (rnd_context R) ''output-file''"
    and path: "path = cli_String (rnd_context R) ''output-file''" "path \<noteq> []"
    and place: "\<And>n. place_ok cwd path (pe_random (envs n))"
  shows "start G R envs k n events d = (d', res) \<Longrightarrow>
    always_safe (target cwd path) cwd (complete_file (round_config R envs) envs old) (fst (snd d)) \<Longrightarrow>
    always_safe (target cwd path) cwd (complete_file (round_config R envs) envs old) (fst (snd d'))"
proof (induction "length events" arbitrary: k n events d rule: less_induct)
  case less
  show ?case
  proof (cases "start_round (rnd_source R k) (rnd_marshal R) (rnd_context R) gfd_flag_names (pe_sys (envs n))")
    case (Ret cm)
    obtain config m where cm: "cm = (config, m)" by (cases cm)
    obtain d1 res1 rest1 n1 where run:
      "run G (rnd_now R k) config envs n events ((m, snd (fst d)), snd d) = (d1, res1, rest1, n1)"
      by (cases "run G (rnd_now R k) config envs n events ((m, snd (fst d)), snd d)")
    have ready: "config_ready config" using Ret start_round_ready by (simp add: cm)
    have out: "output_of config = path" using output_from_cli Ret set path(1) by (simp add: cm)
    have "output_place config cwd envs" using place path(2) by (simp add: output_place_def out)
    moreover have "round_config R envs (rnd_now R k) config" using Ret by (auto simp: round_config_def cm)
    ultimately have "file_safe (round_config R envs) envs config cwd old d1"
      using run_file_safe [OF ready _ _ _ run] less.prems(2) by (simp add: file_safe_def out)
    then have S1: "always_safe (target cwd path) cwd (complete_file (round_config R envs) envs old) (fst (snd d1))"
      by (simp add: file_safe_def out)
    show ?thesis
    proof (cases "res1 = Returned (Ret True)")
      case True
      with run have len: "length rest1 < length events" using run_rest by blast
      have "start G R envs (Suc k) n1 rest1 d1 = (d', res)"
        using less.prems(1) start_unfold [OF Ret [unfolded cm] run] True by simp
      with less.hyps [OF len _ S1] show ?thesis by blast
    next
      case False
      with less.prems(1) start_unfold [OF Ret [unfolded cm] run] have "d' = d1" by simp
      with S1 show ?thesis by simp
    qed
  qed (use less.prems in \<open>auto simp: start.simps [of G R envs k n events d]\<close>)
qed

text \<open>C1: With the output file named on the command line, whoever looks at it, at any moment from the
  start of the process to its end, with any faults of the file system, any events, reloads, hardware
  and API server, and also when the process panics, finds what was there before, nothing, or the
  complete text of a label set that a pass makes with one of the configurations and surroundings of
  the process and some state of the manager; its names are distinct and in the namespace.\<close>

theorem output_file_never_partial:
  assumes "cli_IsSet (rnd_context R) ''output-file''"
    and "cli_String (rnd_context R) ''output-file'' = path" and "path \<noteq> []"
    and "\<forall>n. place_ok (fs_cwd (w_fs w)) path (pe_random (envs n))" and "w_seen w = []"
    and "start G R envs k n events (ms, w, s) = ((ms', w', s'), res)"
  shows "\<forall>f \<in> insert (w_fs w') (set (w_seen w')).
    let x = gget (fs_files f) (resolve_path (fs_cwd (w_fs w)) path) in
      x = gget (fs_files (w_fs w)) (resolve_path (fs_cwd (w_fs w)) path) \<or> x = None \<or>
      (\<exists>contents m perm. x = Some (contents, perm) \<and>
        pass_output (round_config R envs) envs contents m \<and> distinct (map fst m) \<and>
        (\<forall>k \<in> set (map fst m). \<exists>name. k = ''nvidia.com/'' @ name))"
proof -
  let ?cwd = "fs_cwd (w_fs w)" and ?p = "target (fs_cwd (w_fs w)) path"
  let ?old = "gget (fs_files (w_fs w)) ?p"
  have "always_safe ?p ?cwd (complete_file (round_config R envs) envs ?old) w"
    using assms(5) by (simp add: always_safe_def observed_def safe_view_def view_def complete_file_def)
  then have "always_safe ?p ?cwd (complete_file (round_config R envs) envs ?old) w'"
    using start_file_safe [where cwd = ?cwd and path = path and old = ?old, OF assms(1) _ assms(3) _ assms(6)]
      assms(2,4) by simp
  then have seen: "complete_file (round_config R envs) envs ?old (gget (fs_files f) ?p)"
    if "f \<in> insert (w_fs w') (set (w_seen w'))" for f
    using that by (auto simp: always_safe_def observed_def safe_view_def view_def)
  have names: "distinct (map fst m) \<and> (\<forall>k \<in> set (map fst m). \<exists>name. k = ''nvidia.com/'' @ name)"
    if "pass_output (round_config R envs) envs contents m" for contents m
    using pass_output_label_set [OF that]
    unfolding label_set_def gmap_ok_def labels_in_ns_def in_namespace_def has_prefix_iff set_map by simp
  let ?at = "\<lambda>f. gget (fs_files f) (resolve_path ?cwd path)"
  let ?made = "\<lambda>f. \<exists>contents m perm. ?at f = Some (contents, perm) \<and>
    pass_output (round_config R envs) envs contents m \<and> distinct (map fst m) \<and>
    (\<forall>k \<in> set (map fst m). \<exists>name. k = ''nvidia.com/'' @ name)"
  show ?thesis
    unfolding Let_def
  proof (rule ballI)
    fix f assume "f \<in> insert (w_fs w') (set (w_seen w'))"
    from seen [OF this] show "?at f = ?at (w_fs w) \<or> ?at f = None \<or> ?made f"
      unfolding complete_file_def target_def
    proof (elim disjE exE conjE)
      fix contents m perm
      assume at: "?at f = Some (contents, perm)" and out: "pass_output (round_config R envs) envs contents m"
      have "?made f" by (rule exI [of _ contents], rule exI [of _ m], rule exI [of _ perm]) (use at out names [OF out] in simp)
      then show "?at f = ?at (w_fs w) \<or> ?at f = None \<or> ?made f" by (intro disjI2)
    qed (simp_all only: simp_thms)
  qed
qed

theorem output_file_never_partial_witness:
  "list_all (\<lambda>f.
    let x = gget (fs_files f) [''out'', ''gfd''] in
      x = Some (''old'', 420) \<or> x = None \<or>
      (\<exists>contents m perm. x = Some (contents, perm) \<and>
        pass_output (round_config sample_rounds sample_pass) sample_pass contents m \<and> distinct (map fst m) \<and>
        (\<forall>k \<in> set (map fst m). \<exists>name. k = ''nvidia.com/'' @ name)))
    (w_seen (fst (snd (fst (start sample_daemon sample_rounds sample_pass 0 0 [Signal SIGHUP]
        ((NullManager, False), sample_world, None))))))"
proof -
  obtain ms' w' s' res where run: "start sample_daemon sample_rounds sample_pass 0 0 [Signal SIGHUP]
      ((NullManager, False), sample_world, None) = ((ms', w', s'), res)"
    by (metis prod.exhaust)
  have "cli_IsSet (rnd_context sample_rounds) ''output-file''"
    and "cli_String (rnd_context sample_rounds) ''output-file'' = ''/out/gfd''"
    by (simp_all add: sample_rounds_def sample_context_def)
  from output_file_never_partial [OF this _ _ _ run]
  show ?thesis
    using sample_place unfolding run list_all_iff
    by (simp add: sample_pass_def) (simp add: sample_world_def sample_target)
qed

text \<open>C30: Whatever failed before, when a run has ended, be it by a signal, an error or a panic, and no
  call of the file system fails in its clean-up, the output file is gone, unless the run was a
  one-shot run or publishes through the API server.\<close>

theorem run_end_removes_file:
  assumes "config_ready config" and "output_of config \<noteq> []"
    and "\<forall>n. place_ok (fs_cwd (w_fs w)) (output_of config) (pe_random (envs n))" and "w_seen w = []"
    and "\<not> dm_nodeFeatureAPI G" and "\<not> oneshot_of config" and "NewTimestampLabeler now config = Ret ts"
    and "run_loop G config ts envs n events (ms, w, s) = ((ms1, w1, s1), Returned r, rest, n')" and "r \<noteq> Diverge"
    and "\<forall>i \<ge> w_calls w1. dm_faults G i = None"
  shows "\<exists>w'. run G now config envs n events (ms, w, s) = ((ms1, w', s1), Returned r, rest, n') \<and>
    gget (fs_files (w_fs w')) (resolve_path (fs_cwd (w_fs w)) (output_of config)) = None"
proof -
  let ?cwd = "fs_cwd (w_fs w)"
  have place: "output_place config ?cwd envs" using assms(2,3) by (simp add: output_place_def)
  have cwd: "fs_cwd (w_fs w1) = ?cwd"
    by (rule file_safe_cwd [OF run_loop_file_safe [where C = "\<lambda>_ _. True",
        OF assms(1,7) TrueI place assms(8) file_safe_start [OF assms(4)]]])
  let ?w = "fst (removeOutputFile (dm_faults G) (output_of config) w1)"
  have "place_ok (fs_cwd (w_fs w1)) (output_of config) (pe_random (envs 0))" using assms(3) by (simp add: cwd)
  from removeOutputFile_files [OF this assms(10)] have
    "gget (fs_files (w_fs ?w)) (resolve_path ?cwd (output_of config)) = None" by (simp add: cwd target_def)
  moreover have "run G now config envs n events (ms, w, s) = ((ms1, ?w, s1), Returned r, rest, n')"
    using assms(2,5-9) by (cases r) (simp_all add: run_def run_cleanup_run [OF assms(1)])
  ultimately show ?thesis by blast
qed

theorem run_end_removes_file_witness:
  "\<exists>w'. run sample_daemon 7 sample_run_config sample_pass 0 [Signal SIGTERM]
      ((WithFallBack NullManager NullManager, False), sample_world, None) =
     (((WithFallBack NullManager NullManager, False), w', None), Returned (Ret False), [], 1) \<and>
   gget (fs_files (w_fs w')) [''out'', ''gfd''] = None"
proof -
  let ?d = "((WithFallBack NullManager NullManager, False), sample_world, None)"
  obtain w1 where "run_pass sample_daemon sample_run_config LEmpty (sample_pass 0) ?d =
      (((WithFallBack NullManager NullManager, False), w1, None), Ret ())"
    using sample_pass_publishes [OF sample_run_ready sample_output(1), of LEmpty "[]" 0 False None] by auto
  then have "passes sample_daemon sample_run_config LEmpty sample_pass 0 (Suc 0) ?d =
      Some ((WithFallBack NullManager NullManager, False), w1, None)" by simp
  from run_loop_signal [OF sample_run_ready sample_output(2) this, of SIGTERM "[]"]
  have loop: "run_loop sample_daemon sample_run_config LEmpty sample_pass 0 [Signal SIGTERM] ?d =
      (((WithFallBack NullManager NullManager, False), w1, None), Returned (Ret False), [], 1)" by simp
  have "output_of sample_run_config \<noteq> []"
    and "\<forall>n. place_ok (fs_cwd (w_fs sample_world)) (output_of sample_run_config) (pe_random (sample_pass n))"
    using sample_place by (simp_all add: sample_pass_def)
  moreover have "w_seen sample_world = []" by (simp add: sample_world_def)
  moreover have "\<not> dm_nodeFeatureAPI sample_daemon" "\<forall>i \<ge> w_calls w1. dm_faults sample_daemon i = None"
    by (simp_all add: sample_daemon_def no_faults_def)
  ultimately obtain w' where "run sample_daemon 7 sample_run_config sample_pass 0 [Signal SIGTERM] ?d =
      (((WithFallBack NullManager NullManager, False), w', None), Returned (Ret False), [], 1)"
    and "gget (fs_files (w_fs w')) (resolve_path (fs_cwd (w_fs sample_world)) (output_of sample_run_config)) = None"
    using run_end_removes_file [where now = 7, OF sample_run_ready _ _ _ _ sample_output(2,3) loop] by blast
  then show ?thesis by (intro exI [of _ w']) (simp add: sample_world_def sample_target)
qed

end
