(* ===== verification/Published_Labels.thy ===== *)
theory Published_Labels
  imports Daemon_Properties
begin

text \<open>
  The components together: which labels a node with GPUs of one model ends up with, from the
  answers of its driver to the lines of the output file.
\<close>

section \<open>What is expected of a node\<close>

text \<open>The facts about a node the labels are made of.\<close>

record gpu_facts =
  gn_machine :: string
  gn_driver :: "string \<times> string \<times> string"   \<comment> \<open>major, minor and revision, which may be empty\<close>
  gn_cuda :: "64 word \<times> 64 word"
  gn_capable :: bool
  gn_model :: string
  gn_memory :: "64 word"
  gn_compute :: "int \<times> int"
  gn_count :: nat

text \<open>The labels, the last to be merged first.\<close>

definition machine_version_labels :: "gpu_facts \<Rightarrow> labels" where
  "machine_version_labels F =
     (case gn_driver F of (drvMajor, drvMinor, drvRev) \<Rightarrow>
     [(''nvidia.com/mig.capable'', show_bool (gn_capable F)),
      (''nvidia.com/cuda.driver.major'', drvMajor), (''nvidia.com/cuda.driver.minor'', drvMinor),
      (''nvidia.com/cuda.driver.rev'', drvRev),
      (''nvidia.com/cuda.runtime.major'', show_nat (unat (fst (gn_cuda F)))),
      (''nvidia.com/cuda.runtime.minor'', show_nat (unat (snd (gn_cuda F)))),
      (''nvidia.com/gpu.machine'', replace_all CHR '' '' CHR ''-'' (gn_machine F))])"

definition gpu_labels :: "config \<Rightarrow> string \<Rightarrow> gpu_facts \<Rightarrow> labels" where
  "gpu_labels config strategy F =
     (case gn_compute F of (major, minor) \<Rightarrow>
     [(''nvidia.com/gpu.product'', replace_all CHR '' '' CHR ''-'' (gn_model F) @
        shared_suffix (Some config) ''nvidia.com/gpu''),
      (''nvidia.com/gpu.count'', show_int (int (gn_count F))),
      (''nvidia.com/gpu.replicas'', show_int (replica_count (Some config) ''nvidia.com/gpu''))] @
     (if gn_memory F = 0 then [] else [(''nvidia.com/gpu.memory'', show_nat (unat (gn_memory F)))]) @
     (if major = 0 then []
      else [(''nvidia.com/gpu.family'', getArchFamily major minor),
            (''nvidia.com/gpu.compute.major'', show_int major),
            (''nvidia.com/gpu.compute.minor'', show_int minor)]) @
     (if strategy = ''none'' then [] else [(''nvidia.com/mig.strategy'', strategy)]))"

definition vgpu_labels :: "(vgpu_device \<Rightarrow> vgpu_info) \<Rightarrow> vgpu_device list \<Rightarrow> labels" where
  "vgpu_labels info ds =
     (if ds = [] then []
      else [(''nvidia.com/vgpu.present'', ''true''),
            (''nvidia.com/vgpu.host-driver-version'', HostDriverVersion (info (last ds))),
            (''nvidia.com/vgpu.host-driver-branch'', HostDriverBranch (info (last ds)))])"

definition timestamp_labels :: "int \<Rightarrow> config \<Rightarrow> labels" where
  "timestamp_labels now config =
     (if gfd_flag config gf_NoTimestamp = Ret True then []
      else [(''nvidia.com/gfd.timestamp'', show_int now)])"

definition node_labels ::
  "int \<Rightarrow> config \<Rightarrow> string \<Rightarrow> gpu_facts \<Rightarrow> (vgpu_device \<Rightarrow> vgpu_info) \<Rightarrow> vgpu_device list \<Rightarrow> labels" where
  "node_labels now config strategy F info vgpus =
     vgpu_labels info vgpus @ gpu_labels config strategy F @ machine_version_labels F @
     timestamp_labels now config"

text \<open>What the driver answers on a node with these facts, whose GPUs are not in MIG mode.\<close>

definition driver_text :: "string \<times> string \<times> string \<Rightarrow> string" where
  "driver_text v =
     (case v of (major, minor, revision) \<Rightarrow>
        major @ ''.'' @ minor @ (if revision = [] then [] else ''.'' @ revision))"

definition no_dots :: "string \<times> string \<times> string \<Rightarrow> bool" where
  "no_dots v \<longleftrightarrow>
     (case v of (major, minor, revision) \<Rightarrow> CHR ''.'' \<notin> set major \<union> set minor \<union> set revision)"

definition gpu_node_answers ::
  "'d device_ops \<Rightarrow> ('s, 'd) manager_ops \<Rightarrow> 's \<Rightarrow> gpu_facts \<Rightarrow> 'd list \<Rightarrow> bool" where
  "gpu_node_answers D M s F ds \<longleftrightarrow>
     resource_node D M s ds (gn_model F) (\<lambda>d. gn_memory F) (\<lambda>d. gn_compute F) \<and>
     gn_model F \<noteq> [] \<and> length ds = gn_count F \<and> with_mode D True ds = [] \<and>
     (\<forall>d \<in> set ds. returns (dev_IsMigCapable D d)) \<and>
     gn_capable F = (\<exists>d \<in> set ds. dev_IsMigCapable D d = Ret True) \<and>
     no_dots (gn_driver F) \<and> mgr_GetDriverVersion M s = Ret (driver_text (gn_driver F)) \<and>
     mgr_GetCudaDriverVersion M s = Ret (gn_cuda F)"

definition machine_of :: "(string \<Rightarrow> string go) \<Rightarrow> string \<Rightarrow> string" where
  "machine_of readFile path =
     (case getMachineType readFile path of Ret t \<Rightarrow> t | _ \<Rightarrow> machineTypeUnknown)"

section \<open>The parts\<close>

lemma driver_split:
  assumes "no_dots (major, minor, revision)"
  shows "go_split CHR ''.'' (driver_text (major, minor, revision)) =
    [major, minor] @ (if revision = [] then [] else [revision])"
  using assms split_append [of "CHR ''.''" major] split_append [of "CHR ''.''" minor]
  by (simp add: no_dots_def driver_text_def split_free)

lemma version_labels_of:
  assumes "gpu_node_answers D M s F ds" and "gn_driver F = (major, minor, revision)"
  shows "newVersionLabeler M s = Ret (LLabels
    [(''nvidia.com/cuda.driver.major'', major), (''nvidia.com/cuda.driver.minor'', minor),
     (''nvidia.com/cuda.driver.rev'', revision),
     (''nvidia.com/cuda.runtime.major'', show_nat (unat (fst (gn_cuda F)))),
     (''nvidia.com/cuda.runtime.minor'', show_nat (unat (snd (gn_cuda F))))])"
proof -
  have "no_dots (major, minor, revision)" and "mgr_GetDriverVersion M s = Ret (driver_text (major, minor, revision))"
    and "mgr_GetCudaDriverVersion M s = Ret (gn_cuda F)"
    using assms by (simp_all add: gpu_node_answers_def)
  then show ?thesis
    by (cases "gn_cuda F") (simp add: newVersionLabeler_def driver_split Let_def)
qed

lemma capability_labels_of:
  assumes "gpu_node_answers D M s F ds"
  shows "newMigCapabilityLabeler D M s = Ret (LLabels [(''nvidia.com/mig.capable'', show_bool (gn_capable F))])"
proof -
  have ds: "mgr_GetDevices M s = Ret ds" "ds \<noteq> []"
    and cap: "\<forall>d \<in> set ds. returns (dev_IsMigCapable D d)"
    and F: "gn_capable F = (\<exists>d \<in> set ds. dev_IsMigCapable D d = Ret True)"
    using assms by (simp_all add: gpu_node_answers_def resource_node_def)
  have "dev_IsMigCapable D d = Ret (dev_IsMigCapable D d = Ret True)" if "d \<in> set ds" for d
    using cap that by (cases "dev_IsMigCapable D d") auto
  then have "any_capable D ds = Ret (gn_capable F)"
    unfolding F by (rule any_capable_spec)
  with ds show ?thesis by (simp add: newMigCapabilityLabeler_def)
qed

lemma machine_labels_of:
  assumes "reads_files readFile"
  shows "newMachineTypeLabeler readFile path =
    Ret (LLabels [(''nvidia.com/gpu.machine'', replace_all CHR '' '' CHR ''-'' (machine_of readFile path))])"
proof -
  have "no_crash (getMachineType readFile path)"
    using assms by (auto simp: getMachineType_def reads_files_def intro!: no_crash_gbind)
  then show ?thesis
    by (cases "getMachineType readFile path") (simp_all add: newMachineTypeLabeler_def machine_of_def)
qed

lemma timestamp_labels_of:
  assumes "NewTimestampLabeler now config = Ret ts"
  shows "labeler_ok ts" and "Labels_of ts = Ret (timestamp_labels now config)"
  using assms by (auto simp: NewTimestampLabeler_def timestamp_labels_def gmap_ok_def split: if_splits)

lemma gget_gpu_labels:
  "gget (gpu_labels config strategy F) (''nvidia.com/gpu.'' @ t) =
    gpu_value (Some config) (int (gn_count F)) (gn_model F) (gn_memory F) (gn_compute F) t"
  if "gn_model F \<noteq> []"
proof -
  have "product_value \<lparr>rl_resourceName = fullGPUResourceName, rl_config = Some config\<rparr> [gn_model F] =
      Some (replace_all CHR '' '' CHR ''-'' (gn_model F) @ shared_suffix (Some config) ''nvidia.com/gpu'')"
    using that by (simp add: product_shared fullGPUResourceName_def)
  then show ?thesis
    by (cases "gn_compute F"; cases "gn_memory F = 0"; cases "fst (gn_compute F) = 0"; cases "strategy = ''none''")
      (simp_all add: gpu_labels_def gpu_value_def base_value_def replicas_count fullGPUResourceName_def)
qed

lemma gget_gpu_labels_other:
  "\<forall>t. k \<noteq> ''nvidia.com/gpu.'' @ t \<Longrightarrow>
   gget (gpu_labels config strategy F) k =
     (if k = ''nvidia.com/mig.strategy'' \<and> strategy \<noteq> ''none'' then Some strategy else None)"
  by (cases "gn_compute F") (auto simp: gpu_labels_def)

lemma resource_labels_of:
  assumes node: "gpu_node_answers D M s F ds"
    and strategy: "fl_MigStrategy (cfg_Flags config) = Some strategy" "strategy \<in> {''none'', ''single''}"
  shows "\<exists>l m. NewResourceLabeler D M s os config = Ret l \<and> labeler_ok l \<and> Labels_of l = Ret m \<and>
    gget m = gget (gpu_labels config strategy F)"
proof -
  have rn: "resource_node D M s ds (gn_model F) (\<lambda>d. gn_memory F) (\<lambda>d. gn_compute F)"
    and model: "gn_model F \<noteq> []" and cnt: "length ds = gn_count F" and full: "with_mode D True ds = []"
    using node by (simp_all add: gpu_node_answers_def)
  obtain l m where l: "NewResourceLabeler D M s os config = Ret l" "labeler_ok l" "Labels_of l = Ret m"
    and gpu: "\<forall>t. gget m (''nvidia.com/gpu.'' @ t) = one_model_value config (with_mode D True ds)
      (with_mode D False ds) (gn_model F) (\<lambda>d. gn_memory F) (\<lambda>d. gn_compute F) t"
    and rest: "\<forall>k. (\<forall>t. k \<noteq> ''nvidia.com/gpu.'' @ t) \<longrightarrow>
      gget m k = (if k = ''nvidia.com/mig.strategy'' \<and> strategy \<noteq> ''none'' then Some strategy else None)"
    using gpu_only_labels [OF rn strategy(1)] strategy(2) full by blast
  have "length (with_mode D False ds) = gn_count F \<and> with_mode D False ds \<noteq> []"
    using mode_split [OF rn] cnt full by simp
  then have "one_model_value config (with_mode D True ds) (with_mode D False ds) (gn_model F)
      (\<lambda>d. gn_memory F) (\<lambda>d. gn_compute F) =
    gpu_value (Some config) (int (gn_count F)) (gn_model F) (gn_memory F) (gn_compute F)"
    by (simp add: one_model_value_def full)
  note gpu = gpu [unfolded this]
  have "gget m k = gget (gpu_labels config strategy F) k" for k
  proof (cases "\<exists>t. k = ''nvidia.com/gpu.'' @ t")
    case True
    then obtain t where t: "k = ''nvidia.com/gpu.'' @ t" by blast
    show ?thesis unfolding t gget_gpu_labels [OF model] by (rule gpu [rule_format])
  next
    case False
    then have "\<forall>t. k \<noteq> ''nvidia.com/gpu.'' @ t" by blast
    with rest show ?thesis using gget_gpu_labels_other by simp
  qed
  then have "gget m = gget (gpu_labels config strategy F)" by (rule ext)
  with l show ?thesis by blast
qed


text \<open>Merging gives the labels of the last first.\<close>

lemma gget_append: "gget (xs @ ys) = gget ys ++ gget xs"
  by (simp add: map_of_append)

lemma last_wins_append:
  "last_wins [a, b] = gget (b @ a)"
  "last_wins [a, b, c, d] = gget (d @ c @ b @ a)"
  by (simp_all add: last_wins_def)

lemma body_labels_of:
  assumes node: "gpu_node_answers D M s F ds"
    and strategy: "fl_MigStrategy (cfg_Flags config) = Some strategy" "strategy \<in> {''none'', ''single''}"
    and path: "gfd_flag config gf_MachineTypeFile = Ret mfile" "reads_files readFile"
    and machine: "gn_machine F = machine_of readFile mfile"
  shows "\<exists>l m. nvml_labeler_body readFile D M os config s = Ret l \<and> labeler_ok l \<and> Labels_of l = Ret m \<and>
    gget m = gget (gpu_labels config strategy F @ machine_version_labels F)"
proof -
  obtain major minor revision where v: "gn_driver F = (major, minor, revision)" by (cases "gn_driver F")
  have ds: "mgr_GetDevices M s = Ret ds" "ds \<noteq> []"
    using node by (simp_all add: gpu_node_answers_def resource_node_def)
  obtain r rm where r: "NewResourceLabeler D M s os config = Ret r" "labeler_ok r" "Labels_of r = Ret rm"
    and rm: "gget rm = gget (gpu_labels config strategy F)"
    using resource_labels_of [OF node strategy] by blast
  let ?mach = "[(''nvidia.com/gpu.machine'', replace_all CHR '' '' CHR ''-'' (machine_of readFile mfile))]"
  let ?ver = "[(''nvidia.com/cuda.driver.major'', major), (''nvidia.com/cuda.driver.minor'', minor),
     (''nvidia.com/cuda.driver.rev'', revision),
     (''nvidia.com/cuda.runtime.major'', show_nat (unat (fst (gn_cuda F)))),
     (''nvidia.com/cuda.runtime.minor'', show_nat (unat (snd (gn_cuda F))))]"
  let ?cap = "[(''nvidia.com/mig.capable'', show_bool (gn_capable F))]"
  let ?l = "Merge [LLabels ?mach, LLabels ?ver, LLabels ?cap, r]"
  have ok: "list_all labeler_ok [LLabels ?mach, LLabels ?ver, LLabels ?cap, r]"
    using r(2) by (simp add: gmap_ok_def)
  obtain m where m: "Labels_of ?l = Ret m" "gget m = last_wins [?mach, ?ver, ?cap, rm]"
    using Labels_Merge [OF _ ok, of "[?mach, ?ver, ?cap, rm]"] r(3) by auto
  have "nvml_labeler_body readFile D M os config s = Ret ?l"
    using ds path r(1) machine_labels_of [OF path(2), of mfile] version_labels_of [OF node v]
      capability_labels_of [OF node]
    by (simp add: nvml_labeler_body_def)
  moreover have "labeler_ok ?l" using ok by (simp add: Merge_def)
  moreover have "machine_version_labels F = ?cap @ ?ver @ ?mach"
    by (simp add: machine_version_labels_def v machine)
  then have "gget m = gget (gpu_labels config strategy F @ machine_version_labels F)"
    unfolding m(2) last_wins_append by (simp only: gget_append rm append_assoc)
  ultimately show ?thesis using m(1) by blast
qed


text \<open>A pass over such a node.\<close>

lemma NewLabelers_of:
  assumes init: "mgr_Init (sys_managers S) ms = (st, Ret ())"
    and body: "nvml_labeler_body readFile (sys_devices S) (sys_managers S) os config st = Ret l"
  shows "\<exists>ms'. NewLabelers readFile (sys_devices S) (sys_managers S) os vgpu config ms =
    (ms', Ret (Merge [l, NewVGPULabeler vgpu]))"
proof -
  have "no_crash (snd (mgr_Shutdown (sys_managers S) st))" by (rule sysmgr.Shutdown_no_crash) simp
  from NewNVMLLabeler_shutdown [OF init body _ this] show ?thesis
    by (simp add: NewLabelers_def)
qed

lemma gpu_node_pass:
  assumes ts: "NewTimestampLabeler now config = Ret ts"
    and init: "mgr_Init (sys_managers (pe_sys env)) ms = (st, Ret ())"
    and node: "gpu_node_answers (sys_devices (pe_sys env)) (sys_managers (pe_sys env)) st F ds"
    and strategy: "fl_MigStrategy (cfg_Flags config) = Some strategy" "strategy \<in> {''none'', ''single''}"
    and path: "gfd_flag config gf_MachineTypeFile = Ret mfile" "reads_files (pe_ReadFile env)"
    and machine: "gn_machine F = machine_of (pe_ReadFile env) mfile"
    and vgpus: "vgpu_Devices (pe_vgpu env) = Ret vgpus" "\<forall>d \<in> set vgpus. GetInfo d = Ret (info d)"
  shows "\<exists>ms' m. pass_labels config ts env ms = (ms', Ret m) \<and> gmap_ok m \<and>
    gget m = gget (node_labels now config strategy F info vgpus)"
proof -
  obtain l lm where l: "nvml_labeler_body (pe_ReadFile env) (sys_devices (pe_sys env))
      (sys_managers (pe_sys env)) (pe_orders env) config st = Ret l" "labeler_ok l" "Labels_of l = Ret lm"
    and lm: "gget lm = gget (gpu_labels config strategy F @ machine_version_labels F)"
    using body_labels_of [OF node strategy path machine] by blast
  obtain ms' where new: "NewLabelers (pe_ReadFile env) (sys_devices (pe_sys env)) (sys_managers (pe_sys env))
      (pe_orders env) (pe_vgpu env) config ms = (ms', Ret (Merge [l, NewVGPULabeler (pe_vgpu env)]))"
    using NewLabelers_of [OF init l(1)] by blast
  obtain vm where vm: "Labels_of (NewVGPULabeler (pe_vgpu env)) = Ret vm"
    and "gget vm = gget (vgpu_labels info vgpus)"
    using vgpu_labels_map [OF vgpus] by (auto simp: vgpu_labels_def fun_upd_twist)
  note vv = this(2)
  let ?n = "Merge [l, NewVGPULabeler (pe_vgpu env)]"
  have ok: "list_all labeler_ok [l, NewVGPULabeler (pe_vgpu env)]" using l(2) by (simp add: NewVGPULabeler_def)
  obtain nm where nm: "Labels_of ?n = Ret nm" "gget nm = gget (vm @ lm)"
    using Labels_Merge [OF _ ok, of "[lm, vm]"] l(3) vm by (auto simp: last_wins_append)
  have "labeler_ok ?n" using ok by (simp add: Merge_def)
  with timestamp_labels_of [OF ts] have ok': "list_all labeler_ok [ts, ?n]" by simp
  obtain m where m: "Labels_of (Merge [ts, ?n]) = Ret m" "gmap_ok m"
    "gget m = gget (nm @ timestamp_labels now config)"
    using Labels_Merge [OF _ ok', of "[timestamp_labels now config, nm]"] nm(1) timestamp_labels_of [OF ts]
    by (auto simp: last_wins_append)
  have "gget m = gget (node_labels now config strategy F info vgpus)"
    unfolding m(3) node_labels_def by (simp only: gget_append nm(2) vv lm append_assoc map_add_assoc)
  moreover have "pass_labels config ts env ms = (ms', Ret m)"
    using new m(1) by (simp add: pass_labels_def)
  ultimately show ?thesis using m(2) by blast
qed


section \<open>Properties\<close>

text \<open>C3: A one-shot process on a machine without faults, whose GPUs are of one model and not in MIG
  mode, ends normally and leaves an output file that reads back as the labels of the node and no
  others: time stamp, machine, driver and CUDA version, MIG capability, the GPUs with their number,
  sharing, memory and architecture, the strategy unless it is none, and the vGPUs of the PCI bus.\<close>

theorem oneshot_file_of_node:
  assumes round: "start_round (rnd_source R k) (rnd_marshal R) (rnd_context R) gfd_flag_names (pe_sys (envs n)) =
      Ret (config, mgr)"
    and G: "\<not> dm_nodeFeatureAPI G" "dm_faults G = no_faults" and oneshot: "oneshot_of config"
    and place: "output_of config \<noteq> []" "place_ok cwd (output_of config) (pe_random (envs n))"
      "writable cwd (output_of config) (pe_random (envs n)) (w_fs w)"
    and init: "mgr_Init (sys_managers (pe_sys (envs n))) (mgr, snd ms) = (st, Ret ())"
    and node: "gpu_node_answers (sys_devices (pe_sys (envs n))) (sys_managers (pe_sys (envs n))) st F ds"
    and strategy: "fl_MigStrategy (cfg_Flags config) = Some strategy" "strategy \<in> {''none'', ''single''}"
    and path: "gfd_flag config gf_MachineTypeFile = Ret mfile" "reads_files (pe_ReadFile (envs n))"
    and machine: "gn_machine F = machine_of (pe_ReadFile (envs n)) mfile"
    and vgpus: "vgpu_Devices (pe_vgpu (envs n)) = Ret vgpus" "\<forall>d \<in> set vgpus. GetInfo d = Ret (info d)"
    and lines: "printable (node_labels (rnd_now R k) config strategy F info vgpus)"
  shows "\<exists>ms' w' contents.
    start G R envs k n events (ms, w, s) = ((ms', w', s), Returned (Ret False)) \<and>
    gget (fs_files (w_fs w')) (resolve_path cwd (output_of config)) = Some (contents, 420) \<and>
    gget (parse_features contents) = gget (node_labels (rnd_now R k) config strategy F info vgpus)"
proof -
  have ready: "config_ready config" by (rule start_round_ready [OF round])
  obtain ts where ts: "NewTimestampLabeler (rnd_now R k) config = Ret ts" using ready_flags(4) [OF ready] by blast
  obtain ms' m where m: "pass_labels config ts (envs n) (mgr, snd ms) = (ms', Ret m)" "gmap_ok m"
    and spec: "gget m = gget (node_labels (rnd_now R k) config strategy F info vgpus)"
    using gpu_node_pass [OF ts init node strategy path machine vgpus] by blast
  obtain w' where run: "run G (rnd_now R k) config envs n events ((mgr, snd ms), w, s) =
      ((ms', w', s), Returned (Ret False), events, Suc n)"
    and out: "gget (fs_files (w_fs w')) (resolve_path cwd (output_of config)) =
      Some (render (pe_write_order (envs n)) m, 420)"
    using oneshot_publishes [where envs = envs and n = n, OF ready oneshot G ts m(1) place] by blast
  have "printable m"
    using lines m(2) spec unfolding printable_def gmap_ok_def
    by (metis (no_types, lifting) map_of_SomeD map_of_is_SomeI case_prodI2)
  then have "gget (parse_features (render (pe_write_order (envs n)) m)) =
      gget (node_labels (rnd_now R k) config strategy F info vgpus)"
    using parse_render [OF m(2)] spec by simp
  moreover have "start G R envs k n events (ms, w, s) = ((ms', w', s), Returned (Ret False))"
    using start_unfold [where envs = envs and n = n and d = "(ms, w, s)", OF round, simplified, OF run] by simp
  ultimately show ?thesis using out by blast
qed


text \<open>Two GPUs of one model, one of them able to enter MIG mode, and a one-shot run.\<close>

definition gpu_sys :: "nat sys" where
  "gpu_sys = sample_sys\<lparr>sys_nvml := sample_nvml\<lparr>nvlib_GetDevices := Inr [0, 1],
     nvlib_dev_IsMigEnabled := (\<lambda>h. Inr False), nvlib_dev_IsMigCapable := (\<lambda>h. Inr (h = 1)),
     nv_dev_GetName := (\<lambda>h. (''A100 SXM4'', 0)), nv_dev_GetMemoryTotal := (\<lambda>h. (42949672960, 0)),
     nv_SystemGetDriverVersion := (''535.104.05'', 0)\<rparr>\<rparr>"

definition gpu_pass :: "nat \<Rightarrow> nat pass_env" where
  "gpu_pass n = (sample_pass n)\<lparr>pe_sys := gpu_sys\<rparr>"

definition oneshot_rounds :: rounds where
  "oneshot_rounds = sample_rounds\<lparr>rnd_context := sample_context\<lparr>cli_Bool := (\<lambda>n. n = ''oneshot'')\<rparr>\<rparr>"

definition oneshot_loaded :: config where
  "oneshot_loaded = disableResourceRenamingInConfig
     (resolved_config (sample_context\<lparr>cli_Bool := (\<lambda>n. n = ''oneshot'')\<rparr>) default_config)"

definition gpu_example :: gpu_facts where
  "gpu_example = \<lparr>gn_machine = ''unknown'', gn_driver = (''535'', ''104'', ''05''), gn_cuda = (12, 10),
     gn_capable = True, gn_model = ''A100 SXM4'', gn_memory = 40960, gn_compute = (8, 0), gn_count = 2\<rparr>"

lemma oneshot_round:
  "start_round (rnd_source oneshot_rounds k) (rnd_marshal oneshot_rounds) (rnd_context oneshot_rounds)
     gfd_flag_names (pe_sys (gpu_pass n)) = Ret (oneshot_loaded, WithFallBack NvmlManager NullManager)"
  by (simp add: start_round_def loadConfig_resolved oneshot_rounds_def sample_rounds_def sample_context_def
      gpu_pass_def gpu_sys_def sample_pass_def sample_sys_def oneshot_loaded_def Let_def NewManager_def
      WithConfig_def getManager_def NewNVMLManager_def NewFallbackToNullOnInitError_def NewNullManager_def
      resolved_config_def resolve_def default_config_def empty_flags_def)

lemma oneshot_loaded_flags:
  "fl_MigStrategy (cfg_Flags oneshot_loaded) = Some ''none''"
  "fl_GFD (cfg_Flags oneshot_loaded) = Some
    \<lparr>gf_Oneshot = Some True, gf_NoTimestamp = Some False, gf_SleepInterval = Some 60000000000,
     gf_OutputFile = Some ''/out/gfd'', gf_MachineTypeFile = Some []\<rparr>"
  by (simp_all add: oneshot_loaded_def resolved_config_def Let_def resolve_def default_config_def
      empty_flags_def file_gfd_def empty_gfd_flags_def sample_context_def)

lemma gpu_example_driver:
  "gpu_node_answers (sys_devices gpu_sys) (sys_managers gpu_sys) (WithFallBack NvmlManager NullManager, False)
     gpu_example [NvmlDevice 0, NvmlDevice 1]"
  by (simp add: gpu_node_answers_def resource_node_def modes_known_def gpu_answers_def with_mode_def
      no_dots_def driver_text_def sys_devices_def sys_managers_def gpu_sys_def gpu_example_def sample_defs
      nv_ret_def bytes_to_MB_def nvml_cuda_version_def)

lemma digit_chars:
  "digit_char 0 = CHR ''0''" "digit_char (Suc 0) = CHR ''1''" "digit_char 2 = CHR ''2''"
  "digit_char 4 = CHR ''4''" "digit_char 6 = CHR ''6''" "digit_char 7 = CHR ''7''"
  "digit_char 8 = CHR ''8''" "digit_char 9 = CHR ''9''"
  by code_simp+

lemma gpu_example_numbers:
  "show_int 0 = ''0''" "show_int 1 = ''1''" "show_int 2 = ''2''" "show_int 7 = ''7''" "show_int 8 = ''8''"
  "show_nat 10 = ''10''" "show_nat 12 = ''12''" "show_nat 40960 = ''40960''"
  by (simp_all add: show_int_def show_nat.simps digit_chars)

lemma gpu_example_labels:
  "node_labels 7 oneshot_loaded ''none'' gpu_example info [] =
    [(''nvidia.com/gpu.product'', ''A100-SXM4''), (''nvidia.com/gpu.count'', ''2''),
     (''nvidia.com/gpu.replicas'', ''1''), (''nvidia.com/gpu.memory'', ''40960''),
     (''nvidia.com/gpu.family'', ''ampere''), (''nvidia.com/gpu.compute.major'', ''8''),
     (''nvidia.com/gpu.compute.minor'', ''0''), (''nvidia.com/mig.capable'', ''true''),
     (''nvidia.com/cuda.driver.major'', ''535''), (''nvidia.com/cuda.driver.minor'', ''104''),
     (''nvidia.com/cuda.driver.rev'', ''05''), (''nvidia.com/cuda.runtime.major'', ''12''),
     (''nvidia.com/cuda.runtime.minor'', ''10''), (''nvidia.com/gpu.machine'', ''unknown''),
     (''nvidia.com/gfd.timestamp'', ''7'')]"
proof -
  have share: "replica_count (Some oneshot_loaded) ''nvidia.com/gpu'' = 1"
    "shared_suffix (Some oneshot_loaded) ''nvidia.com/gpu'' = []"
    by (simp_all add: replica_count_def shared_suffix_def shared_as_def oneshot_loaded_def resolved_config_def
        default_config_def Let_def disableResourceRenamingInConfig_def)
  have names: "replace_all CHR '' '' CHR ''-'' ''A100 SXM4'' = ''A100-SXM4''"
    "replace_all CHR '' '' CHR ''-'' ''unknown'' = ''unknown''" by code_simp+
  show ?thesis
    by (simp add: node_labels_def vgpu_labels_def gpu_labels_def machine_version_labels_def timestamp_labels_def
        gpu_example_def share names gpu_example_numbers gfd_flag_def oneshot_loaded_flags show_bool_def getArchFamily_def)
qed

theorem oneshot_file_of_node_witness:
  "\<exists>d contents. start sample_daemon oneshot_rounds gpu_pass 0 0 [Timeout]
      ((NullManager, False), sample_world, None) = (d, Returned (Ret False)) \<and>
    gget (fs_files (w_fs (fst (snd d)))) [''out'', ''gfd''] = Some (contents, 420) \<and>
    gget (parse_features contents) ''nvidia.com/gpu.product'' = Some ''A100-SXM4'' \<and>
    gget (parse_features contents) ''nvidia.com/gpu.count'' = Some ''2'' \<and>
    gget (parse_features contents) ''nvidia.com/gpu.memory'' = Some ''40960'' \<and>
    gget (parse_features contents) ''nvidia.com/gpu.family'' = Some ''ampere'' \<and>
    gget (parse_features contents) ''nvidia.com/cuda.driver.major'' = Some ''535'' \<and>
    gget (parse_features contents) ''nvidia.com/mig.strategy'' = None"
proof -
  let ?info = "\<lambda>d. \<lparr>HostDriverVersion = [], HostDriverBranch = []\<rparr>"
  let ?L = "node_labels 7 oneshot_loaded ''none'' gpu_example ?info []"
  have lines: "printable ?L" by (simp add: gpu_example_labels printable_def)
  have vals: "gget ?L ''nvidia.com/gpu.product'' = Some ''A100-SXM4''"
    "gget ?L ''nvidia.com/gpu.count'' = Some ''2''" "gget ?L ''nvidia.com/gpu.memory'' = Some ''40960''"
    "gget ?L ''nvidia.com/gpu.family'' = Some ''ampere''"
    "gget ?L ''nvidia.com/cuda.driver.major'' = Some ''535''" "gget ?L ''nvidia.com/mig.strategy'' = None"
    by (simp_all add: gpu_example_labels)
  have G: "\<not> dm_nodeFeatureAPI sample_daemon" "dm_faults sample_daemon = no_faults"
    and oneshot: "oneshot_of oneshot_loaded" and out: "output_of oneshot_loaded = ''/out/gfd''"
    and path: "gfd_flag oneshot_loaded gf_MachineTypeFile = Ret []"
    and now: "rnd_now oneshot_rounds 0 = 7"
    by (simp_all add: sample_daemon_def oneshot_of_def output_of_def gfd_flag_def oneshot_loaded_flags
        oneshot_rounds_def sample_rounds_def)
  have place: "output_of oneshot_loaded \<noteq> []"
    "place_ok [''app''] (output_of oneshot_loaded) (pe_random (gpu_pass 0))"
    "writable [''app''] (output_of oneshot_loaded) (pe_random (gpu_pass 0)) (w_fs sample_world)"
    using sample_place sample_writable by (simp_all add: out gpu_pass_def sample_pass_def sample_world_def)
  have init: "mgr_Init (sys_managers (pe_sys (gpu_pass 0)))
      (WithFallBack NvmlManager NullManager, snd (NullManager, False)) =
    ((WithFallBack NvmlManager NullManager, False), Ret ())"
    by (simp add: sys_managers_def gpu_pass_def gpu_sys_def sample_defs nv_ret_def)
  have node: "gpu_node_answers (sys_devices (pe_sys (gpu_pass 0))) (sys_managers (pe_sys (gpu_pass 0)))
      (WithFallBack NvmlManager NullManager, False) gpu_example [NvmlDevice 0, NvmlDevice 1]"
    using gpu_example_driver by (simp add: gpu_pass_def)
  have files: "reads_files (pe_ReadFile (gpu_pass 0))"
    and machine: "gn_machine gpu_example = machine_of (pe_ReadFile (gpu_pass 0)) []"
    and vgpus: "vgpu_Devices (pe_vgpu (gpu_pass 0)) = Ret []"
    by (simp_all add: gpu_pass_def sample_pass_def reads_files_def gpu_example_def machine_of_def getMachineType_def
        machineTypeUnknown_def vgpu_Devices_def pe_vgpu_def NewVGPULib_def NewNvidiaPCILib_def
        NvidiaPCILib_Devices_def no_pci_def map_filter_def)
  obtain ms' w' contents where run: "start sample_daemon oneshot_rounds gpu_pass 0 0 [Timeout]
      ((NullManager, False), sample_world, None) = ((ms', w', None), Returned (Ret False))"
    and found: "gget (fs_files (w_fs w')) (resolve_path [''app''] ''/out/gfd'') = Some (contents, 420)"
    and read: "gget (parse_features contents) = gget ?L"
    using oneshot_file_of_node [where envs = gpu_pass and k = 0 and n = 0 and w = sample_world
          and s = None and events = "[Timeout]" and info = ?info, OF oneshot_round G oneshot place init node oneshot_loaded_flags(1) _ path files machine vgpus]
      lines unfolding now out by simp blast
  show ?thesis
    using run found unfolding sample_target by (intro exI [of _ "(ms', w', None)"] exI [of _ contents]) (simp add: read vals)
qed

end
