(* ===== verification/Api_Mode.thy ===== *)
theory Api_Mode
  imports Daemon_Properties
begin

text \<open>
  The daemon that publishes through the API server instead of a file: what the \<^verbatim>\<open>NodeFeature\<close>
  object of its node holds, and that no file is touched.
\<close>

section \<open>What the API server holds\<close>

definition api_published ::
  "(int \<Rightarrow> config \<Rightarrow> bool) \<Rightarrow> (nat \<Rightarrow> 'h pass_env) \<Rightarrow> ('f, 's) k8s_env \<Rightarrow> ('f, 's) nfd_client \<Rightarrow> 's \<Rightarrow> bool" where
  "api_published C envs E cli s \<longleftrightarrow>
     (\<exists>contents m nfr. pass_output C envs contents m \<and>
        nfd_Get cli (GetKubernetesNamespace E) (''nvidia-features-for-'' @ NodeName E) s = NfFound nfr \<and>
        gget (nf_SpecLabels nfr) = gget m)"

definition good_client :: "('f, 's) k8s_env \<Rightarrow> ('f, 's) nfd_client \<Rightarrow> bool" where
  "good_client E cli \<longleftrightarrow> GetKubernetesClient E = Ret cli \<and> stores_objects cli \<and> answers_by_name cli"

lemma api_pass:
  assumes api: "dm_nodeFeatureAPI G" and cli: "good_client (dm_k8s G) cli"
    and C: "C now config" and ts: "NewTimestampLabeler now config = Ret ts"
    and pass: "run_pass G config ts (envs n) (ms, w, s) = ((ms', w', s'), r)"
  shows "w' = w \<and> (r = Ret () \<longrightarrow> api_published C envs (dm_k8s G) cli s')"
proof -
  obtain ms1 l where l: "pass_labels config ts (envs n) ms = (ms1, l)" by (cases "pass_labels config ts (envs n) ms")
  show ?thesis
  proof (cases "\<exists>m path. l = Ret m \<and> gfd_flag config gf_OutputFile = Ret path")
    case True
    then obtain m path where m: "l = Ret m" and path: "gfd_flag config gf_OutputFile = Ret path" by blast
    obtain s1 r1 where u: "UpdateNodeFeatureObject (dm_k8s G) m s = (s1, r1)"
      by (cases "UpdateNodeFeatureObject (dm_k8s G) m s")
    have res: "w' = w" "s' = s1" "r = r1"
      using pass l u m path api by (simp_all add: run_pass_def with_manager_def with_output_def Output_def)
    have "pass_output C envs (render (pe_write_order (envs n)) m) m"
      unfolding pass_output_def using C ts l m by blast
    moreover have "\<exists>nfr. object_of (dm_k8s G) cli s1 = NfFound nfr \<and> carries (dm_k8s G) m nfr"
      if "r1 = Ret ()"
      using UpdateNodeFeatureObject_stored [of "dm_k8s G" cli m s s1] cli u that by (auto simp: good_client_def)
    ultimately show ?thesis
      using res by (auto simp: api_published_def object_of_def carries_def gmap_eq_gget nodeFeatureVendorPrefix_def)
  next
    case False
    with pass l show ?thesis
      by (cases l; cases "gfd_flag config gf_OutputFile")
        (auto simp: run_pass_def with_manager_def)
  qed
qed

lemma api_loop:
  assumes api: "dm_nodeFeatureAPI G" and cli: "good_client (dm_k8s G) cli"
    and C: "C now config" and ts: "NewTimestampLabeler now config = Ret ts"
  shows "run_loop G config ts envs n events (ms, w, s) = ((ms', w', s'), res, rest, n') \<Longrightarrow>
    w' = w \<and> (res = Waiting \<or> (\<exists>b. res = Returned (Ret b)) \<longrightarrow> api_published C envs (dm_k8s G) cli s')"
proof (induction events arbitrary: n ms w s)
  case Nil
  obtain ms1 w1 s1 r where p: "run_pass G config ts (envs n) (ms, w, s) = ((ms1, w1, s1), r)"
    by (metis prod.exhaust)
  from api_pass [where envs = envs and C = C, OF api cli C ts p] Nil p show ?case
    by (subst (asm) run_loop.simps) (cases r; auto split: bool.splits go.splits)
next
  case (Cons ev events)
  obtain ms1 w1 s1 r where p: "run_pass G config ts (envs n) (ms, w, s) = ((ms1, w1, s1), r)"
    by (metis prod.exhaust)
  from api_pass [where envs = envs and C = C, OF api cli C ts p] Cons.prems p Cons.IH [of "Suc n" ms1 w1 s1]
  show ?case
    by (subst (asm) run_loop.simps) (cases r; auto split: bool.splits go.splits event.splits)
qed

lemma api_run:
  assumes api: "dm_nodeFeatureAPI G" and cli: "good_client (dm_k8s G) cli" and C: "C now config"
    and run: "run G now config envs n events (ms, w, s) = ((ms', w', s'), res, rest, n')"
  shows "w' = w \<and> (res = Waiting \<or> (\<exists>b. res = Returned (Ret b)) \<longrightarrow> api_published C envs (dm_k8s G) cli s')"
proof (cases "NewTimestampLabeler now config")
  case (Ret ts)
  obtain ms1 w1 s1 res1 rest1 n1 where l: "run_loop G config ts envs n events (ms, w, s) = ((ms1, w1, s1), res1, rest1, n1)"
    by (metis prod.exhaust)
  from api_loop [where C = C, OF api cli C Ret l] l Ret run api show ?thesis
    by (auto simp: run_def run_cleanup_def split: run_result.splits go.splits)
qed (use run api in \<open>auto simp: run_def run_cleanup_def\<close>)

lemma api_start:
  assumes api: "dm_nodeFeatureAPI G" and cli: "good_client (dm_k8s G) cli"
  shows "start G R envs k n events (ms, w, s) = ((ms', w', s'), res) \<Longrightarrow>
    w' = w \<and> (res = Waiting \<or> res = Returned (Ret False) \<longrightarrow>
      api_published (round_config R envs) envs (dm_k8s G) cli s')"
proof (induction "length events" arbitrary: k n events ms w s rule: less_induct)
  case less
  show ?case
  proof (cases "start_round (rnd_source R k) (rnd_marshal R) (rnd_context R) gfd_flag_names (pe_sys (envs n))")
    case (Ret cm)
    obtain config m where cm: "cm = (config, m)" by (cases cm)
    obtain ms1 w1 s1 res1 rest1 n1 where run:
      "run G (rnd_now R k) config envs n events ((m, snd ms), w, s) = ((ms1, w1, s1), res1, rest1, n1)"
      by (metis prod.exhaust)
    have "round_config R envs (rnd_now R k) config" using Ret by (auto simp: round_config_def cm)
    note one = api_run [where C = "round_config R envs", OF api cli this run]
    note step = start_unfold [where envs = envs and n = n and d = "(ms, w, s)", OF Ret [unfolded cm], simplified, OF run]
    show ?thesis
    proof (cases "res1 = Returned (Ret True)")
      case True
      with run have len: "length rest1 < length events" using run_rest by blast
      have "start G R envs (Suc k) n1 rest1 (ms1, w1, s1) = ((ms', w', s'), res)"
        using less.prems step True by simp
      from less.hyps [OF len this] one show ?thesis by simp
    next
      case False
      with less.prems step one show ?thesis by auto
    qed
  qed (use less.prems in \<open>auto simp: start.simps [of G R envs k n events "(ms, w, s)"]\<close>)
qed

section \<open>Properties\<close>

text \<open>C5: A daemon that publishes through the API server, and has a client of a server that keeps what it
  accepts, never touches a file, whatever else happens from its start to its end; and whenever it
  sleeps, or has ended normally, the object of its node holds exactly the labels of one of its
  passes.\<close>

theorem api_mode_publishes:
  assumes "dm_nodeFeatureAPI G"
    and "GetKubernetesClient (dm_k8s G) = Ret cli" and "stores_objects cli" and "answers_by_name cli"
    and "start G R envs k n events (ms, w, s) = ((ms', w', s'), res)"
  shows "w' = w \<and>
    (res = Waiting \<or> res = Returned (Ret False) \<longrightarrow>
      (\<exists>contents m nfr. pass_output (round_config R envs) envs contents m \<and>
        nfd_Get cli (GetKubernetesNamespace (dm_k8s G))
          (''nvidia-features-for-'' @ env_getenv (dm_k8s G) ''NODE_NAME'') s' = NfFound nfr \<and>
        gget (nf_SpecLabels nfr) = gget m))"
  using api_start [of G cli, OF assms(1) _ assms(5)] assms(2-4)
  by (simp add: good_client_def api_published_def NodeName_def)


text \<open>The daemon of the examples in that mode, asleep after its first pass.\<close>

lemma api_daemon_waits:
  "\<exists>d. start api_daemon sample_rounds sample_pass 0 0 [] sample_state = (d, Waiting)"
proof -
  let ?M = "WithFallBack NullManager NullManager" and ?ts = "LLabels [(''nvidia.com/gfd.timestamp'', show_int 7)]"
  obtain s where "UpdateNodeFeatureObject sample_env
      (gset_all [(''nvidia.com/gfd.timestamp'', show_int 7)] []) None = (s, Ret ())"
    by (rule api_daemon_object)
  from run_asleep [where envs = sample_pass and n = 0 and now = 7, OF start_round_ready [OF sample_round]
      sample_loaded_flags(1,3) api_daemon_pass [OF this]]
  show ?thesis
    using start_unfold [where G = api_daemon and envs = sample_pass and n = 0 and d = sample_state and events = "[]",
        OF sample_round [of 0 0]]
    by (auto simp: sample_state_def sample_rounds_def)
qed

theorem api_mode_publishes_witness:
  "\<exists>ms' s'. start api_daemon sample_rounds sample_pass 0 0 [] sample_state = ((ms', sample_world, s'), Waiting) \<and>
    (\<exists>contents m nfr. pass_output (round_config sample_rounds sample_pass) sample_pass contents m \<and>
      nfd_Get sample_client ''default'' ''nvidia-features-for-node1'' s' = NfFound nfr \<and>
      gget (nf_SpecLabels nfr) = gget m)"
proof -
  obtain ms' w' s' where run: "start api_daemon sample_rounds sample_pass 0 0 []
      ((NullManager, False), sample_world, None) = ((ms', w', s'), Waiting)"
    using api_daemon_waits by (auto simp: sample_state_def)
  note k8s = api_daemon_simps
  have names: "GetKubernetesNamespace sample_env = ''default''"
    "''nvidia-features-for-'' @ env_getenv sample_env ''NODE_NAME'' = ''nvidia-features-for-node1''"
    by (simp_all add: GetKubernetesNamespace_def sample_env_def)
  from api_mode_publishes [OF k8s(1) _ sample_client_laws(2,3) run, unfolded k8s(2) names, OF sample_client_laws(1)]
  show ?thesis using run by (auto simp: sample_state_def)
qed

end
