(* ===== verification/Spec2Isabelle.thy ===== *)
theory Spec2Isabelle
  imports Published_Labels Api_Mode
begin

text \<open>
  \<^bold>\<open>GPU Feature Discovery\<close> labels a Kubernetes node with the properties of its NVIDIA GPUs.  This
  development models the Go program under \<^verbatim>\<open>src/cmd\<close> and \<^verbatim>\<open>src/internal\<close> and proves it correct.

  \<^bold>\<open>The program.\<close>  \<^verbatim>\<open>main\<close> (\<^verbatim>\<open>cmd/gpu-feature-discovery/main.go\<close>) declares the flags and, once the
  command line is parsed, calls \<^verbatim>\<open>start\<close>, which loads the configuration, chooses a resource manager
  and calls \<^verbatim>\<open>run\<close>, which repeats a pass until a signal arrives: it builds the
  labelers of the node (\<^verbatim>\<open>internal/lm\<close>), generates the labels and publishes them as a file or as a
  \<^verbatim>\<open>NodeFeature\<close> object, then sleeps.  \<^verbatim>\<open>SIGHUP\<close> starts over with a fresh configuration.  The
  labelers ask a manager (\<^verbatim>\<open>internal/resource\<close>: NVML, CUDA on Tegra, a null manager, a wrapper that
  falls back to it) for the devices, \<^verbatim>\<open>internal/mig\<close> for their separation by MIG mode, and
  \<^verbatim>\<open>internal/vgpu\<close> for the virtual GPUs found in PCI configuration space.

  \<^bold>\<open>Outcomes.\<close>  A Go call is a value of type \<open>go\<close> (\<open>Go_Prelude\<close>): \<open>Ret\<close> a result, \<open>Err\<close> a returned
  error with its text, \<open>Panic\<close>, or \<open>Diverge\<close> for a loop that does not end.  Code with state is a
  function from the state to the new state and an outcome (\<open>sgo\<close>).  A Go map is an association list
  with distinct keys, and a \<^verbatim>\<open>range\<close> loop over one takes its order as an argument (\<open>range_perm\<close>), so
  a theorem holds for every order the runtime may choose.

  \<^bold>\<open>The theories\<close>, in the order of their imports:
  \<^item> \<open>Go_Prelude\<close>, \<open>Go_Strings\<close>: outcomes, state passing with a small Hoare logic, Go maps and their
    iteration; strings, their conversions, \<^verbatim>\<open>strings.Split\<close>, \<^verbatim>\<open>TrimSpace\<close>, bytes and runes.
  \<^item> \<open>Cli\<close>: the flags \<^verbatim>\<open>main\<close> declares and how the vendored \<^verbatim>\<open>urfave/cli\<close> gives them their values from
    the command line and the environment.
  \<^item> \<open>Spec_Config\<close>: the types of the configuration, \<^verbatim>\<open>NewConfig\<close> and \<^verbatim>\<open>parseConfig\<close> (vendored
    \<^verbatim>\<open>k8s-device-plugin/api/config/v1\<close>), \<^verbatim>\<open>loadConfig\<close>, \<^verbatim>\<open>disableResourceRenamingInConfig\<close>.
  \<^item> \<open>Resource_Iface\<close>: the interfaces \<^verbatim>\<open>Device\<close> and \<^verbatim>\<open>Manager\<close> (\<^verbatim>\<open>types.go\<close>) as records of operations,
    and their contracts as the locales \<open>device_contract\<close>, \<open>manager_contract\<close>,
    \<open>infallible_manager\<close>.
  \<^item> \<open>Cuda\<close>, \<open>Managers\<close>: \<^verbatim>\<open>internal/cuda\<close>; the managers and devices of \<^verbatim>\<open>internal/resource\<close>, which
    are interpretations of the contracts.
  \<^item> \<open>Mocks\<close>, \<open>Mock_Node\<close>: the generated mocks of the two interfaces with their recorded calls (the locale
    \<open>call_recorder\<close>), and the test devices of \<^verbatim>\<open>resource/testing\<close> made of them, on which properties
    are evaluated.
  \<^item> \<open>Pci\<close>, \<open>Vgpu\<close>: \<^verbatim>\<open>internal/vgpu\<close>, the capability list of a PCI device and the records of the
    vGPU capability, over byte slices with their capacity.
  \<^item> \<open>Mig\<close>: \<^verbatim>\<open>internal/mig\<close>, the cache of devices by MIG mode.
  \<^item> \<open>Labels\<close>: label sets, the labelers as a datatype, merging, writing (\<^verbatim>\<open>labels.go\<close>, \<^verbatim>\<open>list.go\<close>,
    \<^verbatim>\<open>timestamp.go\<close>, \<^verbatim>\<open>machine-type.go\<close>, \<^verbatim>\<open>strategy.go\<close>, \<^verbatim>\<open>vgpu.go\<close>); the locale
    \<open>labeler_contract\<close>.
  \<^item> \<open>Resource_Labels\<close>, \<open>Mig_Strategy\<close>, \<open>Nvml_Labels\<close>: \<^verbatim>\<open>resource.go\<close>, \<^verbatim>\<open>mig-strategy.go\<close>,
    \<^verbatim>\<open>nvml.go\<close> and \<^verbatim>\<open>labeler.go\<close>.
  \<^item> \<open>Paths\<close>, \<open>Os_World\<close>, \<open>Output\<close>: file names, the file system with failing system calls, and the
    rest of \<^verbatim>\<open>labels.go\<close>: the atomically replaced output file and the \<^verbatim>\<open>NodeFeature\<close> object.
  \<^item> \<open>Signals\<close>: the channel of \<^verbatim>\<open>newOSWatcher\<close> (\<^verbatim>\<open>watchers.go\<close>) and its interleavings with the \<^verbatim>\<open>select\<close>.
  \<^item> \<open>Daemon\<close>: \<^verbatim>\<open>main\<close>, \<^verbatim>\<open>start\<close> and \<^verbatim>\<open>run\<close> over the sequence of events of the \<^verbatim>\<open>select\<close>, and the state machine
    \<open>loop_step\<close> they refine.
  \<^item> \<open>Output_Properties\<close>, \<open>Node_Properties\<close>, \<open>Daemon_Properties\<close>: the properties that span
    components, with the concrete nodes, worlds and daemons of their witnesses.
  \<^item> \<open>Published_Labels\<close>: the whole path from the answers of a node's driver to the lines of its output
    file.  \<open>Api_Mode\<close>: the daemon that publishes through the API server.

  \<^bold>\<open>What is shown.\<close>
  \<^item> Configuration: only a config file of version v1 is accepted; the value of every flag comes from its
    environment variables, the command line, the config file or its default, in this order, when
    command line and environment do not contradict each other, and when they do (\<open>flag_choice\<close>) the
    command line wins, unlike the README says; renaming of shared resources is disabled.
  \<^item> Managers: no call of the program's managers panics; the fallback manager never fails to
    initialise; \<^verbatim>\<open>Init\<close> and \<^verbatim>\<open>Shutdown\<close> are paired; the two ways to compute the CUDA version; the
    text of every result code against the C enumeration.
  \<^item> PCI and vGPU: the capability walk finds the vendor specific capability of its relational
    specification \<open>vendor_cap\<close>; exactly when the walk panics, and that it ends; exactly when decoding
    panics or does not end; encoded driver information is decoded again.
  \<^item> Labels: merging and its first error; for each strategy the exact value of every label of a node
    as a function of its devices, for every order of the maps, and for GPUs of several models
    what the order decides; the errors of an invalid configuration; the written file is read back.
  \<^item> Output: no failing system call and no instant in time shows a partly written file; a write
    without failures succeeds; the \<^verbatim>\<open>NodeFeature\<close> object is updated once.
  \<^item> Daemon: the exit status of the process, which never panics or hangs; the loop is a state machine
    with the phases labelling, sleeping and stopped; signals, and in the absence of the one-shot mode
    only signals, end it; the first signal to arrive decides what the process does, those that
    arrive while it waits to be read are lost and the daemon sleeps on; the output file is complete
    at every moment, and gone at the end unless a call of the clean-up fails.
  \<^item> The program as a whole: in one-shot mode the output file of a node whose GPUs have one model
    holds exactly the labels that a table (\<open>node_labels\<close>) gives for the facts its driver reports; a
    daemon in API mode never touches a file, and whenever it sleeps the object of its node holds
    the labels of one of its passes.

  \<^bold>\<open>Bounds and termination.\<close>  There is no fuel.  The capability walk (\<open>cap_loop\<close>) ends because every
  round marks an unvisited one of 256 positions.  The record loop of \<^verbatim>\<open>GetInfo\<close> may run forever and
  is a \<^theory_text>\<open>partial_function\<close> (\<open>find_record\<close>); its non-termination is characterised.
  The loop of \<^verbatim>\<open>run\<close> is recursive on the events: when they are used up the program is \<open>Waiting\<close>.  The
  loop of \<^verbatim>\<open>start\<close> ends because every reload consumes a signal.  C and Go integers are words where they
  can wrap (\<^verbatim>\<open>uint\<close>, \<^verbatim>\<open>uint64\<close>, \<^verbatim>\<open>Result\<close>); a Go \<^verbatim>\<open>int\<close> that only counts devices or positions is an
  \<open>int\<close> or a \<open>nat\<close>.

  \<^bold>\<open>Parameters and what is not modelled.\<close>  NVML and \<^verbatim>\<open>go-nvlib\<close> (\<open>nvml_sys\<close>), libcuda and the
  dynamic loader (\<open>cuda_c\<close>), the platform detection (\<open>sys_HasNvml\<close>, \<open>sys_IsTegra\<close>), the YAML
  decoder and JSON printer of the configuration, the answers of sysfs about PCI devices (\<open>sysfs\<close>), \<^verbatim>\<open>time.ParseDuration\<close>, the client of the API server
  (\<open>nfd_client\<close>) and the operating system's answers are arguments.  Logging is left out, and the blank imports of
  \<^verbatim>\<open>internal/dependencies\<close>.  The mocks are called in sequence, so their locks are not modelled.  A
  command line with \<^verbatim>\<open>--help\<close> or \<^verbatim>\<open>--version\<close> does not reach the code modelled here.  File names are
  resolved by their text, \<^verbatim>\<open>..\<close> included, so symbolic links are left out.

  \<^bold>\<open>Definitions that are not code.\<close>  Some definitions only serve to state properties: \<open>parse_features\<close>
  reads the written lines back, \<open>pass_output\<close> is what a pass may publish from any state of its manager,
  \<open>node_labels\<close> is the table of labels, and \<open>env_ok\<close> says that the vGPU capabilities of a node decode
  without the panic or the endless loop that \<open>Vgpu\<close> characterises.  The exit status of the process
  (\<open>main_exit_status\<close>) is shown under that proviso; the safety of the output file is not.
\<close>

end
